(* ===== verification/Hideout_Prelude.thy ===== *)
theory Hideout_Prelude
  imports Main "HOL-Library.Word" "HOL-Library.AList" "HOL-Library.List_Lexorder"
    "HOL-Library.Char_ord"
begin

text \<open>
  What the components share: machine integers, Go's \<open>time.Time\<close>, the error-or-nothing
  convention of Go validators, the byte-string functions of the standard library the sources
  call (\<open>strings.TrimSpace\<close>, \<open>strings.Cut\<close>, \<open>fmt.Sprintf("%d")\<close>, the anchored regular
  expressions of \<open>lifecycle/model.go\<close>), and Go maps that the code iterates over, which are
  association lists read with \<^const>\<open>map_of\<close>.

  A Go string is a \<^typ>\<open>string\<close>, one \<^typ>\<open>char\<close> for each byte. Where the library works on
  code points the model works on their UTF-8 encodings, which is exact for the predicates used
  here (white space and control characters).
\<close>

named_theorems validate_simps \<open>equations of the validators\<close>
named_theorems state_simps \<open>equations of the state operations\<close>

section \<open>Machine integers and time\<close>

type_synonym u64 = "64 word"

text \<open>
  \<open>time.Time\<close>: nanoseconds since the zero time (1 January of the year 1, UTC) and the offset of
  its zone.
\<close>

datatype gotime = GoTime (instant: int) (zone_offset: int)

definition time_IsZero :: "gotime \<Rightarrow> bool" where
  "time_IsZero t \<longleftrightarrow> instant t = 0"

definition time_After :: "gotime \<Rightarrow> gotime \<Rightarrow> bool" where
  "time_After t u \<longleftrightarrow> instant u < instant t"

definition time_UTC :: "gotime \<Rightarrow> gotime" where
  "time_UTC t = GoTime (instant t) 0"

definition time_Add :: "gotime \<Rightarrow> int \<Rightarrow> gotime" where
  "time_Add t d = GoTime (instant t + d) (zone_offset t)"

definition zero_time :: gotime where
  "zero_time = GoTime 0 0"

lemma time_UTC_simps [simp]:
  "instant (time_UTC t) = instant t" "zone_offset (time_UTC t) = 0"
  "time_IsZero (time_UTC t) = time_IsZero t" "time_UTC (time_UTC t) = time_UTC t"
  by (simp_all add: time_UTC_def time_IsZero_def)

lemma time_After_Add [simp]: "time_After (time_Add t d) t \<longleftrightarrow> 0 < d"
  by (simp add: time_After_def time_Add_def)

section \<open>Errors of a sequence of checks\<close>

text \<open>
  A Go validator returns the first error of a sequence of checks, or \<open>nil\<close>. \<open>check\<close> is one
  \<open>if\<close> that returns, \<open>first_err\<close> the sequence.
\<close>

definition check :: "bool \<Rightarrow> 'e \<Rightarrow> 'e option" where
  "check b e = (if b then Some e else None)"

fun first_err :: "'e option list \<Rightarrow> 'e option" where
  "first_err [] = None"
| "first_err (Some e # xs) = Some e"
| "first_err (None # xs) = first_err xs"

lemma check_simps [simp]: "check True e = Some e" "check False e = None"
  by (simp_all add: check_def)

lemma check_None [simp]: "check b e = None \<longleftrightarrow> \<not> b"
  by (simp add: check_def)

lemma check_Some [simp]:
  "check b e = Some e' \<longleftrightarrow> b \<and> e' = e" "Some e' = check b e \<longleftrightarrow> b \<and> e' = e"
  by (auto simp: check_def)

lemma first_err_None [simp]: "first_err xs = None \<longleftrightarrow> (\<forall>x \<in> set xs. x = None)"
  by (induction xs rule: first_err.induct) auto

lemma first_err_Cons: "first_err (x # xs) = (case x of None \<Rightarrow> first_err xs | Some e \<Rightarrow> Some e)"
  by (cases x) auto

lemma first_err_append:
  "first_err (xs @ ys) = (case first_err xs of None \<Rightarrow> first_err ys | Some e \<Rightarrow> Some e)"
  by (induction xs rule: first_err.induct) auto

lemma first_err_SomeD: "first_err xs = Some e \<Longrightarrow> Some e \<in> set xs"
  by (induction xs rule: first_err.induct) auto

section \<open>Byte strings\<close>

definition is_digit :: "char \<Rightarrow> bool" where
  "is_digit c \<longleftrightarrow> CHR ''0'' \<le> c \<and> c \<le> CHR ''9''"

definition is_lower :: "char \<Rightarrow> bool" where
  "is_lower c \<longleftrightarrow> CHR ''a'' \<le> c \<and> c \<le> CHR ''z''"

definition is_upper :: "char \<Rightarrow> bool" where
  "is_upper c \<longleftrightarrow> CHR ''A'' \<le> c \<and> c \<le> CHR ''Z''"

definition is_alnum :: "char \<Rightarrow> bool" where
  "is_alnum c \<longleftrightarrow> is_upper c \<or> is_lower c \<or> is_digit c"

definition is_lower_hex :: "char \<Rightarrow> bool" where
  "is_lower_hex c \<longleftrightarrow> is_digit c \<or> CHR ''a'' \<le> c \<and> c \<le> CHR ''f''"

lemmas char_class_defs = is_digit_def is_lower_def is_upper_def is_alnum_def is_lower_hex_def

text \<open>The UTF-8 encodings of the code points \<open>unicode.IsSpace\<close> accepts.\<close>

definition space_seqs :: "string list" where
  "space_seqs =
     [[CHR 0x09], [CHR 0x0A], [CHR 0x0B], [CHR 0x0C], [CHR 0x0D], [CHR 0x20],
      [CHR 0xC2, CHR 0x85], [CHR 0xC2, CHR 0xA0], [CHR 0xE1, CHR 0x9A, CHR 0x80],
      [CHR 0xE2, CHR 0x80, CHR 0x80], [CHR 0xE2, CHR 0x80, CHR 0x81],
      [CHR 0xE2, CHR 0x80, CHR 0x82], [CHR 0xE2, CHR 0x80, CHR 0x83],
      [CHR 0xE2, CHR 0x80, CHR 0x84], [CHR 0xE2, CHR 0x80, CHR 0x85],
      [CHR 0xE2, CHR 0x80, CHR 0x86], [CHR 0xE2, CHR 0x80, CHR 0x87],
      [CHR 0xE2, CHR 0x80, CHR 0x88], [CHR 0xE2, CHR 0x80, CHR 0x89],
      [CHR 0xE2, CHR 0x80, CHR 0x8A], [CHR 0xE2, CHR 0x80, CHR 0xA8],
      [CHR 0xE2, CHR 0x80, CHR 0xA9], [CHR 0xE2, CHR 0x80, CHR 0xAF],
      [CHR 0xE2, CHR 0x81, CHR 0x9F], [CHR 0xE3, CHR 0x80, CHR 0x80]]"

fun strip_prefix :: "'a list \<Rightarrow> 'a list \<Rightarrow> 'a list option" where
  "strip_prefix [] s = Some s"
| "strip_prefix (p # ps) (c # cs) = (if p = c then strip_prefix ps cs else None)"
| "strip_prefix (p # ps) [] = None"

lemma strip_prefix_append [simp]: "strip_prefix p (p @ s) = Some s"
  by (induction p) simp_all

fun strip_any :: "'a list list \<Rightarrow> 'a list \<Rightarrow> 'a list option" where
  "strip_any [] s = None"
| "strip_any (p # ps) s = (case strip_prefix p s of Some r \<Rightarrow> Some r | None \<Rightarrow> strip_any ps s)"

lemma strip_prefix_Some: "strip_prefix p s = Some r \<longleftrightarrow> s = p @ r"
  by (induction p s rule: strip_prefix.induct) auto

lemma strip_any_Some:
  "strip_any ps s = Some r \<Longrightarrow> \<exists>p \<in> set ps. s = p @ r"
  by (induction ps s rule: strip_any.induct)
    (auto simp: strip_prefix_Some split: option.splits)

lemma strip_any_None: "strip_any ps s = None \<longleftrightarrow> (\<forall>p \<in> set ps. \<forall>r. s \<noteq> p @ r)"
  by (induction ps s rule: strip_any.induct)
    (auto simp: strip_prefix_Some[symmetric] split: option.splits)

text \<open>Each round removes one leading sequence; a round that removes nothing ends the loop.\<close>

function trim_seqs :: "'a list list \<Rightarrow> 'a list \<Rightarrow> 'a list" where
  "trim_seqs ps s =
     (case strip_any ps s of
        None \<Rightarrow> s
      | Some r \<Rightarrow> if length r < length s then trim_seqs ps r else s)"
  by pat_completeness auto
termination
  by (relation "measure (\<lambda>(ps, s). length s)") auto

declare trim_seqs.simps [simp del]

definition trim_left :: "string \<Rightarrow> string" where
  "trim_left s = trim_seqs space_seqs s"

definition trim_right :: "string \<Rightarrow> string" where
  "trim_right s = rev (trim_seqs (map rev space_seqs) (rev s))"

definition TrimSpace :: "string \<Rightarrow> string" where
  "TrimSpace s = trim_right (trim_left s)"

lemma trim_seqs_length: "length (trim_seqs ps s) \<le> length s"
proof (induction ps s rule: trim_seqs.induct)
  case (1 ps s)
  then show ?case
    by (subst trim_seqs.simps) (fastforce split: option.splits)
qed

lemma trim_seqs_id: "\<forall>p \<in> set ps. \<forall>r. s \<noteq> p @ r \<Longrightarrow> trim_seqs ps s = s"
  by (subst trim_seqs.simps) (auto simp: strip_any_None[symmetric])

lemma TrimSpace_length: "length (TrimSpace s) \<le> length s"
proof -
  have "length (TrimSpace s) \<le> length (trim_left s)"
    using trim_seqs_length[of "map rev space_seqs" "rev (trim_left s)"]
    by (simp add: TrimSpace_def trim_right_def)
  also have "\<dots> \<le> length s"
    unfolding trim_left_def by (rule trim_seqs_length)
  finally show ?thesis .
qed

text \<open>
  A byte that neither starts nor ends a white-space sequence, in particular every ASCII letter,
  digit and punctuation mark, is kept.
\<close>

definition not_space_byte :: "char \<Rightarrow> bool" where
  "not_space_byte c \<longleftrightarrow> (\<forall>p \<in> set space_seqs. hd p \<noteq> c \<and> last p \<noteq> c)"

lemma space_seqs_nonempty: "p \<in> set space_seqs \<Longrightarrow> p \<noteq> []"
  by (auto simp: space_seqs_def)

lemma TrimSpace_id:
  assumes "s \<noteq> []" and "not_space_byte (hd s)" and "not_space_byte (last s)"
  shows "TrimSpace s = s"
proof -
  have left: "trim_left s = s"
    unfolding trim_left_def
    using assms(2) space_seqs_nonempty
    by (intro trim_seqs_id) (auto simp: not_space_byte_def hd_append)
  have "rev s \<noteq> rev p @ r" if p: "p \<in> set space_seqs" for p r
  proof
    assume eq: "rev s = rev p @ r"
    have "s = rev (rev p @ r)" using eq by (metis rev_rev_ident)
    then have "s = rev r @ p" by simp
    then have "last s = last p" using space_seqs_nonempty[OF p] by simp
    then show False using assms(3) p by (auto simp: not_space_byte_def)
  qed
  then have "trim_seqs (map rev space_seqs) (rev s) = rev s"
    by (intro trim_seqs_id) auto
  then show ?thesis
    by (simp add: TrimSpace_def trim_right_def left)
qed

text \<open>
  \<open>unicode.IsControl\<close> on some code point: a byte below \<open>0x20\<close>, the byte \<open>0x7F\<close>, or the two-byte
  encoding \<open>0xC2 0x80\<close> to \<open>0xC2 0x9F\<close>.
\<close>

fun has_control :: "string \<Rightarrow> bool" where
  "has_control [] = False"
| "has_control (c # cs) =
     (c < CHR 0x20 \<or> c = CHR 0x7F \<or>
      (c = CHR 0xC2 \<and> (case cs of [] \<Rightarrow> False | d # _ \<Rightarrow> CHR 0x80 \<le> d \<and> d \<le> CHR 0x9F)) \<or>
      has_control cs)"

text \<open>\<open>strings.Cut\<close> at a one-byte separator.\<close>

fun Cut :: "char \<Rightarrow> string \<Rightarrow> (string \<times> string) option" where
  "Cut sep [] = None"
| "Cut sep (c # cs) =
     (if c = sep then Some ([], cs)
      else case Cut sep cs of None \<Rightarrow> None | Some (a, b) \<Rightarrow> Some (c # a, b))"

lemma Cut_found: "sep \<notin> set a \<Longrightarrow> Cut sep (a @ sep # b) = Some (a, b)"
  by (induction a) auto

lemma Cut_SomeD: "Cut sep s = Some (a, b) \<Longrightarrow> s = a @ sep # b \<and> sep \<notin> set a"
  by (induction s arbitrary: a) (auto split: if_splits option.splits)

lemma Cut_Some: "Cut sep s = Some (a, b) \<longleftrightarrow> s = a @ sep # b \<and> sep \<notin> set a"
  using Cut_found Cut_SomeD by blast

lemma Cut_None: "Cut sep s = None \<longleftrightarrow> sep \<notin> set s"
  by (induction s) (auto split: option.splits)

section \<open>Decimal numerals\<close>

text \<open>\<open>fmt.Sprintf("%d", n)\<close> of an unsigned integer.\<close>

definition digit_char :: "nat \<Rightarrow> char" where
  "digit_char d = char_of (48 + d)"

fun show_nat :: "nat \<Rightarrow> string" where
  "show_nat n = (if n < 10 then [digit_char n] else show_nat (n div 10) @ [digit_char (n mod 10)])"

declare show_nat.simps [simp del]

definition show_u64 :: "u64 \<Rightarrow> string" where
  "show_u64 w = show_nat (unat w)"

fun read_nat :: "nat \<Rightarrow> string \<Rightarrow> nat" where
  "read_nat acc [] = acc"
| "read_nat acc (c # cs) = read_nat (10 * acc + (of_char c - 48)) cs"

lemma read_nat_append: "read_nat acc (xs @ ys) = read_nat (read_nat acc xs) ys"
  by (induction acc xs rule: read_nat.induct) auto

lemma of_char_digit: "d < 10 \<Longrightarrow> of_char (digit_char d) = (48 + d :: nat)"
  by (simp add: digit_char_def of_char_of)

lemma read_show_nat: "read_nat 0 (show_nat n) = n"
proof (induction n rule: show_nat.induct)
  case (1 n)
  show ?case
  proof (cases "n < 10")
    case True
    then show ?thesis by (simp add: show_nat.simps[of n] of_char_digit)
  next
    case False
    with 1 have "read_nat 0 (show_nat (n div 10)) = n div 10" by simp
    with False show ?thesis
      by (simp add: show_nat.simps[of n] read_nat_append of_char_digit)
  qed
qed

lemma show_nat_inject [simp]: "show_nat m = show_nat n \<longleftrightarrow> m = n"
  by (metis read_show_nat)

lemma show_u64_inject [simp]: "show_u64 v = show_u64 w \<longleftrightarrow> v = w"
  by (simp add: show_u64_def word_unat_eq_iff)

lemma is_digit_digit_char: "d < 10 \<Longrightarrow> is_digit (digit_char d)"
  by (simp add: is_digit_def less_eq_char_def of_char_digit)

lemma show_nat_digits: "c \<in> set (show_nat n) \<Longrightarrow> is_digit c"
proof (induction n rule: show_nat.induct)
  case (1 n)
  then show ?case
    by (cases "n < 10") (auto simp: show_nat.simps[of n] is_digit_digit_char)
qed

lemma show_nat_length: "n < 10 ^ k \<Longrightarrow> 0 < k \<Longrightarrow> length (show_nat n) \<le> k"
proof (induction n arbitrary: k rule: show_nat.induct)
  case (1 n)
  show ?case
  proof (cases "n < 10")
    case True
    with 1 show ?thesis by (simp add: show_nat.simps[of n])
  next
    case False
    obtain l where l: "k = Suc l" using "1.prems"(2) by (cases k) auto
    have lt: "n div 10 < 10 ^ l" using "1.prems"(1) l by (simp add: less_mult_imp_div_less mult.commute)
    moreover have "0 < l" using False lt by (cases l) auto
    ultimately have "length (show_nat (n div 10)) \<le> l" using "1.IH" False by blast
    with False l show ?thesis by (simp add: show_nat.simps[of n])
  qed
qed

lemma show_nat_ne [simp]: "show_nat n \<noteq> []"
  by (simp add: show_nat.simps[of n])

lemma show_u64_digits: "c \<in> set (show_u64 w) \<Longrightarrow> is_digit c"
  by (simp add: show_u64_def show_nat_digits)

section \<open>Go maps that are iterated over\<close>

text \<open>
  An association list with distinct keys, read with \<^const>\<open>map_of\<close>, written with
  \<^const>\<open>AList.update\<close> and \<^const>\<open>AList.delete\<close>.
\<close>

lemma map_of_alist_update [simp]: "map_of (AList.update k v al) k' = (if k' = k then Some v else map_of al k')"
  by (simp add: update_conv)

lemma map_of_alist_delete [simp]: "map_of (AList.delete k al) k' = (if k' = k then None else map_of al k')"
  by (simp add: delete_conv)

lemma set_alist_update: "(k', v') \<in> set (AList.update k v al) \<Longrightarrow> (k' = k \<and> v' = v) \<or> (k', v') \<in> set al"
  by (induction al) (auto split: if_splits)

lemma set_alist_delete: "x \<in> set (AList.delete k al) \<Longrightarrow> x \<in> set al"
  by (induction al) (auto split: if_splits)

lemma AList_delete_filter: "AList.delete k al = filter (\<lambda>e. fst e \<noteq> k) al"
  by (induction al) auto

lemma list_all_update: "list_all P al \<Longrightarrow> P (k, v) \<Longrightarrow> list_all P (AList.update k v al)"
  by (induction al) auto

lemma list_all_delete: "list_all P al \<Longrightarrow> list_all P (AList.delete k al)"
  by (auto simp: list_all_iff dest: set_alist_delete)

lemma length_alist_update: "length (AList.update k v al) \<le> Suc (length al)"
  by (induction al) auto

end
