(* ===== verification/Lifecycle_Model.thy ===== *)
theory Lifecycle_Model
  imports Hideout_Prelude
begin

text \<open>
  The data model of the lifecycle package: \<open>internal/lifecycle/model.go\<close>, the backend
  observation of \<open>internal/backend/lifecycle.go\<close>, the owner of a mutation claim and the errors
  of \<open>mutation.go\<close> and \<open>registry.go\<close>. The main results are that the printed key of a valid
  resource reference identifies it, and which lifecycle transitions exist.
\<close>

section \<open>Identifiers\<close>

text \<open>\<open>idPattern\<close>: a letter or digit, then at most 127 letters, digits and \<open>. _ : -\<close>.\<close>

definition is_id_char :: "char \<Rightarrow> bool" where
  "is_id_char c \<longleftrightarrow> is_alnum c \<or> c = CHR ''.'' \<or> c = CHR ''_'' \<or> c = CHR '':'' \<or> c = CHR ''-''"

definition idPattern :: "string \<Rightarrow> bool" where
  "idPattern s \<longleftrightarrow>
     (case s of [] \<Rightarrow> False
      | c # cs \<Rightarrow> is_alnum c \<and> length cs \<le> 127 \<and> list_all is_id_char cs)"

text \<open>\<open>bootIDPattern\<close>: lower-case hexadecimal groups of 8, 4, 4, 4 and 12 digits.\<close>

fun hex_groups :: "nat list \<Rightarrow> string \<Rightarrow> bool" where
  "hex_groups [] s = False"
| "hex_groups [n] s = (length s = n \<and> list_all is_lower_hex s)"
| "hex_groups (n # ns) s =
     (length (take n s) = n \<and> list_all is_lower_hex (take n s) \<and>
      (case drop n s of [] \<Rightarrow> False | c # r \<Rightarrow> c = CHR ''-'' \<and> hex_groups ns r))"

definition bootIDPattern :: "string \<Rightarrow> bool" where
  "bootIDPattern s = hex_groups [8, 4, 4, 4, 12] s"

section \<open>Enumerations\<close>

text \<open>
  Go's string enumerations. A value read from a file can be any other string; that is the last
  constructor.
\<close>

datatype resource_state =
    StatePlanned | StateStarting | StateActive | StateDraining
  | StateReleased | StateFailed | StateOrphaned | StateOther string

datatype stop_mode = StopModePin | StopModeDrain | StopModeOther string

datatype persistence_class =
    PersistenceEphemeral | PersistenceRetained | PersistenceEvidence | PersistenceOther string

datatype close_policy =
    ClosePreStopDrain | CloseCoTerminateWithRoot | CloseSurviveRoot | CloseExternalUnmanaged
  | CloseOther string

datatype fact_class = FactRetained | FactHandoff | FactOther string

datatype lifecycle_state =
    LifecycleRunning | LifecycleStopped | LifecycleAbsent | LifecycleUnknown
  | LifecycleOther string

type_synonym resource_kind = string

section \<open>References and resources\<close>

record environment_ref =
  er_EnvironmentID :: string
  er_StartGeneration :: u64
  er_InstanceName :: string
  er_BootID :: string

record resource_ref =
  rr_Kind :: resource_kind
  rr_ID :: string
  rr_Generation :: u64

record owner_ref =
  or_Kind :: string
  or_ID :: string
  or_Generation :: u64

record dependency_spec =
  ds_Ref :: resource_ref
  ds_StopMode :: stop_mode

record resource =
  res_Ref :: resource_ref
  res_Owner :: owner_ref
  res_State :: resource_state
  res_Dependencies :: "dependency_spec list"
  res_Persistence :: persistence_class
  res_ClosePolicy :: close_policy
  res_Incarnation :: "environment_ref option"
  res_PossibleVMDependency :: bool
  res_UpdatedAt :: gotime

record fact =
  fact_Kind :: resource_kind
  fact_ID :: string
  fact_Class :: fact_class
  fact_Generation :: u64
  fact_RecordedAt :: gotime

record observation =
  obs_State :: lifecycle_state
  obs_InstanceName :: string
  obs_BootID :: string
  obs_ObservedAt :: gotime
  obs_ReasonCode :: string

record mutation_owner =
  mo_Kind :: string
  mo_ID :: string
  mo_Phase :: string
  mo_Recovery :: string
  mo_StartedAt :: gotime

section \<open>Errors\<close>

text \<open>
  The sentinel errors of the package, the typed ones, a plain message, an input/output error of
  the store, a missing file, a cancelled or expired context, a wrapped and a joined error.
\<close>

datatype lc_error =
    Errorf string
  | ErrAttachBlocked
  | AttachBlockedError string
  | ErrReconciliationInFlight
  | ErrStopInFlight
  | ErrCoordinatorClosed
  | ErrMutationBlockedByActivity
  | MutationConflictError string mutation_owner mutation_owner lc_error
  | ErrNotExist
  | IOError string
  | ContextCanceled
  | ContextDeadlineExceeded
  | Wrapped string lc_error
  | Joined lc_error lc_error

text \<open>\<open>errors.Join\<close> drops \<open>nil\<close> arguments.\<close>

fun errors_Join :: "lc_error option \<Rightarrow> lc_error option \<Rightarrow> lc_error option" where
  "errors_Join None e = e"
| "errors_Join (Some d) None = Some d"
| "errors_Join (Some d) (Some e) = Some (Joined d e)"

lemma errors_Join_None [simp]: "errors_Join a b = None \<longleftrightarrow> a = None \<and> b = None"
  by (cases a; cases b) auto

section \<open>Operations\<close>

definition EnvironmentRef_Validate :: "environment_ref \<Rightarrow> bool \<Rightarrow> lc_error option" where
  "EnvironmentRef_Validate r active = first_err
     [check (\<not> idPattern (er_EnvironmentID r)) (Errorf ''environment reference id is invalid''),
      check (er_StartGeneration r = 0) (Errorf ''environment start generation is required''),
      check (\<not> idPattern (er_InstanceName r)) (Errorf ''environment instance name is invalid''),
      check (active \<and> \<not> bootIDPattern (er_BootID r)) (Errorf ''active environment boot id is invalid''),
      check (\<not> active \<and> er_BootID r \<noteq> [] \<and> \<not> bootIDPattern (er_BootID r))
        (Errorf ''environment boot id is invalid'')]"

definition EnvironmentRef_Equal :: "environment_ref \<Rightarrow> environment_ref \<Rightarrow> bool" where
  "EnvironmentRef_Equal r other \<longleftrightarrow>
     er_EnvironmentID r = er_EnvironmentID other \<and>
     er_StartGeneration r = er_StartGeneration other \<and>
     er_InstanceName r = er_InstanceName other \<and> er_BootID r = er_BootID other"

definition ResourceRef_Validate :: "resource_ref \<Rightarrow> lc_error option" where
  "ResourceRef_Validate r = first_err
     [check (\<not> idPattern (rr_Kind r) \<or> \<not> idPattern (rr_ID r)) (Errorf ''resource reference is invalid''),
      check (rr_Generation r = 0) (Errorf ''resource generation is required'')]"

definition Key :: "resource_ref \<Rightarrow> string" where
  "Key r = rr_Kind r @ ''/'' @ rr_ID r @ ''/'' @ show_u64 (rr_Generation r)"

definition OwnerRef_Validate :: "owner_ref \<Rightarrow> lc_error option" where
  "OwnerRef_Validate r =
     check (\<not> idPattern (or_Kind r) \<or> \<not> idPattern (or_ID r) \<or> or_Generation r = 0)
       (Errorf ''resource owner is invalid'')"

definition IsPossiblyLive :: "resource \<Rightarrow> bool" where
  "IsPossiblyLive r \<longleftrightarrow>
     res_State r \<in> {StatePlanned, StateStarting, StateActive, StateDraining, StateOrphaned}"

fun allowed_transitions :: "resource_state \<Rightarrow> resource_state list" where
  "allowed_transitions StatePlanned = [StateStarting, StateFailed, StateOrphaned]"
| "allowed_transitions StateStarting = [StateActive, StateFailed, StateOrphaned]"
| "allowed_transitions StateActive = [StateDraining, StateFailed, StateOrphaned]"
| "allowed_transitions StateDraining = [StateReleased, StateFailed, StateOrphaned]"
| "allowed_transitions StateOrphaned = [StateDraining]"
| "allowed_transitions _ = []"

definition ValidateTransition :: "resource_state \<Rightarrow> resource_state \<Rightarrow> lc_error option" where
  "ValidateTransition src dst =
     (if src = dst then None
      else check (dst \<notin> set (allowed_transitions src)) (Errorf ''invalid lifecycle transition''))"

definition validState :: "resource_state \<Rightarrow> bool" where
  "validState s \<longleftrightarrow>
     s \<in> {StatePlanned, StateStarting, StateActive, StateDraining, StateReleased, StateFailed,
          StateOrphaned}"

definition boundedReason :: "string \<Rightarrow> string" where
  "boundedReason s = take 128 (TrimSpace s)"

definition LifecycleObservation_Validate :: "observation \<Rightarrow> lc_error option" where
  "LifecycleObservation_Validate obs = first_err
     [check (time_IsZero (obs_ObservedAt obs)) (Errorf ''lifecycle observation time is required''),
      (case obs_State obs of
         LifecycleRunning \<Rightarrow>
           check (TrimSpace (obs_InstanceName obs) = [] \<or> \<not> bootIDPattern (obs_BootID obs) \<or>
                  obs_ReasonCode obs \<noteq> []) (Errorf ''running lifecycle observation is invalid'')
       | LifecycleStopped \<Rightarrow>
           check (TrimSpace (obs_InstanceName obs) = [] \<or> obs_BootID obs \<noteq> [] \<or>
                  obs_ReasonCode obs \<noteq> []) (Errorf ''terminal lifecycle observation is invalid'')
       | LifecycleAbsent \<Rightarrow>
           check (TrimSpace (obs_InstanceName obs) = [] \<or> obs_BootID obs \<noteq> [] \<or>
                  obs_ReasonCode obs \<noteq> []) (Errorf ''terminal lifecycle observation is invalid'')
       | LifecycleUnknown \<Rightarrow>
           check (TrimSpace (obs_ReasonCode obs) = [] \<or> 128 < length (obs_ReasonCode obs) \<or>
                  obs_BootID obs \<noteq> []) (Errorf ''unknown lifecycle observation is invalid'')
       | LifecycleOther _ \<Rightarrow> Some (Errorf ''unknown lifecycle observation state''))]"

declare EnvironmentRef_Validate_def [validate_simps]
  ResourceRef_Validate_def [validate_simps] OwnerRef_Validate_def [validate_simps]
  LifecycleObservation_Validate_def [validate_simps]

section \<open>Identifiers contain no separator\<close>

lemma is_digit_not_sep: "is_digit c \<Longrightarrow> c \<noteq> CHR ''/''"
  by (auto simp: is_digit_def less_eq_char_def)

lemma is_alnum_not_sep: "is_alnum c \<Longrightarrow> c \<noteq> CHR ''/''"
  by (auto simp: char_class_defs less_eq_char_def)

lemma is_id_char_not_sep: "is_id_char c \<Longrightarrow> c \<noteq> CHR ''/''"
  by (auto simp: is_id_char_def dest: is_alnum_not_sep)

lemma idPattern_no_slash: "idPattern s \<Longrightarrow> CHR ''/'' \<notin> set s"
  by (auto simp: idPattern_def list_all_iff split: list.splits
      dest: is_alnum_not_sep is_id_char_not_sep)

lemma idPattern_nonempty [simp]: "\<not> idPattern []"
  by (simp add: idPattern_def)

lemma idPattern_length: "idPattern s \<Longrightarrow> length s \<le> 128"
  by (auto simp: idPattern_def split: list.splits)

lemma bootIDPattern_nonempty [simp]: "\<not> bootIDPattern []"
  by (simp add: bootIDPattern_def)

lemma sep_split_unique:
  fixes x :: char
  assumes "x \<notin> set as" and "x \<notin> set cs"
  shows "as @ x # bs = cs @ x # ds \<longleftrightarrow> as = cs \<and> bs = ds"
proof
  assume "as @ x # bs = cs @ x # ds"
  then have "Cut x (as @ x # bs) = Cut x (cs @ x # ds)" by (rule arg_cong)
  then show "as = cs \<and> bs = ds" using assms by (simp add: Cut_found)
qed blast

lemma Key_inject:
  assumes "ResourceRef_Validate r = None" and "ResourceRef_Validate r' = None"
    and "Key r = Key r'"
  shows "r = r'"
proof -
  have ids: "CHR ''/'' \<notin> set (rr_Kind r)" "CHR ''/'' \<notin> set (rr_Kind r')"
    "CHR ''/'' \<notin> set (rr_ID r)" "CHR ''/'' \<notin> set (rr_ID r')"
    using assms(1,2) by (auto simp: validate_simps idPattern_no_slash)
  from assms(3) have "rr_Kind r @ CHR ''/'' # (rr_ID r @ CHR ''/'' # show_u64 (rr_Generation r)) =
      rr_Kind r' @ CHR ''/'' # (rr_ID r' @ CHR ''/'' # show_u64 (rr_Generation r'))"
    by (simp add: Key_def)
  then have "rr_Kind r = rr_Kind r'" "rr_ID r = rr_ID r'" "rr_Generation r = rr_Generation r'"
    using ids by (simp_all add: sep_split_unique)
  then show ?thesis by (intro resource_ref.equality) simp_all
qed

section \<open>Transitions\<close>

lemma EnvironmentRef_Equal_iff [simp]:
  "EnvironmentRef_Equal r r' \<longleftrightarrow> r = (r' :: environment_ref)"
  by (cases r; cases r') (auto simp: EnvironmentRef_Equal_def)

lemma ValidateTransition_refl [simp]: "ValidateTransition s s = None"
  by (simp add: ValidateTransition_def)

lemma ValidateTransition_None:
  "ValidateTransition src dst = None \<longleftrightarrow> src = dst \<or> dst \<in> set (allowed_transitions src)"
  by (auto simp: ValidateTransition_def)

lemma boundedReason_length: "length (boundedReason s) \<le> 128"
  by (simp add: boundedReason_def)

section \<open>Properties\<close>

text \<open>
  The printed key identifies a valid resource reference: two references that pass
  \<open>ResourceRef.Validate\<close> and print the same key are equal, so the maps of the package that are
  keyed by \<open>Key\<close> never confuse two resources.
\<close>

theorem resource_key_identifies:
  "ResourceRef_Validate r = None \<Longrightarrow> ResourceRef_Validate r' = None \<Longrightarrow> Key r = Key r' \<longleftrightarrow> r = r'"
  using Key_inject by blast

theorem resource_key_identifies_witness:
  "Key \<lparr>rr_Kind = ''run.session'', rr_ID = ''s-1'', rr_Generation = 7\<rparr> \<noteq>
   Key \<lparr>rr_Kind = ''run.session'', rr_ID = ''s-2'', rr_Generation = 7\<rparr>"
proof -
  have "ResourceRef_Validate \<lparr>rr_Kind = ''run.session'', rr_ID = ''s-1'', rr_Generation = 7\<rparr> = None"
    "ResourceRef_Validate \<lparr>rr_Kind = ''run.session'', rr_ID = ''s-2'', rr_Generation = 7\<rparr> = None"
    by code_simp+
  from resource_key_identifies[OF this] show ?thesis by simp
qed

end
