(* ===== verification/Lifecycle_Catalog.thy ===== *)
theory Lifecycle_Catalog
  imports Lifecycle_Model
begin

text \<open>
  The closed catalog of resource kinds and the validation of one resource against it:
  \<open>internal/lifecycle/catalog.go\<close>. The catalog ranks its kinds so that every allowed dependency
  goes to a kind of smaller rank, which is what makes a validated graph free of cycles.
\<close>

section \<open>Kinds and descriptors\<close>

abbreviation KindBackendIncarnation :: resource_kind where
  "KindBackendIncarnation \<equiv> ''backend.incarnation''"
abbreviation KindRunSession :: resource_kind where
  "KindRunSession \<equiv> ''run.session''"
abbreviation KindGuestSupervisor :: resource_kind where
  "KindGuestSupervisor \<equiv> ''guest.supervisor''"
abbreviation KindGuestTarget :: resource_kind where
  "KindGuestTarget \<equiv> ''guest.target''"
abbreviation KindBrokerListener :: resource_kind where
  "KindBrokerListener \<equiv> ''broker.listener''"
abbreviation KindHostFSReadProvider :: resource_kind where
  "KindHostFSReadProvider \<equiv> ''hostfs.read-provider''"
abbreviation KindHostFSLiveGrant :: resource_kind where
  "KindHostFSLiveGrant \<equiv> ''hostfs.live-read-grant''"
abbreviation KindWorkspaceHostProvider :: resource_kind where
  "KindWorkspaceHostProvider \<equiv> ''workspace.host-provider''"
abbreviation KindWorkspaceGuestView :: resource_kind where
  "KindWorkspaceGuestView \<equiv> ''workspace.guest-view''"
abbreviation KindNetworkService :: resource_kind where
  "KindNetworkService \<equiv> ''network.environment-service''"
abbreviation KindRunBridge :: resource_kind where
  "KindRunBridge \<equiv> ''endpoint.run-bridge''"
abbreviation KindHostAppHandoff :: resource_kind where
  "KindHostAppHandoff \<equiv> ''hostapp.handoff''"
abbreviation KindHostFSStaged :: resource_kind where
  "KindHostFSStaged \<equiv> ''hostfs.staged-object''"
abbreviation KindDecisionRecord :: resource_kind where
  "KindDecisionRecord \<equiv> ''decision.record''"
abbreviation KindMaterializationSnapshot :: resource_kind where
  "KindMaterializationSnapshot \<equiv> ''host.materialization.snapshot''"
abbreviation KindMaterializationLive :: resource_kind where
  "KindMaterializationLive \<equiv> ''host.materialization.live-projection''"

datatype kind_status = KindImplemented | KindDesignReady | KindFixtureOnly

datatype recovery_probe =
    RecoveryNone | RecoveryBackendObservation | RecoverySessionAbsence
  | RecoveryWorkspaceProvider | RecoveryWorkspaceView | RecoveryNetworkRuntime
  | RecoveryOther string

record dependency_rule =
  dr_Kind :: resource_kind
  dr_Modes :: "stop_mode list"

record descriptor =
  desc_Kind :: resource_kind
  desc_Status :: kind_status
  desc_OwnerKinds :: "string list"
  desc_Dependencies :: "dependency_rule list"
  desc_Persistence :: "persistence_class list"
  desc_ClosePolicies :: "close_policy list"
  desc_RecoveryProbe :: recovery_probe
  desc_PublicLabel :: string
  desc_ProductionRegistrar :: bool

record fact_descriptor =
  fd_Kind :: resource_kind
  fd_Class :: fact_class
  fd_Label :: string

abbreviation dep_rule :: "resource_kind \<Rightarrow> stop_mode \<Rightarrow> dependency_rule" where
  "dep_rule k m \<equiv> \<lparr>dr_Kind = k, dr_Modes = [m]\<rparr>"

abbreviation mk_descriptor ::
  "resource_kind \<Rightarrow> kind_status \<Rightarrow> string list \<Rightarrow> dependency_rule list \<Rightarrow> persistence_class list
    \<Rightarrow> close_policy list \<Rightarrow> recovery_probe \<Rightarrow> string \<Rightarrow> bool \<Rightarrow> descriptor" where
  "mk_descriptor k s os ds ps cs rp l pr \<equiv>
     \<lparr>desc_Kind = k, desc_Status = s, desc_OwnerKinds = os, desc_Dependencies = ds,
      desc_Persistence = ps, desc_ClosePolicies = cs, desc_RecoveryProbe = rp,
      desc_PublicLabel = l, desc_ProductionRegistrar = pr\<rparr>"

definition productionCatalog :: "descriptor list" where
  "productionCatalog =
    [mk_descriptor KindBackendIncarnation KindImplemented [''daemon''] []
       [PersistenceEphemeral] [CloseCoTerminateWithRoot] RecoveryBackendObservation
       ''backend incarnation'' True,
     mk_descriptor KindRunSession KindImplemented [''daemon'']
       [dep_rule KindBackendIncarnation StopModePin]
       [PersistenceEphemeral] [ClosePreStopDrain, CloseCoTerminateWithRoot] RecoverySessionAbsence
       ''run session'' True,
     mk_descriptor KindGuestSupervisor KindImplemented [''session'']
       [dep_rule KindBackendIncarnation StopModeDrain, dep_rule KindRunSession StopModeDrain]
       [PersistenceEphemeral] [ClosePreStopDrain, CloseCoTerminateWithRoot] RecoverySessionAbsence
       ''guest supervisor'' True,
     mk_descriptor KindGuestTarget KindImplemented [''session'']
       [dep_rule KindGuestSupervisor StopModeDrain]
       [PersistenceEphemeral] [ClosePreStopDrain, CloseCoTerminateWithRoot] RecoverySessionAbsence
       ''guest target'' True,
     mk_descriptor KindBrokerListener KindImplemented [''session'']
       [dep_rule KindRunSession StopModeDrain]
       [PersistenceEphemeral] [ClosePreStopDrain] RecoverySessionAbsence ''broker listener'' True,
     mk_descriptor KindHostFSReadProvider KindImplemented [''session'']
       [dep_rule KindRunSession StopModeDrain]
       [PersistenceEphemeral] [ClosePreStopDrain] RecoverySessionAbsence
       ''HostFS read provider'' True,
     mk_descriptor KindHostFSLiveGrant KindImplemented [''manager'']
       [dep_rule KindHostFSReadProvider StopModeDrain, dep_rule KindRunSession StopModeDrain]
       [PersistenceEphemeral] [ClosePreStopDrain] RecoverySessionAbsence
       ''HostFS live read grant'' True,
     mk_descriptor KindWorkspaceHostProvider KindImplemented [''manager'']
       [dep_rule KindBackendIncarnation StopModeDrain]
       [PersistenceEphemeral] [ClosePreStopDrain] RecoveryWorkspaceProvider
       ''workspace host provider'' True,
     mk_descriptor KindWorkspaceGuestView KindImplemented [''session'']
       [dep_rule KindBackendIncarnation StopModeDrain, dep_rule KindRunSession StopModeDrain,
        dep_rule KindWorkspaceHostProvider StopModeDrain]
       [PersistenceEphemeral] [ClosePreStopDrain] RecoveryWorkspaceView
       ''workspace guest view'' True,
     mk_descriptor KindNetworkService KindImplemented [''manager'']
       [dep_rule KindBackendIncarnation StopModeDrain]
       [PersistenceEphemeral] [ClosePreStopDrain] RecoveryNetworkRuntime
       ''environment network service'' True,
     mk_descriptor KindRunBridge KindImplemented [''session'']
       [dep_rule KindBackendIncarnation StopModePin, dep_rule KindRunSession StopModeDrain]
       [PersistenceEphemeral] [ClosePreStopDrain] RecoverySessionAbsence
       ''run endpoint bridge'' True,
     mk_descriptor KindMaterializationSnapshot KindDesignReady [''manager''] []
       [PersistenceRetained] [CloseSurviveRoot] RecoveryNone
       ''host materialization snapshot'' False,
     mk_descriptor KindMaterializationLive KindDesignReady [''manager'']
       [dep_rule KindBackendIncarnation StopModePin]
       [PersistenceEphemeral] [ClosePreStopDrain] RecoveryNone
       ''live host materialization projection'' False]"

definition productionFactCatalog :: "fact_descriptor list" where
  "productionFactCatalog =
    [\<lparr>fd_Kind = KindHostAppHandoff, fd_Class = FactHandoff, fd_Label = ''host application handoff''\<rparr>,
     \<lparr>fd_Kind = KindHostFSStaged, fd_Class = FactRetained, fd_Label = ''HostFS staged object''\<rparr>,
     \<lparr>fd_Kind = KindDecisionRecord, fd_Class = FactRetained, fd_Label = ''decision record''\<rparr>]"

section \<open>Operations\<close>

text \<open>\<open>RecoveryProbes\<close>: the probes of the implemented kinds, each once, in catalog order.\<close>

fun probes_loop :: "recovery_probe set \<Rightarrow> descriptor list \<Rightarrow> recovery_probe list" where
  "probes_loop seen [] = []"
| "probes_loop seen (d # ds) =
     (if desc_Status d \<noteq> KindImplemented \<or> \<not> desc_ProductionRegistrar d \<or>
         desc_RecoveryProbe d = RecoveryNone \<or> desc_RecoveryProbe d \<in> seen
      then probes_loop seen ds
      else desc_RecoveryProbe d # probes_loop (insert (desc_RecoveryProbe d) seen) ds)"

definition RecoveryProbes :: "recovery_probe list" where
  "RecoveryProbes = probes_loop {} productionCatalog"

fun validRecoveryProbe :: "recovery_probe \<Rightarrow> bool" where
  "validRecoveryProbe RecoveryNone = False"
| "validRecoveryProbe (RecoveryOther _) = False"
| "validRecoveryProbe _ = True"

definition Catalog :: "descriptor list" where
  "Catalog = sort_key desc_Kind productionCatalog"

definition FactCatalog :: "fact_descriptor list" where
  "FactCatalog = sort_key fd_Kind productionFactCatalog"

definition Lookup :: "resource_kind \<Rightarrow> descriptor option" where
  "Lookup kind = find (\<lambda>d. desc_Kind d = kind) productionCatalog"

definition LookupFact :: "resource_kind \<Rightarrow> fact_descriptor option" where
  "LookupFact kind = find (\<lambda>d. fd_Kind d = kind) productionFactCatalog"

definition validateFact :: "fact \<Rightarrow> lc_error option" where
  "validateFact f = first_err
     [check (\<not> idPattern (fact_Kind f) \<or> \<not> idPattern (fact_ID f) \<or> fact_Generation f = 0 \<or>
             time_IsZero (fact_RecordedAt f)) (Errorf ''lifecycle fact identity is invalid''),
      check (case LookupFact (fact_Kind f) of None \<Rightarrow> True | Some d \<Rightarrow> fd_Class d \<noteq> fact_Class f)
        (Errorf ''lifecycle fact does not match the closed fact catalog'')]"

definition dependency_allowed :: "descriptor \<Rightarrow> dependency_spec \<Rightarrow> bool" where
  "dependency_allowed d dep \<longleftrightarrow>
     list_ex (\<lambda>r. dr_Kind r = rr_Kind (ds_Ref dep) \<and> ds_StopMode dep \<in> set (dr_Modes r))
       (desc_Dependencies d)"

text \<open>The loop over the dependencies; the accumulated set is \<open>dependencyKinds\<close>.\<close>

fun dependency_loop ::
  "descriptor \<Rightarrow> resource_kind set \<Rightarrow> dependency_spec list \<Rightarrow> lc_error + resource_kind set" where
  "dependency_loop d kinds [] = Inr kinds"
| "dependency_loop d kinds (dep # deps) =
     (case ResourceRef_Validate (ds_Ref dep) of
        Some e \<Rightarrow> Inl e
      | None \<Rightarrow>
          if rr_Kind (ds_Ref dep) \<in> kinds
          then Inl (Errorf ''resource repeats a catalog dependency kind'')
          else if \<not> dependency_allowed d dep
          then Inl (Errorf ''resource dependency is not allowed by catalog'')
          else dependency_loop d (insert (rr_Kind (ds_Ref dep)) kinds) deps)"

definition validate_incarnation :: "resource \<Rightarrow> lc_error option" where
  "validate_incarnation r =
     (if rr_Kind (res_Ref r) = KindBackendIncarnation
      then case res_Incarnation r of
             None \<Rightarrow> Some (Errorf ''backend incarnation identity is required'')
           | Some inc \<Rightarrow> EnvironmentRef_Validate inc (res_State r \<noteq> StatePlanned)
      else None)"

definition validateResource :: "resource \<Rightarrow> bool \<Rightarrow> lc_error option" where
  "validateResource r production =
     (case first_err [ResourceRef_Validate (res_Ref r), OwnerRef_Validate (res_Owner r)] of
        Some e \<Rightarrow> Some e
      | None \<Rightarrow>
      (case Lookup (rr_Kind (res_Ref r)) of
         None \<Rightarrow> Some (Errorf ''unknown lifecycle resource kind'')
       | Some d \<Rightarrow>
         (case first_err
            [check (production \<and> (desc_Status d \<noteq> KindImplemented \<or> \<not> desc_ProductionRegistrar d))
               (Errorf ''resource kind is not implemented in production''),
             check (or_Kind (res_Owner r) \<notin> set (desc_OwnerKinds d) \<or>
                    res_Persistence r \<notin> set (desc_Persistence d) \<or>
                    res_ClosePolicy r \<notin> set (desc_ClosePolicies d))
               (Errorf ''resource does not match its catalog descriptor''),
             check (\<not> validState (res_State r)) (Errorf ''resource state is invalid'')] of
            Some e \<Rightarrow> Some e
          | None \<Rightarrow>
            (case dependency_loop d {} (res_Dependencies r) of
               Inl e \<Rightarrow> Some e
             | Inr kinds \<Rightarrow> first_err
                 [check (res_State r \<noteq> StateOrphaned \<and>
                         (\<exists>rule \<in> set (desc_Dependencies d). dr_Kind rule \<notin> kinds))
                    (Errorf ''resource is missing a required catalog dependency''),
                  validate_incarnation r]))))"

section \<open>The catalog\<close>

lemma Lookup_Some: "Lookup k = Some d \<Longrightarrow> d \<in> set productionCatalog \<and> desc_Kind d = k"
  by (auto simp: Lookup_def find_Some_iff)

lemma catalog_kinds_distinct: "distinct (map desc_Kind productionCatalog)"
  by (simp add: productionCatalog_def)

lemma Lookup_catalog: "d \<in> set productionCatalog \<Longrightarrow> Lookup (desc_Kind d) = Some d"
proof -
  assume d: "d \<in> set productionCatalog"
  then have "Lookup (desc_Kind d) \<noteq> None"
    by (auto simp: Lookup_def find_None_iff)
  then obtain d' where d': "Lookup (desc_Kind d) = Some d'" by auto
  from Lookup_Some[OF d'] d have "d' = d"
    using catalog_kinds_distinct by (auto simp: distinct_map dest: inj_onD)
  with d' show ?thesis by simp
qed

text \<open>A rank of the kinds that decreases along every catalog dependency.\<close>

definition kind_rank :: "resource_kind \<Rightarrow> nat" where
  "kind_rank k =
     (if k = KindBackendIncarnation \<or> k = KindMaterializationSnapshot then 0
      else if k = KindRunSession \<or> k = KindWorkspaceHostProvider \<or> k = KindNetworkService \<or>
              k = KindMaterializationLive then 1
      else if k = KindGuestTarget \<or> k = KindHostFSLiveGrant then 3
      else 2)"

lemma catalog_ranked:
  "list_all (\<lambda>d. list_all (\<lambda>r. kind_rank (dr_Kind r) < kind_rank (desc_Kind d)) (desc_Dependencies d))
     productionCatalog"
  by (simp add: productionCatalog_def kind_rank_def)

lemma catalog_dependency_rank:
  assumes "Lookup k = Some d" and "r \<in> set (desc_Dependencies d)"
  shows "kind_rank (dr_Kind r) < kind_rank k"
  using catalog_ranked Lookup_Some[OF assms(1)] assms(2) by (auto simp: list_all_iff)

text \<open>Every implemented kind but the backend incarnation needs another kind.\<close>

lemma catalog_rooted:
  "list_all (\<lambda>d. desc_Status d = KindImplemented \<longrightarrow> desc_Kind d \<noteq> KindBackendIncarnation \<longrightarrow>
      desc_Dependencies d \<noteq> []) productionCatalog"
  by (simp add: productionCatalog_def)

section \<open>What a valid resource satisfies\<close>

lemma dependency_loop_Inr:
  "dependency_loop d kinds deps = Inr kinds' \<Longrightarrow>
     kinds' = kinds \<union> (\<lambda>dep. rr_Kind (ds_Ref dep)) ` set deps \<and>
     (\<forall>dep \<in> set deps. ResourceRef_Validate (ds_Ref dep) = None \<and> dependency_allowed d dep) \<and>
     distinct (map (\<lambda>dep. rr_Kind (ds_Ref dep)) deps) \<and>
     kinds \<inter> (\<lambda>dep. rr_Kind (ds_Ref dep)) ` set deps = {}"
  by (induction d kinds deps rule: dependency_loop.induct) (auto split: option.splits if_splits)

lemma dependency_loop_complete:
  "\<lbrakk>\<forall>dep \<in> set deps. ResourceRef_Validate (ds_Ref dep) = None \<and> dependency_allowed d dep;
    distinct (map (\<lambda>dep. rr_Kind (ds_Ref dep)) deps);
    kinds \<inter> (\<lambda>dep. rr_Kind (ds_Ref dep)) ` set deps = {}\<rbrakk> \<Longrightarrow>
   dependency_loop d kinds deps = Inr (kinds \<union> (\<lambda>dep. rr_Kind (ds_Ref dep)) ` set deps)"
  by (induction d kinds deps rule: dependency_loop.induct) auto

text \<open>The declarative contract of one resource, and that the validator decides it.\<close>

definition resource_conforms :: "resource \<Rightarrow> bool \<Rightarrow> bool" where
  "resource_conforms r production \<longleftrightarrow>
     ResourceRef_Validate (res_Ref r) = None \<and> OwnerRef_Validate (res_Owner r) = None \<and>
     validState (res_State r) \<and>
     (\<exists>d \<in> set productionCatalog. desc_Kind d = rr_Kind (res_Ref r) \<and>
        (production \<longrightarrow> desc_Status d = KindImplemented \<and> desc_ProductionRegistrar d) \<and>
        or_Kind (res_Owner r) \<in> set (desc_OwnerKinds d) \<and>
        res_Persistence r \<in> set (desc_Persistence d) \<and>
        res_ClosePolicy r \<in> set (desc_ClosePolicies d) \<and>
        distinct (map (\<lambda>dep. rr_Kind (ds_Ref dep)) (res_Dependencies r)) \<and>
        (\<forall>dep \<in> set (res_Dependencies r).
           ResourceRef_Validate (ds_Ref dep) = None \<and> dependency_allowed d dep) \<and>
        (res_State r \<noteq> StateOrphaned \<longrightarrow>
           (\<forall>rule \<in> set (desc_Dependencies d). \<exists>dep \<in> set (res_Dependencies r).
              dr_Kind rule = rr_Kind (ds_Ref dep)))) \<and>
     validate_incarnation r = None"

lemma validateResource_conforms:
  "validateResource r production = None \<longleftrightarrow> resource_conforms r production"
proof
  assume "validateResource r production = None"
  then obtain d kinds where
    head: "ResourceRef_Validate (res_Ref r) = None" "OwnerRef_Validate (res_Owner r) = None"
    and d: "Lookup (rr_Kind (res_Ref r)) = Some d"
    and mid: "production \<longrightarrow> desc_Status d = KindImplemented \<and> desc_ProductionRegistrar d"
      "or_Kind (res_Owner r) \<in> set (desc_OwnerKinds d)"
      "res_Persistence r \<in> set (desc_Persistence d)"
      "res_ClosePolicy r \<in> set (desc_ClosePolicies d)" "validState (res_State r)"
    and loop: "dependency_loop d {} (res_Dependencies r) = Inr kinds"
    and tail: "res_State r \<noteq> StateOrphaned \<longrightarrow> (\<forall>rule \<in> set (desc_Dependencies d). dr_Kind rule \<in> kinds)"
      "validate_incarnation r = None"
    by (auto simp: validateResource_def split: option.splits sum.splits)
  show "resource_conforms r production"
    unfolding resource_conforms_def
    using head mid tail dependency_loop_Inr[OF loop] Lookup_Some[OF d] by fastforce
next
  assume conf: "resource_conforms r production"
  then obtain d where
    d: "d \<in> set productionCatalog" "desc_Kind d = rr_Kind (res_Ref r)"
    and deps: "distinct (map (\<lambda>dep. rr_Kind (ds_Ref dep)) (res_Dependencies r))"
      "\<forall>dep \<in> set (res_Dependencies r).
         ResourceRef_Validate (ds_Ref dep) = None \<and> dependency_allowed d dep"
    and rest: "production \<longrightarrow> desc_Status d = KindImplemented \<and> desc_ProductionRegistrar d"
      "or_Kind (res_Owner r) \<in> set (desc_OwnerKinds d)"
      "res_Persistence r \<in> set (desc_Persistence d)"
      "res_ClosePolicy r \<in> set (desc_ClosePolicies d)"
      "res_State r \<noteq> StateOrphaned \<longrightarrow>
           (\<forall>rule \<in> set (desc_Dependencies d). \<exists>dep \<in> set (res_Dependencies r).
              dr_Kind rule = rr_Kind (ds_Ref dep))"
    and head: "ResourceRef_Validate (res_Ref r) = None" "OwnerRef_Validate (res_Owner r) = None"
      "validState (res_State r)" "validate_incarnation r = None"
    by (auto simp: resource_conforms_def)
  have "Lookup (rr_Kind (res_Ref r)) = Some d" using Lookup_catalog[OF d(1)] d(2) by simp
  then show "validateResource r production = None"
    using head rest dependency_loop_complete[OF deps(2,1), of "{}"]
    by (auto simp: validateResource_def image_iff)
qed

lemma validateResource_ref: "validateResource r p = None \<Longrightarrow> ResourceRef_Validate (res_Ref r) = None"
  by (simp add: validateResource_conforms resource_conforms_def)

lemma validateResource_dep_ref:
  "validateResource r p = None \<Longrightarrow> dep \<in> set (res_Dependencies r) \<Longrightarrow>
     ResourceRef_Validate (ds_Ref dep) = None"
  by (auto simp: validateResource_conforms resource_conforms_def)

lemma validateResource_dep_rank:
  assumes "validateResource r p = None" and "dep \<in> set (res_Dependencies r)"
  shows "kind_rank (rr_Kind (ds_Ref dep)) < kind_rank (rr_Kind (res_Ref r))"
proof -
  from assms obtain d where d: "d \<in> set productionCatalog" "desc_Kind d = rr_Kind (res_Ref r)"
    "dependency_allowed d dep"
    by (auto simp: validateResource_conforms resource_conforms_def)
  from d(3) obtain rule where "rule \<in> set (desc_Dependencies d)" "dr_Kind rule = rr_Kind (ds_Ref dep)"
    by (auto simp: dependency_allowed_def list_ex_iff)
  then show ?thesis
    using catalog_dependency_rank[OF Lookup_catalog[OF d(1)]] d(2) by metis
qed

text \<open>A resource that is not orphaned and not the backend incarnation has a dependency.\<close>

lemma validateResource_has_dep:
  assumes "validateResource r True = None" and "res_State r \<noteq> StateOrphaned"
    and "rr_Kind (res_Ref r) \<noteq> KindBackendIncarnation"
  shows "res_Dependencies r \<noteq> []"
proof -
  from assms obtain d where d: "d \<in> set productionCatalog" "desc_Kind d = rr_Kind (res_Ref r)"
    "desc_Status d = KindImplemented"
    "\<forall>rule \<in> set (desc_Dependencies d). \<exists>dep \<in> set (res_Dependencies r).
       dr_Kind rule = rr_Kind (ds_Ref dep)"
    by (auto simp: validateResource_conforms resource_conforms_def)
  with catalog_rooted assms(3) have "desc_Dependencies d \<noteq> []" by (auto simp: list_all_iff)
  with d(4) show ?thesis by (cases "desc_Dependencies d") auto
qed

section \<open>Properties\<close>

text \<open>
  C26. \<open>validateResource\<close> decides the contract of one resource: it returns no error exactly for a
  resource whose reference, owner and state are well formed, whose kind is in the closed catalog
  (and implemented, in production), whose owner kind, persistence and close policy the catalog
  allows, whose dependencies are distinct, allowed and, unless it is orphaned, complete, and
  whose incarnation is valid when it is the backend incarnation.
\<close>

theorem validateResource_contract:
  "validateResource r production = None \<longleftrightarrow> resource_conforms r production"
  by (rule validateResource_conforms)

section \<open>A sample graph\<close>

text \<open>A backend incarnation with one session on it, for evaluating the definitions.\<close>

definition sample_incarnation :: environment_ref where
  "sample_incarnation = \<lparr>er_EnvironmentID = ''env'', er_StartGeneration = 1, er_InstanceName = ''vm'',
     er_BootID = ''01234567-89ab-cdef-0123-456789abcdef''\<rparr>"

definition sample_root :: resource where
  "sample_root =
     \<lparr>res_Ref = \<lparr>rr_Kind = KindBackendIncarnation, rr_ID = ''env'', rr_Generation = 1\<rparr>,
      res_Owner = \<lparr>or_Kind = ''daemon'', or_ID = ''d1'', or_Generation = 1\<rparr>, res_State = StateActive,
      res_Dependencies = [], res_Persistence = PersistenceEphemeral,
      res_ClosePolicy = CloseCoTerminateWithRoot, res_Incarnation = Some sample_incarnation,
      res_PossibleVMDependency = False, res_UpdatedAt = GoTime 5 0\<rparr>"

definition sample_session :: "resource_state \<Rightarrow> resource" where
  "sample_session s =
     \<lparr>res_Ref = \<lparr>rr_Kind = KindRunSession, rr_ID = ''s1'', rr_Generation = 1\<rparr>,
      res_Owner = \<lparr>or_Kind = ''daemon'', or_ID = ''d1'', or_Generation = 1\<rparr>, res_State = s,
      res_Dependencies = [\<lparr>ds_Ref = res_Ref sample_root, ds_StopMode = StopModePin\<rparr>],
      res_Persistence = PersistenceEphemeral, res_ClosePolicy = ClosePreStopDrain,
      res_Incarnation = None, res_PossibleVMDependency = False, res_UpdatedAt = GoTime 5 0\<rparr>"

lemma sample_root_valid: "validateResource sample_root True = None"
  by code_simp

lemma sample_session_valid:
  "validateResource (sample_session StateActive) True = None"
  "validateResource (sample_session StateReleased) True = None"
  by code_simp+

end
