(* ===== verification/Lifecycle_Graph.thy ===== *)
theory Lifecycle_Graph
  imports Lifecycle_Catalog
begin

text \<open>
  The dependency graph and the automatic-stop predicate: \<open>internal/lifecycle/reducer.go\<close>. The
  depth-first searches of \<open>ValidateGraph\<close> and \<open>pathMode\<close> are modelled as written and shown to
  decide acyclicity and path existence; \<open>EvaluateAutoStop\<close> allows a stop exactly when nothing
  live depends on the backend incarnation.
\<close>

section \<open>Graphs by key\<close>

type_synonym key_graph = "(string \<times> resource) list"

abbreviation rkey :: "resource \<Rightarrow> string" where
  "rkey r \<equiv> Key (res_Ref r)"

abbreviation dkey :: "dependency_spec \<Rightarrow> string" where
  "dkey d \<equiv> Key (ds_Ref d)"

text \<open>The map \<open>byKey\<close>: a later resource with the same key replaces an earlier one.\<close>

definition by_key :: "resource list \<Rightarrow> key_graph" where
  "by_key rs = rev (map (\<lambda>r. (rkey r, r)) rs)"

text \<open>\<open>byKey[key].Dependencies\<close>: a missing key reads as the zero resource, with none.\<close>

definition deps_of :: "key_graph \<Rightarrow> string \<Rightarrow> dependency_spec list" where
  "deps_of g k = (case map_of g k of None \<Rightarrow> [] | Some r \<Rightarrow> res_Dependencies r)"

lemma deps_of_missing: "k \<notin> fst ` set g \<Longrightarrow> deps_of g k = []"
  by (metis deps_of_def map_of_eq_None_iff option.simps(4))

lemma card_diff_insert_less:
  "finite A \<Longrightarrow> k \<in> A \<Longrightarrow> k \<notin> S \<Longrightarrow> card (A - insert k S) < card (A - S)"
  by (intro psubset_card_mono) auto

section \<open>ValidateGraph\<close>

text \<open>
  The closure \<open>visit\<close> and its loop over the dependencies. On success \<open>visiting\<close> is what it was
  before the call (\<open>delete(visiting, key)\<close>), so only \<open>visited\<close> is returned.
\<close>

definition cycle_error :: lc_error where
  "cycle_error = Errorf ''lifecycle dependency graph contains a cycle''"

function visit :: "key_graph \<Rightarrow> string set \<Rightarrow> string set \<Rightarrow> string \<Rightarrow> lc_error + string set"
and visit_deps ::
  "key_graph \<Rightarrow> string set \<Rightarrow> string set \<Rightarrow> dependency_spec list \<Rightarrow> lc_error + string set" where
  "visit g visiting visited key =
     (if key \<in> visiting then Inl cycle_error
      else if key \<in> visited then Inr visited
      else case visit_deps g (insert key visiting) visited (deps_of g key) of
             Inl e \<Rightarrow> Inl e
           | Inr visited' \<Rightarrow> Inr (insert key visited'))"
| "visit_deps g visiting visited [] = Inr visited"
| "visit_deps g visiting visited (d # ds) =
     (case visit g visiting visited (dkey d) of
        Inl e \<Rightarrow> Inl e
      | Inr visited' \<Rightarrow> visit_deps g visiting visited' ds)"
  by pat_completeness auto
termination
proof (relation "measures
    [\<lambda>x. case x of Inl (g, visiting, _, _) \<Rightarrow> card (fst ` set g - visiting)
                 | Inr (g, visiting, _, _) \<Rightarrow> card (fst ` set g - visiting),
     \<lambda>x. case x of Inl _ \<Rightarrow> 1 | Inr (_, _, _, ds) \<Rightarrow> 2 * length ds]", goal_cases)
  case (2 g visiting visited key)
  show ?case
  proof (cases "key \<in> fst ` set g")
    case True
    with 2 card_diff_insert_less[of "fst ` set g" key visiting] show ?thesis by simp
  next
    case False
    then have "fst ` set g - insert key visiting = fst ` set g - visiting" by auto
    with False show ?thesis by (simp add: deps_of_missing)
  qed
qed auto

fun visit_all :: "key_graph \<Rightarrow> string set \<Rightarrow> string list \<Rightarrow> lc_error option" where
  "visit_all g visited [] = None"
| "visit_all g visited (k # ks) =
     (case visit g {} visited k of
        Inl e \<Rightarrow> Some e
      | Inr visited' \<Rightarrow> visit_all g visited' ks)"

fun duplicate_loop :: "bool \<Rightarrow> string set \<Rightarrow> resource list \<Rightarrow> lc_error option" where
  "duplicate_loop production seen [] = None"
| "duplicate_loop production seen (r # rs) =
     (case validateResource r production of
        Some e \<Rightarrow> Some (Wrapped (''resource '' @ rkey r) e)
      | None \<Rightarrow>
          if rkey r \<in> seen then Some (Errorf (''duplicate lifecycle resource '' @ rkey r))
          else duplicate_loop production (insert (rkey r) seen) rs)"

definition missing_dependency :: "resource list \<Rightarrow> lc_error option" where
  "missing_dependency rs = first_err (concat (map
     (\<lambda>r. map (\<lambda>d. check (dkey d \<notin> rkey ` set rs)
        (Errorf (''resource '' @ rkey r @ '' has missing dependency '' @ dkey d)))
        (res_Dependencies r)) rs))"

text \<open>
  Go ranges over the map in an unspecified order; the model takes the order of the list. By
  \<open>ValidateGraph_None\<close> below the verdict does not depend on it.
\<close>

definition ValidateGraph :: "resource list \<Rightarrow> bool \<Rightarrow> lc_error option" where
  "ValidateGraph rs production =
     (case duplicate_loop production {} rs of
        Some e \<Rightarrow> Some e
      | None \<Rightarrow>
        (case missing_dependency rs of
           Some e \<Rightarrow> Some e
         | None \<Rightarrow> visit_all (by_key rs) {} (map rkey rs)))"

section \<open>pathMode\<close>

abbreviation no_mode :: stop_mode where
  "no_mode \<equiv> StopModeOther []"

text \<open>The set \<open>seen\<close> loses \<open>current\<close> again on return (\<open>defer delete\<close>).\<close>

function path_mode :: "key_graph \<Rightarrow> string \<Rightarrow> string set \<Rightarrow> string \<Rightarrow> stop_mode \<times> bool"
and path_mode_deps ::
  "key_graph \<Rightarrow> string \<Rightarrow> string set \<Rightarrow> stop_mode \<Rightarrow> dependency_spec list \<Rightarrow> stop_mode \<times> bool" where
  "path_mode g root seen cur =
     (if cur \<in> seen then (no_mode, False)
      else path_mode_deps g root (insert cur seen) no_mode (deps_of g cur))"
| "path_mode_deps g root seen best [] = (best, best \<noteq> no_mode)"
| "path_mode_deps g root seen best (d # ds) =
     (let (mode, found) =
        (if dkey d = root then (ds_StopMode d, True)
         else case path_mode g root seen (dkey d) of
                (childMode, childFound) \<Rightarrow>
                  (if childMode = StopModePin then StopModePin else ds_StopMode d, childFound))
      in if \<not> found then path_mode_deps g root seen best ds
         else if mode = StopModePin then (StopModePin, True)
         else path_mode_deps g root seen StopModeDrain ds)"
  by pat_completeness auto
termination
proof (relation "measures
    [\<lambda>x. case x of Inl (g, _, seen, _) \<Rightarrow> card (fst ` set g - seen)
                 | Inr (g, _, seen, _, _) \<Rightarrow> card (fst ` set g - seen),
     \<lambda>x. case x of Inl _ \<Rightarrow> 1 | Inr (_, _, _, _, ds) \<Rightarrow> 2 * length ds]", goal_cases)
  case (2 g root seen cur)
  show ?case
  proof (cases "cur \<in> fst ` set g")
    case True
    with 2 card_diff_insert_less[of "fst ` set g" cur seen] show ?thesis by simp
  next
    case False
    then have "fst ` set g - insert cur seen = fst ` set g - seen" by auto
    with False show ?thesis by (simp add: deps_of_missing)
  qed
qed auto

definition pathMode :: "string \<Rightarrow> string \<Rightarrow> key_graph \<Rightarrow> stop_mode \<times> bool" where
  "pathMode current root g = path_mode g root {} current"

declare visit.simps [simp del] path_mode.simps [simp del]

section \<open>EvaluateAutoStop\<close>

record evaluation_input =
  ei_Incarnation :: environment_ref
  ei_Resources :: "resource list"
  ei_Observation :: observation
  ei_TransitionInFlight :: bool
  ei_GraceExpired :: bool
  ei_ReconciliationComplete :: bool
  ei_CurrentDaemonOwnsAttempt :: bool

record evaluation =
  ev_Allowed :: bool
  ev_Pins :: "resource_ref list"
  ev_Drains :: "resource_ref list"
  ev_Reasons :: "string list"

text \<open>The last resource that is the current backend incarnation; \<open>None\<close> is the empty key.\<close>

definition root_key :: "environment_ref \<Rightarrow> resource list \<Rightarrow> string option" where
  "root_key inc rs =
     map_option rkey (find (\<lambda>r. rr_Kind (res_Ref r) = KindBackendIncarnation \<and>
       (case res_Incarnation r of None \<Rightarrow> False | Some i \<Rightarrow> EnvironmentRef_Equal i inc)) (rev rs))"

datatype stop_class = Unrelated | Pins | Drains

definition classify :: "key_graph \<Rightarrow> string \<Rightarrow> resource \<Rightarrow> stop_class" where
  "classify g root r =
     (if \<not> IsPossiblyLive r \<or> rkey r = root then Unrelated
      else case pathMode (rkey r) root g of
             (mode, found) \<Rightarrow>
               if res_State r = StateOrphaned \<and> (found \<or> res_PossibleVMDependency r) then Pins
               else if \<not> found then Unrelated
               else if mode = StopModePin then Pins else Drains)"

definition stop_reasons :: "evaluation_input \<Rightarrow> resource_ref list \<Rightarrow> resource_ref list \<Rightarrow> string list" where
  "stop_reasons i pins drains =
     (if obs_State (ei_Observation i) \<noteq> LifecycleRunning \<or>
         obs_InstanceName (ei_Observation i) \<noteq> er_InstanceName (ei_Incarnation i) \<or>
         obs_BootID (ei_Observation i) \<noteq> er_BootID (ei_Incarnation i)
      then [''backend-incarnation-not-observed-running''] else []) @
     (if pins \<noteq> [] then [''vm-dependency-live-or-unproved''] else []) @
     (if drains \<noteq> [] then [''pre-stop-drain-live-or-unproved''] else []) @
     (if ei_TransitionInFlight i then [''lifecycle-transition-in-flight''] else []) @
     (if \<not> ei_GraceExpired i then [''idle-grace-not-expired''] else []) @
     (if \<not> ei_ReconciliationComplete i then [''reconciliation-incomplete''] else []) @
     (if \<not> ei_CurrentDaemonOwnsAttempt i then [''stop-attempt-not-owned''] else [])"

definition EvaluateAutoStop :: "evaluation_input \<Rightarrow> lc_error + evaluation" where
  "EvaluateAutoStop i =
     (case first_err [EnvironmentRef_Validate (ei_Incarnation i) True,
                      LifecycleObservation_Validate (ei_Observation i),
                      ValidateGraph (ei_Resources i) True] of
        Some e \<Rightarrow> Inl e
      | None \<Rightarrow>
        (case root_key (ei_Incarnation i) (ei_Resources i) of
           None \<Rightarrow> Inl (Errorf ''current backend incarnation resource is missing'')
         | Some root \<Rightarrow>
           let g = by_key (ei_Resources i);
               pins = sort_key Key (map res_Ref (filter (\<lambda>r. classify g root r = Pins) (ei_Resources i)));
               drains = sort_key Key (map res_Ref (filter (\<lambda>r. classify g root r = Drains) (ei_Resources i)));
               reasons = stop_reasons i pins drains
           in Inr \<lparr>ev_Allowed = (reasons = []), ev_Pins = pins, ev_Drains = drains,
                   ev_Reasons = reasons\<rparr>))"

section \<open>The search decides acyclicity\<close>

definition dep_rel :: "key_graph \<Rightarrow> (string \<times> string) set" where
  "dep_rel g = {(b, a). b \<in> dkey ` set (deps_of g a)}"

lemma dep_relI: "d \<in> set (deps_of g a) \<Longrightarrow> (dkey d, a) \<in> dep_rel g"
  by (auto simp: dep_rel_def)

lemma visit_acc:
  "visit g V W k = Inr W' \<Longrightarrow> W \<subseteq> Wellfounded.acc (dep_rel g) \<Longrightarrow>
     W' \<subseteq> Wellfounded.acc (dep_rel g) \<and> W \<subseteq> W' \<and> k \<in> W'"
  "visit_deps g V W ds = Inr W' \<Longrightarrow> W \<subseteq> Wellfounded.acc (dep_rel g) \<Longrightarrow>
     W' \<subseteq> Wellfounded.acc (dep_rel g) \<and> W \<subseteq> W' \<and> dkey ` set ds \<subseteq> W'"
proof (induction g V W k and g V W ds arbitrary: W' and W' rule: visit_visit_deps.induct)
  case (1 g V W k)
  show ?case
  proof (cases "k \<in> W")
    case True
    with "1.prems" show ?thesis by (auto simp: visit.simps[of g V W k] split: if_splits)
  next
    case False
    with "1.prems" obtain W1 where
      W1: "visit_deps g (insert k V) W (deps_of g k) = Inr W1" and k: "k \<notin> V" and W': "W' = insert k W1"
      by (auto simp: visit.simps[of g V W k] split: if_splits sum.splits)
    from "1.IH"[OF k False W1 "1.prems"(2)] have
      IH: "W1 \<subseteq> Wellfounded.acc (dep_rel g)" "W \<subseteq> W1" "dkey ` set (deps_of g k) \<subseteq> W1" by auto
    have "k \<in> Wellfounded.acc (dep_rel g)"
    proof (rule accI)
      fix y assume "(y, k) \<in> dep_rel g"
      then show "y \<in> Wellfounded.acc (dep_rel g)" using IH(1,3) by (auto simp: dep_rel_def)
    qed
    with IH W' show ?thesis by auto
  qed
next
  case (3 g V W d ds)
  from "3.prems"(1) obtain W1 where W1: "visit g V W (dkey d) = Inr W1"
    and rest: "visit_deps g V W1 ds = Inr W'" by (auto split: sum.splits)
  from "3.IH"(1)[OF W1 "3.prems"(2)] "3.IH"(2)[OF W1 rest] show ?case by auto
qed auto

lemma visit_cycle:
  "visit g V W k = Inl e \<Longrightarrow> \<forall>v \<in> V. (k, v) \<in> (dep_rel g)\<^sup>+ \<Longrightarrow>
     e = cycle_error \<and> (\<exists>x. (x, x) \<in> (dep_rel g)\<^sup>+)"
  "visit_deps g V W ds = Inl e \<Longrightarrow> \<forall>d \<in> set ds. \<forall>v \<in> V. (dkey d, v) \<in> (dep_rel g)\<^sup>+ \<Longrightarrow>
     e = cycle_error \<and> (\<exists>x. (x, x) \<in> (dep_rel g)\<^sup>+)"
proof (induction g V W k and g V W ds rule: visit_visit_deps.induct)
  case (1 g V W k)
  show ?case
  proof (cases "k \<in> V")
    case True
    with "1.prems" show ?thesis by (auto simp: visit.simps[of g V W k])
  next
    case False
    with "1.prems" have W: "k \<notin> W" and err: "visit_deps g (insert k V) W (deps_of g k) = Inl e"
      by (auto simp: visit.simps[of g V W k] split: if_splits sum.splits)
    have "\<forall>d \<in> set (deps_of g k). \<forall>v \<in> insert k V. (dkey d, v) \<in> (dep_rel g)\<^sup>+"
      using "1.prems"(2) dep_relI trancl_into_trancl2[of _ k "dep_rel g"] r_into_trancl by blast
    with "1.IH"[OF False W err] show ?thesis by blast
  qed
next
  case (3 g V W d ds)
  show ?case
  proof (cases "visit g V W (dkey d)")
    case (Inl e')
    with "3.prems" have "visit g V W (dkey d) = Inl e" by simp
    from "3.IH"(1)[OF this] "3.prems"(2) show ?thesis by simp
  next
    case (Inr W1)
    with "3.prems" have "visit_deps g V W1 ds = Inl e" by simp
    from "3.IH"(2)[OF Inr this] "3.prems"(2) show ?thesis by simp
  qed
qed auto

lemma visit_all_acc:
  "visit_all g W ks = None \<Longrightarrow> W \<subseteq> Wellfounded.acc (dep_rel g) \<Longrightarrow>
     set ks \<subseteq> Wellfounded.acc (dep_rel g)"
proof (induction g W ks rule: visit_all.induct)
  case (2 g W k ks)
  from "2.prems"(1) obtain W' where W': "visit g {} W k = Inr W'" and
    rest: "visit_all g W' ks = None"
    by (auto split: sum.splits)
  from visit_acc(1)[OF W' "2.prems"(2)] "2.IH"[OF W' rest] show ?case by auto
qed simp

lemma visit_all_cycle:
  "visit_all g W ks = Some e \<Longrightarrow> e = cycle_error \<and> (\<exists>x. (x, x) \<in> (dep_rel g)\<^sup>+)"
proof (induction g W ks rule: visit_all.induct)
  case (2 g W k ks)
  then show ?case
    by (cases "visit g {} W k") (auto dest: visit_cycle(1)[of g "{}" W k])
qed simp

lemma acc_no_cycle: "x \<in> Wellfounded.acc R \<Longrightarrow> (x, x) \<notin> R\<^sup>+"
proof (induction rule: acc_induct_rule)
  fix x assume "x \<in> Wellfounded.acc R" and IH: "\<And>y. (y, x) \<in> R \<Longrightarrow> (y, y) \<notin> R\<^sup>+"
  show "(x, x) \<notin> R\<^sup>+"
  proof
    assume "(x, x) \<in> R\<^sup>+"
    then obtain y where y: "(x, y) \<in> R\<^sup>*" "(y, x) \<in> R" by (auto simp: trancl_unfold_right)
    from y(2) y(1) have "(y, y) \<in> R\<^sup>+" by (rule rtrancl_into_trancl2)
    with IH y(2) show False by blast
  qed
qed

lemma visit_all_decides:
  assumes "fst ` set g \<subseteq> set ks"
  shows "visit_all g {} ks = None \<longleftrightarrow> acyclic (dep_rel g)"
proof
  assume "visit_all g {} ks = None"
  then have ks: "set ks \<subseteq> Wellfounded.acc (dep_rel g)" using visit_all_acc by blast
  show "acyclic (dep_rel g)"
  proof (rule acyclicI, rule allI, rule notI)
    fix x assume c: "(x, x) \<in> (dep_rel g)\<^sup>+"
    then obtain y where "(y, x) \<in> dep_rel g" by (meson tranclE)
    then have "deps_of g x \<noteq> []" by (auto simp: dep_rel_def)
    then have "x \<in> fst ` set g" using deps_of_missing by blast
    with assms ks have "x \<in> Wellfounded.acc (dep_rel g)" by blast
    from acc_no_cycle[OF this] c show False by simp
  qed
next
  assume acyclic: "acyclic (dep_rel g)"
  show "visit_all g {} ks = None"
  proof (cases "visit_all g {} ks")
    case (Some e)
    from visit_all_cycle[OF this] acyclic show ?thesis by (simp add: acyclic_def)
  qed
qed

section \<open>A catalog-valid graph has no cycle\<close>

lemma by_key_keys: "fst ` set (by_key rs) = rkey ` set rs"
  by (auto simp: by_key_def image_iff)

lemma map_of_by_key_SomeD: "map_of (by_key rs) k = Some r \<Longrightarrow> r \<in> set rs \<and> rkey r = k"
  by (auto simp: by_key_def dest!: map_of_SomeD)

lemma map_of_by_key: "distinct (map rkey rs) \<Longrightarrow> r \<in> set rs \<Longrightarrow> map_of (by_key rs) (rkey r) = Some r"
  by (intro map_of_is_SomeI) (auto simp: by_key_def rev_map[symmetric] comp_def)

lemma deps_of_by_key: "distinct (map rkey rs) \<Longrightarrow> r \<in> set rs \<Longrightarrow> deps_of (by_key rs) (rkey r) = res_Dependencies r"
  by (simp add: deps_of_def map_of_by_key)

lemma deps_of_by_keyD:
  assumes "d \<in> set (deps_of (by_key rs) k)"
  obtains r where "r \<in> set rs" "rkey r = k" "d \<in> set (res_Dependencies r)"
    "map_of (by_key rs) k = Some r"
proof (cases "map_of (by_key rs) k")
  case None
  with assms show thesis by (simp add: deps_of_def)
next
  case (Some r)
  with assms that[of r] map_of_by_key_SomeD[OF Some] show thesis by (simp add: deps_of_def)
qed

definition key_rank :: "key_graph \<Rightarrow> string \<Rightarrow> nat" where
  "key_rank g k = (case map_of g k of None \<Rightarrow> 0 | Some r \<Rightarrow> kind_rank (rr_Kind (res_Ref r)))"

lemma dep_rel_ranked:
  assumes "\<forall>r \<in> set rs. validateResource r p = None"
  shows "dep_rel (by_key rs) \<subseteq> measure (key_rank (by_key rs))"
proof (rule subrelI)
  fix b a assume "(b, a) \<in> dep_rel (by_key rs)"
  then obtain d where d: "d \<in> set (deps_of (by_key rs) a)" "b = dkey d" by (auto simp: dep_rel_def)
  from d(1) obtain r where r: "r \<in> set rs" "d \<in> set (res_Dependencies r)"
    "map_of (by_key rs) a = Some r"
    by (rule deps_of_by_keyD)
  from assms r have valid: "validateResource r p = None" by blast
  have less: "kind_rank (rr_Kind (ds_Ref d)) < kind_rank (rr_Kind (res_Ref r))"
    by (rule validateResource_dep_rank[OF valid r(2)])
  have "key_rank (by_key rs) b \<le> kind_rank (rr_Kind (ds_Ref d))"
  proof (cases "map_of (by_key rs) b")
    case (Some r')
    from map_of_by_key_SomeD[OF this] d(2) have r': "r' \<in> set rs" "rkey r' = dkey d" by auto
    have "res_Ref r' = ds_Ref d"
      using assms r' valid validateResource_ref validateResource_dep_ref[OF valid r(2)]
      by (blast intro: Key_inject)
    with Some show ?thesis by (simp add: key_rank_def)
  qed (simp add: key_rank_def)
  with less r(3) show "(b, a) \<in> measure (key_rank (by_key rs))"
    by (simp add: key_rank_def)
qed

lemma dep_rel_wf: "\<forall>r \<in> set rs. validateResource r p = None \<Longrightarrow> wf (dep_rel (by_key rs))"
  using dep_rel_ranked by (rule wf_subset[OF wf_measure])

lemma duplicate_loop_None:
  "duplicate_loop p seen rs = None \<longleftrightarrow>
     (\<forall>r \<in> set rs. validateResource r p = None) \<and> distinct (map rkey rs) \<and> seen \<inter> rkey ` set rs = {}"
  by (induction p seen rs rule: duplicate_loop.induct) (auto split: option.splits)

definition deps_closed :: "resource list \<Rightarrow> bool" where
  "deps_closed rs \<longleftrightarrow> (\<forall>r \<in> set rs. \<forall>d \<in> set (res_Dependencies r). dkey d \<in> rkey ` set rs)"

lemma missing_dependency_None: "missing_dependency rs = None \<longleftrightarrow> deps_closed rs"
  by (auto simp: missing_dependency_def deps_closed_def)

lemma ValidateGraph_None:
  "ValidateGraph rs p = None \<longleftrightarrow>
     (\<forall>r \<in> set rs. validateResource r p = None) \<and> distinct (map rkey rs) \<and> deps_closed rs"
proof -
  have search: "visit_all (by_key rs) {} (map rkey rs) = None"
    if "\<forall>r \<in> set rs. validateResource r p = None"
    using visit_all_decides[of "by_key rs" "map rkey rs"] wf_acyclic[OF dep_rel_wf[OF that]]
    by (simp add: by_key_keys)
  have "ValidateGraph rs p = None \<longleftrightarrow> duplicate_loop p {} rs = None \<and> missing_dependency rs = None \<and>
      visit_all (by_key rs) {} (map rkey rs) = None"
    by (simp add: ValidateGraph_def split: option.splits)
  with search show ?thesis by (auto simp: duplicate_loop_None missing_dependency_None)
qed

lemma ValidateGraph_not_cycle: "ValidateGraph rs p \<noteq> Some cycle_error"
proof
  assume err: "ValidateGraph rs p = Some cycle_error"
  have "duplicate_loop p S xs \<noteq> Some cycle_error" for S xs
    by (induction p S xs rule: duplicate_loop.induct)
      (auto simp: cycle_error_def split: option.splits if_splits)
  moreover have "missing_dependency rs \<noteq> Some cycle_error"
    by (auto simp: missing_dependency_def cycle_error_def dest!: first_err_SomeD)
  ultimately have "duplicate_loop p {} rs = None" and
    c: "visit_all (by_key rs) {} (map rkey rs) = Some cycle_error"
    using err by (auto simp: ValidateGraph_def split: option.splits)
  then have "\<forall>r \<in> set rs. validateResource r p = None" by (simp add: duplicate_loop_None)
  then have "acyclic (dep_rel (by_key rs))" by (intro wf_acyclic dep_rel_wf)
  with c visit_all_decides[of "by_key rs" "map rkey rs"] show False by (simp add: by_key_keys)
qed

section \<open>pathMode finds the paths\<close>

text \<open>
  A dependency path from a key to the root that does not pass through the root; the flag says
  whether some edge of it pins.
\<close>

inductive dep_path :: "key_graph \<Rightarrow> string \<Rightarrow> bool \<Rightarrow> string \<Rightarrow> bool" for g root where
  direct: "d \<in> set (deps_of g a) \<Longrightarrow> dkey d = root \<Longrightarrow> dep_path g root (ds_StopMode d = StopModePin) a"
| via: "d \<in> set (deps_of g a) \<Longrightarrow> dkey d \<noteq> root \<Longrightarrow> dep_path g root p (dkey d) \<Longrightarrow>
    dep_path g root (ds_StopMode d = StopModePin \<or> p) a"

inductive_simps dep_path_iff: "dep_path g root p a"

definition path_result :: "key_graph \<Rightarrow> string \<Rightarrow> string \<Rightarrow> stop_mode \<times> bool" where
  "path_result g root a =
     (if dep_path g root True a then (StopModePin, True)
      else if dep_path g root False a then (StopModeDrain, True)
      else (no_mode, False))"

definition edge_found :: "key_graph \<Rightarrow> string \<Rightarrow> dependency_spec \<Rightarrow> bool" where
  "edge_found g root d \<longleftrightarrow> dkey d = root \<or> (\<exists>p. dep_path g root p (dkey d))"

definition edge_pins :: "key_graph \<Rightarrow> string \<Rightarrow> dependency_spec \<Rightarrow> bool" where
  "edge_pins g root d \<longleftrightarrow> edge_found g root d \<and>
     (ds_StopMode d = StopModePin \<or> dkey d \<noteq> root \<and> dep_path g root True (dkey d))"

lemma ex_bool: "(\<exists>p. P p) \<longleftrightarrow> P True \<or> P False"
  by (metis (full_types))

lemma dep_path_True: "dep_path g root True a \<longleftrightarrow> (\<exists>d \<in> set (deps_of g a). edge_pins g root d)"
  by (subst dep_path_iff) (auto simp: edge_pins_def edge_found_def)

lemma dep_path_ex: "(\<exists>p. dep_path g root p a) \<longleftrightarrow> (\<exists>d \<in> set (deps_of g a). edge_found g root d)"
proof
  assume "\<exists>p. dep_path g root p a"
  then obtain p where "dep_path g root p a" by blast
  then show "\<exists>d \<in> set (deps_of g a). edge_found g root d"
    by cases (auto simp: edge_found_def)
next
  assume "\<exists>d \<in> set (deps_of g a). edge_found g root d"
  then show "\<exists>p. dep_path g root p a"
    by (auto simp: edge_found_def intro: dep_path.intros)
qed

lemma path_result_eq:
  "path_result g root a =
     (if \<exists>d \<in> set (deps_of g a). edge_pins g root d then (StopModePin, True)
      else if \<exists>d \<in> set (deps_of g a). edge_found g root d then (StopModeDrain, True)
      else (no_mode, False))"
  using dep_path_True[of g root a] dep_path_ex[of g root a]
  by (auto simp: path_result_def ex_bool)

lemma path_mode_deps_result:
  assumes "\<forall>d \<in> set ds. dkey d \<noteq> root \<longrightarrow> path_mode g root seen (dkey d) = path_result g root (dkey d)"
    and "best = no_mode \<or> best = StopModeDrain"
  shows "path_mode_deps g root seen best ds =
     (if \<exists>d \<in> set ds. edge_pins g root d then (StopModePin, True)
      else if \<exists>d \<in> set ds. edge_found g root d then (StopModeDrain, True)
      else (best, best \<noteq> no_mode))"
  using assms
proof (induction ds arbitrary: best)
  case (Cons d ds)
  then show ?case
    by (auto simp: edge_pins_def edge_found_def path_result_def ex_bool)
qed simp

lemma path_mode_result:
  assumes wf: "wf (dep_rel g)" and fresh: "\<forall>s \<in> seen. (s, a) \<notin> (dep_rel g)\<^sup>*"
  shows "path_mode g root seen a = path_result g root a"
  using fresh
proof (induction a arbitrary: seen rule: wf_induct_rule[OF wf])
  case (1 a)
  have "path_mode g root (insert a seen) (dkey d) = path_result g root (dkey d)"
    if d: "d \<in> set (deps_of g a)" for d
  proof (rule "1.IH")
    show edge: "(dkey d, a) \<in> dep_rel g" by (rule dep_relI[OF d])
    show "\<forall>s \<in> insert a seen. (s, dkey d) \<notin> (dep_rel g)\<^sup>*"
    proof
      fix s assume s: "s \<in> insert a seen"
      show "(s, dkey d) \<notin> (dep_rel g)\<^sup>*"
      proof
        assume "(s, dkey d) \<in> (dep_rel g)\<^sup>*"
        with edge have path: "(s, a) \<in> (dep_rel g)\<^sup>+" by (simp add: rtrancl_into_trancl1)
        show False
        proof (cases "s = a")
          case True
          with path wf_acyclic[OF wf] show False by (simp add: acyclic_def)
        next
          case False
          with s "1.prems" path show False by (blast dest: trancl_into_rtrancl)
        qed
      qed
    qed
  qed
  moreover have "a \<notin> seen" using "1.prems" by blast
  ultimately show ?case
    by (simp add: path_mode.simps[of g root seen a] path_mode_deps_result path_result_eq)
qed

lemma pathMode_result:
  assumes "\<forall>r \<in> set rs. validateResource r p = None"
  shows "pathMode k root (by_key rs) = path_result (by_key rs) root k"
  unfolding pathMode_def by (rule path_mode_result[OF dep_rel_wf[OF assms]]) simp

section \<open>The stop predicate\<close>

text \<open>What keeps a resource in the way of a stop.\<close>

definition blocks_stop :: "resource list \<Rightarrow> string \<Rightarrow> resource \<Rightarrow> bool" where
  "blocks_stop rs root r \<longleftrightarrow>
     IsPossiblyLive r \<and> rkey r \<noteq> root \<and>
     ((\<exists>p. dep_path (by_key rs) root p (rkey r)) \<or>
      res_State r = StateOrphaned \<and> res_PossibleVMDependency r)"

lemma path_result_simps:
  "snd (path_result g root a) \<longleftrightarrow> (\<exists>p. dep_path g root p a)"
  "fst (path_result g root a) = StopModePin \<longleftrightarrow> dep_path g root True a"
  by (auto simp: path_result_def ex_bool)

lemma classify_valid:
  assumes "\<forall>r \<in> set rs. validateResource r p = None"
  shows "classify (by_key rs) root r \<noteq> Unrelated \<longleftrightarrow> blocks_stop rs root r"
    and "classify (by_key rs) root r = Pins \<longleftrightarrow> blocks_stop rs root r \<and>
      (res_State r = StateOrphaned \<or> dep_path (by_key rs) root True (rkey r))"
  using path_result_simps[of "by_key rs" root "rkey r"]
  by (auto simp: classify_def blocks_stop_def pathMode_result[OF assms] split: prod.splits)

lemma stop_class_exhaust: "c \<noteq> Unrelated \<longleftrightarrow> c = Pins \<or> c = Drains"
  by (cases c) auto

lemma EvaluateAutoStop_Inr:
  assumes "EvaluateAutoStop i = Inr ev"
  obtains root where "root_key (ei_Incarnation i) (ei_Resources i) = Some root"
    "ValidateGraph (ei_Resources i) True = None"
    "EnvironmentRef_Validate (ei_Incarnation i) True = None"
    "LifecycleObservation_Validate (ei_Observation i) = None"
    "ev_Pins ev = sort_key Key (map res_Ref
       (filter (\<lambda>r. classify (by_key (ei_Resources i)) root r = Pins) (ei_Resources i)))"
    "ev_Drains ev = sort_key Key (map res_Ref
       (filter (\<lambda>r. classify (by_key (ei_Resources i)) root r = Drains) (ei_Resources i)))"
    "ev_Reasons ev = stop_reasons i (ev_Pins ev) (ev_Drains ev)"
    "ev_Allowed ev \<longleftrightarrow> ev_Reasons ev = []"
  using assms by (auto simp: EvaluateAutoStop_def Let_def split: option.splits)

lemma stop_reasons_Nil:
  "stop_reasons i pins drains = [] \<longleftrightarrow>
     obs_State (ei_Observation i) = LifecycleRunning \<and>
     obs_InstanceName (ei_Observation i) = er_InstanceName (ei_Incarnation i) \<and>
     obs_BootID (ei_Observation i) = er_BootID (ei_Incarnation i) \<and>
     pins = [] \<and> drains = [] \<and> \<not> ei_TransitionInFlight i \<and> ei_GraceExpired i \<and>
     ei_ReconciliationComplete i \<and> ei_CurrentDaemonOwnsAttempt i"
  by (auto simp: stop_reasons_def)

lemma pins_drains_empty:
  assumes "\<forall>r \<in> set rs. validateResource r p = None"
  shows "filter (\<lambda>r. classify (by_key rs) root r = Pins) rs = [] \<and>
         filter (\<lambda>r. classify (by_key rs) root r = Drains) rs = [] \<longleftrightarrow>
         (\<forall>r \<in> set rs. \<not> blocks_stop rs root r)"
  using classify_valid(1)[OF assms, of root]
  by (auto simp: filter_empty_conv stop_class_exhaust)

lemma sort_key_Nil [simp]: "sort_key f xs = [] \<longleftrightarrow> xs = []"
  by (metis length_0_conv length_sort)

lemma autostop_allowed:
  assumes "EvaluateAutoStop i = Inr ev"
    and "root_key (ei_Incarnation i) (ei_Resources i) = Some root"
  shows "ev_Allowed ev \<longleftrightarrow>
     obs_State (ei_Observation i) = LifecycleRunning \<and>
     obs_InstanceName (ei_Observation i) = er_InstanceName (ei_Incarnation i) \<and>
     obs_BootID (ei_Observation i) = er_BootID (ei_Incarnation i) \<and>
     (\<forall>r \<in> set (ei_Resources i). \<not> blocks_stop (ei_Resources i) root r) \<and>
     \<not> ei_TransitionInFlight i \<and> ei_GraceExpired i \<and>
     ei_ReconciliationComplete i \<and> ei_CurrentDaemonOwnsAttempt i"
proof -
  from assms(1) show ?thesis
  proof (rule EvaluateAutoStop_Inr)
    fix root'
    assume root: "root_key (ei_Incarnation i) (ei_Resources i) = Some root'"
      and graph: "ValidateGraph (ei_Resources i) True = None"
      and pins: "ev_Pins ev = sort_key Key (map res_Ref
         (filter (\<lambda>r. classify (by_key (ei_Resources i)) root' r = Pins) (ei_Resources i)))"
      and drains: "ev_Drains ev = sort_key Key (map res_Ref
         (filter (\<lambda>r. classify (by_key (ei_Resources i)) root' r = Drains) (ei_Resources i)))"
      and reasons: "ev_Reasons ev = stop_reasons i (ev_Pins ev) (ev_Drains ev)"
        "ev_Allowed ev \<longleftrightarrow> ev_Reasons ev = []"
    have [simp]: "root' = root" using root assms(2) by simp
    have "\<forall>r \<in> set (ei_Resources i). validateResource r True = None"
      using graph by (simp add: ValidateGraph_None)
    from pins_drains_empty[OF this, of root]
    have "ev_Pins ev = [] \<and> ev_Drains ev = [] \<longleftrightarrow>
        (\<forall>r \<in> set (ei_Resources i). \<not> blocks_stop (ei_Resources i) root r)"
      by (simp add: pins drains)
    then show ?thesis by (auto simp: reasons stop_reasons_Nil)
  qed
qed

text \<open>
  In a valid graph whose only backend incarnation is the root, every resource that is not
  orphaned reaches the root or an orphan.
\<close>

lemma reaches_root_or_orphan:
  assumes graph: "ValidateGraph rs True = None" and r: "r \<in> set rs"
    and unique: "\<forall>r \<in> set rs. rr_Kind (res_Ref r) = KindBackendIncarnation \<longrightarrow> rkey r = root"
    and not_root: "rkey r \<noteq> root" and no_orphan: "\<forall>r \<in> set rs. res_State r \<noteq> StateOrphaned"
  shows "\<exists>p. dep_path (by_key rs) root p (rkey r)"
  using r not_root
proof (induction "kind_rank (rr_Kind (res_Ref r))" arbitrary: r rule: less_induct)
  case less
  have valid: "validateResource r True = None" "distinct (map rkey rs)" "deps_closed rs"
    using graph less.prems(1) by (auto simp: ValidateGraph_None)
  from less.prems unique no_orphan have "res_Dependencies r \<noteq> []"
    by (intro validateResource_has_dep valid(1)) auto
  then obtain d where d: "d \<in> set (res_Dependencies r)" by (cases "res_Dependencies r") auto
  have deps: "d \<in> set (deps_of (by_key rs) (rkey r))"
    using d by (simp add: deps_of_by_key[OF valid(2) less.prems(1)])
  show ?case
  proof (cases "dkey d = root")
    case True
    with deps show ?thesis by (blast intro: dep_path.direct)
  next
    case False
    from valid(3) less.prems(1) d obtain r' where r': "r' \<in> set rs" "rkey r' = dkey d"
      by (fastforce simp: deps_closed_def)
    have "validateResource r' True = None" using graph r'(1) by (simp add: ValidateGraph_None)
    then have "res_Ref r' = ds_Ref d"
      using r'(2) validateResource_ref validateResource_dep_ref[OF valid(1) d]
      by (blast intro: Key_inject)
    then have "kind_rank (rr_Kind (res_Ref r')) < kind_rank (rr_Kind (res_Ref r))"
      using validateResource_dep_rank[OF valid(1) d] by simp
    from less.hyps[OF this r'(1)] r'(2) False obtain p where "dep_path (by_key rs) root p (dkey d)"
      by auto
    with deps False show ?thesis by (blast intro: dep_path.via)
  qed
qed

lemma autostop_nothing_live:
  assumes ev: "EvaluateAutoStop i = Inr ev" "ev_Allowed ev"
    and root: "root_key (ei_Incarnation i) (ei_Resources i) = Some root"
    and unique: "\<forall>r \<in> set (ei_Resources i). rr_Kind (res_Ref r) = KindBackendIncarnation \<longrightarrow> rkey r = root"
    and fail_closed: "\<forall>r \<in> set (ei_Resources i). res_State r = StateOrphaned \<longrightarrow>
      res_PossibleVMDependency r \<and> rkey r \<noteq> root"
    and r: "r \<in> set (ei_Resources i)" "rkey r \<noteq> root"
  shows "\<not> IsPossiblyLive r"
proof
  assume live: "IsPossiblyLive r"
  have free: "\<forall>r \<in> set (ei_Resources i). \<not> blocks_stop (ei_Resources i) root r"
    using autostop_allowed[OF ev(1) root] ev(2) by blast
  then have "\<forall>r \<in> set (ei_Resources i). res_State r \<noteq> StateOrphaned"
    using fail_closed by (auto simp: blocks_stop_def IsPossiblyLive_def)
  moreover have "ValidateGraph (ei_Resources i) True = None"
    using ev(1) by (rule EvaluateAutoStop_Inr)
  ultimately have "\<exists>p. dep_path (by_key (ei_Resources i)) root p (rkey r)"
    by (intro reaches_root_or_orphan r unique)
  with live r free show False by (auto simp: blocks_stop_def)
qed

section \<open>Properties\<close>

text \<open>
  C7. The automatic stop predicate: when \<open>EvaluateAutoStop\<close> returns an evaluation, the stop is
  allowed exactly when the backend was observed running as this very incarnation, no possibly
  live resource other than the root reaches the root along a dependency path, no orphan with a
  possible dependency on the VM remains, no transition is in flight, the idle grace has expired,
  reconciliation is complete and this daemon owns the attempt.
\<close>

theorem EvaluateAutoStop_allowed:
  assumes "EvaluateAutoStop i = Inr ev"
    and "root_key (ei_Incarnation i) (ei_Resources i) = Some root"
  shows "ev_Allowed ev \<longleftrightarrow>
     obs_State (ei_Observation i) = LifecycleRunning \<and>
     obs_InstanceName (ei_Observation i) = er_InstanceName (ei_Incarnation i) \<and>
     obs_BootID (ei_Observation i) = er_BootID (ei_Incarnation i) \<and>
     (\<forall>r \<in> set (ei_Resources i). \<not> blocks_stop (ei_Resources i) root r) \<and>
     \<not> ei_TransitionInFlight i \<and> ei_GraceExpired i \<and>
     ei_ReconciliationComplete i \<and> ei_CurrentDaemonOwnsAttempt i"
  by (rule autostop_allowed[OF assms])

definition sample_input :: "resource list \<Rightarrow> evaluation_input" where
  "sample_input rs = \<lparr>ei_Incarnation = sample_incarnation, ei_Resources = rs,
     ei_Observation = \<lparr>obs_State = LifecycleRunning, obs_InstanceName = ''vm'',
       obs_BootID = er_BootID sample_incarnation, obs_ObservedAt = GoTime 9 0, obs_ReasonCode = []\<rparr>,
     ei_TransitionInFlight = False, ei_GraceExpired = True, ei_ReconciliationComplete = True,
     ei_CurrentDaemonOwnsAttempt = True\<rparr>"

lemma sample_evaluation:
  "EvaluateAutoStop (sample_input [sample_root]) =
     Inr \<lparr>ev_Allowed = True, ev_Pins = [], ev_Drains = [], ev_Reasons = []\<rparr>"
  "root_key sample_incarnation [sample_root] = Some ''backend.incarnation/env/1''"
  "EvaluateAutoStop (sample_input [sample_root, sample_session StateActive]) =
     Inr \<lparr>ev_Allowed = False, ev_Pins = [res_Ref (sample_session StateActive)], ev_Drains = [],
          ev_Reasons = [''vm-dependency-live-or-unproved'']\<rparr>"
  "root_key sample_incarnation [sample_root, sample_session StateActive] = Some ''backend.incarnation/env/1''"
  by code_simp+

theorem EvaluateAutoStop_allowed_witness:
  "list_all (\<lambda>r. \<not> blocks_stop [sample_root] ''backend.incarnation/env/1'' r) [sample_root] \<and>
   list_ex (blocks_stop [sample_root, sample_session StateActive] ''backend.incarnation/env/1'')
     [sample_root, sample_session StateActive]"
  using EvaluateAutoStop_allowed[of "sample_input [sample_root]", OF sample_evaluation(1)]
    EvaluateAutoStop_allowed[of "sample_input [sample_root, sample_session StateActive]", OF sample_evaluation(3)]
    sample_evaluation(2,4)
  by (simp add: sample_input_def sample_incarnation_def)


lemma sample_released:
  "EvaluateAutoStop (sample_input [sample_root, sample_session StateReleased]) =
     Inr \<lparr>ev_Allowed = True, ev_Pins = [], ev_Drains = [], ev_Reasons = []\<rparr>"
  "root_key sample_incarnation [sample_root, sample_session StateReleased] = Some (rkey sample_root)"
  "rkey (sample_session StateReleased) \<noteq> rkey sample_root"
  by code_simp+


text \<open>
  C23. \<open>ValidateGraph\<close> accepts exactly the lists of individually valid resources with distinct
  keys whose dependencies are all present; what it accepts has no dependency cycle.
\<close>

theorem ValidateGraph_exact:
  "(ValidateGraph rs p = None \<longleftrightarrow>
     list_all (\<lambda>r. validateResource r p = None) rs \<and> distinct (map rkey rs) \<and> deps_closed rs) \<and>
   (ValidateGraph rs p = None \<longrightarrow> acyclic (dep_rel (by_key rs)))"
  using wf_acyclic[OF dep_rel_wf[of rs p]] by (auto simp: ValidateGraph_None list_all_iff)

theorem ValidateGraph_exact_witness:
  "ValidateGraph [sample_root, sample_session StateActive] True = None \<and>
   acyclic (dep_rel (by_key [sample_root, sample_session StateActive]))"
proof -
  have "ValidateGraph [sample_root, sample_session StateActive] True = None" by code_simp
  then show ?thesis using ValidateGraph_exact[of "[sample_root, sample_session StateActive]" True] by simp
qed

text \<open>
  C24. The depth-first search of \<open>ValidateGraph\<close> decides acyclicity of an arbitrary keyed graph:
  visiting every key succeeds exactly when the dependency relation has no cycle.
\<close>

theorem visit_decides_acyclic: "visit_all g {} (map fst g) = None \<longleftrightarrow> acyclic (dep_rel g)"
  by (rule visit_all_decides) simp

text \<open>
  C25. \<open>pathMode\<close> is exact on a validated graph: it reports a path from a resource to the root
  exactly when one exists, and the mode \<open>pin\<close> exactly when some path has a pinning edge.
\<close>

theorem pathMode_exact:
  assumes "ValidateGraph rs p = None"
  shows "(snd (pathMode k root (by_key rs)) \<longleftrightarrow> (\<exists>pin. dep_path (by_key rs) root pin k)) \<and>
    (fst (pathMode k root (by_key rs)) = StopModePin \<longleftrightarrow> dep_path (by_key rs) root True k)"
proof -
  have "pathMode k root (by_key rs) = path_result (by_key rs) root k"
    using assms by (intro pathMode_result[of rs p]) (simp add: ValidateGraph_None)
  then show ?thesis by (simp add: path_result_simps)
qed

theorem pathMode_exact_witness:
  "dep_path (by_key [sample_root, sample_session StateActive]) (rkey sample_root) True
     (rkey (sample_session StateActive))"
proof -
  have "ValidateGraph [sample_root, sample_session StateActive] True = None"
    "fst (pathMode (rkey (sample_session StateActive)) (rkey sample_root)
       (by_key [sample_root, sample_session StateActive])) = StopModePin" by code_simp+
  with pathMode_exact[OF this(1)] show ?thesis by blast
qed

end
