(* ===== verification/Lifecycle_Journal.thy ===== *)
theory Lifecycle_Journal
  imports Lifecycle_Graph
begin

text \<open>
  The lifecycle journal and its validation (\<open>internal/lifecycle/journal.go\<close>) and the disposal
  intent it carries (\<open>internal/lifecycle/disposal.go\<close>).
\<close>

section \<open>Disposal intents\<close>

record disposal_intent =
  di_Schema :: string
  di_Authority :: string
  di_Backend :: string
  di_InstanceName :: string
  di_RecordDigest :: string
  di_ActivitySessionID :: string
  di_Generation :: u64
  di_State :: string
  di_RequestedAt :: gotime
  di_UpdatedAt :: gotime
  di_ReasonCode :: string

record disposal_request =
  dq_EnvironmentID :: string
  dq_Authority :: string
  dq_Backend :: string
  dq_InstanceName :: string
  dq_RecordDigest :: string
  dq_ActivitySessionID :: string
  dq_Generation :: u64

abbreviation DisposalIntentSchema :: string where
  "DisposalIntentSchema \<equiv> ''hideout.disposal-intent/v1''"
abbreviation DisposalAuthorityRunRM :: string where
  "DisposalAuthorityRunRM \<equiv> ''run-rm''"
abbreviation DisposalStatePlanned :: string where
  "DisposalStatePlanned \<equiv> ''planned''"
abbreviation DisposalStateBackendAbsent :: string where
  "DisposalStateBackendAbsent \<equiv> ''backend-absent''"
abbreviation DisposalStateMetadataCleaning :: string where
  "DisposalStateMetadataCleaning \<equiv> ''metadata-cleaning''"
abbreviation DisposalStateBlocked :: string where
  "DisposalStateBlocked \<equiv> ''blocked''"

definition disposalReasonCodes :: "string list" where
  "disposalReasonCodes =
     [''record-retention-failed'', ''backend-observation-unproved'', ''backend-cleanup-failed'',
      ''backend-absence-unproved'', ''backend-absence-checkpoint-failed'',
      ''owner-metadata-unprovable'', ''owner-metadata-cleanup-failed'', ''runtime-cleanup-failed'',
      ''gateway-cleanup-failed'', ''activity-cleanup-failed'', ''metadata-checkpoint-failed'',
      ''record-removal-failed'', ''journal-removal-failed'', ''backend-provider-unavailable'',
      ''missing-record-backend-not-absent'', ''missing-record-intent-state-invalid'']"

definition validDisposalReasonCode :: "string \<Rightarrow> bool" where
  "validDisposalReasonCode v \<longleftrightarrow> v \<in> set disposalReasonCodes"

definition validDisposalAuthority :: "string \<Rightarrow> bool" where
  "validDisposalAuthority v \<longleftrightarrow>
     v = DisposalAuthorityRunRM \<or> v = ''environment-clean'' \<or> v = ''environment-delete''"

definition lowerHex :: "string \<Rightarrow> nat \<Rightarrow> bool" where
  "lowerHex v n \<longleftrightarrow> length v = n \<and> list_all is_lower_hex v"

definition isUTC :: "gotime \<Rightarrow> bool" where
  "isUTC t \<longleftrightarrow> zone_offset t = 0"

definition DisposalRequest_authority :: "disposal_request \<Rightarrow> string" where
  "DisposalRequest_authority q = (if dq_Authority q = [] then DisposalAuthorityRunRM else dq_Authority q)"

definition DisposalRequest_validate :: "disposal_request \<Rightarrow> lc_error option" where
  "DisposalRequest_validate q =
     check (\<not> idPattern (dq_EnvironmentID q) \<or> \<not> validDisposalAuthority (DisposalRequest_authority q) \<or>
            \<not> idPattern (dq_Backend q) \<or> \<not> idPattern (dq_InstanceName q) \<or>
            \<not> lowerHex (dq_RecordDigest q) 64 \<or>
            dq_ActivitySessionID q \<noteq> [] \<and> \<not> idPattern (dq_ActivitySessionID q))
       (Errorf ''lifecycle disposal request identity is invalid'')"

definition DisposalIntent_Validate :: "disposal_intent \<Rightarrow> u64 \<Rightarrow> lc_error option" where
  "DisposalIntent_Validate i journalGeneration = first_err
     [check (di_Schema i \<noteq> DisposalIntentSchema \<or> \<not> validDisposalAuthority (di_Authority i))
        (Errorf ''lifecycle disposal authority is invalid''),
      check (\<not> idPattern (di_Backend i) \<or> \<not> idPattern (di_InstanceName i))
        (Errorf ''lifecycle disposal backend identity is invalid''),
      check (di_ActivitySessionID i \<noteq> [] \<and> \<not> idPattern (di_ActivitySessionID i))
        (Errorf ''lifecycle disposal activity identity is invalid''),
      check (\<not> lowerHex (di_RecordDigest i) 64)
        (Errorf ''lifecycle disposal record digest is invalid''),
      check (di_Generation i = 0 \<or> di_Generation i \<noteq> journalGeneration)
        (Errorf ''lifecycle disposal generation mismatch''),
      check (time_IsZero (di_RequestedAt i) \<or> time_IsZero (di_UpdatedAt i) \<or>
             time_After (di_RequestedAt i) (di_UpdatedAt i) \<or>
             \<not> isUTC (di_RequestedAt i) \<or> \<not> isUTC (di_UpdatedAt i))
        (Errorf ''lifecycle disposal timestamps are invalid''),
      (if di_State i \<in> {DisposalStatePlanned, DisposalStateBackendAbsent, DisposalStateMetadataCleaning}
       then check (di_ReasonCode i \<noteq> [])
         (Errorf ''active lifecycle disposal intent cannot carry a reason'')
       else if di_State i = DisposalStateBlocked
       then check (\<not> validDisposalReasonCode (di_ReasonCode i))
         (Errorf ''blocked lifecycle disposal intent requires a reason'')
       else Some (Errorf ''lifecycle disposal state is invalid''))]"

definition allowed_disposal :: "string \<Rightarrow> string list" where
  "allowed_disposal src =
     (if src = DisposalStatePlanned
      then [DisposalStatePlanned, DisposalStateBackendAbsent, DisposalStateBlocked]
      else if src = DisposalStateBackendAbsent
      then [DisposalStateBackendAbsent, DisposalStateMetadataCleaning, DisposalStateBlocked]
      else if src = DisposalStateMetadataCleaning
      then [DisposalStateMetadataCleaning, DisposalStateBlocked]
      else if src = DisposalStateBlocked then [DisposalStateBlocked, DisposalStatePlanned]
      else [])"

definition ValidateDisposalTransition :: "string \<Rightarrow> string \<Rightarrow> lc_error option" where
  "ValidateDisposalTransition src dst =
     check (dst \<notin> set (allowed_disposal src)) (Errorf ''invalid lifecycle disposal transition'')"

section \<open>The journal\<close>

record idle_deadline =
  id_Incarnation :: environment_ref
  id_DaemonInstanceID :: string
  id_ScheduledAt :: gotime
  id_Deadline :: gotime
  id_Generation :: u64

record observation_snapshot =
  os_State :: string
  os_ObservedAt :: gotime
  os_ReasonCode :: string

record stop_attempt =
  sa_ID :: string
  sa_Incarnation :: environment_ref
  sa_DaemonInstanceID :: string
  sa_Mode :: string
  sa_State :: string
  sa_StartedAt :: gotime
  sa_Observation :: "observation_snapshot option"

record reconciliation =
  rc_DaemonInstanceID :: string
  rc_State :: string
  rc_ReasonCode :: string
  rc_ObservedAt :: gotime

record journal =
  j_Schema :: string
  j_EnvironmentID :: string
  j_StartGeneration :: u64
  j_Incarnation :: "environment_ref option"
  j_Resources :: "resource list"
  j_Facts :: "fact list"
  j_IdleDeadline :: "idle_deadline option"
  j_StopAttempt :: "stop_attempt option"
  j_Disposal :: "disposal_intent option"
  j_Reconciliation :: reconciliation
  j_UpdatedAt :: gotime

abbreviation JournalSchema :: string where
  "JournalSchema \<equiv> ''hideout.lifecycle-journal/v1''"
abbreviation maxJournalBytes :: int where
  "maxJournalBytes \<equiv> 1048576"
abbreviation maxJournalResources :: nat where
  "maxJournalResources \<equiv> 256"
abbreviation maxJournalFacts :: nat where
  "maxJournalFacts \<equiv> 64"
abbreviation maxResourceDeps :: nat where
  "maxResourceDeps \<equiv> 32"

definition blockedReconciliation :: "string \<Rightarrow> string \<Rightarrow> gotime \<Rightarrow> reconciliation" where
  "blockedReconciliation daemonID reasonCode observedAt =
     (let reason = boundedReason reasonCode
      in \<lparr>rc_DaemonInstanceID = daemonID, rc_State = ''blocked'',
          rc_ReasonCode = (if idPattern reason then reason else ''reconciliation-unproved''),
          rc_ObservedAt = time_UTC observedAt\<rparr>)"

definition newJournal :: "string \<Rightarrow> string \<Rightarrow> u64 \<Rightarrow> gotime \<Rightarrow> journal" where
  "newJournal environmentID daemonID generation now =
     \<lparr>j_Schema = JournalSchema, j_EnvironmentID = environmentID, j_StartGeneration = generation,
      j_Incarnation = None, j_Resources = [], j_Facts = [], j_IdleDeadline = None,
      j_StopAttempt = None, j_Disposal = None,
      j_Reconciliation = \<lparr>rc_DaemonInstanceID = daemonID, rc_State = ''pending'',
        rc_ReasonCode = [], rc_ObservedAt = time_UTC now\<rparr>,
      j_UpdatedAt = time_UTC now\<rparr>"

text \<open>\<open>containsString\<close> trims the value before it compares.\<close>

definition containsString :: "string list \<Rightarrow> string \<Rightarrow> bool" where
  "containsString values v \<longleftrightarrow> TrimSpace v \<in> set values"

definition validate_journal_resource :: "journal \<Rightarrow> resource \<Rightarrow> lc_error option" where
  "validate_journal_resource j r = first_err
     ([check (maxResourceDeps < length (res_Dependencies r) \<or> \<not> IsPossiblyLive r)
         (Errorf ''lifecycle journal resource is invalid or terminal''),
       check (rr_Generation (res_Ref r) \<noteq> j_StartGeneration j \<or>
              or_Generation (res_Owner r) \<noteq> j_StartGeneration j)
         (Errorf ''lifecycle journal resource generation mismatch'')] @
      map (\<lambda>d. check (rr_Generation (ds_Ref d) \<noteq> j_StartGeneration j)
         (Errorf ''lifecycle journal dependency generation mismatch'')) (res_Dependencies r) @
      [check (rr_Kind (res_Ref r) = KindBackendIncarnation \<and> rr_ID (res_Ref r) \<noteq> j_EnvironmentID j)
         (Errorf ''lifecycle journal root identity mismatch'')])"

definition validate_journal_incarnation :: "journal \<Rightarrow> lc_error option" where
  "validate_journal_incarnation j =
     (case j_Incarnation j of
        None \<Rightarrow> None
      | Some inc \<Rightarrow> first_err
          [EnvironmentRef_Validate inc (er_BootID inc \<noteq> []),
           check (er_EnvironmentID inc \<noteq> j_EnvironmentID j \<or>
                  er_StartGeneration inc \<noteq> j_StartGeneration j)
             (Errorf ''lifecycle journal incarnation mismatch'')])"

definition validate_journal_fact :: "journal \<Rightarrow> fact \<Rightarrow> lc_error option" where
  "validate_journal_fact j f = first_err
     [validateFact f,
      check (j_StartGeneration j < fact_Generation f)
        (Errorf ''lifecycle journal fact generation mismatch'')]"

definition validate_journal_deadline :: "journal \<Rightarrow> lc_error option" where
  "validate_journal_deadline j =
     (case j_IdleDeadline j of
        None \<Rightarrow> None
      | Some dl \<Rightarrow> first_err
          [check (EnvironmentRef_Validate (id_Incarnation dl) True \<noteq> None \<or> id_Generation dl = 0 \<or>
                  \<not> idPattern (id_DaemonInstanceID dl) \<or> time_IsZero (id_ScheduledAt dl) \<or>
                  \<not> time_After (id_Deadline dl) (id_ScheduledAt dl))
             (Errorf ''lifecycle idle deadline is invalid''),
           check (case j_Incarnation j of None \<Rightarrow> True
                  | Some inc \<Rightarrow> \<not> EnvironmentRef_Equal (id_Incarnation dl) inc)
             (Errorf ''lifecycle idle deadline incarnation mismatch'')])"

definition validate_journal_attempt :: "journal \<Rightarrow> lc_error option" where
  "validate_journal_attempt j =
     (case j_StopAttempt j of
        None \<Rightarrow> None
      | Some a \<Rightarrow> first_err
          [check (EnvironmentRef_Validate (sa_Incarnation a) True \<noteq> None \<or> \<not> idPattern (sa_ID a) \<or>
                  \<not> idPattern (sa_DaemonInstanceID a) \<or>
                  \<not> containsString [''automatic'', ''explicit-recovery''] (sa_Mode a) \<or>
                  \<not> containsString [''planned'', ''draining'', ''invoked'', ''observing'',
                     ''committed'', ''unknown'', ''failed''] (sa_State a) \<or>
                  time_IsZero (sa_StartedAt a))
             (Errorf ''lifecycle stop attempt is invalid''),
           check (er_EnvironmentID (sa_Incarnation a) \<noteq> j_EnvironmentID j \<or>
                  er_StartGeneration (sa_Incarnation a) \<noteq> j_StartGeneration j \<or>
                  (case j_Incarnation j of None \<Rightarrow> False
                   | Some inc \<Rightarrow> \<not> EnvironmentRef_Equal (sa_Incarnation a) inc))
             (Errorf ''lifecycle stop attempt incarnation mismatch''),
           (case sa_Observation a of
              None \<Rightarrow> None
            | Some ob \<Rightarrow>
                check (\<not> containsString [''running'', ''stopped'', ''absent'', ''unknown'',
                          ''not-applicable''] (os_State ob) \<or>
                       time_IsZero (os_ObservedAt ob) \<or>
                       (os_ReasonCode ob \<noteq> [] \<and> \<not> idPattern (os_ReasonCode ob)) \<or>
                       (os_State ob = ''unknown'' \<and> os_ReasonCode ob = []))
                  (Errorf ''lifecycle stop observation is invalid''))])"

definition validate_journal_reconciliation :: "journal \<Rightarrow> lc_error option" where
  "validate_journal_reconciliation j =
     (let rc = j_Reconciliation j in
      check (\<not> containsString [''pending'', ''complete'', ''blocked''] (rc_State rc) \<or>
             \<not> idPattern (rc_DaemonInstanceID rc) \<or> time_IsZero (rc_ObservedAt rc) \<or>
             (rc_ReasonCode rc \<noteq> [] \<and> \<not> idPattern (rc_ReasonCode rc)))
        (Errorf ''lifecycle reconciliation is invalid''))"

definition Journal_Validate :: "journal \<Rightarrow> lc_error option" where
  "Journal_Validate j = first_err
     ([check (j_Schema j \<noteq> JournalSchema \<or> \<not> idPattern (j_EnvironmentID j) \<or>
              j_StartGeneration j = 0 \<or> time_IsZero (j_UpdatedAt j))
         (Errorf ''lifecycle journal identity is invalid''),
       check (maxJournalResources < length (j_Resources j))
         (Errorf ''lifecycle journal has too many resources''),
       check (maxJournalFacts < length (j_Facts j))
         (Errorf ''lifecycle journal has too many facts''),
       validate_journal_incarnation j] @
      map (validate_journal_resource j) (j_Resources j) @
      [if j_Resources j \<noteq> [] then ValidateGraph (j_Resources j) True else None] @
      map (validate_journal_fact j) (j_Facts j) @
      [validate_journal_deadline j,
       validate_journal_attempt j,
       (case j_Disposal j of None \<Rightarrow> None
        | Some i \<Rightarrow> DisposalIntent_Validate i (j_StartGeneration j)),
       validate_journal_reconciliation j])"

section \<open>Consequences of validity\<close>

lemma ValidateGraph_Nil [simp]: "ValidateGraph [] p = None"
  by (simp add: ValidateGraph_None deps_closed_def)

lemma Journal_Validate_graph: "Journal_Validate j = None \<Longrightarrow> ValidateGraph (j_Resources j) True = None"
  by (cases "j_Resources j = []") (auto simp: Journal_Validate_def)

lemma Journal_Validate_resource:
  "Journal_Validate j = None \<Longrightarrow> r \<in> set (j_Resources j) \<Longrightarrow> validate_journal_resource j r = None"
  by (auto simp: Journal_Validate_def)

lemma Journal_Validate_identity:
  "Journal_Validate j = None \<Longrightarrow>
     idPattern (j_EnvironmentID j) \<and> j_StartGeneration j \<noteq> 0 \<and> j_Schema j = JournalSchema"
  by (simp add: Journal_Validate_def)

text \<open>A valid journal has at most one backend incarnation, named by the environment.\<close>

lemma Journal_Validate_root:
  assumes "Journal_Validate j = None" and "r \<in> set (j_Resources j)"
    and "rr_Kind (res_Ref r) = KindBackendIncarnation"
  shows "res_Ref r = \<lparr>rr_Kind = KindBackendIncarnation, rr_ID = j_EnvironmentID j,
    rr_Generation = j_StartGeneration j\<rparr>"
  using Journal_Validate_resource[OF assms(1,2)] assms(3)
  by (intro resource_ref.equality) (simp_all add: validate_journal_resource_def)

lemma blockedReconciliation_simps [simp]:
  "rc_State (blockedReconciliation d r t) = ''blocked''"
  "rc_DaemonInstanceID (blockedReconciliation d r t) = d"
  "rc_ObservedAt (blockedReconciliation d r t) = time_UTC t"
  by (simp_all add: blockedReconciliation_def Let_def)

lemma blockedReconciliation_reason: "idPattern (rc_ReasonCode (blockedReconciliation d r t))"
proof -
  have "idPattern ''reconciliation-unproved''" by code_simp
  then show ?thesis by (simp add: blockedReconciliation_def Let_def)
qed

lemma ValidateDisposalTransition_None:
  "ValidateDisposalTransition src dst = None \<longleftrightarrow> dst \<in> set (allowed_disposal src)"
  by (simp add: ValidateDisposalTransition_def)

end
