(* ===== verification/Lifecycle_Store.thy ===== *)
theory Lifecycle_Store
  imports Lifecycle_Journal
begin

text \<open>
  The journal store on disk: \<open>JournalStore\<close> of \<open>internal/lifecycle/journal.go\<close>. The disk holds
  one directory for each environment; every primitive of the operating system may fail, which
  the oracle \<open>d_IO\<close> decides. A file's content is the journal it decodes to, \<open>None\<close> when it does
  not decode: encoding to JSON and back is the identity. \<open>Write_trace\<close> lists the disk after every
  primitive of \<open>Write\<close>, so that a crash is any element of the list.
\<close>

section \<open>The disk\<close>

record disk_file =
  f_Regular :: bool
  f_Private :: bool
  f_Size :: int
  f_Journal :: "journal option"

record env_dir =
  ed_Safe :: bool
  ed_Files :: "(string \<times> disk_file) list"

record disk =
  d_RootSafe :: bool
  d_LifecycleDir :: "bool option"
  d_Dirs :: "(string \<times> env_dir) list"
  d_IO :: "nat \<Rightarrow> bool"
  d_Clock :: nat
  d_TempName :: "nat \<Rightarrow> 32 word"
  d_JSONSize :: "journal \<Rightarrow> int"

abbreviation journalFileName :: string where
  "journalFileName \<equiv> ''journal.json''"

abbreviation tempPrefix :: string where
  "tempPrefix \<equiv> ''.journal-''"

definition io_step :: "disk \<Rightarrow> bool \<times> disk" where
  "io_step d = (d_IO d (d_Clock d), d\<lparr>d_Clock := Suc (d_Clock d)\<rparr>)"

definition put_dir :: "disk \<Rightarrow> string \<Rightarrow> env_dir \<Rightarrow> disk" where
  "put_dir d env dir = d\<lparr>d_Dirs := AList.update env dir (d_Dirs d)\<rparr>"

definition put_file :: "disk \<Rightarrow> string \<Rightarrow> string \<Rightarrow> disk_file \<Rightarrow> disk" where
  "put_file d env name f =
     (case map_of (d_Dirs d) env of
        None \<Rightarrow> d
      | Some dir \<Rightarrow> put_dir d env (dir\<lparr>ed_Files := AList.update name f (ed_Files dir)\<rparr>))"

definition delete_file :: "disk \<Rightarrow> string \<Rightarrow> string \<Rightarrow> disk" where
  "delete_file d env name =
     (case map_of (d_Dirs d) env of
        None \<Rightarrow> d
      | Some dir \<Rightarrow> put_dir d env (dir\<lparr>ed_Files := AList.delete name (ed_Files dir)\<rparr>))"

definition lookup_file :: "disk \<Rightarrow> string \<Rightarrow> string \<Rightarrow> disk_file option" where
  "lookup_file d env name =
     (case map_of (d_Dirs d) env of None \<Rightarrow> None | Some dir \<Rightarrow> map_of (ed_Files dir) name)"

section \<open>Directories\<close>

fun ensureJournalDir :: "bool option \<Rightarrow> bool \<Rightarrow> bool \<Rightarrow> lc_error + unit" where
  "ensureJournalDir (Some safe) create ok =
     (if safe then Inr ()
      else Inl (Errorf ''lifecycle journal directory must be private and not a symlink''))"
| "ensureJournalDir None create ok =
     (if \<not> create then Inl ErrNotExist else if ok then Inr () else Inl (IOError ''mkdir''))"

definition environmentDir :: "disk \<Rightarrow> string \<Rightarrow> bool \<Rightarrow> (lc_error + env_dir) \<times> disk" where
  "environmentDir d env create =
     (if \<not> idPattern env then (Inl (Errorf ''lifecycle journal path is invalid''), d)
      else if \<not> d_RootSafe d then (Inl (Errorf ''store root must be a private directory''), d)
      else case io_step d of (ok1, d1) \<Rightarrow>
       (case ensureJournalDir (d_LifecycleDir d1) create ok1 of
          Inl e \<Rightarrow> (Inl e, d1)
        | Inr _ \<Rightarrow>
          (case io_step (d1\<lparr>d_LifecycleDir := Some True\<rparr>) of (ok2, d2) \<Rightarrow>
           (case ensureJournalDir (map_option ed_Safe (map_of (d_Dirs d2) env)) create ok2 of
              Inl e \<Rightarrow> (Inl e, d2)
            | Inr _ \<Rightarrow>
              (case map_of (d_Dirs d2) env of
                 Some dir \<Rightarrow> (Inr dir, d2)
               | None \<Rightarrow> let dir = \<lparr>ed_Safe = True, ed_Files = []\<rparr>
                         in (Inr dir, put_dir d2 env dir))))))"

section \<open>Write\<close>

datatype temp_step = StepChmod | StepWrite | StepSync | StepClose

fun temp_effect :: "disk \<Rightarrow> journal \<Rightarrow> temp_step \<Rightarrow> disk_file \<Rightarrow> disk_file" where
  "temp_effect d j StepWrite f = f\<lparr>f_Size := d_JSONSize d j, f_Journal := Some j\<rparr>"
| "temp_effect d j _ f = f"

text \<open>The temporary file is written step by step; a failing step ends the run.\<close>

fun run_temp ::
  "string \<Rightarrow> string \<Rightarrow> journal \<Rightarrow> temp_step list \<Rightarrow> disk_file \<Rightarrow> disk \<Rightarrow> bool \<times> disk_file \<times> disk list" where
  "run_temp env temp j [] f d = (True, f, [d])"
| "run_temp env temp j (s # ss) f d =
     (case io_step d of (ok, d1) \<Rightarrow>
        if ok
        then let f' = temp_effect d j s f in
             (case run_temp env temp j ss f' (put_file d1 env temp f') of
                (r, f'', ds) \<Rightarrow> (r, f'', d # ds))
        else (False, f, [d, d1]))"

definition write_rename :: "string \<Rightarrow> string \<Rightarrow> disk_file \<Rightarrow> disk \<Rightarrow> lc_error option \<times> disk list" where
  "write_rename env temp f d =
     (case io_step d of (ok, d1) \<Rightarrow>
        if \<not> ok then (Some (IOError ''rename''), [d1, delete_file d1 env temp])
        else let d2 = put_file (delete_file d1 env temp) env journalFileName f in
             (case io_step d2 of (ok', d3) \<Rightarrow>
                (if ok' then None else Some (IOError ''sync directory''), [d2, d3])))"

definition temp_name :: "disk \<Rightarrow> string" where
  "temp_name d = tempPrefix @ show_nat (unat (d_TempName d (d_Clock d)))"

definition empty_file :: disk_file where
  "empty_file = \<lparr>f_Regular = True, f_Private = True, f_Size = 0, f_Journal = None\<rparr>"

definition write_temp :: "string \<Rightarrow> journal \<Rightarrow> disk \<Rightarrow> lc_error option \<times> disk list" where
  "write_temp env j d =
     (case io_step d of (ok, d1) \<Rightarrow>
        if \<not> ok \<or> lookup_file d env (temp_name d) \<noteq> None
        then (Some (IOError ''create temp''), [d1])
        else (case run_temp env (temp_name d) j [StepChmod, StepWrite, StepSync, StepClose] empty_file
                     (put_file d1 env (temp_name d) empty_file) of
          (fin, f, ds) \<Rightarrow>
            if \<not> fin
            then (Some (IOError ''write temp''), ds @ [delete_file (last ds) env (temp_name d)])
            else (case write_rename env (temp_name d) f (last ds) of (e, ds') \<Rightarrow> (e, ds @ ds'))))"

definition Write_trace :: "disk \<Rightarrow> journal \<Rightarrow> lc_error option \<times> disk list" where
  "Write_trace d j =
     (case Journal_Validate j of
        Some e \<Rightarrow> (Some e, [d])
      | None \<Rightarrow>
        (case environmentDir d (j_EnvironmentID j) True of
           (Inl e, d1) \<Rightarrow> (Some e, [d, d1])
         | (Inr dir, d1) \<Rightarrow>
             if maxJournalBytes < d_JSONSize d1 j
             then (Some (Errorf ''lifecycle journal exceeds size bound''), [d, d1])
             else if (case map_of (ed_Files dir) journalFileName of None \<Rightarrow> False | Some f \<Rightarrow> \<not> f_Regular f)
             then (Some (Errorf ''lifecycle journal target is not a regular file''), [d, d1])
             else (case write_temp (j_EnvironmentID j) j d1 of (e, ds) \<Rightarrow> (e, d # d1 # ds))))"

definition Write :: "disk \<Rightarrow> journal \<Rightarrow> lc_error option \<times> disk" where
  "Write d j = (case Write_trace d j of (e, ds) \<Rightarrow> (e, last ds))"

section \<open>Load, Remove and ListEnvironmentIDs\<close>

definition Load :: "disk \<Rightarrow> string \<Rightarrow> (lc_error + journal) \<times> disk" where
  "Load d env =
     (case environmentDir d env False of
        (Inl e, d1) \<Rightarrow> (Inl e, d1)
      | (Inr dir, d1) \<Rightarrow>
        (case map_of (ed_Files dir) journalFileName of
           None \<Rightarrow> (Inl ErrNotExist, d1)
         | Some f \<Rightarrow>
           if \<not> f_Regular f \<or> maxJournalBytes < f_Size f
           then (Inl (Errorf ''lifecycle journal must be a bounded regular file''), d1)
           else (case io_step d1 of (ok, d2) \<Rightarrow>
             if \<not> ok then (Inl (IOError ''read''), d2)
             else (case f_Journal f of
                     None \<Rightarrow> (Inl (IOError ''decode''), d2)
                   | Some j \<Rightarrow>
                     (case Journal_Validate j of
                        Some e \<Rightarrow> (Inl e, d2)
                      | None \<Rightarrow>
                          if j_EnvironmentID j \<noteq> env
                          then (Inl (Errorf ''lifecycle journal environment identity mismatch''), d2)
                          else (Inr j, d2))))))"

definition validStaleJournalTempName :: "string \<Rightarrow> bool" where
  "validStaleJournalTempName name \<longleftrightarrow>
     (case strip_prefix tempPrefix name of
        None \<Rightarrow> False
      | Some suffix \<Rightarrow> suffix \<noteq> [] \<and> length suffix \<le> 20 \<and> list_all is_digit suffix)"

definition check_stale :: "string \<times> disk_file \<Rightarrow> lc_error option" where
  "check_stale e =
     (case e of (name, f) \<Rightarrow>
        if name = journalFileName then None
        else first_err
          [check (\<not> validStaleJournalTempName name)
             (Errorf (''lifecycle journal directory contains unexpected entry '' @ name)),
           check (\<not> f_Regular f \<or> \<not> f_Private f \<or> maxJournalBytes < f_Size f)
             (Errorf ''stale lifecycle journal temporary file is unsafe'')])"

fun delete_files :: "string \<Rightarrow> string list \<Rightarrow> disk \<Rightarrow> lc_error option \<times> disk" where
  "delete_files env [] d = (None, d)"
| "delete_files env (n # ns) d =
     (case io_step d of (ok, d1) \<Rightarrow>
        if ok then delete_files env ns (delete_file d1 env n)
        else (Some (IOError ''remove''), d1))"

definition removeStaleJournalTemps :: "string \<Rightarrow> env_dir \<Rightarrow> disk \<Rightarrow> lc_error option \<times> disk" where
  "removeStaleJournalTemps env dir d =
     (case first_err (map check_stale (ed_Files dir)) of
        Some e \<Rightarrow> (Some e, d)
      | None \<Rightarrow> delete_files env (filter (\<lambda>n. n \<noteq> journalFileName) (map fst (ed_Files dir))) d)"

text \<open>\<open>os.Remove\<close> of the directory fails unless it is empty.\<close>

definition remove_dir :: "string \<Rightarrow> disk \<Rightarrow> lc_error option \<times> disk" where
  "remove_dir env d =
     (case io_step d of (ok, d1) \<Rightarrow>
        if \<not> ok \<or> (case map_of (d_Dirs d1) env of None \<Rightarrow> True | Some dir \<Rightarrow> ed_Files dir \<noteq> [])
        then (Some (Wrapped ''remove lifecycle environment directory'' (IOError ''remove'')), d1)
        else (case io_step (d1\<lparr>d_Dirs := AList.delete env (d_Dirs d1)\<rparr>) of (ok', d2) \<Rightarrow>
          (if ok' then None else Some (IOError ''sync directory''), d2)))"

definition Remove :: "disk \<Rightarrow> string \<Rightarrow> lc_error option \<times> disk" where
  "Remove d env =
     (case environmentDir d env False of
        (Inl e, d1) \<Rightarrow> (if e = ErrNotExist then None else Some e, d1)
      | (Inr dir, d1) \<Rightarrow>
        if (case map_of (ed_Files dir) journalFileName of None \<Rightarrow> False | Some f \<Rightarrow> \<not> f_Regular f)
        then (Some (Errorf ''lifecycle journal target is not a regular file''), d1)
        else (case removeStaleJournalTemps env dir d1 of
          (Some e, d2) \<Rightarrow> (Some e, d2)
        | (None, d2) \<Rightarrow>
          (case io_step d2 of (ok, d3) \<Rightarrow>
             if \<not> ok then (Some (IOError ''remove''), d3)
             else remove_dir env (delete_file d3 env journalFileName))))"

definition ListEnvironmentIDs :: "disk \<Rightarrow> lc_error + string list" where
  "ListEnvironmentIDs d =
     (if \<not> d_RootSafe d then Inl (Errorf ''store root must be a private directory'')
      else case ensureJournalDir (d_LifecycleDir d) False True of
             Inl e \<Rightarrow> if e = ErrNotExist then Inr [] else Inl e
           | Inr _ \<Rightarrow>
             (case first_err (map (\<lambda>(name, dir). first_err
                 [check (\<not> idPattern name)
                    (Errorf ''lifecycle journal directory contains an invalid environment id''),
                  check (\<not> ed_Safe dir)
                    (Errorf ''lifecycle environment journal directory is unsafe'')]) (d_Dirs d)) of
                Some e \<Rightarrow> Inl e
              | None \<Rightarrow> Inr (sort (map fst (d_Dirs d)))))"

text \<open>An unreadable store or journal yields no entry.\<close>

fun blocked_loop :: "disk \<Rightarrow> string list \<Rightarrow> (string \<times> string) list" where
  "blocked_loop d [] = []"
| "blocked_loop d (env # envs) =
     (case Load d env of
        (Inl _, d1) \<Rightarrow> blocked_loop d1 envs
      | (Inr j, d1) \<Rightarrow>
          if rc_State (j_Reconciliation j) \<noteq> ''blocked'' then blocked_loop d1 envs
          else (env, if rc_ReasonCode (j_Reconciliation j) = [] then ''reconciliation-blocked''
                     else rc_ReasonCode (j_Reconciliation j)) # blocked_loop d1 envs)"

definition BlockedEnvironmentReconciliations :: "disk \<Rightarrow> (string \<times> string) list" where
  "BlockedEnvironmentReconciliations d =
     (case ListEnvironmentIDs d of Inl _ \<Rightarrow> [] | Inr ids \<Rightarrow> blocked_loop d ids)"

section \<open>Files under the primitives\<close>

lemma io_step_simps [simp]:
  "d_Dirs (snd (io_step d)) = d_Dirs d" "d_JSONSize (snd (io_step d)) = d_JSONSize d"
  "d_IO (snd (io_step d)) = d_IO d" "d_RootSafe (snd (io_step d)) = d_RootSafe d"
  "d_LifecycleDir (snd (io_step d)) = d_LifecycleDir d"
  by (simp_all add: io_step_def)

lemma io_stepD:
  "io_step d = (ok, d1) \<Longrightarrow> ok = d_IO d (d_Clock d) \<and> d_Dirs d1 = d_Dirs d \<and>
     d_JSONSize d1 = d_JSONSize d \<and> d_IO d1 = d_IO d \<and> d_RootSafe d1 = d_RootSafe d \<and>
     d_LifecycleDir d1 = d_LifecycleDir d"
  by (auto simp: io_step_def)

lemma lookup_file_dirs: "d_Dirs d = d_Dirs d' \<Longrightarrow> lookup_file d = lookup_file d'"
  by (simp add: lookup_file_def fun_eq_iff)

lemma lookup_put_file:
  "lookup_file (put_file d env n f) env' n' =
     (if env' = env \<and> n' = n \<and> map_of (d_Dirs d) env \<noteq> None then Some f else lookup_file d env' n')"
  by (auto simp: lookup_file_def put_file_def put_dir_def split: option.splits)

lemma lookup_delete_file:
  "lookup_file (delete_file d env n) env' n' =
     (if env' = env \<and> n' = n then None else lookup_file d env' n')"
  by (auto simp: lookup_file_def delete_file_def put_dir_def split: option.splits)

lemma put_file_fields [simp]:
  "d_JSONSize (put_file d env n f) = d_JSONSize d" "d_IO (put_file d env n f) = d_IO d"
  "d_RootSafe (put_file d env n f) = d_RootSafe d" "d_LifecycleDir (put_file d env n f) = d_LifecycleDir d"
  "(map_of (d_Dirs (put_file d env n f)) e = None) = (map_of (d_Dirs d) e = None)"
  by (auto simp: put_file_def put_dir_def split: option.splits)

lemma delete_file_fields [simp]:
  "d_JSONSize (delete_file d env n) = d_JSONSize d" "d_IO (delete_file d env n) = d_IO d"
  "d_RootSafe (delete_file d env n) = d_RootSafe d" "d_LifecycleDir (delete_file d env n) = d_LifecycleDir d"
  "(map_of (d_Dirs (delete_file d env n)) e = None) = (map_of (d_Dirs d) e = None)"
  by (auto simp: delete_file_def put_dir_def split: option.splits)

lemma environmentDir_files:
  assumes "environmentDir d env create = (r, d1)"
  shows "lookup_file d1 e n = lookup_file d e n" and "d_JSONSize d1 = d_JSONSize d"
    and "r = Inr dir \<Longrightarrow> map_of (d_Dirs d1) env = Some dir"
proof -
  show "lookup_file d1 e n = lookup_file d e n"
    using assms by (auto simp: environmentDir_def io_step_def lookup_file_def put_dir_def Let_def
        split: if_splits sum.splits option.splits prod.splits)
  show "d_JSONSize d1 = d_JSONSize d"
    using assms by (auto simp: environmentDir_def io_step_def put_dir_def Let_def
        split: if_splits sum.splits option.splits)
  show "map_of (d_Dirs d1) env = Some dir" if "r = Inr dir"
    using assms that by (auto simp: environmentDir_def io_step_def put_dir_def Let_def
        split: if_splits sum.splits option.splits)
qed

section \<open>A crash during Write leaves the old or the new journal\<close>

definition same_but :: "string \<Rightarrow> string \<Rightarrow> disk \<Rightarrow> disk \<Rightarrow> bool" where
  "same_but env temp d d' \<longleftrightarrow>
     (\<forall>e n. (e, n) \<noteq> (env, temp) \<longrightarrow> lookup_file d' e n = lookup_file d e n)"

lemma same_but_refl [simp]: "same_but env temp d d"
  by (simp add: same_but_def)

lemma same_but_trans: "same_but env temp d d' \<Longrightarrow> same_but env temp d' d'' \<Longrightarrow> same_but env temp d d''"
  by (simp add: same_but_def)

lemma same_but_io: "io_step d = (ok, d1) \<Longrightarrow> same_but env temp d d1"
  using lookup_file_dirs[of d1 d] io_stepD[of d ok d1] by (simp add: same_but_def)

lemma same_but_put: "same_but env temp d (put_file d env temp f)"
  by (simp add: same_but_def lookup_put_file)

lemma same_but_delete: "same_but env temp d (delete_file d env temp)"
  by (simp add: same_but_def lookup_delete_file)

lemma run_temp_trace:
  "run_temp env temp j ss f d = (done, f', ds) \<Longrightarrow>
     ds \<noteq> [] \<and> f_Regular f' = f_Regular f \<and> f_Private f' = f_Private f \<and>
     (\<forall>d' \<in> set ds. same_but env temp d d' \<and> d_JSONSize d' = d_JSONSize d \<and>
        (map_of (d_Dirs d') env = None) = (map_of (d_Dirs d) env = None))"
proof (induction env temp j ss f d arbitrary: "done" f' ds rule: run_temp.induct)
  case (2 env temp j s ss f d)
  obtain ok d1 where io: "io_step d = (ok, d1)" by (rule prod.exhaust)
  note d1 = io_stepD[OF io]
  show ?case
  proof (cases ok)
    case False
    with "2.prems" io d1 same_but_io[OF io] show ?thesis by auto
  next
    case True
    let ?f = "temp_effect d j s f"
    let ?d = "put_file d1 env temp ?f"
    obtain r g ds' where rec: "run_temp env temp j ss ?f ?d = (r, g, ds')" by (rule prod_cases3)
    with "2.prems" io True have eq: "ds = d # ds'" "f' = g" "done = r" by (simp_all add: Let_def)
    have step: "same_but env temp d ?d"
      using same_but_io[OF io] same_but_put by (rule same_but_trans)
    have f: "f_Regular ?f = f_Regular f" "f_Private ?f = f_Private f" by (cases s; simp)+
    from "2.IH"[OF io[symmetric] True refl rec] show ?thesis
      using eq f d1 by (auto intro: same_but_trans[OF step])
  qed
qed auto

lemma run_temp_content:
  "run_temp env temp j ss f d = (True, f', ds) \<Longrightarrow>
     StepWrite \<in> set ss \<or> f_Journal f = Some j \<and> f_Size f = d_JSONSize d j \<Longrightarrow>
     f_Journal f' = Some j \<and> f_Size f' = d_JSONSize d j"
proof (induction env temp j ss f d arbitrary: f' ds rule: run_temp.induct)
  case (2 env temp j s ss f d)
  obtain ok d1 where io: "io_step d = (ok, d1)" by (rule prod.exhaust)
  note d1 = io_stepD[OF io]
  have True: "ok" using "2.prems"(1) io by (cases ok) simp_all
  let ?f = "temp_effect d j s f"
  let ?d = "put_file d1 env temp ?f"
  obtain r g ds' where rec: "run_temp env temp j ss ?f ?d = (r, g, ds')" by (rule prod_cases3)
  with "2.prems"(1) io True have eq: "f' = g" "r" by (simp_all add: Let_def)
  have "StepWrite \<in> set ss \<or> f_Journal ?f = Some j \<and> f_Size ?f = d_JSONSize ?d j"
    using "2.prems"(2) d1 by (cases s) auto
  with "2.IH"[OF io[symmetric] True refl, of g ds'] rec eq d1 show ?case by simp
qed auto

definition new_journal_file :: "disk_file option \<Rightarrow> journal \<Rightarrow> bool" where
  "new_journal_file r j \<longleftrightarrow>
     (case r of None \<Rightarrow> False
      | Some f \<Rightarrow> f_Regular f \<and> f_Private f \<and> f_Size f \<le> maxJournalBytes \<and> f_Journal f = Some j)"

definition old_or_new :: "journal \<Rightarrow> disk \<Rightarrow> disk \<Rightarrow> bool" where
  "old_or_new j d d' \<longleftrightarrow>
     (\<forall>e n. e \<noteq> j_EnvironmentID j \<longrightarrow> lookup_file d' e n = lookup_file d e n) \<and>
     (lookup_file d' (j_EnvironmentID j) journalFileName =
        lookup_file d (j_EnvironmentID j) journalFileName \<or>
      new_journal_file (lookup_file d' (j_EnvironmentID j) journalFileName) j)"

lemma same_but_old_or_new:
  assumes "same_but (j_EnvironmentID j) temp d d'" and "temp \<noteq> journalFileName"
  shows "old_or_new j d d'"
  using assms by (auto simp: same_but_def old_or_new_def)

lemma old_or_new_base:
  "old_or_new j d1 d' \<Longrightarrow> lookup_file d1 = lookup_file d \<Longrightarrow> old_or_new j d d'"
  by (simp add: old_or_new_def)

lemma write_rename_trace:
  assumes "write_rename (j_EnvironmentID j) temp f d0 = (e, ds)"
    and "same_but (j_EnvironmentID j) temp d d0" "temp \<noteq> journalFileName"
    and "map_of (d_Dirs d0) (j_EnvironmentID j) \<noteq> None" "new_journal_file (Some f) j"
  shows "ds \<noteq> []" and "\<forall>d' \<in> set ds. old_or_new j d d'"
    and "e = None \<Longrightarrow> new_journal_file (lookup_file (last ds) (j_EnvironmentID j) journalFileName) j"
proof -
  let ?env = "j_EnvironmentID j"
  obtain ok d1 where io: "io_step d0 = (ok, d1)" by (rule prod.exhaust)
  have "lookup_file d1 = lookup_file d0" using io_stepD[OF io] lookup_file_dirs[of d1 d0] by simp
  then have s1: "same_but ?env temp d d1" using assms(2) by (simp add: same_but_def)
  have s2: "same_but ?env temp d (delete_file d1 ?env temp)"
    using s1 same_but_delete by (rule same_but_trans)
  let ?d2 = "put_file (delete_file d1 ?env temp) ?env journalFileName f"
  obtain ok' d3 where io': "io_step ?d2 = (ok', d3)" by (rule prod.exhaust)
  have d3: "lookup_file d3 = lookup_file ?d2" using io_stepD[OF io'] lookup_file_dirs[of d3 ?d2] by simp
  have dir: "map_of (d_Dirs (delete_file d1 ?env temp)) ?env \<noteq> None"
    using io_stepD[OF io] assms(4) by simp
  have new: "lookup_file ?d2 ?env journalFileName = Some f"
    using dir by (simp add: lookup_put_file)
  have "old_or_new j d ?d2"
    using s2 new assms(5) by (simp add: old_or_new_def same_but_def lookup_put_file)
  moreover from this have "old_or_new j d d3" by (simp add: old_or_new_def d3)
  moreover have "ds = (if ok then [?d2, d3] else [d1, delete_file d1 ?env temp])"
    and e: "e = (if ok then if ok' then None else Some (IOError ''sync directory'') else Some (IOError ''rename''))"
    using assms(1) io io' by (auto simp: write_rename_def Let_def)
  moreover note same_but_old_or_new[OF s1 assms(3)] same_but_old_or_new[OF s2 assms(3)]
  ultimately show "ds \<noteq> []" and "\<forall>d' \<in> set ds. old_or_new j d d'"
    and "e = None \<Longrightarrow> new_journal_file (lookup_file (last ds) ?env journalFileName) j"
    using new d3 assms(5) by (auto split: if_splits)
qed

lemma temp_name_not_journal: "tempPrefix @ s \<noteq> journalFileName"
  by simp

lemma write_temp_trace:
  assumes "write_temp (j_EnvironmentID j) j d = (e, ds)"
    and "map_of (d_Dirs d) (j_EnvironmentID j) \<noteq> None" "d_JSONSize d j \<le> maxJournalBytes"
  shows "ds \<noteq> [] \<and> (\<forall>d' \<in> set ds. old_or_new j d d') \<and>
    (e = None \<longrightarrow> new_journal_file (lookup_file (last ds) (j_EnvironmentID j) journalFileName) j)"
proof -
  let ?env = "j_EnvironmentID j"
  let ?temp = "temp_name d"
  obtain ok d1 where io: "io_step d = (ok, d1)" by (rule prod.exhaust)
  note d1 = io_stepD[OF io]
  have temp: "?temp \<noteq> journalFileName" by (simp add: temp_name_def)
  have s1: "same_but ?env ?temp d d1" using io by (rule same_but_io)
  show ?thesis
  proof (cases "\<not> ok \<or> lookup_file d ?env ?temp \<noteq> None")
    case True
    then have "e = Some (IOError ''create temp'')" "ds = [d1]"
      using assms(1) io by (auto simp: write_temp_def)
    then show ?thesis using same_but_old_or_new[OF s1 temp] by simp
  next
    case False
    let ?d2 = "put_file d1 ?env ?temp empty_file"
    have s2: "same_but ?env ?temp d ?d2" using s1 same_but_put by (rule same_but_trans)
    obtain fin f ds1 where run:
      "run_temp ?env ?temp j [StepChmod, StepWrite, StepSync, StepClose] empty_file ?d2 = (fin, f, ds1)"
      by (rule prod_cases3)
    note tr = run_temp_trace[OF run]
    have all: "same_but ?env ?temp d d'" if "d' \<in> set ds1" for d'
      using tr that same_but_trans[OF s2] by blast
    have last: "last ds1 \<in> set ds1" using tr by simp
    have lastd: "same_but ?env ?temp d (delete_file (last ds1) ?env ?temp)"
      using all[OF last] same_but_delete by (rule same_but_trans)
    have old: "\<forall>d' \<in> set ds1. old_or_new j d d'"
      using all same_but_old_or_new[OF _ temp] by blast
    show ?thesis
    proof (cases fin)
      case False
      then have "ds = ds1 @ [delete_file (last ds1) ?env ?temp] \<and> e = Some (IOError ''write temp'')"
        using assms(1) io \<open>\<not> (\<not> ok \<or> lookup_file d ?env ?temp \<noteq> None)\<close> run
        by (auto simp: write_temp_def)
      then show ?thesis using old same_but_old_or_new[OF lastd temp] by simp
    next
      case True
      obtain e' ds2 where ren: "write_rename ?env ?temp f (last ds1) = (e', ds2)" by (rule prod.exhaust)
      have res: "ds = ds1 @ ds2" "e = e'"
        using assms(1) io \<open>\<not> (\<not> ok \<or> lookup_file d ?env ?temp \<noteq> None)\<close> run True ren
        by (auto simp: write_temp_def)
      have "f_Journal f = Some j \<and> f_Size f = d_JSONSize d j"
        using run_temp_content[OF run[unfolded eqTrueI[OF True]]] d1 by simp
      then have new: "new_journal_file (Some f) j"
        using tr assms(3) by (simp add: new_journal_file_def empty_file_def)
      have dir: "map_of (d_Dirs (last ds1)) ?env \<noteq> None"
        using tr last assms(2) d1 by auto
      from write_rename_trace[OF ren all[OF last] temp dir new] show ?thesis
        using old res by auto
    qed
  qed
qed

lemma Write_trace_old_or_new:
  assumes "Write_trace d j = (e, ds)"
  shows "ds \<noteq> [] \<and> (\<forall>d' \<in> set ds. old_or_new j d d') \<and>
    (e = None \<longrightarrow> Journal_Validate j = None \<and>
       new_journal_file (lookup_file (last ds) (j_EnvironmentID j) journalFileName) j)"
proof (cases "Journal_Validate j")
  case (Some a)
  then show ?thesis using assms by (auto simp: Write_trace_def old_or_new_def)
next
  case None
  obtain r d1 where ed: "environmentDir d (j_EnvironmentID j) True = (r, d1)" by (rule prod.exhaust)
  have same: "lookup_file d1 = lookup_file d" using environmentDir_files(1)[OF ed] by (intro ext)
  then have base: "old_or_new j d d" "old_or_new j d d1" by (simp_all add: old_or_new_def)
  obtain e2 ds2 where wt: "write_temp (j_EnvironmentID j) j d1 = (e2, ds2)" by (rule prod.exhaust)
  show ?thesis
  proof (cases r)
    case (Inl a)
    then show ?thesis using assms None ed base by (auto simp: Write_trace_def)
  next
    case (Inr dir)
    have dir: "map_of (d_Dirs d1) (j_EnvironmentID j) \<noteq> None"
      using environmentDir_files(3)[OF ed Inr] by simp
    show ?thesis
    proof (cases "(e, ds) = (e2, d # d1 # ds2) \<and> d_JSONSize d1 j \<le> maxJournalBytes")
      case True
      from write_temp_trace[OF wt dir] True None base old_or_new_base[OF _ same, of j]
      show ?thesis by auto
    next
      case False
      then have "ds = [d, d1] \<and> e \<noteq> None"
        using assms None ed Inr wt by (auto simp: Write_trace_def split: if_splits)
      then show ?thesis using base by auto
    qed
  qed
qed

section \<open>Invariants of the disk along Write\<close>

definition clean_file :: "string \<Rightarrow> disk_file \<Rightarrow> bool" where
  "clean_file n f \<longleftrightarrow> check_stale (n, f) = None \<and> f_Regular f"

lemma validStale_temp: "validStaleJournalTempName (tempPrefix @ show_nat (unat (w :: 32 word)))"
proof -
  have "unat w < (10::nat) ^ 20" by (rule order.strict_trans[OF unsigned_less]) simp
  then have "length (show_nat (unat w)) \<le> 20" by (rule show_nat_length) simp
  moreover have "list_all is_digit (show_nat (unat w))" "show_nat (unat w) \<noteq> []"
    by (simp_all add: show_nat_digits list_all_iff)
  ultimately show ?thesis
    unfolding validStaleJournalTempName_def strip_prefix_append by simp
qed

lemma run_temp_inv:
  assumes io: "\<And>d ok d'. io_step d = (ok, d') \<Longrightarrow> P d \<Longrightarrow> P d'"
    and put: "\<And>d f. P d \<Longrightarrow> clean_file temp f \<Longrightarrow> P (put_file d env temp f)"
  shows "run_temp env temp j ss f d = (fin, f', ds) \<Longrightarrow> P d \<Longrightarrow> d_JSONSize d j \<le> maxJournalBytes \<Longrightarrow>
     clean_file temp f \<Longrightarrow> temp \<noteq> journalFileName \<Longrightarrow> \<forall>d' \<in> set ds. P d'"
proof (induction ss arbitrary: f d fin f' ds)
  case (Cons s ss)
  obtain ok d1 where step: "io_step d = (ok, d1)" by (rule prod.exhaust)
  note d1 = io_stepD[OF step] io[OF step Cons.prems(2)]
  let ?f = "temp_effect d j s f"
  let ?d = "put_file d1 env temp ?f"
  obtain r g ds' where rec: "run_temp env temp j ss ?f ?d = (r, g, ds')" by (rule prod_cases3)
  have clean: "clean_file temp ?f"
    using Cons.prems(3-5) by (cases s) (auto simp: clean_file_def check_stale_def first_err_None)
  have size: "d_JSONSize ?d j \<le> maxJournalBytes" using d1(1) Cons.prems(3) by simp
  have "\<forall>d' \<in> set ds'. P d'"
    using Cons.IH[OF rec put[OF d1(2) clean] size clean Cons.prems(5)] .
  then show ?case
    using Cons.prems(1,2) step rec d1(2) by (cases ok) (auto simp: Let_def)
qed auto

lemma write_temp_inv:
  assumes io: "\<And>d ok d'. io_step d = (ok, d') \<Longrightarrow> P d \<Longrightarrow> P d'"
    and put: "\<And>d n f. P d \<Longrightarrow> clean_file n f \<Longrightarrow> P (put_file d env n f)"
    and del: "\<And>d n. P d \<Longrightarrow> P (delete_file d env n)"
    and w: "write_temp env j d = (e, ds)" and P: "P d" and size: "d_JSONSize d j \<le> maxJournalBytes"
  shows "\<forall>d' \<in> set ds. P d'"
proof -
  let ?temp = "temp_name d"
  obtain ok d1 where step: "io_step d = (ok, d1)" by (rule prod.exhaust)
  note d1 = io_stepD[OF step] io[OF step P]
  have temp: "?temp \<noteq> journalFileName" by (simp add: temp_name_def)
  have f0: "clean_file ?temp empty_file"
    using validStale_temp by (simp add: clean_file_def check_stale_def first_err_None temp_name_def empty_file_def)
  let ?d2 = "put_file d1 env ?temp empty_file"
  obtain fin f ds1 where run:
    "run_temp env ?temp j [StepChmod, StepWrite, StepSync, StepClose] empty_file ?d2 = (fin, f, ds1)"
    by (rule prod_cases3)
  have all: "\<forall>d' \<in> set ds1. P d'"
    using run_temp_inv[of P, OF io put run put[OF d1(2) f0] _ f0 temp] d1(1) size by simp
  have ne: "ds1 \<noteq> []" "f_Regular f" using run_temp_trace[OF run] by (auto simp: empty_file_def)
  then have last: "P (last ds1)" using all by simp
  have f: "clean_file journalFileName f" using ne by (simp add: clean_file_def check_stale_def)
  obtain e' ds2 where ren: "write_rename env ?temp f (last ds1) = (e', ds2)" by (rule prod.exhaust)
  have ren_all: "\<forall>d' \<in> set ds2. P d'"
  proof -
    obtain ok1 d3 where s3: "io_step (last ds1) = (ok1, d3)" by (rule prod.exhaust)
    let ?d4 = "put_file (delete_file d3 env ?temp) env journalFileName f"
    obtain ok2 d5 where s5: "io_step ?d4 = (ok2, d5)" by (rule prod.exhaust)
    have "P d3" by (rule io[OF s3 last])
    then have "P (delete_file d3 env ?temp)" by (rule del)
    then have "P ?d4" using f by (rule put)
    then have "P d5" by (rule io[OF s5])
    with \<open>P d3\<close> \<open>P (delete_file d3 env ?temp)\<close> \<open>P ?d4\<close> show ?thesis
      using ren s3 s5 by (auto simp: write_rename_def Let_def split: if_splits)
  qed
  have "(e, ds) = (if \<not> ok \<or> lookup_file d env ?temp \<noteq> None then (Some (IOError ''create temp''), [d1])
    else if \<not> fin then (Some (IOError ''write temp''), ds1 @ [delete_file (last ds1) env ?temp])
    else (e', ds1 @ ds2))"
    using w step run ren
    by (auto simp del: run_temp.simps simp: write_temp_def split: if_splits)
  then show ?thesis
    using d1(2) all ren_all del[OF last] by (auto split: if_splits)
qed

text \<open>
  A directory is clean when it holds nothing but the journal and bounded private temporary
  files, and reachable when every directory on the way to it is private.
\<close>

definition env_clean :: "disk \<Rightarrow> string \<Rightarrow> bool" where
  "env_clean d env \<longleftrightarrow>
     (case map_of (d_Dirs d) env of
        None \<Rightarrow> True | Some dir \<Rightarrow> list_all (\<lambda>(n, f). clean_file n f) (ed_Files dir))"

definition env_reachable :: "disk \<Rightarrow> string \<Rightarrow> bool" where
  "env_reachable d env \<longleftrightarrow>
     idPattern env \<and> d_RootSafe d \<and> d_LifecycleDir d = Some True \<and>
     (case map_of (d_Dirs d) env of None \<Rightarrow> False | Some dir \<Rightarrow> ed_Safe dir)"

definition disk_wf :: "disk \<Rightarrow> bool" where
  "disk_wf d \<longleftrightarrow> d_LifecycleDir d = None \<longrightarrow> d_Dirs d = []"

lemma env_clean_io: "io_step d = (ok, d') \<Longrightarrow> env_clean d env \<Longrightarrow> env_clean d' env"
  by (drule io_stepD) (simp add: env_clean_def)

lemma env_clean_put:
  "env_clean d env \<Longrightarrow> clean_file n f \<Longrightarrow> env_clean (put_file d env' n f) env"
  by (auto simp: env_clean_def put_file_def put_dir_def list_all_update split: option.splits)

lemma env_clean_delete: "env_clean d env \<Longrightarrow> env_clean (delete_file d env' n) env"
  by (auto simp: env_clean_def delete_file_def put_dir_def list_all_delete split: option.splits)

lemma env_reachable_io: "io_step d = (ok, d') \<Longrightarrow> env_reachable d env \<Longrightarrow> env_reachable d' env"
  by (drule io_stepD) (simp add: env_reachable_def)

lemma env_reachable_put: "env_reachable d env \<Longrightarrow> env_reachable (put_file d env' n f) env"
  by (auto simp: env_reachable_def put_file_def put_dir_def split: option.splits)

lemma env_reachable_delete: "env_reachable d env \<Longrightarrow> env_reachable (delete_file d env' n) env"
  by (auto simp: env_reachable_def delete_file_def put_dir_def split: option.splits)

lemma disk_wf_io: "io_step d = (ok, d') \<Longrightarrow> disk_wf d \<Longrightarrow> disk_wf d'"
  by (drule io_stepD) (simp add: disk_wf_def)

lemma disk_wf_put: "disk_wf d \<Longrightarrow> disk_wf (put_file d env n f)"
  by (auto simp: disk_wf_def put_file_def put_dir_def split: option.splits)

lemma disk_wf_delete: "disk_wf d \<Longrightarrow> disk_wf (delete_file d env n)"
  by (auto simp: disk_wf_def delete_file_def put_dir_def split: option.splits)

lemma environmentDir_shape:
  assumes "environmentDir d env create = (r, d1)"
  shows "d_RootSafe d1 = d_RootSafe d"
    and "d_LifecycleDir d1 = d_LifecycleDir d \<or> d_LifecycleDir d1 = Some True"
    and "d_Dirs d1 = d_Dirs d \<or> map_of (d_Dirs d) env = None \<and> d_LifecycleDir d1 = Some True \<and>
           d_Dirs d1 = AList.update env \<lparr>ed_Safe = True, ed_Files = []\<rparr> (d_Dirs d)"
    and "r = Inr dir \<Longrightarrow> idPattern env \<and> d_RootSafe d \<and> d_LifecycleDir d1 = Some True \<and> ed_Safe dir"
proof -
  note defs = environmentDir_def io_step_def put_dir_def Let_def
  show "d_RootSafe d1 = d_RootSafe d"
    using assms by (simp add: defs split: if_splits sum.splits option.splits) auto
  show "d_LifecycleDir d1 = d_LifecycleDir d \<or> d_LifecycleDir d1 = Some True"
    using assms by (simp add: defs split: if_splits sum.splits option.splits) auto
  show "d_Dirs d1 = d_Dirs d \<or> map_of (d_Dirs d) env = None \<and> d_LifecycleDir d1 = Some True \<and>
           d_Dirs d1 = AList.update env \<lparr>ed_Safe = True, ed_Files = []\<rparr> (d_Dirs d)"
    using assms by (simp add: defs split: if_splits sum.splits option.splits) auto
  show "idPattern env \<and> d_RootSafe d \<and> d_LifecycleDir d1 = Some True \<and> ed_Safe dir" if "r = Inr dir"
    using assms that by (simp add: defs split: if_splits sum.splits option.splits) auto
qed

lemma environmentDir_inv:
  assumes "environmentDir d env create = (r, d1)"
  shows "disk_wf d \<Longrightarrow> disk_wf d1" and "env_clean d e \<Longrightarrow> env_clean d1 e"
    and "env_reachable d e \<Longrightarrow> env_reachable d1 e"
    and "r = Inr dir \<Longrightarrow> env_reachable d1 env"
proof -
  note sh = environmentDir_shape[OF assms]
  show "disk_wf d1" if "disk_wf d" using sh(2,3) that by (auto simp: disk_wf_def)
  show "env_clean d1 e" if "env_clean d e" using sh(3) that by (auto simp: env_clean_def)
  show "env_reachable d1 e" if "env_reachable d e"
    using sh(1-3) that by (auto simp: env_reachable_def split: option.splits if_splits)
  show "env_reachable d1 env" if "r = Inr dir"
    using sh(1) sh(4)[OF that] environmentDir_files(3)[OF assms that] by (simp add: env_reachable_def)
qed

lemma environmentDir_reachable:
  assumes "env_reachable d env"
  obtains dir where "map_of (d_Dirs d) env = Some dir"
    and "environmentDir d env False = (Inr dir, d\<lparr>d_Clock := d_Clock d + 2\<rparr>)"
proof -
  from assms obtain dir where "map_of (d_Dirs d) env = Some dir" "ed_Safe dir"
    by (auto simp: env_reachable_def split: option.splits)
  moreover have "d\<lparr>d_LifecycleDir := Some True\<rparr> = d" using assms by (simp add: env_reachable_def)
  ultimately show thesis
    using assms by (intro that[of dir]) (simp_all add: environmentDir_def io_step_def env_reachable_def)
qed

lemma Write_trace_inv:
  assumes io: "\<And>d ok d'. io_step d = (ok, d') \<Longrightarrow> P d \<Longrightarrow> P d'"
    and put: "\<And>d n f. P d \<Longrightarrow> clean_file n f \<Longrightarrow> P (put_file d (j_EnvironmentID j) n f)"
    and del: "\<And>d n. P d \<Longrightarrow> P (delete_file d (j_EnvironmentID j) n)"
    and dir: "\<And>d r d'. environmentDir d (j_EnvironmentID j) True = (r, d') \<Longrightarrow> P d \<Longrightarrow> P d'"
    and w: "Write_trace d j = (e, ds)" and P: "P d"
  shows "\<forall>d' \<in> set ds. P d'"
proof -
  obtain r d1 where ed: "environmentDir d (j_EnvironmentID j) True = (r, d1)" by (rule prod.exhaust)
  obtain e2 ds2 where wt: "write_temp (j_EnvironmentID j) j d1 = (e2, ds2)" by (rule prod.exhaust)
  have P1: "P d1" by (rule dir[OF ed P])
  have all: "\<forall>d' \<in> set ds2. P d'" if "d_JSONSize d1 j \<le> maxJournalBytes"
    using write_temp_inv[of P, OF io put del wt P1 that] .
  have "ds = [d] \<or> ds = [d, d1] \<or> ds = d # d1 # ds2 \<and> d_JSONSize d1 j \<le> maxJournalBytes"
    using w ed wt by (auto simp: Write_trace_def split: option.splits sum.splits if_splits)
  then show ?thesis using P P1 all by auto
qed

lemma Write_trace_clean:
  "Write_trace d j = (e, ds) \<Longrightarrow> env_clean d env \<Longrightarrow> \<forall>d' \<in> set ds. env_clean d' env"
  by (rule Write_trace_inv[of "\<lambda>d. env_clean d env"])
     (rule env_clean_io env_clean_put env_clean_delete environmentDir_inv(2); assumption)+

lemma Write_trace_reachable:
  "Write_trace d j = (e, ds) \<Longrightarrow> env_reachable d env \<Longrightarrow> \<forall>d' \<in> set ds. env_reachable d' env"
  by (rule Write_trace_inv[of "\<lambda>d. env_reachable d env"])
     (rule env_reachable_io env_reachable_put env_reachable_delete environmentDir_inv(3); assumption)+

lemma Write_trace_wf:
  "Write_trace d j = (e, ds) \<Longrightarrow> disk_wf d \<Longrightarrow> \<forall>d' \<in> set ds. disk_wf d'"
  by (rule Write_trace_inv[of disk_wf])
     (rule disk_wf_io disk_wf_put disk_wf_delete environmentDir_inv(1); assumption)+

lemma Write_reachable:
  assumes "Write d j = (None, d')"
  shows "env_reachable d' (j_EnvironmentID j)"
proof -
  let ?env = "j_EnvironmentID j"
  obtain ds where tr: "Write_trace d j = (None, ds)" and d': "d' = last ds"
    using assms by (auto simp: Write_def split: prod.splits)
  obtain r d1 where ed: "environmentDir d ?env True = (r, d1)" by (rule prod.exhaust)
  obtain ds2 where wt: "write_temp ?env j d1 = (None, ds2)" and ds: "ds = d # d1 # ds2"
    and size: "d_JSONSize d1 j \<le> maxJournalBytes" and r: "\<exists>dir. r = Inr dir"
    using tr ed by (auto simp: Write_trace_def split: option.splits sum.splits if_splits prod.splits)
  from r have reach: "env_reachable d1 ?env" using environmentDir_inv(4)[OF ed] by blast
  have all: "\<forall>d' \<in> set ds2. env_reachable d' ?env"
    by (rule write_temp_inv[of "\<lambda>d. env_reachable d ?env", OF _ _ _ wt reach size])
       (rule env_reachable_io env_reachable_put env_reachable_delete; assumption)+
  show ?thesis using all reach ds d' by (cases ds2 rule: rev_cases) simp_all
qed

section \<open>Removing an environment\<close>

definition env_safe :: "disk \<Rightarrow> string \<Rightarrow> bool" where
  "env_safe d env \<longleftrightarrow>
     idPattern env \<and> d_RootSafe d \<and> d_LifecycleDir d \<noteq> Some False \<and>
     (case map_of (d_Dirs d) env of None \<Rightarrow> True | Some dir \<Rightarrow> ed_Safe dir)"

definition io_works :: "disk \<Rightarrow> bool" where
  "io_works d \<longleftrightarrow> (\<forall>n \<ge> d_Clock d. d_IO d n)"

lemma env_safe_io: "io_step d = (ok, d') \<Longrightarrow> env_safe d env \<Longrightarrow> env_safe d' env"
  by (drule io_stepD) (simp add: env_safe_def)

lemma env_safe_put: "env_safe d env \<Longrightarrow> env_safe (put_file d env' n f) env"
  by (auto simp: env_safe_def put_file_def put_dir_def split: option.splits)

lemma env_safe_delete: "env_safe d env \<Longrightarrow> env_safe (delete_file d env' n) env"
  by (auto simp: env_safe_def delete_file_def put_dir_def split: option.splits)

lemma env_safe_dir:
  assumes "environmentDir d env' create = (r, d1)" and "env_safe d env"
  shows "env_safe d1 env"
  using environmentDir_shape(1-3)[OF assms(1)] assms(2)
  by (auto simp: env_safe_def split: option.splits if_splits)

lemma Write_trace_safe:
  "Write_trace d j = (e, ds) \<Longrightarrow> env_safe d env \<Longrightarrow> \<forall>d' \<in> set ds. env_safe d' env"
  by (rule Write_trace_inv[of "\<lambda>d. env_safe d env"])
     (rule env_safe_io env_safe_put env_safe_delete env_safe_dir; assumption)+

lemma io_works_step: "io_works d \<Longrightarrow> io_step d = (ok, d') \<Longrightarrow> ok \<and> io_works d'"
  by (auto simp: io_works_def io_step_def)

lemma io_works_delete [simp]: "io_works (delete_file d env n) = io_works d"
  by (simp add: io_works_def delete_file_def put_dir_def split: option.splits)

lemma delete_file_dirs:
  "map_of (d_Dirs (delete_file d env n)) env =
     map_option (\<lambda>dir. dir\<lparr>ed_Files := AList.delete n (ed_Files dir)\<rparr>) (map_of (d_Dirs d) env)"
  by (simp add: delete_file_def put_dir_def split: option.splits)

text \<open>Deleting a list of names leaves the other files.\<close>

lemma delete_files_works:
  assumes "io_works d" and "map_of (d_Dirs d) env = Some dir"
  shows "\<exists>d' dir'. delete_files env ns d = (None, d') \<and> io_works d' \<and>
    map_of (d_Dirs d') env = Some dir' \<and> ed_Files dir' = filter (\<lambda>e. fst e \<notin> set ns) (ed_Files dir)"
  using assms
proof (induction ns arbitrary: d dir)
  case (Cons n ns)
  obtain ok d1 where io: "io_step d = (ok, d1)" by (rule prod.exhaust)
  have ok: "ok" "io_works d1" using io_works_step[OF Cons.prems(1) io] by simp_all
  have "map_of (d_Dirs (delete_file d1 env n)) env = Some (dir\<lparr>ed_Files := AList.delete n (ed_Files dir)\<rparr>)"
    using Cons.prems(2) io_stepD[OF io] by (simp add: delete_file_dirs)
  from Cons.IH[OF _ this] ok show ?case
    by (auto simp: io AList_delete_filter conj_commute)
qed simp

lemma delete_files_lookup:
  "delete_files env ns d = (e, d') \<Longrightarrow> (env', n) \<notin> {env} \<times> set ns \<Longrightarrow>
     lookup_file d' env' n = lookup_file d env' n"
proof (induction ns arbitrary: d)
  case (Cons m ns)
  obtain ok d1 where io: "io_step d = (ok, d1)" by (rule prod.exhaust)
  have "lookup_file d1 = lookup_file d" using io_stepD[OF io] lookup_file_dirs[of d1 d] by simp
  then show ?case using Cons io by (auto simp: lookup_delete_file split: if_splits)
qed simp

lemma Remove_clean:
  assumes "env_clean d env" "env_safe d env" "io_works d"
  shows "\<exists>d'. Remove d env = (None, d') \<and> (disk_wf d \<longrightarrow> map_of (d_Dirs d') env = None)"
proof (cases "env_reachable d env")
  case True
  then obtain dir where dir: "map_of (d_Dirs d) env = Some dir"
    and ed: "environmentDir d env False = (Inr dir, d\<lparr>d_Clock := d_Clock d + 2\<rparr>)"
    by (rule environmentDir_reachable)
  let ?d = "d\<lparr>d_Clock := d_Clock d + 2\<rparr>"
  let ?ns = "filter (\<lambda>n. n \<noteq> journalFileName) (map fst (ed_Files dir))"
  have works: "io_works ?d" using assms(3) by (simp add: io_works_def)
  have clean: "list_all (\<lambda>(n, f). clean_file n f) (ed_Files dir)"
    using assms(1) dir by (simp add: env_clean_def)
  obtain d2 dir2 where del: "delete_files env ?ns ?d = (None, d2)" and works2: "io_works d2"
    and dir2: "map_of (d_Dirs d2) env = Some dir2"
    and files: "ed_Files dir2 = filter (\<lambda>e. fst e \<notin> set ?ns) (ed_Files dir)"
    using delete_files_works[OF works, of env dir ?ns] dir by auto
  have "first_err (map check_stale (ed_Files dir)) = None"
    using clean by (auto simp: first_err_None list_all_iff clean_file_def)
  then have stale: "removeStaleJournalTemps env dir ?d = (None, d2)"
    using del by (simp add: removeStaleJournalTemps_def del: first_err_None)
  have regular: "\<not> (case map_of (ed_Files dir) journalFileName of None \<Rightarrow> False | Some f \<Rightarrow> \<not> f_Regular f)"
    using clean by (auto simp: list_all_iff clean_file_def split: option.splits dest!: map_of_SomeD)
  obtain ok3 d3 where io3: "io_step d2 = (ok3, d3)" by (rule prod.exhaust)
  note w3 = io_works_step[OF works2 io3]
  let ?d4 = "delete_file d3 env journalFileName"
  have empty: "\<exists>dir4. map_of (d_Dirs ?d4) env = Some dir4 \<and> ed_Files dir4 = []"
    using dir2 files io_stepD[OF io3]
    by (auto simp: delete_file_dirs AList_delete_filter filter_empty_conv intro: rev_image_eqI)
  obtain ok5 d5 where io5: "io_step ?d4 = (ok5, d5)" by (rule prod.exhaust)
  have w5: "ok5 \<and> io_works d5" using io_works_step[OF _ io5] w3 by simp
  let ?d6 = "d5\<lparr>d_Dirs := AList.delete env (d_Dirs d5)\<rparr>"
  obtain ok7 d7 where io7: "io_step ?d6 = (ok7, d7)" by (rule prod.exhaust)
  have w7: "ok7" using io_works_step[OF _ io7] w5 by (simp add: io_works_def)
  have "Remove d env = (None, d7)"
    using ed regular stale io3 w3 io5 w5 empty io_stepD[OF io5] io7 w7
    by (auto simp: Remove_def remove_dir_def)
  moreover have "map_of (d_Dirs d7) env = None" using io_stepD[OF io7] by simp
  ultimately show ?thesis by blast
next
  case False
  then have none: "d_LifecycleDir d = None \<or> map_of (d_Dirs d) env = None"
    using assms(2) by (cases "d_LifecycleDir d") (auto simp: env_safe_def env_reachable_def split: option.splits)
  obtain r d1 where ed: "environmentDir d env False = (r, d1)" by (rule prod.exhaust)
  have r: "r = Inl ErrNotExist \<and> d_Dirs d1 = d_Dirs d"
    using ed none assms(2)
    by (cases "d_LifecycleDir d") (auto simp: environmentDir_def env_safe_def io_step_def)
  then have "Remove d env = (None, d1)" using ed by (simp add: Remove_def)
  then show ?thesis using none r by (auto simp: disk_wf_def)
qed

section \<open>What the store holds\<close>

definition stored :: "disk \<Rightarrow> string \<Rightarrow> journal option" where
  "stored d env =
     (case lookup_file d env journalFileName of
        None \<Rightarrow> None
      | Some f \<Rightarrow>
        if \<not> f_Regular f \<or> maxJournalBytes < f_Size f then None
        else (case f_Journal f of
                None \<Rightarrow> None
              | Some j \<Rightarrow> if Journal_Validate j = None \<and> j_EnvironmentID j = env then Some j else None))"

lemma stored_cong: "lookup_file d env journalFileName = lookup_file d' env journalFileName \<Longrightarrow> stored d env = stored d' env"
  by (simp add: stored_def)

lemma stored_valid: "stored d env = Some j \<Longrightarrow> Journal_Validate j = None \<and> j_EnvironmentID j = env"
  by (auto simp: stored_def split: option.splits if_splits)

lemma new_journal_file_stored:
  "new_journal_file (lookup_file d env journalFileName) j \<Longrightarrow> Journal_Validate j = None \<Longrightarrow>
     j_EnvironmentID j = env \<Longrightarrow> stored d env = Some j"
  by (auto simp: stored_def new_journal_file_def split: option.splits)

lemma Write_stored:
  assumes "Write d j = (e, d')"
  shows "env \<noteq> j_EnvironmentID j \<Longrightarrow> stored d' env = stored d env"
    and "stored d' (j_EnvironmentID j) = stored d (j_EnvironmentID j) \<or>
         stored d' (j_EnvironmentID j) = Some j"
    and "e = None \<Longrightarrow> stored d' (j_EnvironmentID j) = Some j"
proof -
  obtain ds where tr: "Write_trace d j = (e, ds)" and d': "d' = last ds"
    using assms by (auto simp: Write_def split: prod.splits)
  note w = Write_trace_old_or_new[OF tr]
  have last: "old_or_new j d d'" using w d' last_in_set by blast
  show "stored d' env = stored d env" if "env \<noteq> j_EnvironmentID j"
    using last that by (intro stored_cong) (simp add: old_or_new_def)
  show new: "stored d' (j_EnvironmentID j) = Some j" if "e = None"
    using w d' that by (intro new_journal_file_stored) auto
  show "stored d' (j_EnvironmentID j) = stored d (j_EnvironmentID j) \<or>
      stored d' (j_EnvironmentID j) = Some j"
  proof (cases "Journal_Validate j")
    case None
    with last stored_cong[of d' "j_EnvironmentID j" d] new_journal_file_stored[of d' _ j]
    show ?thesis unfolding old_or_new_def by blast
  next
    case (Some a)
    then have "d' = d" using tr d' by (auto simp: Write_trace_def)
    then show ?thesis by simp
  qed
qed

lemma Load_dir:
  assumes "Load d env = (r, d')"
  obtains e d1 where "environmentDir d env False = (Inl e, d1)" "r = Inl e" "d' = d1"
    | dir d1 where "environmentDir d env False = (Inr dir, d1)" "d_Dirs d' = d_Dirs d1"
        "d_LifecycleDir d' = d_LifecycleDir d1" "d_RootSafe d' = d_RootSafe d1"
proof -
  obtain s d1 where ed: "environmentDir d env False = (s, d1)" by (rule prod.exhaust)
  show thesis
  proof (cases s)
    case (Inl e)
    then show ?thesis using assms ed by (intro that(1)[of e d1]) (simp_all add: Load_def)
  next
    case (Inr dir)
    have "d' = d1 \<or> d' = snd (io_step d1)"
      using assms ed Inr
      by (simp add: Load_def split: option.splits if_splits prod.splits)
    then show ?thesis using ed Inr by (intro that(2)[of dir d1]) auto
  qed
qed

lemma Load_keeps:
  assumes "Load d env = (r, d')"
  shows "lookup_file d' = lookup_file d" and "disk_wf d \<Longrightarrow> disk_wf d'"
  using assms
proof (atomize (full), cases rule: Load_dir)
  case (1 e d1)
  then show "lookup_file d' = lookup_file d \<and> (disk_wf d \<longrightarrow> disk_wf d')"
    using environmentDir_files(1)[OF 1(1)] environmentDir_inv(1)[OF 1(1)] by (auto intro!: ext)
next
  case (2 dir d1)
  have "lookup_file d' = lookup_file d1" using 2(2) by (rule lookup_file_dirs)
  then show "lookup_file d' = lookup_file d \<and> (disk_wf d \<longrightarrow> disk_wf d')"
    using environmentDir_files(1)[OF 2(1)] environmentDir_inv(1)[OF 2(1)] 2
    by (auto intro!: ext simp: disk_wf_def)
qed

lemma environmentDir_absent:
  assumes "environmentDir d env False = (Inl ErrNotExist, d1)" and "disk_wf d"
  shows "map_of (d_Dirs d) env = None"
  using assms
  by (cases "d_LifecycleDir d"; cases "map_of (d_Dirs d) env")
     (auto simp: environmentDir_def io_step_def disk_wf_def split: if_splits)

lemma Load_stored:
  assumes "Load d env = (Inr j, d')"
  shows "stored d env = Some j"
proof -
  obtain r d1 where ed: "environmentDir d env False = (r, d1)" by (rule prod.exhaust)
  obtain dir where r: "r = Inr dir" using assms ed by (cases r) (simp_all add: Load_def)
  have "lookup_file d env journalFileName = lookup_file d1 env journalFileName"
    using environmentDir_files(1)[OF ed] by simp
  also have "\<dots> = map_of (ed_Files dir) journalFileName"
    using environmentDir_files(3)[OF ed r] by (simp add: lookup_file_def)
  finally show ?thesis
    using assms ed r
    by (auto simp: Load_def stored_def split: option.splits if_splits prod.splits)
qed

lemma Load_absent:
  assumes "Load d env = (Inl ErrNotExist, d')" and "disk_wf d"
  shows "stored d env = None"
proof -
  obtain r d1 where ed: "environmentDir d env False = (r, d1)" by (rule prod.exhaust)
  show ?thesis
  proof (cases r)
    case (Inl e)
    then have "environmentDir d env False = (Inl ErrNotExist, d1)" using assms(1) ed by (simp add: Load_def)
    then show ?thesis using environmentDir_absent assms(2) by (simp add: stored_def lookup_file_def)
  next
    case (Inr dir)
    have "lookup_file d env journalFileName = map_of (ed_Files dir) journalFileName"
      using environmentDir_files(1)[OF ed, of env journalFileName] environmentDir_files(3)[OF ed Inr]
      by (simp add: lookup_file_def)
    then show ?thesis
      using assms(1) ed Inr
      by (auto simp: Load_def stored_def split: option.splits if_splits prod.splits)
  qed
qed

lemma Load_returns:
  assumes "env_reachable d env" "stored d env = Some j" "d_IO d (d_Clock d + 2)"
  shows "fst (Load d env) = Inr j"
proof -
  from assms(1) obtain dir where dir: "map_of (d_Dirs d) env = Some dir"
    and ed: "environmentDir d env False = (Inr dir, d\<lparr>d_Clock := d_Clock d + 2\<rparr>)"
    by (rule environmentDir_reachable)
  then show ?thesis
    using assms(2,3)
    by (auto simp: Load_def stored_def lookup_file_def io_step_def split: option.splits if_splits)
qed

lemma io_step_lookup: "io_step d = (ok, d') \<Longrightarrow> lookup_file d' = lookup_file d"
  using io_stepD[of d ok d'] lookup_file_dirs[of d' d] by simp

lemma lookup_remove_dir:
  assumes "remove_dir env d = (e, d')"
  shows "(\<forall>env' n. env' \<noteq> env \<longrightarrow> lookup_file d' env' n = lookup_file d env' n) \<and>
    (\<forall>n. lookup_file d' env n = lookup_file d env n \<or> lookup_file d' env n = None) \<and>
    (disk_wf d \<longrightarrow> disk_wf d')"
proof -
  obtain ok d1 where io: "io_step d = (ok, d1)" by (rule prod.exhaust)
  let ?d2 = "d1\<lparr>d_Dirs := AList.delete env (d_Dirs d1)\<rparr>"
  obtain ok' d3 where io': "io_step ?d2 = (ok', d3)" by (rule prod.exhaust)
  have "d' = d1 \<or> d' = d3" using assms io io' by (auto simp: remove_dir_def split: if_splits)
  moreover have "lookup_file ?d2 env' n = (if env' = env then None else lookup_file d env' n)" for env' n
    using io_stepD[OF io] by (simp add: lookup_file_def)
  moreover have "disk_wf d \<Longrightarrow> disk_wf ?d2" using io_stepD[OF io] by (simp add: disk_wf_def)
  ultimately show ?thesis
    using io_step_lookup[OF io] io_step_lookup[OF io'] disk_wf_io[OF io] disk_wf_io[OF io'] by auto
qed

lemma delete_files_wf: "delete_files env ns d = (e, d') \<Longrightarrow> disk_wf d \<Longrightarrow> disk_wf d'"
proof (induction ns arbitrary: d)
  case (Cons m ns)
  obtain ok d1 where io: "io_step d = (ok, d1)" by (rule prod.exhaust)
  have "disk_wf d1" using io Cons.prems(2) by (rule disk_wf_io)
  then show ?case using Cons io disk_wf_delete by (auto split: if_splits)
qed simp

lemma removeStale_lookup:
  assumes "removeStaleJournalTemps env dir d = (e, d')"
  shows "(\<forall>env' n. env' \<noteq> env \<or> n = journalFileName \<longrightarrow> lookup_file d' env' n = lookup_file d env' n) \<and>
    (disk_wf d \<longrightarrow> disk_wf d')"
  using assms delete_files_lookup[of env _ d e d'] delete_files_wf[of env _ d e d']
  by (fastforce simp: removeStaleJournalTemps_def split: option.splits)

lemma Remove_lookup:
  assumes "Remove d env = (e, d')"
  shows "(\<forall>env' n. env' \<noteq> env \<longrightarrow> lookup_file d' env' n = lookup_file d env' n) \<and>
    lookup_file d' env journalFileName \<in> {None, lookup_file d env journalFileName} \<and>
    (disk_wf d \<longrightarrow> e = None \<longrightarrow> lookup_file d' env journalFileName = None) \<and>
    (disk_wf d \<longrightarrow> disk_wf d')"
proof -
  obtain r d1 where ed: "environmentDir d env False = (r, d1)" by (rule prod.exhaust)
  have l1: "lookup_file d1 = lookup_file d" using environmentDir_files(1)[OF ed] by (intro ext)
  note wf1 = environmentDir_inv(1)[OF ed]
  show ?thesis
  proof (cases r)
    case (Inl a)
    then have "d' = d1" "e = (if a = ErrNotExist then None else Some a)" using assms ed by (auto simp: Remove_def)
    then show ?thesis
      using l1 wf1 environmentDir_absent[of d env d1] ed Inl by (auto simp: lookup_file_def)
  next
    case (Inr dir)
    obtain e2 d2 where rs: "removeStaleJournalTemps env dir d1 = (e2, d2)" by (rule prod.exhaust)
    obtain ok d3 where io: "io_step d2 = (ok, d3)" by (rule prod.exhaust)
    let ?d4 = "delete_file d3 env journalFileName"
    obtain e5 d5 where rd: "remove_dir env ?d4 = (e5, d5)" by (rule prod.exhaust)
    note rs' = removeStale_lookup[OF rs] and rd' = lookup_remove_dir[OF rd]
    have "\<forall>n. lookup_file d5 env n = lookup_file ?d4 env n \<or> lookup_file d5 env n = None" using rd' by simp
    from this[THEN spec, of journalFileName]
    have j5: "lookup_file d5 env journalFileName = None" by (simp add: lookup_delete_file)
    have "d' = d1 \<and> e \<noteq> None \<or> d' = d2 \<and> e \<noteq> None \<or> d' = d3 \<and> e \<noteq> None \<or> d' = d5"
      using assms ed Inr rs io rd by (auto simp: Remove_def split: option.splits if_splits)
    then show ?thesis
      using l1 wf1 rs' rd' j5 io_step_lookup[OF io] disk_wf_io[OF io] disk_wf_delete[of d3]
      by (auto simp: lookup_delete_file)
  qed
qed

lemma Remove_stored:
  assumes "Remove d env = (e, d')"
  shows "env' \<noteq> env \<Longrightarrow> stored d' env' = stored d env'"
    and "stored d' env \<in> {None, stored d env}"
    and "disk_wf d \<Longrightarrow> e = None \<Longrightarrow> stored d' env = None"
    and "disk_wf d \<Longrightarrow> disk_wf d'"
  using Remove_lookup[OF assms] by (auto simp: stored_def)

section \<open>The interface of the journal store\<close>

text \<open>
  What the coordinator relies on: an environment's journal is independent of the others, a write
  that returns is durable, a failing write or removal leaves the old journal or has taken full
  effect, and a load returns what is held.
\<close>

locale journal_store =
  fixes inv :: "'d \<Rightarrow> bool"
    and held :: "'d \<Rightarrow> string \<Rightarrow> journal option"
    and save :: "'d \<Rightarrow> journal \<Rightarrow> lc_error option \<times> 'd"
    and load :: "'d \<Rightarrow> string \<Rightarrow> (lc_error + journal) \<times> 'd"
    and remove :: "'d \<Rightarrow> string \<Rightarrow> lc_error option \<times> 'd"
  assumes held_valid: "held d env = Some j \<Longrightarrow> Journal_Validate j = None \<and> j_EnvironmentID j = env"
    and write_inv: "inv d \<Longrightarrow> save d j = (e, d') \<Longrightarrow> inv d'"
    and write_other: "save d j = (e, d') \<Longrightarrow> env \<noteq> j_EnvironmentID j \<Longrightarrow> held d' env = held d env"
    and write_ok: "save d j = (None, d') \<Longrightarrow> held d' (j_EnvironmentID j) = Some j"
    and write_any: "save d j = (e, d') \<Longrightarrow>
      held d' (j_EnvironmentID j) \<in> {held d (j_EnvironmentID j), Some j}"
    and load_inv: "inv d \<Longrightarrow> load d env = (r, d') \<Longrightarrow> inv d'"
    and load_keeps: "load d env = (r, d') \<Longrightarrow> held d' = held d"
    and load_ok: "load d env = (Inr j, d') \<Longrightarrow> held d env = Some j"
    and load_absent: "inv d \<Longrightarrow> load d env = (Inl ErrNotExist, d') \<Longrightarrow> held d env = None"
    and remove_inv: "inv d \<Longrightarrow> remove d env = (e, d') \<Longrightarrow> inv d'"
    and remove_other: "remove d env = (e, d') \<Longrightarrow> env' \<noteq> env \<Longrightarrow> held d' env' = held d env'"
    and remove_ok: "inv d \<Longrightarrow> remove d env = (None, d') \<Longrightarrow> held d' env = None"
    and remove_any: "remove d env = (e, d') \<Longrightarrow> held d' env \<in> {None, held d env}"
begin

lemma load_after_write:
  assumes "save d j = (None, d1)" and "load d1 (j_EnvironmentID j) = (Inr j', d2)"
  shows "j' = j"
  using write_ok[OF assms(1)] load_ok[OF assms(2)] by simp

lemma write_rejects_invalid:
  assumes "save d j = (None, d')"
  shows "Journal_Validate j = None"
  using held_valid[OF write_ok[OF assms]] by simp

lemma load_after_remove:
  assumes "inv d" "remove d env = (None, d1)"
  shows "fst (load d1 env) \<noteq> Inr j"
proof
  assume "fst (load d1 env) = Inr j"
  then obtain d2 where "load d1 env = (Inr j, d2)" by (cases "load d1 env") auto
  from load_ok[OF this] remove_ok[OF assms] show False by simp
qed

end

lemma Write_in_trace: "Write d j = (e, d') \<Longrightarrow> \<exists>ds. Write_trace d j = (e, ds) \<and> d' \<in> set ds"
  using Write_trace_old_or_new by (auto simp: Write_def split: prod.splits)

interpretation js: journal_store disk_wf stored Write Load Remove
proof
  fix d j e d' env r env'
  show "stored d env = Some j \<Longrightarrow> Journal_Validate j = None \<and> j_EnvironmentID j = env" by (rule stored_valid)
  show "disk_wf d'" if "disk_wf d" "Write d j = (e, d')"
    using Write_in_trace[OF that(2)] Write_trace_wf[OF _ that(1)] by blast
  show "stored d' env = stored d env" if "Write d j = (e, d')" "env \<noteq> j_EnvironmentID j"
    using Write_stored(1)[OF that] .
  show "stored d' (j_EnvironmentID j) = Some j" if "Write d j = (None, d')"
    using Write_stored(3)[OF that] by simp
  show "stored d' (j_EnvironmentID j) \<in> {stored d (j_EnvironmentID j), Some j}" if "Write d j = (e, d')"
    using Write_stored(2)[OF that] by simp
  show "disk_wf d'" if "disk_wf d" "Load d env = (r, d')" using Load_keeps(2)[OF that(2,1)] .
  show "stored d' = stored d" if "Load d env = (r, d')"
    using Load_keeps(1)[OF that] by (auto simp: stored_def fun_eq_iff)
  show "stored d env = Some j" if "Load d env = (Inr j, d')" using Load_stored[OF that] .
  show "stored d env = None" if "disk_wf d" "Load d env = (Inl ErrNotExist, d')"
    using Load_absent[OF that(2,1)] .
  show "disk_wf d'" if "disk_wf d" "Remove d env = (e, d')" using Remove_stored(4)[OF that(2,1)] .
  show "stored d' env' = stored d env'" if "Remove d env = (e, d')" "env' \<noteq> env"
    using Remove_stored(1)[OF that] .
  show "stored d' env = None" if "disk_wf d" "Remove d env = (None, d')"
    using Remove_stored(3)[OF that(2,1)] by simp
  show "stored d' env \<in> {None, stored d env}" if "Remove d env = (e, d')" using Remove_stored(2)[OF that] .
qed

section \<open>Properties\<close>

text \<open>
  C9. \<open>JournalStore.Write\<close> is atomic under a crash and under every pattern of failing system
  calls: after each primitive step the files of all other environments are untouched and the
  journal file of this environment is the old one or the complete new one; and when \<open>Write\<close>
  returns no error, the journal was valid and the new one is in place.
\<close>

theorem Write_crash_atomic:
  "case Write_trace d j of (e, ds) \<Rightarrow>
     ds \<noteq> [] \<and> list_all (old_or_new j d) ds \<and> Write d j = (e, last ds) \<and>
     (e = None \<longrightarrow> Journal_Validate j = None \<and>
        new_journal_file (lookup_file (last ds) (j_EnvironmentID j) journalFileName) j)"
  using Write_trace_old_or_new[of d j] by (auto simp: Write_def list_all_iff split: prod.splits)

definition sample_disk :: disk where
  "sample_disk = \<lparr>d_RootSafe = True, d_LifecycleDir = None, d_Dirs = [], d_IO = (\<lambda>_. True), d_Clock = 0,
     d_TempName = of_nat, d_JSONSize = (\<lambda>_. 100)\<rparr>"

definition sample_journal :: journal where
  "sample_journal = (newJournal ''env'' ''d1'' 1 (GoTime 5 0))
     \<lparr>j_Incarnation := Some sample_incarnation, j_Resources := [sample_root]\<rparr>"

lemma sample_journal_valid: "Journal_Validate sample_journal = None"
  "j_EnvironmentID sample_journal = ''env''"
  by code_simp+

lemma sample_disk_simps:
  "disk_wf sample_disk" "env_clean sample_disk env" "io_works sample_disk"
  "idPattern env \<Longrightarrow> env_safe sample_disk env"
  by (simp_all add: sample_disk_def disk_wf_def env_clean_def env_safe_def io_works_def)

text \<open>
  C10. A crash never makes an environment impossible to remove: whatever step of a \<open>Write\<close> the
  process dies at, leaving a temporary file or not, once the system calls work again \<open>Remove\<close>
  returns no error and the directory of the environment is gone.
\<close>

theorem Remove_after_crashed_Write:
  assumes "env_clean d env" "env_safe d env" "disk_wf d"
    and "Write_trace d j = (e, ds)" "d' \<in> set ds"
    and "\<forall>n \<ge> d_Clock d'. ok n"
  shows "\<exists>d''. Remove (d'\<lparr>d_IO := ok\<rparr>) env = (None, d'') \<and> map_of (d_Dirs d'') env = None"
proof -
  have "env_clean d' env" "env_safe d' env" "disk_wf d'"
    using Write_trace_clean[OF assms(4,1)] Write_trace_safe[OF assms(4,2)]
      Write_trace_wf[OF assms(4,3)] assms(5) by blast+
  then have "env_clean (d'\<lparr>d_IO := ok\<rparr>) env" "env_safe (d'\<lparr>d_IO := ok\<rparr>) env"
    "disk_wf (d'\<lparr>d_IO := ok\<rparr>)" by (simp_all add: env_clean_def env_safe_def disk_wf_def)
  moreover have "io_works (d'\<lparr>d_IO := ok\<rparr>)" using assms(6) by (simp add: io_works_def)
  ultimately show ?thesis using Remove_clean by blast
qed

theorem Remove_after_crashed_Write_witness:
  "list_all (\<lambda>d'. \<exists>d''. Remove (d'\<lparr>d_IO := \<lambda>_. True\<rparr>) ''env'' = (None, d'') \<and> map_of (d_Dirs d'') ''env'' = None)
     (snd (Write_trace (sample_disk\<lparr>d_IO := \<lambda>n. n < 5\<rparr>) sample_journal))"
proof -
  let ?d = "sample_disk\<lparr>d_IO := \<lambda>n. n < 5\<rparr>"
  have "idPattern ''env''" by code_simp
  then have "env_clean ?d ''env''" "env_safe ?d ''env''" "disk_wf ?d"
    using sample_disk_simps by (simp_all add: env_clean_def env_safe_def disk_wf_def)
  from Remove_after_crashed_Write[OF this prod.collapse[symmetric]] show ?thesis by (simp add: list_all_iff)
qed


lemma put_file_Clock [simp]:
  "d_Clock (put_file d env n f) = d_Clock d" "d_Clock (delete_file d env n) = d_Clock d"
  by (simp_all add: put_file_def delete_file_def put_dir_def split: option.splits)

lemma environmentDir_IO: "environmentDir d env create = (r, d1) \<Longrightarrow> d_IO d1 = d_IO d \<and> d_TempName d1 = d_TempName d"
  by (auto simp: environmentDir_def io_step_def put_dir_def Let_def split: if_splits sum.splits option.splits)

lemma Write_trace_IO: "Write_trace d j = (e, ds) \<Longrightarrow> \<forall>d' \<in> set ds. d_IO d' = d_IO d"
  by (rule Write_trace_inv[of "\<lambda>d'. d_IO d' = d_IO d"]) (auto dest: io_stepD environmentDir_IO)

lemma environmentDir_works:
  assumes "env_safe d env" "io_works d"
  shows "\<exists>dir d1. environmentDir d env True = (Inr dir, d1) \<and> d_Clock d1 = d_Clock d + 2"
  using assms by (cases "d_LifecycleDir d"; cases "map_of (d_Dirs d) env")
    (auto simp: environmentDir_def env_safe_def io_works_def io_step_def put_dir_def Let_def)

lemma run_temp_works:
  "io_works d \<Longrightarrow> \<exists>f' ds. run_temp env temp j ss f d = (True, f', ds) \<and> io_works (last ds) \<and> ds \<noteq> []"
proof (induction ss arbitrary: f d)
  case (Cons s ss)
  obtain ok d1 where io: "io_step d = (ok, d1)" by (rule prod.exhaust)
  note w = io_works_step[OF Cons.prems io]
  then have "io_works (put_file d1 env temp (temp_effect d j s f))" by (simp add: io_works_def)
  from Cons.IH[OF this, of "temp_effect d j s f"] show ?case using w io by (auto simp: Let_def)
qed simp

lemma write_rename_works:
  assumes "io_works d"
  shows "\<exists>ds. write_rename env temp f d = (None, ds)"
proof -
  obtain ok d1 where io: "io_step d = (ok, d1)" by (rule prod.exhaust)
  note w = io_works_step[OF assms io]
  let ?d2 = "put_file (delete_file d1 env temp) env journalFileName f"
  obtain ok' d3 where io': "io_step ?d2 = (ok', d3)" by (rule prod.exhaust)
  have "io_works ?d2" using w by (simp add: io_works_def)
  from io_works_step[OF this io'] show ?thesis using w io io' by (simp add: write_rename_def Let_def)
qed

lemma write_temp_works:
  assumes "io_works d" "lookup_file d env (temp_name d) = None"
  shows "\<exists>ds. write_temp env j d = (None, ds)"
proof -
  obtain ok d1 where io: "io_step d = (ok, d1)" by (rule prod.exhaust)
  note w = io_works_step[OF assms(1) io]
  let ?d2 = "put_file d1 env (temp_name d) empty_file"
  have "io_works ?d2" using w by (simp add: io_works_def)
  from run_temp_works[OF this] obtain f' ds where
    r: "run_temp env (temp_name d) j [StepChmod, StepWrite, StepSync, StepClose] empty_file ?d2 = (True, f', ds)"
    "io_works (last ds)" by blast
  obtain ds' where "write_rename env (temp_name d) f' (last ds) = (None, ds')"
    using write_rename_works[OF r(2)] by blast
  then show ?thesis using io w r assms(2) by (simp add: write_temp_def)
qed

lemma Write_works:
  assumes "Journal_Validate j = None" "env_safe d (j_EnvironmentID j)" "env_clean d (j_EnvironmentID j)"
    and "io_works d" "d_JSONSize d j \<le> maxJournalBytes"
    and "lookup_file d (j_EnvironmentID j) (temp_name (d\<lparr>d_Clock := d_Clock d + 2\<rparr>)) = None"
  shows "\<exists>d'. Write d j = (None, d')"
proof -
  obtain dir d1 where ed: "environmentDir d (j_EnvironmentID j) True = (Inr dir, d1)"
    "d_Clock d1 = d_Clock d + 2" using environmentDir_works[OF assms(2,4)] by blast
  note f = environmentDir_files[OF ed(1)] environmentDir_IO[OF ed(1)]
  have "io_works d1" using assms(4) f(4) ed(2) by (simp add: io_works_def)
  moreover have "lookup_file d1 (j_EnvironmentID j) (temp_name d1) = None"
    using assms(6) f(1,4) ed(2) by (simp add: temp_name_def)
  ultimately obtain ds where "write_temp (j_EnvironmentID j) j d1 = (None, ds)"
    using write_temp_works by blast
  moreover have "\<not> (case map_of (ed_Files dir) journalFileName of None \<Rightarrow> False | Some f \<Rightarrow> \<not> f_Regular f)"
  proof -
    have "env_clean d1 (j_EnvironmentID j)" using environmentDir_inv(2)[OF ed(1) assms(3)] .
    then show ?thesis using f(3)[OF refl]
      by (auto simp: env_clean_def list_all_iff clean_file_def split: option.splits dest!: map_of_SomeD)
  qed
  ultimately show ?thesis using assms(1,5) ed f by (auto simp: Write_def Write_trace_def)
qed

lemma sample_write:
  obtains d' where "Write sample_disk sample_journal = (None, d')" "d_IO d' = (\<lambda>_. True)"
proof -
  have "idPattern ''env''" by code_simp
  then have "\<exists>d'. Write sample_disk sample_journal = (None, d')"
    using sample_journal_valid sample_disk_simps
    by (intro Write_works) (simp_all add: sample_disk_def lookup_file_def)
  then obtain d' where w: "Write sample_disk sample_journal = (None, d')" by blast
  then have "d_IO d' = d_IO sample_disk"
    using Write_in_trace Write_trace_IO by blast
  then show thesis using w that by (simp add: sample_disk_def)
qed

theorem Write_crash_atomic_witness:
  "list_all (old_or_new sample_journal (sample_disk\<lparr>d_IO := \<lambda>n. n < 5\<rparr>))
     (snd (Write_trace (sample_disk\<lparr>d_IO := \<lambda>n. n < 5\<rparr>) sample_journal)) \<and>
   (\<exists>d'. Write sample_disk sample_journal = (None, d') \<and>
     new_journal_file (lookup_file d' ''env'' journalFileName) sample_journal)"
proof
  show "list_all (old_or_new sample_journal (sample_disk\<lparr>d_IO := \<lambda>n. n < 5\<rparr>))
     (snd (Write_trace (sample_disk\<lparr>d_IO := \<lambda>n. n < 5\<rparr>) sample_journal))"
    using Write_crash_atomic[where d = "sample_disk\<lparr>d_IO := \<lambda>n. n < 5\<rparr>" and j = sample_journal] by (simp split: prod.splits)
  show "\<exists>d'. Write sample_disk sample_journal = (None, d') \<and>
     new_journal_file (lookup_file d' ''env'' journalFileName) sample_journal"
    by (rule sample_write)
      (use Write_crash_atomic[where d = sample_disk and j = sample_journal] sample_journal_valid(2) in \<open>auto split: prod.splits\<close>)
qed




end
