(* ===== verification/Lifecycle_Mutation.thy ===== *)
theory Lifecycle_Mutation
  imports Lifecycle_Model
begin

text \<open>
  Mutation keys and claims: \<open>internal/lifecycle/mutation.go\<close>. A claim table maps a key to the
  claims held on it, each with the sequence number it was given; an absent key holds none. A
  lease is the list of claims one request was granted. The operations on the coordinator that
  need the state of an environment are in the coordinator's theory.
\<close>

section \<open>Keys\<close>

abbreviation MutationOwnerAttach :: string where "MutationOwnerAttach \<equiv> ''attach''"
abbreviation MutationOwnerReconcile :: string where "MutationOwnerReconcile \<equiv> ''reconcile''"
abbreviation MutationOwnerStop :: string where "MutationOwnerStop \<equiv> ''stop''"
abbreviation MutationOwnerCleanup :: string where "MutationOwnerCleanup \<equiv> ''cleanup''"
abbreviation MutationOwnerDisposal :: string where "MutationOwnerDisposal \<equiv> ''disposal''"
abbreviation MutationOwnerSession :: string where "MutationOwnerSession \<equiv> ''session''"

definition EnvironmentMutationKey :: "string \<Rightarrow> string" where
  "EnvironmentMutationKey env = (if \<not> idPattern env then [] else ''environment:'' @ env)"

definition ProfileMutationKey :: "string \<Rightarrow> string \<Rightarrow> string" where
  "ProfileMutationKey profile key =
     (if \<not> idPattern profile \<or> \<not> idPattern key then []
      else if CHR '':'' \<in> set profile \<or> CHR '':'' \<in> set key then []
      else ''profile:'' @ profile @ '':'' @ key)"

definition validMutationKey :: "string \<Rightarrow> bool" where
  "validMutationKey key \<longleftrightarrow>
     (case Cut (CHR '':'') key of
        None \<Rightarrow> False
      | Some (scope, rest) \<Rightarrow>
          if scope = ''environment'' then idPattern rest
          else if scope = ''profile'' then
            (case Cut (CHR '':'') rest of
               None \<Rightarrow> False
             | Some (profile, k) \<Rightarrow> CHR '':'' \<notin> set k \<and> idPattern profile \<and> idPattern k)
          else False)"

definition boundedMutationRecovery :: "string \<Rightarrow> bool" where
  "boundedMutationRecovery v \<longleftrightarrow>
     \<not> (v = [] \<or> 512 < length v \<or> TrimSpace v \<noteq> v) \<and> \<not> has_control v"

definition normalizeMutationKeys :: "string list \<Rightarrow> lc_error + string list" where
  "normalizeMutationKeys keys =
     (if keys = [] \<or> 32 < length keys then Inl (Errorf ''lifecycle mutation keys are invalid'')
      else if \<not> list_all validMutationKey keys then Inl (Errorf ''lifecycle mutation key is invalid'')
      else Inr (sort (remdups keys)))"

section \<open>Requests\<close>

record mutation_request =
  mr_Keys :: "string list"
  mr_Owner :: mutation_owner

definition normalizeMutationRequest :: "mutation_request \<Rightarrow> gotime \<Rightarrow> lc_error + mutation_request" where
  "normalizeMutationRequest request now =
     (case normalizeMutationKeys (mr_Keys request) of
        Inl e \<Rightarrow> Inl e
      | Inr keys \<Rightarrow>
          let owner = mr_Owner request in
          if \<not> idPattern (mo_Kind owner) \<or> \<not> idPattern (mo_ID owner) \<or> \<not> idPattern (mo_Phase owner) \<or>
             \<not> boundedMutationRecovery (mo_Recovery owner)
          then Inl (Errorf ''lifecycle mutation owner is invalid'')
          else let started = (if time_IsZero (mo_StartedAt owner) then time_UTC now else mo_StartedAt owner)
               in Inr \<lparr>mr_Keys = keys, mr_Owner = owner\<lparr>mo_StartedAt := time_UTC started\<rparr>\<rparr>)"

section \<open>Claims\<close>

record mutation_claim =
  mc_ID :: u64
  mc_Key :: string
  mc_Owner :: mutation_owner

type_synonym mutation_lease = "mutation_claim list"

record claim_table =
  ct_Claims :: "string \<Rightarrow> (u64 \<times> mutation_owner) list"
  ct_Sequence :: u64

definition compatibleMutationOwners :: "mutation_owner \<Rightarrow> mutation_owner \<Rightarrow> bool" where
  "compatibleMutationOwners requested blocking \<longleftrightarrow>
     mo_Kind requested = MutationOwnerAttach \<and> mo_Kind blocking = MutationOwnerAttach"

definition mutationConflictCause :: "mutation_owner \<Rightarrow> mutation_owner \<Rightarrow> lc_error" where
  "mutationConflictCause requested blocking =
     (if mo_Kind blocking = MutationOwnerReconcile then ErrReconciliationInFlight
      else if mo_Kind blocking = MutationOwnerStop then ErrStopInFlight
      else if mo_Kind requested = MutationOwnerAttach then ErrStopInFlight
      else ErrMutationBlockedByActivity)"

text \<open>The first incompatible claim on a key, in the order of the claim numbers.\<close>

definition first_blocker :: "claim_table \<Rightarrow> mutation_owner \<Rightarrow> string \<Rightarrow> mutation_owner option" where
  "first_blocker t owner key =
     map_option snd (find (\<lambda>(i, b). \<not> compatibleMutationOwners owner b) (sort_key fst (ct_Claims t key)))"

definition key_conflict :: "claim_table \<Rightarrow> mutation_owner \<Rightarrow> string \<Rightarrow> lc_error option" where
  "key_conflict t owner key =
     map_option (\<lambda>b. MutationConflictError key b owner (mutationConflictCause owner b))
       (first_blocker t owner key)"

fun claim_loop :: "claim_table \<Rightarrow> mutation_owner \<Rightarrow> string list \<Rightarrow> mutation_lease \<times> claim_table" where
  "claim_loop t owner [] = ([], t)"
| "claim_loop t owner (key # keys) =
     (let s = ct_Sequence t + 1;
          i = (if s = 0 then s + 1 else s);
          t' = t\<lparr>ct_Sequence := i,
                 ct_Claims := (ct_Claims t)(key := AList.update i owner (ct_Claims t key))\<rparr>
      in (case claim_loop t' owner keys of
            (lease, t'') \<Rightarrow> (\<lparr>mc_ID = i, mc_Key = key, mc_Owner = owner\<rparr> # lease, t'')))"

definition claimMutationKeysLocked ::
  "claim_table \<Rightarrow> mutation_request \<Rightarrow> (lc_error + mutation_lease) \<times> claim_table" where
  "claimMutationKeysLocked t request =
     (case first_err (map (key_conflict t (mr_Owner request)) (mr_Keys request)) of
        Some e \<Rightarrow> (Inl e, t)
      | None \<Rightarrow> (case claim_loop t (mr_Owner request) (mr_Keys request) of (lease, t') \<Rightarrow> (Inr lease, t')))"

definition release_claim :: "mutation_claim \<Rightarrow> claim_table \<Rightarrow> claim_table" where
  "release_claim cl t =
     t\<lparr>ct_Claims := (ct_Claims t)(mc_Key cl := AList.delete (mc_ID cl) (ct_Claims t (mc_Key cl)))\<rparr>"

definition releaseLocked :: "mutation_lease \<Rightarrow> claim_table \<Rightarrow> claim_table" where
  "releaseLocked lease t = fold release_claim lease t"

definition attachMutationOwner :: "string \<Rightarrow> gotime \<Rightarrow> mutation_owner" where
  "attachMutationOwner session started =
     \<lparr>mo_Kind = MutationOwnerAttach, mo_ID = session, mo_Phase = ''establishing'',
      mo_Recovery = ''wait for attach establishment to finish, then retry'', mo_StartedAt = started\<rparr>"

section \<open>Keys are exactly the built ones\<close>

lemma idPattern_ne: "idPattern s \<Longrightarrow> s \<noteq> []"
  by (cases s) auto

lemma validMutationKey_iff:
  "validMutationKey key \<longleftrightarrow>
     key \<noteq> [] \<and> ((\<exists>env. key = EnvironmentMutationKey env) \<or> (\<exists>p k. key = ProfileMutationKey p k))"
proof
  assume v: "validMutationKey key"
  then obtain scope r where c: "Cut (CHR '':'') key = Some (scope, r)"
    by (auto simp: validMutationKey_def split: option.splits)
  consider (env) rest where "Cut (CHR '':'') key = Some (''environment'', rest)" "idPattern rest"
    | (profile) rest p k where "Cut (CHR '':'') key = Some (''profile'', rest)"
        "Cut (CHR '':'') rest = Some (p, k)" "CHR '':'' \<notin> set k" "idPattern p" "idPattern k"
    using v c by (cases "Cut (CHR '':'') r") (auto simp: validMutationKey_def split: if_splits)
  then show "key \<noteq> [] \<and> ((\<exists>env. key = EnvironmentMutationKey env) \<or> (\<exists>p k. key = ProfileMutationKey p k))"
  proof cases
    case env
    then have "key = EnvironmentMutationKey rest \<and> key \<noteq> []"
      by (simp add: Cut_Some EnvironmentMutationKey_def)
    then show ?thesis by blast
  next
    case profile
    then have "key = ProfileMutationKey p k \<and> key \<noteq> []"
      by (simp add: Cut_Some ProfileMutationKey_def)
    then show ?thesis by blast
  qed
next
  assume k: "key \<noteq> [] \<and> ((\<exists>env. key = EnvironmentMutationKey env) \<or> (\<exists>p k. key = ProfileMutationKey p k))"
  then show "validMutationKey key"
  proof (elim conjE disjE exE)
    fix env assume e: "key \<noteq> []" "key = EnvironmentMutationKey env"
    then have "idPattern env" and key: "key = ''environment'' @ CHR '':'' # env"
      by (simp_all add: EnvironmentMutationKey_def split: if_splits)
    moreover have "Cut (CHR '':'') key = Some (''environment'', env)"
      unfolding key by (rule Cut_found) simp
    ultimately show ?thesis by (simp add: validMutationKey_def)
  next
    fix p k assume e: "key \<noteq> []" "key = ProfileMutationKey p k"
    then have *: "idPattern p" "idPattern k" "CHR '':'' \<notin> set p" "CHR '':'' \<notin> set k"
      and key: "key = ''profile'' @ CHR '':'' # (p @ CHR '':'' # k)"
      by (simp_all add: ProfileMutationKey_def split: if_splits)
    moreover have "Cut (CHR '':'') key = Some (''profile'', p @ CHR '':'' # k)"
      unfolding key by (rule Cut_found) simp
    ultimately show ?thesis using Cut_found[OF *(3)] by (simp add: validMutationKey_def)
  qed
qed

lemma EnvironmentMutationKey_inject:
  "EnvironmentMutationKey a = EnvironmentMutationKey b \<Longrightarrow> idPattern a \<Longrightarrow> a = b"
  by (simp add: EnvironmentMutationKey_def split: if_splits)

lemma ProfileMutationKey_ne:
  "ProfileMutationKey p k \<noteq> [] \<Longrightarrow>
     CHR '':'' \<notin> set p \<and> ProfileMutationKey p k = ''profile:'' @ p @ '':'' @ k"
  by (simp add: ProfileMutationKey_def split: if_splits)

lemma ProfileMutationKey_inject:
  assumes "ProfileMutationKey p k = ProfileMutationKey p' k'" "ProfileMutationKey p k \<noteq> []"
  shows "p = p' \<and> k = k'"
proof -
  have ne: "ProfileMutationKey p' k' \<noteq> []" using assms by metis
  note a = ProfileMutationKey_ne[OF assms(2)] and b = ProfileMutationKey_ne[OF ne]
  have "''profile:'' @ p @ '':'' @ k = ''profile:'' @ p' @ '':'' @ k'"
    using a b assms(1) by metis
  then have eq: "p @ CHR '':'' # k = p' @ CHR '':'' # k'" by simp
  have "Some (p, k) = Cut (CHR '':'') (p @ CHR '':'' # k)" using a by (intro Cut_found[symmetric]) blast
  also have "\<dots> = Some (p', k')" unfolding eq using b by (intro Cut_found) blast
  finally show ?thesis by simp
qed

lemma key_scopes_disjoint:
  "EnvironmentMutationKey env \<noteq> [] \<Longrightarrow> EnvironmentMutationKey env \<noteq> ProfileMutationKey p k"
  by (simp add: EnvironmentMutationKey_def ProfileMutationKey_def)

lemma normalizeMutationKeys_Inr:
  assumes "normalizeMutationKeys keys = Inr ks"
  shows "set ks = set keys \<and> sorted ks \<and> distinct ks \<and> ks \<noteq> [] \<and> list_all validMutationKey ks"
proof -
  have ks: "ks = sort (remdups keys)" and "keys \<noteq> []" "list_all validMutationKey keys"
    using assms by (auto simp: normalizeMutationKeys_def split: if_splits)
  moreover from ks have "set ks = set keys" by simp
  ultimately show ?thesis by (auto simp: list_all_iff simp flip: set_empty)
qed

lemma normalizeMutationRequest_Inr:
  assumes "normalizeMutationRequest r now = Inr r'"
  shows "normalizeMutationKeys (mr_Keys r) = Inr (mr_Keys r')" and "mo_Kind (mr_Owner r') = mo_Kind (mr_Owner r)"
    and "mo_ID (mr_Owner r') = mo_ID (mr_Owner r)"
  using assms by (auto simp: normalizeMutationRequest_def Let_def split: sum.splits if_splits)

lemma normalize_env_key:
  assumes "normalizeMutationRequest \<lparr>mr_Keys = [EnvironmentMutationKey env], mr_Owner = ow\<rparr> now = Inr r"
  shows "mr_Keys r = [EnvironmentMutationKey env]"
  using normalizeMutationRequest_Inr(1)[OF assms]
  by (simp add: normalizeMutationKeys_def split: if_splits)

section \<open>Exclusion\<close>

definition exclusive_claims :: "(u64 \<times> mutation_owner) list \<Rightarrow> bool" where
  "exclusive_claims cs \<longleftrightarrow> length cs \<le> 1 \<or> list_all (\<lambda>(i, b). mo_Kind b = MutationOwnerAttach) cs"

definition claims_exclusive :: "claim_table \<Rightarrow> bool" where
  "claims_exclusive t \<longleftrightarrow> (\<forall>key. exclusive_claims (ct_Claims t key))"

lemma first_blocker_None:
  "first_blocker t owner key = None \<longleftrightarrow> (\<forall>(i, b) \<in> set (ct_Claims t key). compatibleMutationOwners owner b)"
  by (auto simp: first_blocker_def find_None_iff)

lemma key_conflict_None [simp]:
  "key_conflict t owner key = None \<longleftrightarrow> (\<forall>(i, b) \<in> set (ct_Claims t key). compatibleMutationOwners owner b)"
  by (simp add: key_conflict_def first_blocker_None)

lemma exclusive_update:
  assumes "exclusive_claims cs" and "\<forall>(i, b) \<in> set cs. compatibleMutationOwners owner b"
  shows "exclusive_claims (AList.update i owner cs)"
proof (cases cs)
  case Nil
  then show ?thesis by (simp add: exclusive_claims_def)
next
  case (Cons c cs')
  then have "mo_Kind owner = MutationOwnerAttach" using assms(2) by (auto simp: compatibleMutationOwners_def)
  moreover have "list_all (\<lambda>(i, b). mo_Kind b = MutationOwnerAttach) cs"
    using assms(2) by (auto simp: compatibleMutationOwners_def list_all_iff)
  ultimately have "list_all (\<lambda>(i, b). mo_Kind b = MutationOwnerAttach) (AList.update i owner cs)"
    by (auto simp: list_all_iff dest: set_alist_update)
  then show ?thesis by (simp add: exclusive_claims_def)
qed

lemma claim_loop_effect:
  assumes "claim_loop t owner keys = (lease, t')" "distinct keys"
  shows "map mc_Key lease = keys \<and> (\<forall>cl \<in> set lease. mc_Owner cl = owner \<and>
      ct_Claims t' (mc_Key cl) = AList.update (mc_ID cl) owner (ct_Claims t (mc_Key cl))) \<and>
    (\<forall>k. k \<notin> set keys \<longrightarrow> ct_Claims t' k = ct_Claims t k)"
  using assms
proof (induction t owner keys arbitrary: lease rule: claim_loop.induct)
  case (2 t owner key keys)
  define i where "i = (let s = ct_Sequence t + 1 in if s = 0 then s + 1 else s)"
  define t1 where "t1 = t\<lparr>ct_Sequence := i,
    ct_Claims := (ct_Claims t)(key := AList.update i owner (ct_Claims t key))\<rparr>"
  obtain l where rec: "claim_loop t1 owner keys = (l, t')"
    and lease: "lease = \<lparr>mc_ID = i, mc_Key = key, mc_Owner = owner\<rparr> # l"
    using "2.prems"(1) by (auto simp: Let_def t1_def i_def split: prod.splits)
  have IH: "map mc_Key l = keys \<and> (\<forall>cl \<in> set l. mc_Owner cl = owner \<and>
      ct_Claims t' (mc_Key cl) = AList.update (mc_ID cl) owner (ct_Claims t1 (mc_Key cl))) \<and>
    (\<forall>k. k \<notin> set keys \<longrightarrow> ct_Claims t' k = ct_Claims t1 k)"
    using "2.IH"[OF refl refl refl, of l] "2.prems"(2) rec by (simp add: t1_def i_def Let_def)
  have other: "ct_Claims t1 k = ct_Claims t k" if "k \<noteq> key" for k using that by (simp add: t1_def)
  have "mc_Key cl \<noteq> key" if "cl \<in> set l" for cl
    using that IH "2.prems"(2) by (metis distinct.simps(2) image_eqI list.set_map)
  then show ?case using IH lease other "2.prems"(2) by (auto simp: t1_def)
qed simp

lemma find_SomeD: "find P xs = Some x \<Longrightarrow> x \<in> set xs \<and> P x"
  by (induction xs) (auto split: if_splits)

lemma claim_refused:
  assumes "claimMutationKeysLocked t r = (Inl e, t')"
  shows "t' = t \<and> (\<exists>key \<in> set (mr_Keys r). \<exists>(i, b) \<in> set (ct_Claims t key).
    \<not> compatibleMutationOwners (mr_Owner r) b \<and>
    e = MutationConflictError key b (mr_Owner r) (mutationConflictCause (mr_Owner r) b))"
proof -
  have err: "first_err (map (key_conflict t (mr_Owner r)) (mr_Keys r)) = Some e" and t': "t' = t"
    using assms by (auto simp: claimMutationKeysLocked_def split: option.splits prod.splits)
  from first_err_SomeD[OF err] obtain key where key: "key \<in> set (mr_Keys r)"
    and "key_conflict t (mr_Owner r) key = Some e" by auto
  then obtain i b where "find (\<lambda>(i, b). \<not> compatibleMutationOwners (mr_Owner r) b) (sort_key fst (ct_Claims t key)) = Some (i, b)"
    and e: "e = MutationConflictError key b (mr_Owner r) (mutationConflictCause (mr_Owner r) b)"
    by (auto simp: key_conflict_def first_blocker_def)
  then have "(i, b) \<in> set (ct_Claims t key)" "\<not> compatibleMutationOwners (mr_Owner r) b"
    by (auto dest: find_SomeD)
  then show ?thesis using key e t' by blast
qed

lemma claim_granted_iff:
  "(\<exists>lease t'. claimMutationKeysLocked t r = (Inr lease, t')) \<longleftrightarrow>
     (\<forall>key \<in> set (mr_Keys r). \<forall>(i, b) \<in> set (ct_Claims t key). compatibleMutationOwners (mr_Owner r) b)"
proof -
  have "(\<exists>lease t'. claimMutationKeysLocked t r = (Inr lease, t')) \<longleftrightarrow>
      first_err (map (key_conflict t (mr_Owner r)) (mr_Keys r)) = None"
    by (auto simp del: first_err_None simp: claimMutationKeysLocked_def split: option.splits prod.splits)
  then show ?thesis by simp
qed

lemma claim_granted:
  assumes "claimMutationKeysLocked t r = (Inr lease, t')"
  shows "claim_loop t (mr_Owner r) (mr_Keys r) = (lease, t')"
    and "key \<in> set (mr_Keys r) \<Longrightarrow> (i, b) \<in> set (ct_Claims t key) \<Longrightarrow> compatibleMutationOwners (mr_Owner r) b"
proof -
  show "claim_loop t (mr_Owner r) (mr_Keys r) = (lease, t')"
    using assms by (auto simp: claimMutationKeysLocked_def split: option.splits prod.splits)
  show "compatibleMutationOwners (mr_Owner r) b" if "key \<in> set (mr_Keys r)" "(i, b) \<in> set (ct_Claims t key)"
    using claim_granted_iff[of t r] assms that by blast
qed

lemma alist_update_mem: "(k, v) \<in> set (AList.update k v al)"
  by (induction al) auto

lemma claim_effect:
  assumes "claimMutationKeysLocked t r = (Inr lease, t')" "distinct (mr_Keys r)"
  shows "key \<notin> set (mr_Keys r) \<Longrightarrow> ct_Claims t' key = ct_Claims t key"
    and "key \<in> set (mr_Keys r) \<Longrightarrow> \<exists>i. ct_Claims t' key = AList.update i (mr_Owner r) (ct_Claims t key)"
proof -
  note eff = claim_loop_effect[OF claim_granted(1)[OF assms(1)] assms(2)]
  show "key \<notin> set (mr_Keys r) \<Longrightarrow> ct_Claims t' key = ct_Claims t key" using eff by blast
  show "\<exists>i. ct_Claims t' key = AList.update i (mr_Owner r) (ct_Claims t key)" if "key \<in> set (mr_Keys r)"
  proof -
    from that eff obtain cl where "cl \<in> set lease" "mc_Key cl = key" by (metis imageE list.set_map)
    then show ?thesis using eff by metis
  qed
qed

lemma claim_exclusive:
  assumes "claimMutationKeysLocked t r = (res, t')" "distinct (mr_Keys r)" "claims_exclusive t"
  shows "claims_exclusive t'"
proof (cases res)
  case (Inl e)
  then show ?thesis using assms claim_refused by blast
next
  case (Inr lease)
  have "exclusive_claims (ct_Claims t' key)" for key
  proof (cases "key \<in> set (mr_Keys r)")
    case True
    then obtain i where "ct_Claims t' key = AList.update i (mr_Owner r) (ct_Claims t key)"
      using claim_effect(2) assms(1,2) Inr by blast
    moreover have "\<forall>(i, b) \<in> set (ct_Claims t key). compatibleMutationOwners (mr_Owner r) b"
      using claim_granted(2) assms(1) Inr True by blast
    ultimately show ?thesis using assms(3) exclusive_update by (simp add: claims_exclusive_def)
  next
    case False
    then show ?thesis using claim_effect(1) assms Inr by (simp add: claims_exclusive_def)
  qed
  then show ?thesis by (simp add: claims_exclusive_def)
qed

lemma releaseLocked_claims:
  "ct_Claims (releaseLocked lease t) key =
     filter (\<lambda>e. \<forall>cl \<in> set lease. mc_Key cl = key \<longrightarrow> fst e \<noteq> mc_ID cl) (ct_Claims t key)"
proof (induction lease arbitrary: t)
  case (Cons cl lease)
  have "ct_Claims (releaseLocked (cl # lease) t) key = ct_Claims (releaseLocked lease (release_claim cl t)) key"
    by (simp add: releaseLocked_def)
  also have "\<dots> = filter (\<lambda>e. \<forall>cl \<in> set lease. mc_Key cl = key \<longrightarrow> fst e \<noteq> mc_ID cl)
      (ct_Claims (release_claim cl t) key)"
    by (rule Cons.IH)
  finally show ?case
    by (auto simp: release_claim_def AList_delete_filter intro: filter_cong)
qed (simp add: releaseLocked_def)

lemma releaseLocked_Sequence [simp]: "ct_Sequence (releaseLocked lease t) = ct_Sequence t"
  by (induction lease arbitrary: t) (simp_all add: releaseLocked_def release_claim_def)

lemma filter_exclusive: "exclusive_claims cs \<Longrightarrow> exclusive_claims (filter P cs)"
  by (cases "length cs \<le> 1") (auto simp: exclusive_claims_def list_all_iff intro: order_trans[OF length_filter_le])

lemma release_exclusive: "claims_exclusive t \<Longrightarrow> claims_exclusive (releaseLocked lease t)"
  by (simp add: claims_exclusive_def releaseLocked_claims filter_exclusive)

section \<open>The interface of the claim table\<close>

text \<open>
  What every operation of the coordinator relies on when it claims its keys: a claim is granted
  exactly when it is compatible with all holders of its keys, a refused claim changes nothing, and
  only a release takes a claim away.
\<close>

locale mutation_claims =
  fixes holds :: "'t \<Rightarrow> string \<Rightarrow> mutation_owner \<Rightarrow> bool"
    and claim :: "'t \<Rightarrow> mutation_request \<Rightarrow> (lc_error + 'l) \<times> 't"
    and release :: "'l \<Rightarrow> 't \<Rightarrow> 't"
  assumes granted_iff: "(\<exists>l t'. claim t r = (Inr l, t')) \<longleftrightarrow>
      (\<forall>key \<in> set (mr_Keys r). \<forall>b. holds t key b \<longrightarrow> compatibleMutationOwners (mr_Owner r) b)"
    and refused_same: "claim t r = (Inl e, t') \<Longrightarrow> t' = t"
    and granted_holds: "claim t r = (Inr l, t') \<Longrightarrow> distinct (mr_Keys r) \<Longrightarrow>
      key \<in> set (mr_Keys r) \<Longrightarrow> holds t' key (mr_Owner r)"
    and granted_only: "claim t r = (Inr l, t') \<Longrightarrow> distinct (mr_Keys r) \<Longrightarrow> holds t' key b \<Longrightarrow>
      holds t key b \<or> key \<in> set (mr_Keys r) \<and> b = mr_Owner r"
    and release_only: "holds (release l t) key b \<Longrightarrow> holds t key b"
begin

text \<open>A claim is refused, and changes nothing, while an incompatible owner holds one of its keys.\<close>

lemma refused_while_held:
  assumes "holds t key b" "\<not> compatibleMutationOwners (mr_Owner r) b" "key \<in> set (mr_Keys r)"
  shows "\<exists>e. claim t r = (Inl e, t)"
proof -
  obtain res t' where c: "claim t r = (res, t')" by (rule prod.exhaust)
  have "\<nexists>l. res = Inr l" using granted_iff[of t r] assms c by blast
  then obtain e where "res = Inl e" by (cases res) auto
  then show ?thesis using refused_same c by blast
qed

text \<open>Two owners that hold a key after a granted claim are both attaching.\<close>

lemma granted_shared:
  assumes "claim t r = (Inr l, t')" "distinct (mr_Keys r)" "key \<in> set (mr_Keys r)"
    and "holds t' key b" "b \<noteq> mr_Owner r"
  shows "mo_Kind b = MutationOwnerAttach \<and> mo_Kind (mr_Owner r) = MutationOwnerAttach"
proof -
  have "holds t key b" using granted_only[OF assms(1,2,4)] assms(5) by blast
  then have "compatibleMutationOwners (mr_Owner r) b" using granted_iff[of t r] assms(1,3) by blast
  then show ?thesis by (simp add: compatibleMutationOwners_def)
qed

end

definition claim_held :: "claim_table \<Rightarrow> string \<Rightarrow> mutation_owner \<Rightarrow> bool" where
  "claim_held t key b \<longleftrightarrow> b \<in> snd ` set (ct_Claims t key)"

interpretation mc: mutation_claims claim_held claimMutationKeysLocked releaseLocked
proof
  fix t t' :: claim_table and r e l key b
  show "(\<exists>l t'. claimMutationKeysLocked t r = (Inr l, t')) \<longleftrightarrow>
      (\<forall>key \<in> set (mr_Keys r). \<forall>b. claim_held t key b \<longrightarrow> compatibleMutationOwners (mr_Owner r) b)"
    unfolding claim_granted_iff by (force simp: claim_held_def)
  show "t' = t" if "claimMutationKeysLocked t r = (Inl e, t')" using claim_refused[OF that] by blast
  show "claim_held t' key (mr_Owner r)" if g: "claimMutationKeysLocked t r = (Inr l, t')"
    "distinct (mr_Keys r)" "key \<in> set (mr_Keys r)"
  proof -
    obtain i where "ct_Claims t' key = AList.update i (mr_Owner r) (ct_Claims t key)"
      using claim_effect(2)[OF g] by blast
    then show ?thesis using alist_update_mem[of i "mr_Owner r"] by (force simp: claim_held_def)
  qed
  show "claim_held t key b \<or> key \<in> set (mr_Keys r) \<and> b = mr_Owner r"
    if g: "claimMutationKeysLocked t r = (Inr l, t')" "distinct (mr_Keys r)" "claim_held t' key b"
  proof (cases "key \<in> set (mr_Keys r)")
    case True
    then obtain i where "ct_Claims t' key = AList.update i (mr_Owner r) (ct_Claims t key)"
      using claim_effect(2)[OF g(1,2)] by blast
    then show ?thesis using g(3) True by (force simp: claim_held_def dest: set_alist_update)
  next
    case False
    then show ?thesis using claim_effect(1)[OF g(1,2)] g(3) by (simp add: claim_held_def)
  qed
  show "claim_held t key b" if "claim_held (releaseLocked l t) key b"
    using that by (auto simp: claim_held_def releaseLocked_claims)
qed

section \<open>Releasing a lease restores the table\<close>

definition ids_used :: "claim_table \<Rightarrow> bool" where
  "ids_used t \<longleftrightarrow> (\<forall>key. list_all (\<lambda>(i, b). i \<le> ct_Sequence t) (ct_Claims t key))"

lemma alist_update_fresh: "k \<notin> fst ` set al \<Longrightarrow> AList.update k v al = al @ [(k, v)]"
  by (induction al) auto

lemma claim_loop_ids:
  assumes "claim_loop t owner keys = (lease, t')" "unat (ct_Sequence t) + length keys < 2 ^ 64"
  shows "(\<forall>cl \<in> set lease. ct_Sequence t < mc_ID cl)"
  using assms
proof (induction t owner keys arbitrary: lease rule: claim_loop.induct)
  case (2 t owner key keys)
  have lt: "unat (ct_Sequence t) + 1 < 2 ^ 64" using "2.prems"(2) by simp
  then have u: "unat (ct_Sequence t + 1) = Suc (unat (ct_Sequence t))"
    by (subst unat_plus_simple[THEN iffD1]) (simp_all add: no_olen_add_nat)
  then have nz: "ct_Sequence t + 1 \<noteq> 0" by (metis Zero_not_Suc unat_0)
  let ?i = "ct_Sequence t + 1"
  let ?t1 = "t\<lparr>ct_Sequence := ?i, ct_Claims := (ct_Claims t)(key := AList.update ?i owner (ct_Claims t key))\<rparr>"
  obtain l where rec: "claim_loop ?t1 owner keys = (l, t')"
    and lease: "lease = \<lparr>mc_ID = ?i, mc_Key = key, mc_Owner = owner\<rparr> # l"
    using "2.prems"(1) nz by (auto simp: Let_def split: prod.splits)
  have "\<forall>cl \<in> set l. ?i < mc_ID cl"
    using "2.IH"[OF refl refl refl, of l] rec nz "2.prems"(2) u by (simp add: Let_def)
  moreover have "ct_Sequence t < ?i" using u by (simp add: word_less_nat_alt)
  ultimately show ?case using lease by auto
qed simp

lemma claim_release:
  assumes "claimMutationKeysLocked t r = (Inr lease, t')" "distinct (mr_Keys r)"
    and "ids_used t" "unat (ct_Sequence t) + length (mr_Keys r) < 2 ^ 64"
  shows "ct_Claims (releaseLocked lease t') = ct_Claims t"
proof
  fix key
  note loop = claim_granted(1)[OF assms(1)]
  note eff = claim_loop_effect[OF loop assms(2)] and ids = claim_loop_ids[OF loop assms(4)]
  have fresh: "mc_ID cl \<notin> fst ` set (ct_Claims t k)" if "cl \<in> set lease" for cl k
    using ids that assms(3) by (force simp: ids_used_def list_all_iff)
  show "ct_Claims (releaseLocked lease t') key = ct_Claims t key"
  proof (cases "key \<in> set (mr_Keys r)")
    case True
    then obtain cl where cl: "cl \<in> set lease" "mc_Key cl = key" using eff by (metis imageE list.set_map)
    have only: "cl' = cl" if "cl' \<in> set lease" "mc_Key cl' = key" for cl'
      using that cl eff assms(2) by (metis distinct_map inj_onD)
    have "ct_Claims t' key = ct_Claims t key @ [(mc_ID cl, mr_Owner r)]"
      using eff cl alist_update_fresh[OF fresh[OF cl(1)]] by auto
    moreover have "filter (\<lambda>e. \<forall>cl \<in> set lease. mc_Key cl = key \<longrightarrow> fst e \<noteq> mc_ID cl) (ct_Claims t key) = ct_Claims t key"
      using fresh by (force intro: filter_True)
    ultimately show ?thesis using cl by (auto simp: releaseLocked_claims)
  next
    case False
    have "mc_Key cl \<noteq> key" if "cl \<in> set lease" for cl using that eff False by (metis image_eqI list.set_map)
    then show ?thesis using eff False by (auto simp: releaseLocked_claims intro: filter_True)
  qed
qed

section \<open>Properties\<close>

text \<open>
  The claim table admits a request exactly when every claim already held on one of its keys
  is compatible with it, that is when both owners are attaching; a refused request changes
  nothing and names a holder of one of its own keys as the blocker.
\<close>

theorem claim_granted_or_refused:
  "case claimMutationKeysLocked t r of
     (Inr lease, t') \<Rightarrow>
       list_all (\<lambda>key. list_all (\<lambda>(i, b). compatibleMutationOwners (mr_Owner r) b) (ct_Claims t key)) (mr_Keys r)
   | (Inl e, t') \<Rightarrow>
       t' = t \<and> (\<exists>key \<in> set (mr_Keys r). \<exists>(i, b) \<in> set (ct_Claims t key).
         \<not> compatibleMutationOwners (mr_Owner r) b \<and>
         e = MutationConflictError key b (mr_Owner r) (mutationConflictCause (mr_Owner r) b))"
proof -
  obtain res t' where c: "claimMutationKeysLocked t r = (res, t')" by (rule prod.exhaust)
  show ?thesis
  proof (cases res)
    case (Inl e)
    then show ?thesis using claim_refused[of t r e t'] c by simp
  next
    case (Inr lease)
    then show ?thesis using claim_granted_iff[of t r] c by (auto simp: list_all_iff)
  qed
qed

text \<open>
  C22. Exclusion: after a granted claim, two different owners hold a requested key only if both are
  attaching; and a table in which every key has one holder or only attaching ones stays so.
\<close>

theorem claim_excludes:
  assumes "claimMutationKeysLocked t r = (Inr lease, t')" "distinct (mr_Keys r)" "claims_exclusive t"
  shows "claims_exclusive t' \<and> claims_exclusive (releaseLocked lease t') \<and>
    (key \<in> set (mr_Keys r) \<and> claim_held t' key b \<and> b \<noteq> mr_Owner r \<longrightarrow>
       mo_Kind b = MutationOwnerAttach \<and> mo_Kind (mr_Owner r) = MutationOwnerAttach)"
  using claim_exclusive[OF assms] release_exclusive mc.granted_shared[OF assms(1,2)] by blast

definition sample_owner :: "string \<Rightarrow> string \<Rightarrow> mutation_owner" where
  "sample_owner kind i = \<lparr>mo_Kind = kind, mo_ID = i, mo_Phase = ''running'', mo_Recovery = ''wait'',
     mo_StartedAt = GoTime 5 0\<rparr>"

definition sample_table :: claim_table where
  "sample_table = \<lparr>ct_Claims = (\<lambda>k. if k = ''environment:a'' then [(1, sample_owner ''attach'' ''s1'')] else []),
     ct_Sequence = 1\<rparr>"

definition sample_request :: mutation_request where
  "sample_request = \<lparr>mr_Keys = [''environment:a''], mr_Owner = sample_owner ''attach'' ''s2''\<rparr>"

lemma sample_claim:
  "fst (claimMutationKeysLocked sample_table sample_request) =
     Inr [\<lparr>mc_ID = 2, mc_Key = ''environment:a'', mc_Owner = sample_owner ''attach'' ''s2''\<rparr>]"
  "claims_exclusive sample_table" "ids_used sample_table"
  "distinct (mr_Keys sample_request)" "unat (ct_Sequence sample_table) + length (mr_Keys sample_request) < 2 ^ 64"
  by code_simp (simp_all add: sample_table_def sample_request_def claims_exclusive_def exclusive_claims_def
    ids_used_def)

theorem claim_excludes_witness:
  "claims_exclusive (snd (claimMutationKeysLocked sample_table sample_request)) \<and>
   claim_held (snd (claimMutationKeysLocked sample_table sample_request)) ''environment:a'' (sample_owner ''attach'' ''s1'')"
proof -
  obtain t' where c: "claimMutationKeysLocked sample_table sample_request =
      (Inr [\<lparr>mc_ID = 2, mc_Key = ''environment:a'', mc_Owner = sample_owner ''attach'' ''s2''\<rparr>], t')"
    using sample_claim(1) by (metis prod.collapse)
  have "ct_Claims (snd (claimMutationKeysLocked sample_table sample_request)) ''environment:a'' =
      [(1, sample_owner ''attach'' ''s1''), (2, sample_owner ''attach'' ''s2'')]" by code_simp
  then show ?thesis using claim_excludes[OF c sample_claim(4,2), THEN conjunct1] c by (simp add: claim_held_def)
qed

text \<open>
  Releasing a lease undoes the claim: as long as the 64-bit claim numbers do not wrap around,
  claiming and releasing leaves on every key exactly the claims that were there before.
\<close>

theorem claim_release_restores:
  assumes "claimMutationKeysLocked t r = (Inr lease, t')" "distinct (mr_Keys r)"
    and "ids_used t" "unat (ct_Sequence t) + length (mr_Keys r) < 2 ^ 64"
  shows "ct_Claims (releaseLocked lease t') = ct_Claims t"
  by (rule claim_release[OF assms])

theorem claim_release_restores_witness:
  "\<exists>lease t'. claimMutationKeysLocked sample_table sample_request = (Inr lease, t') \<and>
     ct_Claims (releaseLocked lease t') = ct_Claims sample_table \<and> ct_Claims t' \<noteq> ct_Claims sample_table"
proof -
  obtain t' where c: "claimMutationKeysLocked sample_table sample_request =
      (Inr [\<lparr>mc_ID = 2, mc_Key = ''environment:a'', mc_Owner = sample_owner ''attach'' ''s2''\<rparr>], t')"
    using sample_claim(1) by (metis prod.collapse)
  have "ct_Claims (snd (claimMutationKeysLocked sample_table sample_request)) ''environment:a'' \<noteq>
      ct_Claims sample_table ''environment:a''" by code_simp
  with c have "ct_Claims t' \<noteq> ct_Claims sample_table" by auto
  with claim_release_restores[OF c sample_claim(4,3,5)] c show ?thesis by blast
qed

text \<open>
  A normalised request has no duplicates, is sorted, keeps exactly the requested keys, and
  every key of it was built by \<open>EnvironmentMutationKey\<close> or \<open>ProfileMutationKey\<close>; the builders are
  injective and never build the same key, so a key names one environment or one profile entry.
\<close>

theorem mutation_keys_canonical:
  "(case normalizeMutationKeys keys of
      Inr ks \<Rightarrow> set ks = set keys \<and> sorted ks \<and> distinct ks \<and> ks \<noteq> [] \<and>
        list_all (\<lambda>key. (\<exists>env. key = EnvironmentMutationKey env) \<or> (\<exists>p k. key = ProfileMutationKey p k)) ks
    | Inl e \<Rightarrow> keys = [] \<or> 32 < length keys \<or> list_ex (\<lambda>key. \<not> validMutationKey key) keys) \<and>
   (EnvironmentMutationKey a = EnvironmentMutationKey b \<longrightarrow> idPattern a \<longrightarrow> a = b) \<and>
   (ProfileMutationKey p k = ProfileMutationKey p' k' \<longrightarrow> ProfileMutationKey p k \<noteq> [] \<longrightarrow> p = p' \<and> k = k') \<and>
   (EnvironmentMutationKey a \<noteq> [] \<longrightarrow> EnvironmentMutationKey a \<noteq> ProfileMutationKey p k)"
proof (intro conjI impI)
  show "case normalizeMutationKeys keys of
      Inr ks \<Rightarrow> set ks = set keys \<and> sorted ks \<and> distinct ks \<and> ks \<noteq> [] \<and>
        list_all (\<lambda>key. (\<exists>env. key = EnvironmentMutationKey env) \<or> (\<exists>p k. key = ProfileMutationKey p k)) ks
    | Inl e \<Rightarrow> keys = [] \<or> 32 < length keys \<or> list_ex (\<lambda>key. \<not> validMutationKey key) keys"
  proof (cases "normalizeMutationKeys keys")
    case (Inl e)
    then show ?thesis by (auto simp: normalizeMutationKeys_def list_all_iff list_ex_iff split: if_splits)
  next
    case (Inr ks)
    then show ?thesis
      using normalizeMutationKeys_Inr[OF Inr] validMutationKey_iff by (simp add: list_all_iff)
  qed
  show "a = b" if "EnvironmentMutationKey a = EnvironmentMutationKey b" "idPattern a"
    using EnvironmentMutationKey_inject[OF that] .
  show "p = p'" "k = k'" if "ProfileMutationKey p k = ProfileMutationKey p' k'" "ProfileMutationKey p k \<noteq> []"
    using ProfileMutationKey_inject[OF that] by simp_all
  show "EnvironmentMutationKey a \<noteq> ProfileMutationKey p k" if "EnvironmentMutationKey a \<noteq> []"
    using key_scopes_disjoint[OF that] .
qed

theorem mutation_keys_canonical_witness:
  "EnvironmentMutationKey ''a'' \<noteq> EnvironmentMutationKey ''b'' \<and>
   EnvironmentMutationKey ''a'' \<noteq> ProfileMutationKey ''p'' ''k'' \<and>
   ProfileMutationKey ''p'' ''k'' \<noteq> ProfileMutationKey ''p'' ''l''"
proof -
  have "idPattern ''a''" "EnvironmentMutationKey ''a'' \<noteq> []" "ProfileMutationKey ''p'' ''k'' \<noteq> []" by code_simp+
  then show ?thesis
    using mutation_keys_canonical[of "[]" "''a''" "''b''" "''p''" "''k''" "''p''" "''l''"] by auto
qed

end
