(* ===== verification/Lifecycle_Status.thy ===== *)
theory Lifecycle_Status
  imports Lifecycle_Journal
begin

text \<open>
  The status that is derived from a journal for display: \<open>internal/lifecycle/status.go\<close>. The
  redaction of \<open>internal/audit\<close> is the parameter \<open>redact\<close>.
\<close>

section \<open>Data\<close>

datatype activity =
    ActivityPinned | ActivityIdleGrace | ActivityIdleEligible | ActivityBlocked | ActivityStopping
  | ActivityStoppingUnknown | ActivityEstablishing | ActivityStopped | ActivityNotApplicable

record resource_summary =
  rs_Kind :: resource_kind
  rs_ID :: string
  rs_State :: resource_state

record status =
  st_Schema :: string
  st_EnvironmentID :: string
  st_StartGeneration :: u64
  st_BackendState :: lifecycle_state
  st_BackendObservedAt :: gotime
  st_Activity :: activity
  st_IdleDeadline :: "gotime option"
  st_ReasonCode :: string
  st_Reconciliation :: string
  st_DisposalPhase :: string
  st_DisposalReasonCode :: string
  st_Pins :: "resource_summary list"
  st_Drains :: "resource_summary list"
  st_Retained :: "resource_summary list"
  st_Handoffs :: "resource_summary list"
  st_Orphans :: "resource_summary list"
  st_EstablishingSessions :: nat

abbreviation StatusSchema :: string where
  "StatusSchema \<equiv> ''hideout.lifecycle-status/v1''"

section \<open>BuildStatus\<close>

definition status_root :: "resource list \<Rightarrow> string option" where
  "status_root rs =
     map_option rkey (find (\<lambda>r. rr_Kind (res_Ref r) = KindBackendIncarnation) (rev rs))"

definition summary_of :: "(string \<Rightarrow> string) \<Rightarrow> resource \<Rightarrow> resource_summary" where
  "summary_of redact r =
     \<lparr>rs_Kind = rr_Kind (res_Ref r), rs_ID = redact (rr_ID (res_Ref r)), rs_State = res_State r\<rparr>"

definition fact_summary :: "(string \<Rightarrow> string) \<Rightarrow> fact \<Rightarrow> resource_summary" where
  "fact_summary redact f =
     \<lparr>rs_Kind = fact_Kind f, rs_ID = redact (fact_ID f), rs_State = StateReleased\<rparr>"

definition status_class :: "resource list \<Rightarrow> resource \<Rightarrow> stop_class" where
  "status_class rs r =
     (case status_root rs of
        None \<Rightarrow> Unrelated
      | Some root \<Rightarrow>
          if rkey r = root \<or> \<not> IsPossiblyLive r then Unrelated
          else case pathMode (rkey r) root (by_key rs) of
                 (mode, found) \<Rightarrow>
                   if \<not> found then Unrelated
                   else if mode = StopModePin \<or> res_State r = StateOrphaned then Pins else Drains)"

definition status_activity ::
  "observation \<Rightarrow> bool \<Rightarrow> bool \<Rightarrow> gotime option \<Rightarrow> reconciliation \<Rightarrow> string \<Rightarrow> activity" where
  "status_activity ob has_orphans has_live deadline rc stopState =
     (if obs_State ob = LifecycleOther ''not-applicable'' then ActivityNotApplicable
      else if stopState = ''unknown'' then ActivityStoppingUnknown
      else if stopState \<in> {''planned'', ''draining'', ''invoked'', ''observing''} then ActivityStopping
      else if obs_State ob = LifecycleUnknown \<or> rc_State rc \<noteq> ''complete'' \<or> has_orphans then ActivityBlocked
      else if stopState = ''committed'' \<or> obs_State ob = LifecycleStopped \<or> obs_State ob = LifecycleAbsent
      then ActivityStopped
      else if has_live then ActivityPinned
      else if deadline \<noteq> None then ActivityIdleGrace
      else ActivityIdleEligible)"

definition status_reason ::
  "(string \<Rightarrow> string) \<Rightarrow> observation \<Rightarrow> reconciliation \<Rightarrow> activity \<Rightarrow> string" where
  "status_reason redact ob rc act =
     (let r0 = (if act = ActivityStoppingUnknown then redact (obs_ReasonCode ob) else []);
          r1 = (if r0 = [] \<and> rc_State rc \<noteq> ''complete'' then redact (rc_ReasonCode rc) else r0);
          r2 = (if r1 = [] \<and> obs_State ob = LifecycleUnknown then redact (obs_ReasonCode ob) else r1)
      in if r2 = [] \<and> act = ActivityBlocked then ''reconciliation-unproved'' else r2)"

definition summary_key :: "resource_summary \<Rightarrow> string" where
  "summary_key s = rs_Kind s @ rs_ID s"

definition BuildStatus ::
  "(string \<Rightarrow> string) \<Rightarrow> string \<Rightarrow> u64 \<Rightarrow> observation \<Rightarrow> resource list \<Rightarrow> fact list \<Rightarrow> gotime option \<Rightarrow>
   reconciliation \<Rightarrow> string \<Rightarrow> status" where
  "BuildStatus redact environmentID generation ob resources facts deadline rc stopState =
     (let orphans = map (summary_of redact) (filter (\<lambda>r. res_State r = StateOrphaned) resources);
          pins = map (summary_of redact) (filter (\<lambda>r. status_class resources r = Pins) resources);
          drains = map (summary_of redact) (filter (\<lambda>r. status_class resources r = Drains) resources);
          handoffs = map (fact_summary redact) (filter (\<lambda>f. fact_Class f = FactHandoff) facts);
          retained = map (fact_summary redact) (filter (\<lambda>f. fact_Class f = FactRetained) facts);
          act = status_activity ob (orphans \<noteq> []) (pins \<noteq> [] \<or> drains \<noteq> []) deadline rc stopState
      in \<lparr>st_Schema = StatusSchema, st_EnvironmentID = redact environmentID,
          st_StartGeneration = generation, st_BackendState = obs_State ob,
          st_BackendObservedAt = time_UTC (obs_ObservedAt ob), st_Activity = act,
          st_IdleDeadline = deadline, st_ReasonCode = status_reason redact ob rc act,
          st_Reconciliation = redact (rc_State rc), st_DisposalPhase = [], st_DisposalReasonCode = [],
          st_Pins = sort_key summary_key pins, st_Drains = sort_key summary_key drains,
          st_Retained = sort_key summary_key retained, st_Handoffs = sort_key summary_key handoffs,
          st_Orphans = sort_key summary_key orphans, st_EstablishingSessions = 0\<rparr>)"

definition sortStatuses :: "status list \<Rightarrow> status list" where
  "sortStatuses values = sort_key st_EnvironmentID values"

section \<open>The status agrees with the stop predicate\<close>

text \<open>
  On a valid graph with the current root the display classifies a resource as the stop predicate
  does, except for an orphan that no longer reaches the root: that one is only listed as an orphan.
\<close>

lemma status_class_classify:
  assumes "status_root rs = Some root"
  shows "status_class rs r =
    (if classify (by_key rs) root r = Pins \<and> \<not> snd (pathMode (rkey r) root (by_key rs)) then Unrelated
     else classify (by_key rs) root r)"
  using assms by (auto simp: status_class_def classify_def split: prod.splits)

lemma status_activity_idle:
  "status_activity ob orphans live deadline rc stopState = ActivityIdleEligible \<or>
   status_activity ob orphans live deadline rc stopState = ActivityIdleGrace \<Longrightarrow>
     \<not> orphans \<and> \<not> live \<and> rc_State rc = ''complete'' \<and> obs_State ob \<noteq> LifecycleUnknown \<and>
     obs_State ob \<noteq> LifecycleStopped \<and> obs_State ob \<noteq> LifecycleAbsent"
  by (auto simp: status_activity_def split: if_splits)

lemma status_activity_blocked:
  "rc_State rc \<noteq> ''complete'' \<Longrightarrow>
     status_activity ob orphans live deadline rc stopState \<in>
       {ActivityBlocked, ActivityStopping, ActivityStoppingUnknown, ActivityNotApplicable}"
  by (simp add: status_activity_def)

lemma status_reason_blocked:
  "status_reason redact ob rc ActivityBlocked \<noteq> []"
  by (simp add: status_reason_def Let_def)

section \<open>Properties\<close>



end
