(* ===== verification/Lifecycle_Coordinator.thy ===== *)
theory Lifecycle_Coordinator
  imports Lifecycle_Store Lifecycle_Mutation Lifecycle_Status
begin

text \<open>
  The coordinator's state, what every operation uses of it, and the stop of an idle environment:
  \<open>internal/lifecycle/coordinator.go\<close>, the environment part of \<open>mutation.go\<close> and
  \<open>loadEnvironmentLocked\<close> of \<open>incarnation.go\<close>.

  An operation is a function from the coordinator to a result and the coordinator. What runs
  under one acquisition of the coordinator's mutex is one definition and reads the clock once,
  the argument \<open>now\<close>; an operation that gives the mutex up around a callback is one definition
  for each part. \<open>map[string]bool\<close> is the list of its true keys, a map from keys to lists is a
  function that is empty elsewhere, a channel, timer or cancel function is whether it is set.
  A pointer that the code compares is a number that is given once.
\<close>

section \<open>State\<close>

record event =
  evt_EnvironmentID :: string
  evt_Generation :: u64
  evt_Kind :: string
  evt_ReasonCode :: string
  evt_At :: gotime

record registry_env =
  re_Journal :: journal
  re_Handles :: "string list"
  re_Establishing :: "(string \<times> nat) list"
  re_Committed :: "string list"
  re_Closing :: "string list"
  re_Mutation :: bool
  re_MutationOwner :: "mutation_owner option"
  re_MutationLease :: "mutation_lease option"
  re_ResourceUsers :: "string \<Rightarrow> string list"
  re_ResourceOrder :: "string \<Rightarrow> resource_ref list"
  re_Terminal :: "string \<Rightarrow> resource_state option"
  re_Timer :: bool
  re_StopCancel :: bool
  re_StopDone :: bool
  re_DeadlineSeq :: u64
  re_Checkpoint :: bool
  re_CheckpointSeq :: u64
  re_Dirty :: bool
  re_Blocked :: bool
  re_Reconciling :: bool
  re_ReconcileLease :: "mutation_lease option"
  re_Observation :: observation
  re_Ident :: nat

record coordinator =
  c_Disk :: disk
  c_DaemonID :: string
  c_IdleGrace :: int
  c_HasStop :: bool
  c_Enabled :: bool
  c_Redact :: "string \<Rightarrow> string"
  c_Environments :: "(string \<times> registry_env) list"
  c_Claims :: claim_table
  c_StopWG :: nat
  c_Closing :: bool
  c_Closed :: bool
  c_Events :: "event list"
  c_NextIdent :: nat

definition zero_observation :: observation where
  "zero_observation = \<lparr>obs_State = LifecycleOther [], obs_InstanceName = [], obs_BootID = [],
     obs_ObservedAt = zero_time, obs_ReasonCode = []\<rparr>"

definition get_env :: "coordinator \<Rightarrow> string \<Rightarrow> registry_env option" where
  "get_env c env = map_of (c_Environments c) env"

definition put_env :: "coordinator \<Rightarrow> string \<Rightarrow> registry_env \<Rightarrow> coordinator" where
  "put_env c env st = c\<lparr>c_Environments := AList.update env st (c_Environments c)\<rparr>"

definition del_env :: "coordinator \<Rightarrow> string \<Rightarrow> coordinator" where
  "del_env c env = c\<lparr>c_Environments := AList.delete env (c_Environments c)\<rparr>"

abbreviation mod_journal :: "(journal \<Rightarrow> journal) \<Rightarrow> registry_env \<Rightarrow> registry_env" where
  "mod_journal f st \<equiv> st\<lparr>re_Journal := f (re_Journal st)\<rparr>"

abbreviation nowUTC :: "gotime \<Rightarrow> gotime" where
  "nowUTC now \<equiv> time_UTC now"

abbreviation is_closed :: "coordinator \<Rightarrow> bool" where
  "is_closed c \<equiv> c_Closing c \<or> c_Closed c"

definition emitLocked :: "string \<Rightarrow> u64 \<Rightarrow> string \<Rightarrow> string \<Rightarrow> gotime \<Rightarrow> coordinator \<Rightarrow> coordinator" where
  "emitLocked env generation kind reason now c =
     c\<lparr>c_Events := c_Events c @ [\<lparr>evt_EnvironmentID = env, evt_Generation = generation,
        evt_Kind = kind, evt_ReasonCode = reason, evt_At = nowUTC now\<rparr>]\<rparr>"

definition DefaultIdleGrace :: int where
  "DefaultIdleGrace = 15 * 10 ^ 9"

definition NewCoordinator ::
  "disk \<Rightarrow> string \<Rightarrow> string \<Rightarrow> int \<Rightarrow> bool \<Rightarrow> bool \<Rightarrow> (string \<Rightarrow> string) \<Rightarrow> lc_error + coordinator" where
  "NewCoordinator d root daemonID idleGrace hasStop enabled redact =
     (if root = [] \<or> \<not> idPattern daemonID
      then Inl (Errorf ''lifecycle coordinator identity is invalid'')
      else let grace = (if idleGrace = 0 then DefaultIdleGrace else idleGrace) in
        if grace < 10 ^ 6 \<or> 3600 * 10 ^ 9 < grace
        then Inl (Errorf ''lifecycle idle grace is out of bounds'')
        else Inr \<lparr>c_Disk = d, c_DaemonID = daemonID, c_IdleGrace = grace, c_HasStop = hasStop,
          c_Enabled = enabled, c_Redact = redact, c_Environments = [],
          c_Claims = \<lparr>ct_Claims = (\<lambda>_. []), ct_Sequence = 0\<rparr>, c_StopWG = 0, c_Closing = False,
          c_Closed = False, c_Events = [], c_NextIdent = 0\<rparr>)"

section \<open>Persistence\<close>

definition sortedResources :: "resource list \<Rightarrow> resource list" where
  "sortedResources rs = sort_key rkey rs"

text \<open>What is written: the time of the update and the resources in the order of their keys.\<close>

definition stamped :: "gotime \<Rightarrow> registry_env \<Rightarrow> registry_env" where
  "stamped now st =
     mod_journal (\<lambda>j. j\<lparr>j_UpdatedAt := nowUTC now, j_Resources := sortedResources (j_Resources j)\<rparr>) st"

definition persistLocked ::
  "coordinator \<Rightarrow> registry_env \<Rightarrow> gotime \<Rightarrow> lc_error option \<times> registry_env \<times> coordinator" where
  "persistLocked c st now =
     (case Write (c_Disk c) (re_Journal (stamped now st)) of
        (e, d) \<Rightarrow> (e, stamped now st, c\<lparr>c_Disk := d\<rparr>))"

definition stop_checkpoint :: "registry_env \<Rightarrow> registry_env" where
  "stop_checkpoint st =
     (if re_Checkpoint st
      then st\<lparr>re_Checkpoint := False, re_CheckpointSeq := re_CheckpointSeq st + 1\<rparr> else st)"

definition persistNowLocked ::
  "coordinator \<Rightarrow> registry_env \<Rightarrow> gotime \<Rightarrow> lc_error option \<times> registry_env \<times> coordinator" where
  "persistNowLocked c st now =
     (case persistLocked c (stop_checkpoint st) now of
        (None, st1, c1) \<Rightarrow> (None, st1\<lparr>re_Dirty := False\<rparr>, c1)
      | (Some e, st1, c1) \<Rightarrow> (Some e, st1, c1))"

definition checkpointLaterLocked :: "registry_env \<Rightarrow> registry_env" where
  "checkpointLaterLocked st =
     (if re_Checkpoint st then st\<lparr>re_Dirty := True\<rparr>
      else st\<lparr>re_Dirty := True, re_Checkpoint := True, re_CheckpointSeq := re_CheckpointSeq st + 1\<rparr>)"

definition block_env :: "coordinator \<Rightarrow> string \<Rightarrow> gotime \<Rightarrow> registry_env \<Rightarrow> registry_env" where
  "block_env c reason now st =
     st\<lparr>re_Blocked := True,
        re_Journal := (re_Journal st)\<lparr>j_Reconciliation :=
          blockedReconciliation (c_DaemonID c) reason (nowUTC now)\<rparr>\<rparr>"

text \<open>The callback of the checkpoint timer that was started for the state \<open>ident\<close>.\<close>

definition checkpoint_fire :: "coordinator \<Rightarrow> string \<Rightarrow> nat \<Rightarrow> u64 \<Rightarrow> gotime \<Rightarrow> coordinator" where
  "checkpoint_fire c env ident sequence now =
     (case get_env c env of
        None \<Rightarrow> c
      | Some st \<Rightarrow>
          if re_Ident st \<noteq> ident \<or> re_CheckpointSeq st \<noteq> sequence \<or> c_Closed c then c
          else let st1 = st\<lparr>re_Checkpoint := False\<rparr> in
            if \<not> re_Dirty st1 then put_env c env st1
            else (case persistLocked c st1 now of
                    (Some _, st2, c2) \<Rightarrow>
                      emitLocked env (j_StartGeneration (re_Journal st2)) ''reconciliation-blocked''
                        ''journal-checkpoint-failed'' now
                        (put_env c2 env (block_env c2 ''journal-checkpoint-failed'' now st2))
                  | (None, st2, c2) \<Rightarrow> put_env c2 env (st2\<lparr>re_Dirty := False\<rparr>)))"

definition new_registry_env :: "journal \<Rightarrow> nat \<Rightarrow> registry_env" where
  "new_registry_env j ident =
     \<lparr>re_Journal = j, re_Handles = [], re_Establishing = [], re_Committed = [], re_Closing = [],
      re_Mutation = False, re_MutationOwner = None, re_MutationLease = None,
      re_ResourceUsers = (\<lambda>_. []), re_ResourceOrder = (\<lambda>_. []), re_Terminal = (\<lambda>_. None),
      re_Timer = False, re_StopCancel = False, re_StopDone = False, re_DeadlineSeq = 0,
      re_Checkpoint = False, re_CheckpointSeq = 0, re_Dirty = False, re_Blocked = False,
      re_Reconciling = False, re_ReconcileLease = None, re_Observation = zero_observation,
      re_Ident = ident\<rparr>"

definition install_env :: "coordinator \<Rightarrow> string \<Rightarrow> journal \<Rightarrow> gotime \<Rightarrow> registry_env \<times> coordinator" where
  "install_env c env j now =
     (let st = new_registry_env j (c_NextIdent c);
          st' = (if rc_DaemonInstanceID (j_Reconciliation j) \<noteq> c_DaemonID c \<and> j_Resources j \<noteq> []
                 then block_env c ''prior-daemon-state-unproved'' now st else st)
      in (st', put_env (c\<lparr>c_NextIdent := Suc (c_NextIdent c)\<rparr>) env st'))"

definition loadEnvironmentLocked ::
  "coordinator \<Rightarrow> string \<Rightarrow> gotime \<Rightarrow> (lc_error + registry_env) \<times> coordinator" where
  "loadEnvironmentLocked c env now =
     (case get_env c env of
        Some st \<Rightarrow> (Inr st, c)
      | None \<Rightarrow>
        (case Load (c_Disk c) env of
           (Inr j, d) \<Rightarrow> (case install_env (c\<lparr>c_Disk := d\<rparr>) env j now of (st, c') \<Rightarrow> (Inr st, c'))
         | (Inl e, d) \<Rightarrow>
             if e = ErrNotExist
             then (case install_env (c\<lparr>c_Disk := d\<rparr>) env
                     ((newJournal env (c_DaemonID c) 1 (nowUTC now))\<lparr>j_StartGeneration := 0\<rparr>) now of
                     (st, c') \<Rightarrow> (Inr st, c'))
             else (Inl (Wrapped ''load lifecycle journal'' e), c\<lparr>c_Disk := d\<rparr>)))"

section \<open>Conflicts and status\<close>

definition attemptBlocksAttach :: "stop_attempt option \<Rightarrow> bool" where
  "attemptBlocksAttach attempt \<longleftrightarrow>
     (case attempt of
        None \<Rightarrow> False
      | Some a \<Rightarrow> sa_State a \<in> {''planned'', ''draining'', ''invoked'', ''observing'', ''unknown''})"

abbreviation attempt_blocks :: "registry_env \<Rightarrow> bool" where
  "attempt_blocks st \<equiv> attemptBlocksAttach (j_StopAttempt (re_Journal st))"

definition syntheticEnvironmentBlockerLocked ::
  "coordinator \<Rightarrow> registry_env \<Rightarrow> gotime \<Rightarrow> mutation_owner option" where
  "syntheticEnvironmentBlockerLocked c st now =
     (if re_Reconciling st then
        let observed = rc_ObservedAt (j_Reconciliation (re_Journal st)) in
        Some \<lparr>mo_Kind = MutationOwnerReconcile, mo_ID = c_DaemonID c, mo_Phase = ''reconciling'',
              mo_Recovery = ''wait for lifecycle reconciliation to finish, then retry'',
              mo_StartedAt = (if time_IsZero observed then nowUTC now else observed)\<rparr>
      else if re_Establishing st \<noteq> [] then
        Some (attachMutationOwner (hd (sort (map fst (re_Establishing st)))) (nowUTC now))
      else if re_Handles st \<noteq> [] then
        Some \<lparr>mo_Kind = MutationOwnerSession, mo_ID = hd (sort (re_Handles st)), mo_Phase = ''active'',
              mo_Recovery = ''stop the owning session or use an explicitly confirmed forced cleanup'',
              mo_StartedAt = nowUTC now\<rparr>
      else if re_MutationOwner st \<noteq> None then re_MutationOwner st
      else case j_StopAttempt (re_Journal st) of
             None \<Rightarrow> None
           | Some a \<Rightarrow>
               if attemptBlocksAttach (Some a) then
                 Some \<lparr>mo_Kind = MutationOwnerStop, mo_ID = sa_ID a, mo_Phase = ''stopping'',
                       mo_Recovery = ''wait for stable stop evidence, inspect lifecycle status, then retry'',
                       mo_StartedAt = sa_StartedAt a\<rparr>
               else None)"

definition environmentConflictLocked ::
  "coordinator \<Rightarrow> string \<Rightarrow> registry_env \<Rightarrow> mutation_owner \<Rightarrow> lc_error option \<Rightarrow> gotime \<Rightarrow> lc_error" where
  "environmentConflictLocked c env st requested fallback now =
     (let key = EnvironmentMutationKey env in
      case first_blocker (c_Claims c) requested key of
        Some b \<Rightarrow> MutationConflictError key b requested
          (case fallback of Some f \<Rightarrow> f | None \<Rightarrow> mutationConflictCause requested b)
      | None \<Rightarrow>
          let b = (case syntheticEnvironmentBlockerLocked c st now of
                     Some b \<Rightarrow> b
                   | None \<Rightarrow> \<lparr>mo_Kind = MutationOwnerCleanup, mo_ID = c_DaemonID c, mo_Phase = ''applying'',
                       mo_Recovery = ''inspect lifecycle status and retry after the current operation finishes'',
                       mo_StartedAt = nowUTC now\<rparr>)
          in MutationConflictError key b requested
               (case fallback of Some f \<Rightarrow> f | None \<Rightarrow> mutationConflictCause requested b))"

definition claim_env ::
  "coordinator \<Rightarrow> mutation_request \<Rightarrow> (lc_error + mutation_lease) \<times> coordinator" where
  "claim_env c request =
     (case claimMutationKeysLocked (c_Claims c) request of (r, t) \<Rightarrow> (r, c\<lparr>c_Claims := t\<rparr>))"

definition release_lease :: "mutation_lease \<Rightarrow> coordinator \<Rightarrow> coordinator" where
  "release_lease lease c = c\<lparr>c_Claims := releaseLocked lease (c_Claims c)\<rparr>"

definition AcquireMutation ::
  "coordinator \<Rightarrow> lc_error option \<Rightarrow> mutation_request \<Rightarrow> gotime \<Rightarrow> (lc_error + mutation_lease) \<times> coordinator" where
  "AcquireMutation c ctx request now =
     (case ctx of
        Some e \<Rightarrow> (Inl e, c)
      | None \<Rightarrow>
        (case normalizeMutationRequest request now of
           Inl e \<Rightarrow> (Inl e, c)
         | Inr r \<Rightarrow> if is_closed c then (Inl ErrCoordinatorClosed, c) else claim_env c r))"

definition statusLocked :: "coordinator \<Rightarrow> string \<Rightarrow> registry_env \<Rightarrow> gotime \<Rightarrow> status" where
  "statusLocked c env st now =
     (let j = re_Journal st;
          ob = (if time_IsZero (obs_ObservedAt (re_Observation st)) \<or>
                   LifecycleObservation_Validate (re_Observation st) \<noteq> None
                then \<lparr>obs_State = LifecycleUnknown, obs_InstanceName = env, obs_BootID = [],
                      obs_ObservedAt = nowUTC now, obs_ReasonCode = ''not-observed''\<rparr>
                else re_Observation st);
          s = BuildStatus (c_Redact c) env (j_StartGeneration j) ob (j_Resources j) (j_Facts j)
                (map_option id_Deadline (j_IdleDeadline j)) (j_Reconciliation j)
                (case j_StopAttempt j of None \<Rightarrow> [] | Some a \<Rightarrow> sa_State a);
          s1 = (case j_Disposal j of None \<Rightarrow> s
                | Some i \<Rightarrow> s\<lparr>st_DisposalPhase := di_State i, st_DisposalReasonCode := di_ReasonCode i\<rparr>);
          s2 = s1\<lparr>st_EstablishingSessions := length (re_Establishing st)\<rparr>
      in if re_Establishing st = [] then s2
         else s2\<lparr>st_Activity := ActivityEstablishing,
                 st_ReasonCode := ''attach-establishment-in-progress''\<rparr>)"

definition Snapshot :: "coordinator \<Rightarrow> gotime \<Rightarrow> status list" where
  "Snapshot c now = sortStatuses (map (\<lambda>(env, st). statusLocked c env st now) (c_Environments c))"

section \<open>Idle deadlines\<close>

definition currentIncarnationObservation :: "registry_env \<Rightarrow> lc_error + observation" where
  "currentIncarnationObservation st =
     (case j_Incarnation (re_Journal st) of
        None \<Rightarrow> Inl (Errorf ''lifecycle incarnation is unavailable'')
      | Some inc \<Rightarrow>
        (case LifecycleObservation_Validate (re_Observation st) of
           Some e \<Rightarrow> Inl e
         | None \<Rightarrow>
             if obs_State (re_Observation st) \<noteq> LifecycleRunning \<or>
                obs_InstanceName (re_Observation st) \<noteq> er_InstanceName inc \<or>
                obs_BootID (re_Observation st) \<noteq> er_BootID inc
             then Inl (Errorf ''lifecycle observation does not prove the current incarnation running'')
             else Inr (re_Observation st)))"

definition stop_input :: "registry_env \<Rightarrow> environment_ref \<Rightarrow> observation \<Rightarrow> bool \<Rightarrow> evaluation_input" where
  "stop_input st inc ob expired =
     \<lparr>ei_Incarnation = inc, ei_Resources = j_Resources (re_Journal st), ei_Observation = ob,
      ei_TransitionInFlight = False, ei_GraceExpired = expired,
      ei_ReconciliationComplete = (rc_State (j_Reconciliation (re_Journal st)) = ''complete''),
      ei_CurrentDaemonOwnsAttempt = True\<rparr>"

definition set_deadline :: "coordinator \<Rightarrow> environment_ref \<Rightarrow> u64 \<Rightarrow> gotime \<Rightarrow> registry_env \<Rightarrow> registry_env" where
  "set_deadline c inc sequence now st =
     checkpointLaterLocked
       (st\<lparr>re_DeadlineSeq := sequence, re_Timer := True,
           re_Journal := (re_Journal st)\<lparr>j_IdleDeadline := Some
             \<lparr>id_Incarnation = inc, id_DaemonInstanceID = c_DaemonID c, id_ScheduledAt = nowUTC now,
              id_Deadline = time_Add (nowUTC now) (c_IdleGrace c), id_Generation = sequence\<rparr>\<rparr>\<rparr>)"

definition scheduleIfIdleLocked ::
  "coordinator \<Rightarrow> string \<Rightarrow> registry_env \<Rightarrow> gotime \<Rightarrow> lc_error option \<times> registry_env \<times> coordinator" where
  "scheduleIfIdleLocked c env st now =
     (if is_closed c then (Some ErrCoordinatorClosed, st, c)
      else if re_Establishing st \<noteq> [] then persistLocked c st now
      else case j_Incarnation (re_Journal st) of
        None \<Rightarrow> persistLocked c st now
      | Some inc \<Rightarrow>
        if re_Blocked st \<or> er_BootID inc = [] then persistLocked c st now
        else case currentIncarnationObservation st of
          Inl _ \<Rightarrow> persistLocked c (block_env c ''backend-observation-unproved'' now st) now
        | Inr ob \<Rightarrow>
          (case EvaluateAutoStop (stop_input st inc ob False) of
             Inl e \<Rightarrow> (case persistLocked c (block_env c ''lifecycle-graph-invalid'' now st) now of
                         (_, st1, c1) \<Rightarrow> (Some e, st1, c1))
           | Inr ev \<Rightarrow>
               if ev_Pins ev \<noteq> [] \<or> ev_Drains ev \<noteq> [] then persistLocked c st now
               else let s = re_DeadlineSeq st + 1; sequence = (if s = 0 then 1 else s)
                    in (None, set_deadline c inc sequence now st,
                        emitLocked env (er_StartGeneration inc) ''idle-grace-started'' [] now c)))"

definition cancelDeadlineForAttachLocked ::
  "coordinator \<Rightarrow> registry_env \<Rightarrow> gotime \<Rightarrow> bool \<times> registry_env \<times> coordinator" where
  "cancelDeadlineForAttachLocked c st now =
     (let st1 = st\<lparr>re_Timer := False\<rparr> in
      case j_IdleDeadline (re_Journal st1) of
        None \<Rightarrow> (False, st1, c)
      | Some dl \<Rightarrow>
          (True,
           st1\<lparr>re_DeadlineSeq := re_DeadlineSeq st1 + 1, re_Dirty := True,
               re_Journal := (re_Journal st1)\<lparr>j_IdleDeadline := None\<rparr>\<rparr>,
           emitLocked (er_EnvironmentID (id_Incarnation dl)) (er_StartGeneration (id_Incarnation dl))
             ''idle-grace-cancelled'' [] now c))"

definition cancelDeadlineLocked ::
  "coordinator \<Rightarrow> registry_env \<Rightarrow> gotime \<Rightarrow> lc_error option \<times> registry_env \<times> coordinator" where
  "cancelDeadlineLocked c st now =
     (case cancelDeadlineForAttachLocked c st now of
        (False, st1, c1) \<Rightarrow> (None, st1, c1)
      | (True, st1, c1) \<Rightarrow> persistNowLocked c1 st1 now)"

section \<open>Stopping an environment\<close>

record stop_result =
  sres_Observation :: observation
  sres_ReasonCode :: string
  sres_CleanupUnproved :: bool

text \<open>A stop callback that runs: the request it was given and the lease that is held meanwhile.\<close>

record stop_txn =
  tx_EnvironmentID :: string
  tx_AttemptID :: string
  tx_Mode :: string
  tx_Incarnation :: environment_ref
  tx_Lease :: mutation_lease

definition show_int :: "int \<Rightarrow> string" where
  "show_int i = (if i < 0 then CHR ''-'' # show_nat (nat (- i)) else show_nat (nat i))"

definition UnixNano :: "gotime \<Rightarrow> int" where
  "UnixNano t = instant t - 62135596800 * 10 ^ 9"

definition stop_owner :: "string \<Rightarrow> gotime \<Rightarrow> mutation_owner" where
  "stop_owner attemptID started =
     \<lparr>mo_Kind = MutationOwnerStop, mo_ID = attemptID, mo_Phase = ''stopping'',
      mo_Recovery = ''wait for stable stop evidence, inspect lifecycle status, then retry'',
      mo_StartedAt = started\<rparr>"

definition env_request :: "string \<Rightarrow> mutation_owner \<Rightarrow> mutation_request" where
  "env_request env owner = \<lparr>mr_Keys = [EnvironmentMutationKey env], mr_Owner = owner\<rparr>"

definition new_attempt ::
  "coordinator \<Rightarrow> string \<Rightarrow> environment_ref \<Rightarrow> string \<Rightarrow> string \<Rightarrow> gotime \<Rightarrow> stop_attempt" where
  "new_attempt c attemptID inc mode state now =
     \<lparr>sa_ID = attemptID, sa_Incarnation = inc, sa_DaemonInstanceID = c_DaemonID c, sa_Mode = mode,
      sa_State = state, sa_StartedAt = nowUTC now, sa_Observation = None\<rparr>"

definition set_attempt :: "stop_attempt option \<Rightarrow> registry_env \<Rightarrow> registry_env" where
  "set_attempt a st = mod_journal (\<lambda>j. j\<lparr>j_StopAttempt := a\<rparr>) st"

text \<open>The stop callback is about to run: its cancel function and its channel are made.\<close>

definition begin_stop ::
  "coordinator \<Rightarrow> string \<Rightarrow> registry_env \<Rightarrow> coordinator" where
  "begin_stop c env st =
     (put_env c env (st\<lparr>re_StopCancel := True, re_StopDone := True\<rparr>))\<lparr>c_StopWG := Suc (c_StopWG c)\<rparr>"

definition expire_attempt ::
  "coordinator \<Rightarrow> string \<Rightarrow> registry_env \<Rightarrow> environment_ref \<Rightarrow> string \<Rightarrow> mutation_lease \<Rightarrow> gotime \<Rightarrow>
   stop_txn option \<times> coordinator" where
  "expire_attempt c env st inc attemptID lease now =
     (let st1 = set_attempt (Some (new_attempt c attemptID inc ''automatic'' ''planned'' now))
                  ((mod_journal (\<lambda>j. j\<lparr>j_IdleDeadline := None\<rparr>) st)\<lparr>re_Timer := False\<rparr>)
      in case persistLocked c st1 now of
           (Some _, st2, c2) \<Rightarrow> (None, release_lease lease (put_env c2 env (st2\<lparr>re_Blocked := True\<rparr>)))
         | (None, st2, c2) \<Rightarrow>
             let c3 = emitLocked env (er_StartGeneration inc) ''idle-grace-expired'' [] now c2 in
             if \<not> c_Enabled c \<or> \<not> c_HasStop c
             then (case persistLocked c3 (set_attempt None st2) now of
                     (_, st4, c4) \<Rightarrow> (None, release_lease lease (put_env c4 env st4)))
             else (case persistLocked c3
                     (set_attempt (map_option (sa_State_update (\<lambda>_. ''invoked'')) (j_StopAttempt (re_Journal st2))) st2)
                     now of
                     (_, st4, c4) \<Rightarrow>
                       (Some \<lparr>tx_EnvironmentID = env, tx_AttemptID = attemptID, tx_Mode = ''automatic'',
                              tx_Incarnation = inc, tx_Lease = lease\<rparr>,
                        begin_stop c4 env st4)))"

definition expire_claim ::
  "coordinator \<Rightarrow> string \<Rightarrow> registry_env \<Rightarrow> environment_ref \<Rightarrow> u64 \<Rightarrow> gotime \<Rightarrow> stop_txn option \<times> coordinator" where
  "expire_claim c env st inc sequence now =
     (let attemptID = ''stop-'' @ show_u64 (er_StartGeneration inc) @ ''-'' @ show_u64 sequence in
      case normalizeMutationRequest (env_request env (stop_owner attemptID (nowUTC now))) now of
        Inl _ \<Rightarrow>
          (case persistLocked c (block_env c ''lifecycle-mutation-key-invalid'' now st) now of
             (_, st1, c1) \<Rightarrow> (None, put_env c1 env st1))
      | Inr request \<Rightarrow>
          (case claim_env c request of
             (Inl _, c1) \<Rightarrow>
               (None, emitLocked env (er_StartGeneration inc) ''stop-deferred'' ''mutation-in-progress'' now
                        (put_env c1 env (set_deadline c inc (re_DeadlineSeq st + 1) now st)))
           | (Inr lease, c1) \<Rightarrow> expire_attempt c1 env st inc attemptID lease now))"

definition expire ::
  "coordinator \<Rightarrow> string \<Rightarrow> environment_ref \<Rightarrow> u64 \<Rightarrow> gotime \<Rightarrow> stop_txn option \<times> coordinator" where
  "expire c env inc sequence now =
     (case get_env c env of
        None \<Rightarrow> (None, c)
      | Some st \<Rightarrow>
        if is_closed c \<or> re_Mutation st \<or> re_Establishing st \<noteq> [] \<or>
           (case j_IdleDeadline (re_Journal st) of
              None \<Rightarrow> True
            | Some dl \<Rightarrow> id_Generation dl \<noteq> sequence \<or> \<not> EnvironmentRef_Equal (id_Incarnation dl) inc) \<or>
           re_Handles st \<noteq> []
        then (None, c)
        else case currentIncarnationObservation st of
          Inl _ \<Rightarrow>
            (case persistLocked c (block_env c ''backend-observation-unproved'' now
                    ((mod_journal (\<lambda>j. j\<lparr>j_IdleDeadline := None\<rparr>) st)\<lparr>re_Timer := False\<rparr>)) now of
               (_, st1, c1) \<Rightarrow>
                 (None, emitLocked env (er_StartGeneration inc) ''reconciliation-blocked''
                          ''backend-observation-unproved'' now (put_env c1 env st1)))
        | Inr ob \<Rightarrow>
          (case EvaluateAutoStop (stop_input st inc ob True) of
             Inl _ \<Rightarrow>
               (case persistLocked c (block_env c ''lifecycle-graph-invalid'' now st) now of
                  (_, st1, c1) \<Rightarrow> (None, put_env c1 env st1))
           | Inr ev \<Rightarrow>
               if \<not> ev_Allowed ev \<or> ev_Drains ev \<noteq> []
               then (case persistLocked c (st\<lparr>re_Blocked := False\<rparr>) now of
                       (_, st1, c1) \<Rightarrow> (None, put_env c1 env st1))
               else expire_claim c env st inc sequence now))"

fun resourcesAfterRootStop :: "resource list \<Rightarrow> bool \<Rightarrow> gotime \<Rightarrow> resource list" where
  "resourcesAfterRootStop [] cleanupUnproved now = []"
| "resourcesAfterRootStop (r # rs) cleanupUnproved now =
     (if rr_Kind (res_Ref r) = KindBackendIncarnation then resourcesAfterRootStop rs cleanupUnproved now
      else if cleanupUnproved \<and> IsPossiblyLive r
      then r\<lparr>res_State := StateOrphaned, res_PossibleVMDependency := True, res_UpdatedAt := now,
             res_Dependencies := []\<rparr> # resourcesAfterRootStop rs cleanupUnproved now
      else resourcesAfterRootStop rs cleanupUnproved now)"

fun lifecycle_name :: "lifecycle_state \<Rightarrow> string" where
  "lifecycle_name LifecycleRunning = ''running''"
| "lifecycle_name LifecycleStopped = ''stopped''"
| "lifecycle_name LifecycleAbsent = ''absent''"
| "lifecycle_name LifecycleUnknown = ''unknown''"
| "lifecycle_name (LifecycleOther s) = s"

definition stop_observation :: "environment_ref \<Rightarrow> observation \<Rightarrow> gotime \<Rightarrow> observation" where
  "stop_observation inc ob now =
     (if time_IsZero (obs_ObservedAt ob) \<or> LifecycleObservation_Validate ob \<noteq> None \<or>
         obs_InstanceName ob \<noteq> er_InstanceName inc
      then \<lparr>obs_State = LifecycleUnknown, obs_InstanceName = er_InstanceName inc, obs_BootID = [],
            obs_ObservedAt = nowUTC now, obs_ReasonCode = ''stop-result-unavailable''\<rparr>
      else ob)"

definition complete_rc :: "coordinator \<Rightarrow> gotime \<Rightarrow> reconciliation" where
  "complete_rc c now =
     \<lparr>rc_DaemonInstanceID = c_DaemonID c, rc_State = ''complete'', rc_ReasonCode = [],
      rc_ObservedAt = nowUTC now\<rparr>"

definition snapshot_of :: "observation \<Rightarrow> observation_snapshot" where
  "snapshot_of ob =
     \<lparr>os_State = lifecycle_name (obs_State ob), os_ObservedAt = obs_ObservedAt ob,
      os_ReasonCode = boundedReason (obs_ReasonCode ob)\<rparr>"

definition stopped_env ::
  "coordinator \<Rightarrow> stop_attempt \<Rightarrow> observation \<Rightarrow> bool \<Rightarrow> gotime \<Rightarrow> registry_env \<Rightarrow> registry_env" where
  "stopped_env c a ob unproved now st =
     st\<lparr>re_Observation := ob, re_ResourceUsers := (\<lambda>_. []), re_Terminal := (\<lambda>_. None),
        re_Blocked := unproved,
        re_Journal := (re_Journal st)\<lparr>
          j_StopAttempt := Some (a\<lparr>sa_Observation := Some (snapshot_of ob), sa_State := ''committed''\<rparr>),
          j_Resources := resourcesAfterRootStop (j_Resources (re_Journal st)) unproved (nowUTC now),
          j_Incarnation := None,
          j_Reconciliation := (if unproved
            then blockedReconciliation (c_DaemonID c) ''cleanup-unproved'' (nowUTC now)
            else complete_rc c now)\<rparr>\<rparr>"

definition unknown_env :: "stop_attempt \<Rightarrow> observation \<Rightarrow> registry_env \<Rightarrow> registry_env" where
  "unknown_env a ob st =
     st\<lparr>re_Observation := ob, re_Blocked := True,
        re_Journal := (re_Journal st)\<lparr>j_StopAttempt :=
          Some (a\<lparr>sa_Observation := Some (snapshot_of ob), sa_State := ''unknown''\<rparr>)\<rparr>\<rparr>"

definition finishStopLocked :: "registry_env \<Rightarrow> registry_env" where
  "finishStopLocked st = st\<lparr>re_StopDone := False\<rparr>"

definition commitStopResult ::
  "coordinator \<Rightarrow> string \<Rightarrow> string \<Rightarrow> environment_ref \<Rightarrow> stop_result \<Rightarrow> gotime \<Rightarrow> coordinator" where
  "commitStopResult c env attemptID inc res now =
     (if c_Closed c then c
      else case get_env c env of
        None \<Rightarrow> c
      | Some st \<Rightarrow>
        (case j_StopAttempt (re_Journal st) of
           None \<Rightarrow> c
         | Some a \<Rightarrow>
           if sa_ID a \<noteq> attemptID \<or> \<not> EnvironmentRef_Equal (sa_Incarnation a) inc then c
           else
             let st1 = st\<lparr>re_StopCancel := False\<rparr>;
                 ob = stop_observation inc (sres_Observation res) now;
                 stopped = (obs_State ob = LifecycleStopped \<or> obs_State ob = LifecycleAbsent);
                 st2 = (if stopped then stopped_env c a ob (sres_CleanupUnproved res) now st1
                        else unknown_env a ob st1);
                 c2 = (if stopped
                       then emitLocked env (er_StartGeneration inc) ''environment-stopped''
                              (boundedReason (sres_ReasonCode res)) now c
                       else emitLocked env (er_StartGeneration inc) ''stop-unknown''
                              (boundedReason (if sres_ReasonCode res = [] then obs_ReasonCode ob
                                              else sres_ReasonCode res)) now c)
             in case persistLocked c2 st2 now of (_, st3, c3) \<Rightarrow> put_env c3 env (finishStopLocked st3)))"

text \<open>After the callback: \<open>commitStopResult\<close>, then the lease is released.\<close>

definition stop_returns :: "coordinator \<Rightarrow> stop_txn \<Rightarrow> stop_result \<Rightarrow> gotime \<Rightarrow> coordinator" where
  "stop_returns c txn res now =
     (commitStopResult c (tx_EnvironmentID txn) (tx_AttemptID txn) (tx_Incarnation txn) res now)
     \<lparr>c_StopWG := c_StopWG c - 1\<rparr>"

definition stop_releases :: "coordinator \<Rightarrow> stop_txn \<Rightarrow> coordinator" where
  "stop_releases c txn = release_lease (tx_Lease txn) c"

section \<open>An explicit stop\<close>

definition recoverable_orphan :: "resource \<Rightarrow> bool" where
  "recoverable_orphan r \<longleftrightarrow>
     (case Lookup (rr_Kind (res_Ref r)) of
        None \<Rightarrow> False
      | Some descr \<Rightarrow> res_ClosePolicy r = CloseCoTerminateWithRoot \<and>
          CloseCoTerminateWithRoot \<in> set (desc_ClosePolicies descr))"

fun orphan_loop :: "resource list \<Rightarrow> nat \<Rightarrow> lc_error + nat" where
  "orphan_loop [] n = Inr n"
| "orphan_loop (r # rs) n =
     (if rr_Kind (res_Ref r) = KindBackendIncarnation \<or> \<not> IsPossiblyLive r then orphan_loop rs n
      else if res_State r \<noteq> StateOrphaned
      then Inl (Errorf ''lifecycle explicit stop is blocked by a live managed resource'')
      else if \<not> recoverable_orphan r
      then Inl (Errorf ''lifecycle explicit stop is blocked by an orphan that requires provider cleanup'')
      else orphan_loop rs (Suc n))"

text \<open>
  The checks of an explicit stop once its key is claimed, in order. The error of a conflict is
  built after the claim is given back.
\<close>

definition explicit_conflict :: "registry_env \<Rightarrow> lc_error option" where
  "explicit_conflict st =
     (if re_Reconciling st then Some ErrReconciliationInFlight
      else if re_Handles st \<noteq> [] \<or> re_Establishing st \<noteq> [] then Some ErrMutationBlockedByActivity
      else if re_Mutation st then Some ErrStopInFlight
      else if attempt_blocks st then Some ErrStopInFlight
      else None)"

definition explicit_recovery :: "registry_env \<Rightarrow> lc_error + environment_ref" where
  "explicit_recovery st =
     (case j_Incarnation (re_Journal st) of
        None \<Rightarrow> Inl (Errorf ''lifecycle explicit stop lacks an observed backend incarnation'')
      | Some inc \<Rightarrow>
        if er_BootID inc = [] then Inl (Errorf ''lifecycle explicit stop lacks an observed backend incarnation'')
        else
          let rc = j_Reconciliation (re_Journal st);
              blocked = (re_Blocked st \<or> rc_State rc \<noteq> ''complete'') in
          if blocked \<and> rc_ReasonCode rc \<noteq> ''cleanup-unproved'' \<and>
             rc_ReasonCode rc \<noteq> ''owner-requires-explicit-recovery''
          then Inl (Errorf ''lifecycle explicit stop is blocked by unclassified provider state'')
          else case orphan_loop (j_Resources (re_Journal st)) 0 of
                 Inl e \<Rightarrow> Inl e
               | Inr n \<Rightarrow>
                   if blocked \<and> n = 0
                   then Inl (Errorf ''lifecycle explicit stop has no catalog-approved orphan recovery'')
                   else Inr inc)"

definition explicit_attempt ::
  "coordinator \<Rightarrow> string \<Rightarrow> registry_env \<Rightarrow> environment_ref \<Rightarrow> string \<Rightarrow> mutation_lease \<Rightarrow> gotime \<Rightarrow>
   (lc_error + stop_txn) \<times> coordinator" where
  "explicit_attempt c env st inc attemptID lease now =
     (case cancelDeadlineLocked c st now of
        (Some e, st1, c1) \<Rightarrow> (Inl e, release_lease lease (put_env c1 env st1))
      | (None, st1, c1) \<Rightarrow>
        (case persistLocked c1
                (set_attempt (Some (new_attempt c attemptID inc ''explicit-recovery'' ''invoked'' now)) st1) now of
           (Some e, st2, c2) \<Rightarrow> (Inl e, release_lease lease (put_env c2 env st2))
         | (None, st2, c2) \<Rightarrow>
             let c3 = emitLocked env (er_StartGeneration inc) ''stop-attempt-started'' [] now c2 in
             if \<not> c_HasStop c
             then (case persistLocked c3 (set_attempt None st2) now of
                     (_, st4, c4) \<Rightarrow>
                       (Inl (Errorf ''lifecycle stop authority is unavailable''),
                        release_lease lease (put_env c4 env st4)))
             else (Inr \<lparr>tx_EnvironmentID = env, tx_AttemptID = attemptID, tx_Mode = ''explicit-recovery'',
                        tx_Incarnation = inc, tx_Lease = lease\<rparr>,
                   begin_stop c3 env st2)))"

definition StopExplicit :: "coordinator \<Rightarrow> string \<Rightarrow> gotime \<Rightarrow> (lc_error + stop_txn) \<times> coordinator" where
  "StopExplicit c env now =
     (if \<not> idPattern env then (Inl (Errorf ''lifecycle explicit stop identity is invalid''), c)
      else if is_closed c then (Inl ErrCoordinatorClosed, c)
      else case loadEnvironmentLocked c env now of
        (Inl e, c1) \<Rightarrow> (Inl e, c1)
      | (Inr st, c1) \<Rightarrow>
          let attemptID = ''explicit-'' @ show_u64 (j_StartGeneration (re_Journal st)) @ ''-'' @
                show_int (UnixNano (nowUTC now)) in
          (case normalizeMutationRequest (env_request env (stop_owner attemptID (nowUTC now))) now of
             Inl e \<Rightarrow> (Inl e, c1)
           | Inr request \<Rightarrow>
             (case claim_env c1 request of
                (Inl e, c2) \<Rightarrow> (Inl e, c2)
              | (Inr lease, c2) \<Rightarrow>
                (case explicit_conflict st of
                   Some fallback \<Rightarrow>
                     let c3 = release_lease lease c2
                     in (Inl (environmentConflictLocked c3 env st (mr_Owner request) (Some fallback) now), c3)
                 | None \<Rightarrow>
                   (case explicit_recovery st of
                      Inl e \<Rightarrow> (Inl e, release_lease lease c2)
                    | Inr inc \<Rightarrow> explicit_attempt c2 env st inc attemptID lease now)))))"

text \<open>The result of the operation once the callback has returned \<open>stopErr\<close>.\<close>

definition StopExplicit_result ::
  "coordinator \<Rightarrow> string \<Rightarrow> lc_error option \<Rightarrow> gotime \<Rightarrow> (status option \<times> lc_error option)" where
  "StopExplicit_result c env stopErr now =
     (case get_env c env of
        None \<Rightarrow> (None, stopErr)
      | Some st \<Rightarrow>
          let s = statusLocked c env st now in
          (Some s,
           if stopErr = None \<and> st_Activity s \<noteq> ActivityStopped
           then Some (Errorf ''lifecycle explicit stop did not reach a proved terminal backend state'')
           else stopErr))"

section \<open>Shutdown\<close>

definition finishReconciliationLocked ::
  "coordinator \<Rightarrow> registry_env \<Rightarrow> registry_env \<times> coordinator" where
  "finishReconciliationLocked c st =
     (if \<not> re_Reconciling st then (st, c)
      else (st\<lparr>re_Reconciling := False, re_ReconcileLease := None\<rparr>,
            case re_ReconcileLease st of None \<Rightarrow> c | Some lease \<Rightarrow> release_lease lease c))"

definition close_env :: "coordinator \<Rightarrow> registry_env \<Rightarrow> gotime \<Rightarrow> registry_env \<times> coordinator" where
  "close_env c st now =
     (let st1 = finishStopLocked (mod_journal (\<lambda>j. j\<lparr>j_IdleDeadline := None\<rparr>)
            (st\<lparr>re_Establishing := [], re_Timer := False, re_StopCancel := False\<rparr>))
      in if re_Reconciling st1
         then finishReconciliationLocked c (block_env c ''daemon-shutdown'' now st1)
         else (st1, c))"

text \<open>
  The loop over the environments, by key. As with a Go map, an entry that the loop has deleted is
  not visited.
\<close>

fun close_loop ::
  "string list \<Rightarrow> gotime \<Rightarrow> lc_error option \<Rightarrow> coordinator \<Rightarrow> lc_error option \<times> coordinator" where
  "close_loop [] now acc c = (acc, c)"
| "close_loop (env # rest) now acc c =
     (case get_env c env of
        None \<Rightarrow> close_loop rest now acc c
      | Some st \<Rightarrow>
        (case close_env c st now of
           (st1, c1) \<Rightarrow>
             if j_StartGeneration (re_Journal st1) = 0
             then close_loop rest now acc (del_env c1 (j_EnvironmentID (re_Journal st1)))
             else (case persistNowLocked c1 st1 now of
               (e, st2, c2) \<Rightarrow>
                 let deferred = (case j_Incarnation (re_Journal st) of None \<Rightarrow> False | Some inc \<Rightarrow> er_BootID inc \<noteq> []);
                     c3 = put_env c2 env st2;
                     c4 = (if deferred
                           then emitLocked (j_EnvironmentID (re_Journal st)) (j_StartGeneration (re_Journal st))
                                  ''stop-deferred'' ''daemon-shutdown'' now c3 else c3)
                 in close_loop rest now (errors_Join acc e) c4)))"

definition Close :: "coordinator \<Rightarrow> gotime \<Rightarrow> lc_error option \<times> coordinator" where
  "Close c now =
     (if is_closed c then (None, c)
      else case close_loop (map fst (c_Environments c)) now None (c\<lparr>c_Closing := True\<rparr>) of
             (e, c1) \<Rightarrow> (e, c1\<lparr>c_Claims := (c_Claims c1)\<lparr>ct_Claims := (\<lambda>_. [])\<rparr>\<rparr>))"

text \<open>The end of \<open>Close\<close>, once the stop callbacks have returned or the wait has timed out.\<close>

definition Close_done :: "coordinator \<Rightarrow> lc_error option \<Rightarrow> bool \<Rightarrow> lc_error option \<times> coordinator" where
  "Close_done c result timedOut =
     (errors_Join result (if timedOut
        then Some (Errorf ''lifecycle stop transaction did not terminate during bounded shutdown'') else None),
      c\<lparr>c_Closed := True, c_Closing := False\<rparr>)"

section \<open>What the helpers leave unchanged\<close>

lemma get_put_env [simp]: "get_env (put_env c env st) e = (if e = env then Some st else get_env c e)"
  by (simp add: get_env_def put_env_def)

lemma get_del_env [simp]: "get_env (del_env c env) e = (if e = env then None else get_env c e)"
  by (simp add: get_env_def del_env_def)

lemma get_env_frame [simp]:
  "get_env (emitLocked a g k r now c) e = get_env c e"
  "get_env (release_lease lease c) e = get_env c e"
  "get_env (c\<lparr>c_Disk := d\<rparr>) e = get_env c e" "get_env (c\<lparr>c_Claims := t\<rparr>) e = get_env c e"
  "get_env (c\<lparr>c_NextIdent := n\<rparr>) e = get_env c e" "get_env (c\<lparr>c_StopWG := n\<rparr>) e = get_env c e"
  "get_env (c\<lparr>c_Closed := b\<rparr>) e = get_env c e" "get_env (c\<lparr>c_Closing := b\<rparr>) e = get_env c e"
  by (simp_all add: get_env_def emitLocked_def release_lease_def)

lemma coordinator_frame [simp]:
  "c_Claims (emitLocked a g k r now c) = c_Claims c" "c_Disk (emitLocked a g k r now c) = c_Disk c"
  "c_Closing (emitLocked a g k r now c) = c_Closing c" "c_Closed (emitLocked a g k r now c) = c_Closed c"
  "c_DaemonID (emitLocked a g k r now c) = c_DaemonID c"
  "c_Claims (put_env c env st) = c_Claims c" "c_Disk (put_env c env st) = c_Disk c"
  "c_Closing (put_env c env st) = c_Closing c" "c_Closed (put_env c env st) = c_Closed c"
  "c_DaemonID (put_env c env st) = c_DaemonID c"
  "c_Claims (del_env c env) = c_Claims c" "c_Disk (del_env c env) = c_Disk c"
  "c_Closing (del_env c env) = c_Closing c" "c_Closed (del_env c env) = c_Closed c"
  "c_DaemonID (del_env c env) = c_DaemonID c"
  "c_Claims (release_lease lease c) = releaseLocked lease (c_Claims c)"
  "c_Disk (release_lease lease c) = c_Disk c" "c_Closing (release_lease lease c) = c_Closing c"
  "c_Closed (release_lease lease c) = c_Closed c" "c_DaemonID (release_lease lease c) = c_DaemonID c"
  by (simp_all add: emitLocked_def put_env_def del_env_def release_lease_def)

definition persisted :: "coordinator \<Rightarrow> registry_env \<Rightarrow> gotime \<Rightarrow> coordinator" where
  "persisted c st now = c\<lparr>c_Disk := snd (Write (c_Disk c) (re_Journal (stamped now st)))\<rparr>"

abbreviation write_error :: "coordinator \<Rightarrow> registry_env \<Rightarrow> gotime \<Rightarrow> lc_error option" where
  "write_error c st now \<equiv> fst (Write (c_Disk c) (re_Journal (stamped now st)))"

lemma persistLocked_eq:
  "persistLocked c st now = (write_error c st now, stamped now st, persisted c st now)"
  by (simp add: persistLocked_def persisted_def split: prod.splits)

definition persisted_now :: "coordinator \<Rightarrow> registry_env \<Rightarrow> gotime \<Rightarrow> registry_env" where
  "persisted_now c st now =
     (if write_error c (stop_checkpoint st) now = None
      then (stamped now (stop_checkpoint st))\<lparr>re_Dirty := False\<rparr> else stamped now (stop_checkpoint st))"

lemma persistNowLocked_eq:
  "persistNowLocked c st now =
     (write_error c (stop_checkpoint st) now, persisted_now c st now, persisted c (stop_checkpoint st) now)"
  by (simp add: persistNowLocked_def persistLocked_eq persisted_now_def split: option.splits)

lemmas persist_eqs = persistLocked_eq persistNowLocked_eq

lemma persisted_frame [simp]:
  "get_env (persisted c st now) e = get_env c e" "c_Claims (persisted c st now) = c_Claims c"
  "c_Closing (persisted c st now) = c_Closing c" "c_Closed (persisted c st now) = c_Closed c"
  "c_DaemonID (persisted c st now) = c_DaemonID c" "c_HasStop (persisted c st now) = c_HasStop c"
  "c_Enabled (persisted c st now) = c_Enabled c" "c_IdleGrace (persisted c st now) = c_IdleGrace c"
  by (simp_all add: persisted_def get_env_def)

text \<open>
  The fields that decide which activity an environment admits, under the helpers that only write
  the journal, mark it dirty or block it.
\<close>

lemma stamped_fields [simp]:
  "re_Handles (stamped now st) = re_Handles st" "re_Establishing (stamped now st) = re_Establishing st"
  "re_Committed (stamped now st) = re_Committed st" "re_Closing (stamped now st) = re_Closing st"
  "re_Mutation (stamped now st) = re_Mutation st" "re_Reconciling (stamped now st) = re_Reconciling st"
  "re_StopCancel (stamped now st) = re_StopCancel st" "re_StopDone (stamped now st) = re_StopDone st"
  "re_Blocked (stamped now st) = re_Blocked st" "re_Observation (stamped now st) = re_Observation st"
  "re_ReconcileLease (stamped now st) = re_ReconcileLease st"
  "re_MutationLease (stamped now st) = re_MutationLease st"
  "re_ResourceUsers (stamped now st) = re_ResourceUsers st"
  "re_ResourceOrder (stamped now st) = re_ResourceOrder st"
  "j_IdleDeadline (re_Journal (stamped now st)) = j_IdleDeadline (re_Journal st)"
  "j_StopAttempt (re_Journal (stamped now st)) = j_StopAttempt (re_Journal st)"
  "j_EnvironmentID (re_Journal (stamped now st)) = j_EnvironmentID (re_Journal st)"
  "j_StartGeneration (re_Journal (stamped now st)) = j_StartGeneration (re_Journal st)"
  "j_Incarnation (re_Journal (stamped now st)) = j_Incarnation (re_Journal st)"
  "j_Reconciliation (re_Journal (stamped now st)) = j_Reconciliation (re_Journal st)"
  "j_Disposal (re_Journal (stamped now st)) = j_Disposal (re_Journal st)"
  "set (j_Resources (re_Journal (stamped now st))) = set (j_Resources (re_Journal st))"
  by (simp_all add: stamped_def sortedResources_def)

lemma stop_checkpoint_fields [simp]:
  "re_Handles (stop_checkpoint st) = re_Handles st" "re_Establishing (stop_checkpoint st) = re_Establishing st"
  "re_Committed (stop_checkpoint st) = re_Committed st" "re_Closing (stop_checkpoint st) = re_Closing st"
  "re_Mutation (stop_checkpoint st) = re_Mutation st" "re_Reconciling (stop_checkpoint st) = re_Reconciling st"
  "re_StopCancel (stop_checkpoint st) = re_StopCancel st" "re_StopDone (stop_checkpoint st) = re_StopDone st"
  "re_Blocked (stop_checkpoint st) = re_Blocked st" "re_Observation (stop_checkpoint st) = re_Observation st"
  "re_ReconcileLease (stop_checkpoint st) = re_ReconcileLease st"
  "re_MutationLease (stop_checkpoint st) = re_MutationLease st"
  "re_ResourceUsers (stop_checkpoint st) = re_ResourceUsers st"
  "re_ResourceOrder (stop_checkpoint st) = re_ResourceOrder st"
  "re_Journal (stop_checkpoint st) = re_Journal st"
  by (simp_all add: stop_checkpoint_def)

lemma persisted_now_fields [simp]:
  "re_Handles (persisted_now c st now) = re_Handles st" "re_Establishing (persisted_now c st now) = re_Establishing st"
  "re_Committed (persisted_now c st now) = re_Committed st" "re_Closing (persisted_now c st now) = re_Closing st"
  "re_Mutation (persisted_now c st now) = re_Mutation st" "re_Reconciling (persisted_now c st now) = re_Reconciling st"
  "re_StopCancel (persisted_now c st now) = re_StopCancel st" "re_StopDone (persisted_now c st now) = re_StopDone st"
  "re_Blocked (persisted_now c st now) = re_Blocked st" "re_Observation (persisted_now c st now) = re_Observation st"
  "re_ReconcileLease (persisted_now c st now) = re_ReconcileLease st"
  "re_MutationLease (persisted_now c st now) = re_MutationLease st"
  "re_ResourceUsers (persisted_now c st now) = re_ResourceUsers st"
  "re_ResourceOrder (persisted_now c st now) = re_ResourceOrder st"
  "re_Journal (persisted_now c st now) = re_Journal (stamped now st)"
  by (simp_all add: persisted_now_def stamped_def)

lemma checkpointLater_fields [simp]:
  "re_Handles (checkpointLaterLocked st) = re_Handles st"
  "re_Establishing (checkpointLaterLocked st) = re_Establishing st"
  "re_Committed (checkpointLaterLocked st) = re_Committed st"
  "re_Mutation (checkpointLaterLocked st) = re_Mutation st"
  "re_Reconciling (checkpointLaterLocked st) = re_Reconciling st"
  "re_StopCancel (checkpointLaterLocked st) = re_StopCancel st"
  "re_StopDone (checkpointLaterLocked st) = re_StopDone st"
  "re_Blocked (checkpointLaterLocked st) = re_Blocked st"
  "re_ReconcileLease (checkpointLaterLocked st) = re_ReconcileLease st"
  "re_MutationLease (checkpointLaterLocked st) = re_MutationLease st"
  "re_ResourceUsers (checkpointLaterLocked st) = re_ResourceUsers st"
  "re_ResourceOrder (checkpointLaterLocked st) = re_ResourceOrder st"
  "re_Journal (checkpointLaterLocked st) = re_Journal st"
  by (simp_all add: checkpointLaterLocked_def)

lemma block_env_fields [simp]:
  "re_Handles (block_env c r now st) = re_Handles st" "re_Establishing (block_env c r now st) = re_Establishing st"
  "re_Committed (block_env c r now st) = re_Committed st"
  "re_Mutation (block_env c r now st) = re_Mutation st" "re_Reconciling (block_env c r now st) = re_Reconciling st"
  "re_StopCancel (block_env c r now st) = re_StopCancel st" "re_StopDone (block_env c r now st) = re_StopDone st"
  "re_Blocked (block_env c r now st)" "re_ReconcileLease (block_env c r now st) = re_ReconcileLease st"
  "re_MutationLease (block_env c r now st) = re_MutationLease st"
  "j_IdleDeadline (re_Journal (block_env c r now st)) = j_IdleDeadline (re_Journal st)"
  "j_StopAttempt (re_Journal (block_env c r now st)) = j_StopAttempt (re_Journal st)"
  "j_EnvironmentID (re_Journal (block_env c r now st)) = j_EnvironmentID (re_Journal st)"
  "j_StartGeneration (re_Journal (block_env c r now st)) = j_StartGeneration (re_Journal st)"
  "j_Resources (re_Journal (block_env c r now st)) = j_Resources (re_Journal st)"
  "j_Reconciliation (re_Journal (block_env c r now st)) = blockedReconciliation (c_DaemonID c) r (nowUTC now)"
  by (simp_all add: block_env_def)

lemma set_attempt_fields [simp]:
  "re_Handles (set_attempt a st) = re_Handles st" "re_Establishing (set_attempt a st) = re_Establishing st"
  "re_Mutation (set_attempt a st) = re_Mutation st" "re_Reconciling (set_attempt a st) = re_Reconciling st"
  "re_StopCancel (set_attempt a st) = re_StopCancel st" "re_Blocked (set_attempt a st) = re_Blocked st"
  "j_IdleDeadline (re_Journal (set_attempt a st)) = j_IdleDeadline (re_Journal st)"
  "j_StopAttempt (re_Journal (set_attempt a st)) = a"
  by (simp_all add: set_attempt_def)

lemma set_deadline_fields [simp]:
  "re_Handles (set_deadline c inc s now st) = re_Handles st"
  "re_Establishing (set_deadline c inc s now st) = re_Establishing st"
  "re_Mutation (set_deadline c inc s now st) = re_Mutation st"
  "re_Reconciling (set_deadline c inc s now st) = re_Reconciling st"
  "re_StopCancel (set_deadline c inc s now st) = re_StopCancel st"
  "re_Blocked (set_deadline c inc s now st) = re_Blocked st"
  "j_StopAttempt (re_Journal (set_deadline c inc s now st)) = j_StopAttempt (re_Journal st)"
  "j_IdleDeadline (re_Journal (set_deadline c inc s now st)) =
     Some \<lparr>id_Incarnation = inc, id_DaemonInstanceID = c_DaemonID c, id_ScheduledAt = nowUTC now,
           id_Deadline = time_Add (nowUTC now) (c_IdleGrace c), id_Generation = s\<rparr>"
  by (simp_all add: set_deadline_def)

end
