(* ===== verification/Lifecycle_Registry.thy ===== *)
theory Lifecycle_Registry
  imports Lifecycle_Coordinator
begin

text \<open>
  The resources of a session's registration: \<open>internal/lifecycle/registry.go\<close>,
  \<open>finishRegistration\<close> of \<open>coordinator.go\<close> and \<open>bindBoot\<close> of \<open>incarnation.go\<close>. The order in which
  a session releases its resources is the reverse postorder of a depth-first search.
\<close>

section \<open>Requests\<close>

record registration_spec =
  sp_Kind :: resource_kind
  sp_ID :: string
  sp_OwnerKind :: string
  sp_OwnerID :: string
  sp_State :: resource_state
  sp_Dependencies :: "dependency_spec list"
  sp_Persistence :: persistence_class
  sp_ClosePolicy :: close_policy
  sp_PossibleVMDependency :: bool

record fact_spec =
  fs_Kind :: resource_kind
  fs_ID :: string
  fs_Class :: fact_class

section \<open>The order of release\<close>

type_synonym owned_refs = "(string \<times> resource_ref) list"

function release_visit :: "key_graph \<Rightarrow> owned_refs \<Rightarrow> string set \<Rightarrow> string \<Rightarrow> string set \<times> resource_ref list"
and release_deps ::
  "key_graph \<Rightarrow> owned_refs \<Rightarrow> string set \<Rightarrow> dependency_spec list \<Rightarrow> string set \<times> resource_ref list" where
  "release_visit g owned visited key =
     (case map_of owned key of
        None \<Rightarrow> (visited, [])
      | Some ref \<Rightarrow>
          if key \<in> visited then (visited, [])
          else (case release_deps g owned (insert key visited) (deps_of g key) of
                  (visited', out) \<Rightarrow> (visited', out @ [ref])))"
| "release_deps g owned visited [] = (visited, [])"
| "release_deps g owned visited (d # ds) =
     (case release_visit g owned visited (dkey d) of
        (visited', out) \<Rightarrow>
          (case release_deps g owned visited' ds of (visited'', out') \<Rightarrow> (visited'', out @ out')))"
  by pat_completeness auto

lemma release_mono:
  "release_visit_release_deps_dom (Inl (g, owned, V, k)) \<Longrightarrow> V \<subseteq> fst (release_visit g owned V k)"
  "release_visit_release_deps_dom (Inr (g, owned, V, ds)) \<Longrightarrow> V \<subseteq> fst (release_deps g owned V ds)"
proof (induction g owned V k and g owned V ds rule: release_visit_release_deps.pinduct)
  case (1 g owned V k)
  then show ?case
    by (cases "map_of owned k") (auto simp: release_visit.psimps split: prod.splits)
next
  case (2 g owned V)
  then show ?case by (simp add: release_deps.psimps)
next
  case (3 g owned V d ds)
  obtain V1 o1 where r: "release_visit g owned V (dkey d) = (V1, o1)" by (rule prod.exhaust)
  obtain V2 o2 where r2: "release_deps g owned V1 ds = (V2, o2)" by (rule prod.exhaust)
  have "V \<subseteq> V1" using "3.IH"(1) r by simp
  moreover have "V1 \<subseteq> V2" using "3.IH"(2)[OF r[symmetric]] r2 by simp
  ultimately show ?case using "3.hyps" r r2 by (simp add: release_deps.psimps)
qed

termination release_visit
proof (relation "measures
    [\<lambda>x. case x of Inl (g, owned, V, _) \<Rightarrow> card (fst ` set owned - V)
                 | Inr (g, owned, V, _) \<Rightarrow> card (fst ` set owned - V),
     \<lambda>x. case x of Inl _ \<Rightarrow> 1 | Inr (_, _, _, ds) \<Rightarrow> 2 * length ds]", goal_cases)
  case (2 g owned V key ref)
  then have "key \<in> fst ` set owned" by (metis map_of_SomeD fst_conv image_eqI)
  with 2 card_diff_insert_less[of "fst ` set owned" key V] show ?case by simp
next
  case (4 g owned V d ds V' out)
  have "V \<subseteq> V'" using release_mono(1)[OF 4(2)] by (simp add: 4(1)[symmetric])
  then have "card (fst ` set owned - V') \<le> card (fst ` set owned - V)" by (intro card_mono) auto
  then show ?case by auto
qed auto

fun release_all :: "key_graph \<Rightarrow> owned_refs \<Rightarrow> string set \<Rightarrow> resource_ref list \<Rightarrow> resource_ref list" where
  "release_all g owned visited [] = []"
| "release_all g owned visited (ref # refs) =
     (case release_visit g owned visited (Key ref) of
        (visited', out) \<Rightarrow> out @ release_all g owned visited' refs)"

definition owned_by :: "registry_env \<Rightarrow> string \<Rightarrow> owned_refs" where
  "owned_by st handle =
     rev (map (\<lambda>ref. (Key ref, ref))
       (filter (\<lambda>ref. handle \<in> set (re_ResourceUsers st (Key ref))) (re_ResourceOrder st handle)))"

definition releaseOrderForHandleLocked :: "registry_env \<Rightarrow> string \<Rightarrow> resource_ref list" where
  "releaseOrderForHandleLocked st handle =
     rev (release_all (by_key (j_Resources (re_Journal st))) (owned_by st handle) {}
            (re_ResourceOrder st handle))"

section \<open>Adding and removing resources\<close>

definition containsRef :: "resource_ref list \<Rightarrow> resource_ref \<Rightarrow> bool" where
  "containsRef refs target \<longleftrightarrow> Key target \<in> Key ` set refs"

definition resourceWithoutTime :: "resource \<Rightarrow> resource" where
  "resourceWithoutTime r = r\<lparr>res_UpdatedAt := zero_time\<rparr>"

definition resourcesJoinCompatible :: "resource \<Rightarrow> resource \<Rightarrow> bool" where
  "resourcesJoinCompatible existing joining \<longleftrightarrow>
     (if resourceWithoutTime existing = resourceWithoutTime joining then True
      else if res_State joining \<noteq> StatePlanned \<or>
        (res_State existing \<noteq> StatePlanned \<and> res_State existing \<noteq> StateStarting \<and>
         res_State existing \<noteq> StateActive) then False
      else resourceWithoutTime (existing\<lparr>res_State := StatePlanned\<rparr>) =
           resourceWithoutTime (joining\<lparr>res_State := StatePlanned\<rparr>))"

definition add_user :: "string \<Rightarrow> string \<Rightarrow> registry_env \<Rightarrow> registry_env" where
  "add_user key handle st =
     st\<lparr>re_ResourceUsers := (re_ResourceUsers st)(key := List.insert handle (re_ResourceUsers st key))\<rparr>"

definition add_order :: "string \<Rightarrow> resource_ref \<Rightarrow> registry_env \<Rightarrow> registry_env" where
  "add_order handle ref st =
     st\<lparr>re_ResourceOrder := (re_ResourceOrder st)(handle := re_ResourceOrder st handle @ [ref])\<rparr>"

definition addOrJoinResource ::
  "registry_env \<Rightarrow> string \<Rightarrow> resource \<Rightarrow> lc_error option \<times> registry_env" where
  "addOrJoinResource st handle r =
     (case find (\<lambda>existing. rkey existing = rkey r) (j_Resources (re_Journal st)) of
        Some existing \<Rightarrow>
          if \<not> resourcesJoinCompatible existing r
          then (Some (Errorf ''conflicting lifecycle resource registration''), st)
          else let st1 = add_user (rkey r) handle st
               in (None, if containsRef (re_ResourceOrder st handle) (res_Ref r) then st1
                         else add_order handle (res_Ref r) st1)
      | None \<Rightarrow>
          (case ValidateGraph (j_Resources (re_Journal st) @ [r]) True of
             Some e \<Rightarrow> (Some e, st)
           | None \<Rightarrow>
               (None, add_order handle (res_Ref r)
                  (st\<lparr>re_ResourceUsers := (re_ResourceUsers st)(rkey r := [handle]),
                      re_Journal := (re_Journal st)\<lparr>j_Resources := j_Resources (re_Journal st) @ [r]\<rparr>\<rparr>))))"

fun remove_key :: "('a \<Rightarrow> string) \<Rightarrow> string \<Rightarrow> 'a list \<Rightarrow> 'a list" where
  "remove_key f k [] = []"
| "remove_key f k (x # xs) = (if f x = k then xs else x # remove_key f k xs)"

definition removeResourceUser :: "registry_env \<Rightarrow> string \<Rightarrow> resource_ref \<Rightarrow> registry_env" where
  "removeResourceUser st handle ref =
     (let users = removeAll handle (re_ResourceUsers st (Key ref));
          st1 = st\<lparr>re_ResourceUsers := (re_ResourceUsers st)(Key ref := users)\<rparr>
      in if users \<noteq> [] then st1
         else mod_journal (\<lambda>j. j\<lparr>j_Resources := remove_key rkey (Key ref) (j_Resources j)\<rparr>) st1)"

definition removeResourceOrder :: "registry_env \<Rightarrow> string \<Rightarrow> resource_ref \<Rightarrow> registry_env" where
  "removeResourceOrder st handle ref =
     st\<lparr>re_ResourceOrder := (re_ResourceOrder st)
          (handle := remove_key Key (Key ref) (re_ResourceOrder st handle))\<rparr>"

section \<open>Operations of a registered handle\<close>

definition spec_resource :: "registry_env \<Rightarrow> string \<Rightarrow> registration_spec \<Rightarrow> gotime \<Rightarrow> resource" where
  "spec_resource st handle spec now =
     (let g = j_StartGeneration (re_Journal st) in
      \<lparr>res_Ref = \<lparr>rr_Kind = sp_Kind spec, rr_ID = sp_ID spec, rr_Generation = g\<rparr>,
       res_Owner = \<lparr>or_Kind = sp_OwnerKind spec,
                    or_ID = (if sp_OwnerID spec = [] then handle else sp_OwnerID spec), or_Generation = g\<rparr>,
       res_State = (if sp_State spec = StateOther [] then StatePlanned else sp_State spec),
       res_Dependencies = sp_Dependencies spec, res_Persistence = sp_Persistence spec,
       res_ClosePolicy = sp_ClosePolicy spec, res_Incarnation = None,
       res_PossibleVMDependency = sp_PossibleVMDependency spec, res_UpdatedAt = nowUTC now\<rparr>)"

definition register ::
  "coordinator \<Rightarrow> string \<Rightarrow> string \<Rightarrow> registration_spec \<Rightarrow> gotime \<Rightarrow> (lc_error + resource_ref) \<times> coordinator" where
  "register c env handle spec now =
     (if is_closed c then (Inl ErrCoordinatorClosed, c)
      else case get_env c env of
        None \<Rightarrow> (Inl (Errorf ''lifecycle registration is not active''), c)
      | Some st \<Rightarrow>
        if handle \<notin> set (re_Handles st) \<or> handle \<in> set (re_Closing st) \<or> j_Incarnation (re_Journal st) = None
        then (Inl (Errorf ''lifecycle registration is not active''), c)
        else let r = spec_resource st handle spec now; ref = res_Ref r in
          (case addOrJoinResource st handle r of
             (Some e, st1) \<Rightarrow> (Inl e, put_env c env st1)
           | (None, st1) \<Rightarrow>
             (case (if handle \<in> set (re_Committed st1) then persistNowLocked c st1 now else (None, st1, c)) of
                (Some e, st2, c2) \<Rightarrow>
                  (Inl e, put_env c2 env (removeResourceOrder (removeResourceUser st2 handle ref) handle ref))
              | (None, st2, c2) \<Rightarrow>
                  (Inr ref, emitLocked env (j_StartGeneration (re_Journal st2)) ''resource-registered'' [] now
                     (put_env c2 env st2)))))"

definition commitRegistration :: "coordinator \<Rightarrow> string \<Rightarrow> string \<Rightarrow> gotime \<Rightarrow> lc_error option \<times> coordinator" where
  "commitRegistration c env handle now =
     (if is_closed c then (Some ErrCoordinatorClosed, c)
      else case get_env c env of
        None \<Rightarrow> (Some (Errorf ''lifecycle registration is not active''), c)
      | Some st \<Rightarrow>
        if handle \<notin> set (re_Handles st) \<or> handle \<in> set (re_Closing st)
        then (Some (Errorf ''lifecycle registration is not active''), c)
        else if handle \<in> set (re_Committed st) then (None, c)
        else (case persistNowLocked c st now of
                (Some e, st1, c1) \<Rightarrow> (Some e, put_env c1 env st1)
              | (None, st1, c1) \<Rightarrow>
                  (None, put_env c1 env (st1\<lparr>re_Committed := List.insert handle (re_Committed st1)\<rparr>))))"

definition drop_handle :: "string \<Rightarrow> registry_env \<Rightarrow> registry_env" where
  "drop_handle handle st =
     st\<lparr>re_Handles := removeAll handle (re_Handles st), re_Committed := removeAll handle (re_Committed st),
        re_Closing := removeAll handle (re_Closing st),
        re_ResourceOrder := (re_ResourceOrder st)(handle := [])\<rparr>"

definition abortRegistration :: "coordinator \<Rightarrow> string \<Rightarrow> string \<Rightarrow> gotime \<Rightarrow> lc_error option \<times> coordinator" where
  "abortRegistration c env handle now =
     (if is_closed c then (Some ErrCoordinatorClosed, c)
      else case get_env c env of
        None \<Rightarrow> (None, c)
      | Some st \<Rightarrow>
        if handle \<notin> set (re_Handles st) then (None, c)
        else let st1 = drop_handle handle
                   (fold (\<lambda>ref st. removeResourceUser st handle ref) (releaseOrderForHandleLocked st handle) st)
             in if re_Handles st1 = []
                then (case scheduleIfIdleLocked c env st1 now of (e, st2, c2) \<Rightarrow> (e, put_env c2 env st2))
                else (None, put_env c env st1))"

definition finishRegistration ::
  "coordinator \<Rightarrow> string \<Rightarrow> string \<Rightarrow> lc_error option \<Rightarrow> gotime \<Rightarrow> lc_error option \<times> coordinator" where
  "finishRegistration c env handle cleanupErr now =
     (if is_closed c then (Some ErrCoordinatorClosed, c)
      else case get_env c env of
        None \<Rightarrow> (None, c)
      | Some st \<Rightarrow>
        if handle \<notin> set (re_Handles st) then (None, c)
        else let st1 = drop_handle handle st in
          if cleanupErr \<noteq> None
          then (case persistLocked c (block_env c ''cleanup-unproved'' now st1) now of
                  (Some e, st2, c2) \<Rightarrow> (Some e, put_env c2 env st2)
                | (None, st2, c2) \<Rightarrow>
                    (None, emitLocked env (j_StartGeneration (re_Journal st2)) ''reconciliation-blocked''
                       ''cleanup-unproved'' now (put_env c2 env st2)))
          else if re_Handles st1 \<noteq> [] then (None, put_env c env (checkpointLaterLocked st1))
          else (case scheduleIfIdleLocked c env st1 now of (e, st2, c2) \<Rightarrow> (e, put_env c2 env st2)))"

definition recordFact ::
  "coordinator \<Rightarrow> string \<Rightarrow> string \<Rightarrow> fact_spec \<Rightarrow> gotime \<Rightarrow> lc_error option \<times> coordinator" where
  "recordFact c env handle spec now =
     (if is_closed c then (Some ErrCoordinatorClosed, c)
      else case get_env c env of
        None \<Rightarrow> (Some (Errorf ''lifecycle fact registration is not active''), c)
      | Some st \<Rightarrow>
        if handle \<notin> set (re_Handles st) \<or> handle \<in> set (re_Closing st) \<or> j_Incarnation (re_Journal st) = None
        then (Some (Errorf ''lifecycle fact registration is not active''), c)
        else
          let f = \<lparr>fact_Kind = fs_Kind spec, fact_ID = fs_ID spec, fact_Class = fs_Class spec,
                   fact_Generation = j_StartGeneration (re_Journal st), fact_RecordedAt = nowUTC now\<rparr> in
          (case validateFact f of
             Some e \<Rightarrow> (Some e, c)
           | None \<Rightarrow>
             let previous = j_Facts (re_Journal st);
                 facts = previous @ [f];
                 st1 = mod_journal (\<lambda>j. j\<lparr>j_Facts := drop (length facts - maxJournalFacts) facts\<rparr>) st in
             (case persistNowLocked c st1 now of
                (Some e, st2, c2) \<Rightarrow> (Some e, put_env c2 env (mod_journal (\<lambda>j. j\<lparr>j_Facts := previous\<rparr>) st2))
              | (None, st2, c2) \<Rightarrow>
                  (None, emitLocked env (j_StartGeneration (re_Journal st2)) ''fact-recorded'' [] now
                     (put_env c2 env st2)))))"

definition find_index :: "('a \<Rightarrow> bool) \<Rightarrow> 'a list \<Rightarrow> nat option" where
  "find_index p xs = find (\<lambda>i. p (xs ! i)) [0 ..< length xs]"

definition resourceLocked ::
  "coordinator \<Rightarrow> string \<Rightarrow> string \<Rightarrow> resource_ref \<Rightarrow> lc_error + (registry_env \<times> resource \<times> nat)" where
  "resourceLocked c env handle ref =
     (case get_env c env of
        None \<Rightarrow> Inl (Errorf ''lifecycle resource registration is not active'')
      | Some st \<Rightarrow>
        if handle \<notin> set (re_Handles st) \<or> handle \<notin> set (re_ResourceUsers st (Key ref))
        then Inl (Errorf ''lifecycle resource registration is not active'')
        else (case find_index (\<lambda>r. rkey r = Key ref) (j_Resources (re_Journal st)) of
                None \<Rightarrow> Inl (Errorf ''lifecycle resource is absent'')
              | Some i \<Rightarrow> Inr (st, j_Resources (re_Journal st) ! i, i)))"

definition terminalStateLocked :: "coordinator \<Rightarrow> string \<Rightarrow> resource_ref \<Rightarrow> resource_state option" where
  "terminalStateLocked c env ref =
     (case get_env c env of None \<Rightarrow> None | Some st \<Rightarrow> re_Terminal st (Key ref))"

definition set_resource :: "nat \<Rightarrow> resource \<Rightarrow> registry_env \<Rightarrow> registry_env" where
  "set_resource i r st = mod_journal (\<lambda>j. j\<lparr>j_Resources := (j_Resources j)[i := r]\<rparr>) st"

definition remove_resource :: "nat \<Rightarrow> registry_env \<Rightarrow> registry_env" where
  "remove_resource i st =
     mod_journal (\<lambda>j. j\<lparr>j_Resources := take i (j_Resources j) @ drop (Suc i) (j_Resources j)\<rparr>) st"

definition set_terminal :: "string \<Rightarrow> resource_state \<Rightarrow> registry_env \<Rightarrow> registry_env" where
  "set_terminal key s st = st\<lparr>re_Terminal := (re_Terminal st)(key \<mapsto> s)\<rparr>"

definition transition ::
  "coordinator \<Rightarrow> string \<Rightarrow> string \<Rightarrow> resource_ref \<Rightarrow> resource_state \<Rightarrow> gotime \<Rightarrow> lc_error option \<times> coordinator" where
  "transition c env handle ref target now =
     (if is_closed c then (Some ErrCoordinatorClosed, c)
      else case resourceLocked c env handle ref of
        Inl e \<Rightarrow> (if terminalStateLocked c env ref = Some target then None else Some e, c)
      | Inr (st, r, i) \<Rightarrow>
        (case ValidateTransition (res_State r) target of
           Some e \<Rightarrow> (Some e, c)
         | None \<Rightarrow>
           let r1 = r\<lparr>res_State := target, res_UpdatedAt := nowUTC now\<rparr>;
               st1 = (if target = StateReleased \<or> target = StateFailed
                      then (remove_resource i (set_terminal (Key ref) target st))
                             \<lparr>re_ResourceUsers := (re_ResourceUsers st)(Key ref := [])\<rparr>
                      else set_resource i r1 st) in
           (case (if target = StateOrphaned then persistNowLocked c st1 now
                  else (None, checkpointLaterLocked st1, c)) of
              (Some e, st2, c2) \<Rightarrow> (Some e, put_env c2 env st2)
            | (None, st2, c2) \<Rightarrow>
                (None, emitLocked env (j_StartGeneration (re_Journal st2)) ''resource-transitioned'' [] now
                   (put_env c2 env st2)))))"

text \<open>\<open>release\<close> once the resource has lost its last user.\<close>

definition release_last ::
  "coordinator \<Rightarrow> string \<Rightarrow> registry_env \<Rightarrow> resource_ref \<Rightarrow> resource \<Rightarrow> nat \<Rightarrow> lc_error option \<Rightarrow> gotime \<Rightarrow>
   lc_error option \<times> coordinator" where
  "release_last c env st ref r i cleanupErr now =
     (let g = j_StartGeneration (re_Journal st);
          gone = (\<lambda>s. (None, emitLocked env g ''resource-released'' [] now
                     (put_env c env (checkpointLaterLocked (remove_resource i (set_terminal (Key ref) s st)))))) in
      if cleanupErr \<noteq> None then
        (case (if res_State r \<noteq> StateOrphaned then ValidateTransition (res_State r) StateOrphaned else None) of
           Some e \<Rightarrow> (Some e, put_env c env st)
         | None \<Rightarrow>
           (case persistNowLocked c (set_resource i (r\<lparr>res_State := StateOrphaned,
                   res_PossibleVMDependency := True, res_UpdatedAt := nowUTC now\<rparr>) st) now of
              (Some e, st1, c1) \<Rightarrow> (Some e, put_env c1 env st1)
            | (None, st1, c1) \<Rightarrow>
                (None, emitLocked env g ''resource-orphaned'' ''cleanup-unproved'' now (put_env c1 env st1))))
      else if res_State r = StatePlanned \<or> res_State r = StateStarting then gone StateFailed
      else case (if res_State r \<noteq> StateDraining then ValidateTransition (res_State r) StateDraining else None) of
             Some e \<Rightarrow> (Some e, put_env c env st)
           | None \<Rightarrow> gone StateReleased)"

definition released_by_handle :: "coordinator \<Rightarrow> string \<Rightarrow> string \<Rightarrow> resource_ref \<Rightarrow> bool" where
  "released_by_handle c env handle ref \<longleftrightarrow>
     (case get_env c env of
        None \<Rightarrow> False
      | Some st \<Rightarrow> handle \<in> set (re_Handles st) \<and> containsRef (re_ResourceOrder st handle) ref \<and>
          handle \<notin> set (re_ResourceUsers st (Key ref)))"

definition release ::
  "coordinator \<Rightarrow> string \<Rightarrow> string \<Rightarrow> resource_ref \<Rightarrow> lc_error option \<Rightarrow> gotime \<Rightarrow> lc_error option \<times> coordinator" where
  "release c env handle ref cleanupErr now =
     (if is_closed c then (Some ErrCoordinatorClosed, c)
      else if released_by_handle c env handle ref then (None, c)
      else case resourceLocked c env handle ref of
        Inl e \<Rightarrow> (if terminalStateLocked c env ref \<noteq> None then None else Some e, c)
      | Inr (st, r, i) \<Rightarrow>
        let users = removeAll handle (re_ResourceUsers st (Key ref));
            st1 = st\<lparr>re_ResourceUsers := (re_ResourceUsers st)(Key ref := users)\<rparr> in
        if users \<noteq> []
        then (None, emitLocked env (j_StartGeneration (re_Journal st)) ''resource-released'' [] now
                (put_env c env st1))
        else release_last c env st1 ref r i cleanupErr now)"

definition beginFinishRegistration ::
  "coordinator \<Rightarrow> string \<Rightarrow> string \<Rightarrow> (lc_error + resource_ref list) \<times> coordinator" where
  "beginFinishRegistration c env handle =
     (if is_closed c then (Inl ErrCoordinatorClosed, c)
      else case get_env c env of
        None \<Rightarrow> (Inl (Errorf ''lifecycle registration is not active''), c)
      | Some st \<Rightarrow>
        if handle \<notin> set (re_Handles st) then (Inl (Errorf ''lifecycle registration is not active''), c)
        else let st1 = st\<lparr>re_Closing := List.insert handle (re_Closing st)\<rparr>
             in (Inr (releaseOrderForHandleLocked st1 handle), put_env c env st1))"

section \<open>Boot identity\<close>

definition bind_resource :: "environment_ref \<Rightarrow> string \<Rightarrow> gotime \<Rightarrow> resource \<Rightarrow> resource" where
  "bind_resource inc handle now r =
     (if rr_Kind (res_Ref r) = KindBackendIncarnation
      then r\<lparr>res_Incarnation := Some inc, res_State := StateActive, res_UpdatedAt := nowUTC now\<rparr>
      else if rr_Kind (res_Ref r) = KindRunSession \<and> rr_ID (res_Ref r) = handle \<and> res_State r = StatePlanned
      then r\<lparr>res_State := StateStarting, res_UpdatedAt := nowUTC now\<rparr>
      else r)"

definition bindBoot ::
  "coordinator \<Rightarrow> string \<Rightarrow> string \<Rightarrow> string \<Rightarrow> gotime \<Rightarrow> (lc_error + environment_ref) \<times> coordinator" where
  "bindBoot c env handle bootID now =
     (if \<not> bootIDPattern bootID then (Inl (Errorf ''lifecycle boot identity is invalid''), c)
      else if is_closed c then (Inl ErrCoordinatorClosed, c)
      else case get_env c env of
        None \<Rightarrow> (Inl (Errorf ''lifecycle attach is not active''), c)
      | Some st \<Rightarrow>
        (case j_Incarnation (re_Journal st) of
           None \<Rightarrow> (Inl (Errorf ''lifecycle attach is not active''), c)
         | Some old \<Rightarrow>
           if handle \<notin> set (re_Handles st) then (Inl (Errorf ''lifecycle attach is not active''), c)
           else if er_BootID old \<noteq> [] \<and> er_BootID old \<noteq> bootID
           then (Inl (Wrapped ''backend boot identity changed during attach'' ErrAttachBlocked), c)
           else
             let inc = old\<lparr>er_BootID := bootID\<rparr>;
                 st1 = st\<lparr>re_Observation := \<lparr>obs_State = LifecycleRunning, obs_InstanceName = er_InstanceName inc,
                            obs_BootID = bootID, obs_ObservedAt = nowUTC now, obs_ReasonCode = []\<rparr>,
                          re_Journal := (re_Journal st)\<lparr>j_Incarnation := Some inc,
                            j_Resources := map (bind_resource inc handle now) (j_Resources (re_Journal st))\<rparr>\<rparr> in
             if er_BootID old = []
             then (case persistNowLocked c st1 now of
                     (Some e, st2, c2) \<Rightarrow> (Inl e, put_env c2 env st2)
                   | (None, st2, c2) \<Rightarrow> (Inr inc, put_env c2 env st2))
             else (Inr inc, put_env c env (checkpointLaterLocked st1))))"

section \<open>Operations by session\<close>

definition session_matches :: "bool \<Rightarrow> string \<Rightarrow> registry_env \<Rightarrow> bool" where
  "session_matches allowClosing session st \<longleftrightarrow>
     session \<in> set (re_Handles st) \<and> session \<in> set (re_Committed st) \<and>
     (allowClosing \<or> session \<notin> set (re_Closing st))"

definition sessionEnvironment :: "coordinator \<Rightarrow> string \<Rightarrow> bool \<Rightarrow> lc_error + (string \<times> u64)" where
  "sessionEnvironment c session allowClosing =
     (if is_closed c then Inl ErrCoordinatorClosed
      else case filter (\<lambda>(env, st). session_matches allowClosing session st) (c_Environments c) of
        [(env, st)] \<Rightarrow>
          if env = [] \<or> j_StartGeneration (re_Journal st) = 0
          then Inl (Errorf ''lifecycle session registration is not active'')
          else Inr (env, j_StartGeneration (re_Journal st))
      | [] \<Rightarrow> Inl (Errorf ''lifecycle session registration is not active'')
      | _ \<Rightarrow> Inl (Errorf ''lifecycle session identity is ambiguous''))"

definition default_generation :: "u64 \<Rightarrow> dependency_spec \<Rightarrow> dependency_spec" where
  "default_generation g d =
     (if rr_Generation (ds_Ref d) = 0 then d\<lparr>ds_Ref := (ds_Ref d)\<lparr>rr_Generation := g\<rparr>\<rparr> else d)"

definition RegisterSessionResource ::
  "coordinator \<Rightarrow> lc_error option \<Rightarrow> string \<Rightarrow> registration_spec \<Rightarrow> gotime \<Rightarrow> (lc_error + resource_ref) \<times> coordinator" where
  "RegisterSessionResource c ctx session spec now =
     (case ctx of
        Some e \<Rightarrow> (Inl e, c)
      | None \<Rightarrow>
        (case sessionEnvironment c session False of
           Inl e \<Rightarrow> (Inl e, c)
         | Inr (env, g) \<Rightarrow>
             register c env session
               (spec\<lparr>sp_Dependencies := map (default_generation g) (sp_Dependencies spec)\<rparr>) now))"

definition TransitionSessionResource ::
  "coordinator \<Rightarrow> lc_error option \<Rightarrow> string \<Rightarrow> resource_ref \<Rightarrow> resource_state \<Rightarrow> gotime \<Rightarrow> lc_error option \<times> coordinator" where
  "TransitionSessionResource c ctx session ref target now =
     (case ctx of
        Some e \<Rightarrow> (Some e, c)
      | None \<Rightarrow>
        (case sessionEnvironment c session True of
           Inl e \<Rightarrow> (Some e, c)
         | Inr (env, g) \<Rightarrow> transition c env session ref target now))"

definition ReleaseSessionResource ::
  "coordinator \<Rightarrow> lc_error option \<Rightarrow> string \<Rightarrow> resource_ref \<Rightarrow> lc_error option \<Rightarrow> gotime \<Rightarrow>
   lc_error option \<times> coordinator" where
  "ReleaseSessionResource c ctx session ref cleanupErr now =
     (case ctx of
        Some e \<Rightarrow> (Some e, c)
      | None \<Rightarrow>
        (case sessionEnvironment c session True of
           Inl e \<Rightarrow> (Some e, c)
         | Inr (env, g) \<Rightarrow> release c env session ref cleanupErr now))"

definition RecordSessionFact ::
  "coordinator \<Rightarrow> lc_error option \<Rightarrow> string \<Rightarrow> fact_spec \<Rightarrow> gotime \<Rightarrow> lc_error option \<times> coordinator" where
  "RecordSessionFact c ctx session spec now =
     (case ctx of
        Some e \<Rightarrow> (Some e, c)
      | None \<Rightarrow>
        (case sessionEnvironment c session False of
           Inl e \<Rightarrow> (Some e, c)
         | Inr (env, g) \<Rightarrow> recordFact c env session spec now))"

definition committedHandleCount :: "registry_env \<Rightarrow> nat" where
  "committedHandleCount st = length (filter (\<lambda>h. h \<in> set (re_Committed st)) (re_Handles st))"

definition ActiveAttachObservation ::
  "coordinator \<Rightarrow> lc_error option \<Rightarrow> string \<Rightarrow> string \<Rightarrow> gotime \<Rightarrow> observation option \<times> coordinator" where
  "ActiveAttachObservation c ctx env instanceName now =
     (if ctx \<noteq> None \<or> \<not> idPattern env \<or> \<not> idPattern instanceName then (None, c)
      else if is_closed c then (None, c)
      else case loadEnvironmentLocked c env now of
        (Inl _, c1) \<Rightarrow> (None, c1)
      | (Inr st, c1) \<Rightarrow>
          let rc = j_Reconciliation (re_Journal st); ob = re_Observation st in
          if re_Reconciling st \<or> re_Blocked st \<or> committedHandleCount st = 0 \<or>
             rc_DaemonInstanceID rc \<noteq> c_DaemonID c \<or> rc_State rc \<noteq> ''complete'' \<or>
             obs_State ob \<noteq> LifecycleRunning \<or> obs_InstanceName ob \<noteq> instanceName \<or>
             LifecycleObservation_Validate ob \<noteq> None
          then (None, c1) else (Some ob, c1))"

section \<open>A registration\<close>

record registration =
  rg_Environment :: string
  rg_ID :: string
  rg_Incarnation :: environment_ref
  rg_Root :: resource_ref
  rg_Session :: resource_ref
  rg_Refs :: "resource_ref list"
  rg_Committed :: bool
  rg_Finished :: bool

type_synonym 'a reg_op = "(lc_error + 'a) \<times> registration \<times> coordinator"

abbreviation finished_error :: lc_error where
  "finished_error \<equiv> Errorf ''lifecycle registration is finished''"
abbreviation not_owned_error :: lc_error where
  "not_owned_error \<equiv> Errorf ''lifecycle resource is not owned by this registration''"

text \<open>The barrier before an effect: the planned graph is committed once.\<close>

definition ensure_committed :: "registration \<Rightarrow> coordinator \<Rightarrow> gotime \<Rightarrow> unit reg_op" where
  "ensure_committed r c now =
     (if rg_Committed r then (Inr (), r, c)
      else case commitRegistration c (rg_Environment r) (rg_ID r) now of
             (Some e, c1) \<Rightarrow> (Inl e, r, c1)
           | (None, c1) \<Rightarrow> (Inr (), r\<lparr>rg_Committed := True\<rparr>, c1))"

definition Registration_Commit :: "registration \<Rightarrow> coordinator \<Rightarrow> lc_error option \<Rightarrow> gotime \<Rightarrow> unit reg_op" where
  "Registration_Commit r c ctx now =
     (case ctx of
        Some e \<Rightarrow> (Inl e, r, c)
      | None \<Rightarrow> if rg_Finished r then (Inl finished_error, r, c) else ensure_committed r c now)"

definition Registration_BindBoot ::
  "registration \<Rightarrow> coordinator \<Rightarrow> lc_error option \<Rightarrow> string \<Rightarrow> gotime \<Rightarrow> unit reg_op" where
  "Registration_BindBoot r c ctx bootID now =
     (case ctx of
        Some e \<Rightarrow> (Inl e, r, c)
      | None \<Rightarrow>
        if rg_Finished r then (Inl finished_error, r, c)
        else case ensure_committed r c now of
          (Inl e, r1, c1) \<Rightarrow> (Inl e, r1, c1)
        | (Inr _, r1, c1) \<Rightarrow>
          (case bindBoot c1 (rg_Environment r1) (rg_ID r1) bootID now of
             (Inl e, c2) \<Rightarrow> (Inl e, r1, c2)
           | (Inr inc, c2) \<Rightarrow> (Inr (), r1\<lparr>rg_Incarnation := inc\<rparr>, c2)))"

definition Registration_Register ::
  "registration \<Rightarrow> coordinator \<Rightarrow> lc_error option \<Rightarrow> registration_spec \<Rightarrow> gotime \<Rightarrow> resource_ref reg_op" where
  "Registration_Register r c ctx spec now =
     (case ctx of
        Some e \<Rightarrow> (Inl e, r, c)
      | None \<Rightarrow>
        if rg_Finished r then (Inl finished_error, r, c)
        else case register c (rg_Environment r) (rg_ID r) spec now of
          (Inl e, c1) \<Rightarrow> (Inl e, r, c1)
        | (Inr ref, c1) \<Rightarrow>
            (Inr ref, if containsRef (rg_Refs r) ref then r else r\<lparr>rg_Refs := rg_Refs r @ [ref]\<rparr>, c1))"

definition Registration_Transition ::
  "registration \<Rightarrow> coordinator \<Rightarrow> lc_error option \<Rightarrow> resource_ref \<Rightarrow> resource_state \<Rightarrow> gotime \<Rightarrow> unit reg_op" where
  "Registration_Transition r c ctx ref target now =
     (case ctx of
        Some e \<Rightarrow> (Inl e, r, c)
      | None \<Rightarrow>
        if rg_Finished r \<or> \<not> containsRef (rg_Refs r) ref then (Inl not_owned_error, r, c)
        else case ensure_committed r c now of
          (Inl e, r1, c1) \<Rightarrow> (Inl e, r1, c1)
        | (Inr _, r1, c1) \<Rightarrow>
          (case transition c1 (rg_Environment r1) (rg_ID r1) ref target now of
             (Some e, c2) \<Rightarrow> (Inl e, r1, c2)
           | (None, c2) \<Rightarrow> (Inr (), r1, c2)))"

definition Registration_Release ::
  "registration \<Rightarrow> coordinator \<Rightarrow> lc_error option \<Rightarrow> resource_ref \<Rightarrow> lc_error option \<Rightarrow> gotime \<Rightarrow> unit reg_op" where
  "Registration_Release r c ctx ref cleanupErr now =
     (case ctx of
        Some e \<Rightarrow> (Inl e, r, c)
      | None \<Rightarrow>
        if rg_Finished r \<or> \<not> rg_Committed r \<or> \<not> containsRef (rg_Refs r) ref then (Inl not_owned_error, r, c)
        else (case release c (rg_Environment r) (rg_ID r) ref cleanupErr now of
                (Some e, c1) \<Rightarrow> (Inl e, r, c1)
              | (None, c1) \<Rightarrow> (Inr (), r, c1)))"

definition Registration_RecordFact ::
  "registration \<Rightarrow> coordinator \<Rightarrow> lc_error option \<Rightarrow> fact_spec \<Rightarrow> gotime \<Rightarrow> unit reg_op" where
  "Registration_RecordFact r c ctx spec now =
     (case ctx of
        Some e \<Rightarrow> (Inl e, r, c)
      | None \<Rightarrow>
        if rg_Finished r then (Inl finished_error, r, c)
        else case ensure_committed r c now of
          (Inl e, r1, c1) \<Rightarrow> (Inl e, r1, c1)
        | (Inr _, r1, c1) \<Rightarrow>
          (case recordFact c1 (rg_Environment r1) (rg_ID r1) spec now of
             (Some e, c2) \<Rightarrow> (Inl e, r1, c2)
           | (None, c2) \<Rightarrow> (Inr (), r1, c2)))"

fun release_loop ::
  "coordinator \<Rightarrow> string \<Rightarrow> string \<Rightarrow> resource_ref list \<Rightarrow> lc_error option \<Rightarrow> lc_error option \<Rightarrow> gotime \<Rightarrow>
   lc_error option \<times> coordinator" where
  "release_loop c env handle [] cleanupErr acc now = (acc, c)"
| "release_loop c env handle (ref # refs) cleanupErr acc now =
     (case release c env handle ref cleanupErr now of
        (e, c1) \<Rightarrow> release_loop c1 env handle refs cleanupErr (errors_Join acc e) now)"

text \<open>\<open>Finish\<close> when no other operation runs between its critical sections.\<close>

definition Registration_Finish ::
  "registration \<Rightarrow> coordinator \<Rightarrow> lc_error option \<Rightarrow> gotime \<Rightarrow> lc_error option \<times> registration \<times> coordinator" where
  "Registration_Finish r c cleanupErr now =
     (if rg_Finished r then (None, r, c)
      else
        let r1 = r\<lparr>rg_Finished := True\<rparr>; env = rg_Environment r; h = rg_ID r in
        if \<not> rg_Committed r then (case abortRegistration c env h now of (e, c1) \<Rightarrow> (e, r1, c1))
        else (case beginFinishRegistration c env h of
          (Inl e, c1) \<Rightarrow> (Some e, r1, c1)
        | (Inr refs, c1) \<Rightarrow>
          (case release_loop c1 env h refs cleanupErr None now of
             (e2, c2) \<Rightarrow>
               (case finishRegistration c2 env h (errors_Join cleanupErr e2) now of
                  (e3, c3) \<Rightarrow> (errors_Join e2 e3, r1, c3)))))"

end
