(* ===== verification/Lifecycle_Establishment.thy ===== *)
theory Lifecycle_Establishment
  imports Lifecycle_Registry
begin

text \<open>
  Attaching a session: \<open>internal/lifecycle/establishment.go\<close>, \<open>selectIncarnationLocked\<close> of
  \<open>incarnation.go\<close> and \<open>BeginAttach\<close> of \<open>registry.go\<close>. A reservation fences the environment against
  stops, \<open>Prepare\<close> proves the backend incarnation, \<open>Promote\<close> turns the reservation into a
  registration and \<open>Abort\<close> gives it back.
\<close>

section \<open>Data\<close>

datatype establishment_phase =
  EstablishmentReserved | EstablishmentPrepared | EstablishmentPromoted | EstablishmentAborted

record establishment =
  es_Environment :: string
  es_Session :: string
  es_Lease :: "mutation_lease option"
  es_Phase :: establishment_phase
  es_Incarnation :: environment_ref
  es_Root :: resource_ref
  es_Ident :: nat

record establishment_request =
  eq_EnvironmentID :: string
  eq_SessionID :: string
  eq_MutationKeys :: "string list"

record attach_request =
  ar_EnvironmentID :: string
  ar_InstanceName :: string
  ar_SessionID :: string
  ar_Observation :: observation

text \<open>\<open>errors.Is\<close>: the error or one it wraps.\<close>

fun errors_Is :: "lc_error \<Rightarrow> lc_error \<Rightarrow> bool" where
  "errors_Is (Wrapped s e) target = (Wrapped s e = target \<or> errors_Is e target)"
| "errors_Is (Joined a b) target = (Joined a b = target \<or> errors_Is a target \<or> errors_Is b target)"
| "errors_Is (MutationConflictError k b r cause) target =
     (MutationConflictError k b r cause = target \<or> errors_Is cause target)"
| "errors_Is (AttachBlockedError s) target = (AttachBlockedError s = target \<or> target = ErrAttachBlocked)"
| "errors_Is e target = (e = target)"

definition establishmentAbortReason :: "lc_error option \<Rightarrow> string" where
  "establishmentAbortReason cause =
     (case cause of
        None \<Rightarrow> ''attach-establishment-aborted''
      | Some e \<Rightarrow>
          if errors_Is e ContextCanceled then ''attach-establishment-cancelled''
          else if errors_Is e ContextDeadlineExceeded then ''attach-establishment-timeout''
          else ''attach-establishment-aborted'')"

definition validateAttachRequest :: "attach_request \<Rightarrow> lc_error option" where
  "validateAttachRequest request = first_err
     [check (\<not> idPattern (ar_EnvironmentID request) \<or> \<not> idPattern (ar_InstanceName request) \<or>
             \<not> idPattern (ar_SessionID request)) (Errorf ''lifecycle attach identity is invalid''),
      LifecycleObservation_Validate (ar_Observation request),
      check (obs_InstanceName (ar_Observation request) \<noteq> ar_InstanceName request)
        (Wrapped ''backend observation belongs to another instance'' ErrAttachBlocked),
      check (obs_State (ar_Observation request) = LifecycleUnknown)
        (Wrapped ''backend observation is unknown'' ErrAttachBlocked)]"

definition observationMatchesIncarnation :: "environment_ref option \<Rightarrow> observation \<Rightarrow> bool" where
  "observationMatchesIncarnation incarnation ob =
     (case incarnation of
        None \<Rightarrow> False
      | Some inc \<Rightarrow>
          if er_InstanceName inc \<noteq> obs_InstanceName ob then False
          else (case obs_State ob of
                  LifecycleRunning \<Rightarrow> er_BootID inc \<noteq> [] \<and> er_BootID inc = obs_BootID ob
                | LifecycleStopped \<Rightarrow> er_BootID inc = []
                | LifecycleAbsent \<Rightarrow> er_BootID inc = []
                | _ \<Rightarrow> False))"

section \<open>The incarnation of an attach\<close>

definition reuse_incarnation :: "journal \<Rightarrow> attach_request \<Rightarrow> environment_ref option" where
  "reuse_incarnation j request =
     (case j_Incarnation j of
        None \<Rightarrow> None
      | Some inc \<Rightarrow>
          if er_InstanceName inc = ar_InstanceName request \<and>
             (case obs_State (ar_Observation request) of
                LifecycleRunning \<Rightarrow> er_BootID inc = obs_BootID (ar_Observation request)
              | LifecycleStopped \<Rightarrow> er_BootID inc = []
              | LifecycleAbsent \<Rightarrow> er_BootID inc = []
              | _ \<Rightarrow> False)
          then Some inc else None)"

definition next_generation :: "u64 \<Rightarrow> u64" where
  "next_generation g = (let n = g + 1 in if n = 0 then 1 else n)"

definition root_ref :: "string \<Rightarrow> u64 \<Rightarrow> resource_ref" where
  "root_ref env g = \<lparr>rr_Kind = KindBackendIncarnation, rr_ID = env, rr_Generation = g\<rparr>"

fun replace_or_append :: "resource \<Rightarrow> resource list \<Rightarrow> resource list" where
  "replace_or_append r [] = [r]"
| "replace_or_append r (x # xs) = (if rkey x = rkey r then r # xs else x # replace_or_append r xs)"

definition selectIncarnationLocked ::
  "coordinator \<Rightarrow> registry_env \<Rightarrow> attach_request \<Rightarrow> gotime \<Rightarrow> environment_ref \<times> resource_ref \<times> registry_env" where
  "selectIncarnationLocked c st request now =
     (let (inc, st1) =
        (case reuse_incarnation (re_Journal st) request of
           Some inc \<Rightarrow> (inc, st)
         | None \<Rightarrow>
             let g = next_generation (j_StartGeneration (re_Journal st));
                 inc = \<lparr>er_EnvironmentID = ar_EnvironmentID request, er_StartGeneration = g,
                        er_InstanceName = ar_InstanceName request,
                        er_BootID = (if obs_State (ar_Observation request) = LifecycleRunning
                                     then obs_BootID (ar_Observation request) else [])\<rparr>
             in (inc, st\<lparr>re_ResourceUsers := (\<lambda>_. []), re_Terminal := (\<lambda>_. None),
                         re_Journal := (re_Journal st)\<lparr>j_StartGeneration := g, j_Incarnation := Some inc,
                           j_Resources := [], j_StopAttempt := None\<rparr>\<rparr>));
        st2 = (if j_StartGeneration (re_Journal st1) = 0
               then mod_journal (\<lambda>j. j\<lparr>j_StartGeneration := er_StartGeneration inc\<rparr>) st1 else st1);
        rootRef = root_ref (ar_EnvironmentID request) (er_StartGeneration inc);
        root = \<lparr>res_Ref = rootRef,
                res_Owner = \<lparr>or_Kind = ''daemon'', or_ID = c_DaemonID c, or_Generation = er_StartGeneration inc\<rparr>,
                res_State = (if er_BootID inc \<noteq> [] then StateActive else StatePlanned),
                res_Dependencies = [], res_Persistence = PersistenceEphemeral,
                res_ClosePolicy = CloseCoTerminateWithRoot, res_Incarnation = Some inc,
                res_PossibleVMDependency = False, res_UpdatedAt = nowUTC now\<rparr>
      in (inc, rootRef, mod_journal (\<lambda>j. j\<lparr>j_Resources := replace_or_append root (j_Resources j)\<rparr>) st2))"

section \<open>Reserving\<close>

datatype reserve_outcome =
    ReserveFails lc_error
  | ReserveWaits string
  | Reserved establishment

definition reserve_request :: "lc_error option \<Rightarrow> establishment_request \<Rightarrow> gotime \<Rightarrow> lc_error + mutation_request" where
  "reserve_request ctx request now =
     (case ctx of
        Some e \<Rightarrow> Inl e
      | None \<Rightarrow>
          if \<not> idPattern (eq_EnvironmentID request) \<or> \<not> idPattern (eq_SessionID request)
          then Inl (Errorf ''lifecycle establishment identity is invalid'')
          else normalizeMutationRequest
            \<lparr>mr_Keys = EnvironmentMutationKey (eq_EnvironmentID request) # eq_MutationKeys request,
             mr_Owner = attachMutationOwner (eq_SessionID request) (nowUTC now)\<rparr> now)"

text \<open>The end of an iteration: the keys are claimed and the reservation is made.\<close>

definition reserve_claim ::
  "coordinator \<Rightarrow> registry_env \<Rightarrow> establishment_request \<Rightarrow> mutation_request \<Rightarrow> gotime \<Rightarrow>
   reserve_outcome \<times> coordinator" where
  "reserve_claim c st request mrequest now =
     (let env = eq_EnvironmentID request; session = eq_SessionID request in
      case claim_env c mrequest of
        (Inl e, c1) \<Rightarrow> (ReserveFails e, c1)
      | (Inr lease, c1) \<Rightarrow>
          if re_Mutation st \<or> attempt_blocks st \<or> re_StopCancel st
          then let c2 = release_lease lease c1
               in (ReserveFails (environmentConflictLocked c2 env st (mr_Owner mrequest) (Some ErrStopInFlight) now), c2)
          else if session \<in> set (re_Handles st) \<or> map_of (re_Establishing st) session \<noteq> None
          then (ReserveFails (Errorf ''lifecycle session is already registered or establishing''),
                release_lease lease c1)
          else (case cancelDeadlineForAttachLocked c1 st now of
            (_, st1, c2) \<Rightarrow>
              let ident = c_NextIdent c2;
                  e = \<lparr>es_Environment = env, es_Session = session, es_Lease = Some lease,
                       es_Phase = EstablishmentReserved,
                       es_Incarnation = \<lparr>er_EnvironmentID = [], er_StartGeneration = 0, er_InstanceName = [],
                         er_BootID = []\<rparr>,
                       es_Root = \<lparr>rr_Kind = [], rr_ID = [], rr_Generation = 0\<rparr>, es_Ident = ident\<rparr>;
                  st2 = st1\<lparr>re_Establishing := AList.update session ident (re_Establishing st1)\<rparr>
              in (Reserved e,
                  emitLocked env (j_StartGeneration (re_Journal st2)) ''attach-establishment-reserved''
                    ''attach-establishment-in-progress'' now
                    (put_env (c2\<lparr>c_NextIdent := Suc ident\<rparr>) env st2))))"

text \<open>
  One iteration of the loop of \<open>reserveAttach\<close>: \<open>waiting\<close> is the reason of the previous wait. When
  the outcome is a wait the caller blocks on the channel and then runs another iteration.
\<close>

definition reserve_iteration ::
  "coordinator \<Rightarrow> establishment_request \<Rightarrow> mutation_request \<Rightarrow> bool \<Rightarrow> string \<Rightarrow> gotime \<Rightarrow>
   reserve_outcome \<times> coordinator" where
  "reserve_iteration c request mrequest shouldWait waiting now =
     (let env = eq_EnvironmentID request in
      if is_closed c then (ReserveFails ErrCoordinatorClosed, c)
      else case loadEnvironmentLocked c env now of
        (Inl e, c1) \<Rightarrow> (ReserveFails e, c1)
      | (Inr st, c1) \<Rightarrow>
          let g = j_StartGeneration (re_Journal st);
              wait = (\<lambda>reason. (ReserveWaits reason,
                if waiting \<noteq> reason then emitLocked env g ''attach-establishment-waiting'' reason now c1 else c1)) in
          if re_Reconciling st then wait ''reconciliation-pending''
          else if re_Blocked st then
            (ReserveFails (if re_Mutation st
               then environmentConflictLocked c1 env st (mr_Owner mrequest) (Some ErrAttachBlocked) now
               else AttachBlockedError (rc_ReasonCode (j_Reconciliation (re_Journal st)))), c1)
          else if re_StopDone st \<and> (case j_StopAttempt (re_Journal st) of None \<Rightarrow> False
                                    | Some a \<Rightarrow> sa_Mode a = ''automatic'')
          then (if \<not> shouldWait then (ReserveFails ErrStopInFlight, c1) else wait ''automatic-stop-pending'')
          else reserve_claim c1 st request mrequest now)"

section \<open>Prepare, Promote and Abort\<close>

definition establishing_as :: "registry_env \<Rightarrow> establishment \<Rightarrow> bool" where
  "establishing_as st e \<longleftrightarrow> map_of (re_Establishing st) (es_Session e) = Some (es_Ident e)"

definition attach_fence :: "registry_env \<Rightarrow> lc_error option" where
  "attach_fence st = first_err
     [check (re_Reconciling st \<or> re_Blocked st) ErrAttachBlocked,
      check (re_Mutation st \<or> attempt_blocks st \<or> re_StopCancel st) ErrStopInFlight]"

definition Prepare ::
  "establishment \<Rightarrow> coordinator \<Rightarrow> lc_error option \<Rightarrow> attach_request \<Rightarrow> gotime \<Rightarrow>
   (lc_error + environment_ref) \<times> establishment \<times> coordinator" where
  "Prepare e c ctx request now =
     (case first_err [ctx, validateAttachRequest request,
        check (ar_EnvironmentID request \<noteq> es_Environment e \<or> ar_SessionID request \<noteq> es_Session e)
          (Errorf ''lifecycle attach request does not match establishment reservation''),
        check (es_Phase e \<noteq> EstablishmentReserved) (Errorf ''lifecycle establishment is not reserving''),
        check (is_closed c) ErrCoordinatorClosed] of
        Some err \<Rightarrow> (Inl err, e, c)
      | None \<Rightarrow>
        (case get_env c (es_Environment e) of
           None \<Rightarrow> (Inl (Errorf ''lifecycle establishment reservation is not active''), e, c)
         | Some st \<Rightarrow>
           (case first_err
              [check (\<not> establishing_as st e) (Errorf ''lifecycle establishment reservation is not active''),
               attach_fence st,
               check (re_Handles st \<noteq> [] \<and>
                      \<not> observationMatchesIncarnation (j_Incarnation (re_Journal st)) (ar_Observation request))
                 (Wrapped ''backend incarnation changed while sessions are active'' ErrAttachBlocked)] of
              Some err \<Rightarrow> (Inl err, e, c)
            | None \<Rightarrow>
              (case selectIncarnationLocked c (st\<lparr>re_Observation := ar_Observation request\<rparr>) request now of
                 (inc, root, st1) \<Rightarrow>
                   (Inr inc,
                    e\<lparr>es_Incarnation := inc, es_Root := root, es_Phase := EstablishmentPrepared\<rparr>,
                    emitLocked (es_Environment e) (er_StartGeneration inc) ''attach-establishment-prepared''
                      ''attach-establishment-in-progress'' now (put_env c (es_Environment e) st1))))))"

definition session_resource :: "coordinator \<Rightarrow> establishment \<Rightarrow> gotime \<Rightarrow> resource" where
  "session_resource c e now =
     (let g = er_StartGeneration (es_Incarnation e) in
      \<lparr>res_Ref = \<lparr>rr_Kind = KindRunSession, rr_ID = es_Session e, rr_Generation = g\<rparr>,
       res_Owner = \<lparr>or_Kind = ''daemon'', or_ID = c_DaemonID c, or_Generation = g\<rparr>,
       res_State = StatePlanned, res_Dependencies = [\<lparr>ds_Ref = es_Root e, ds_StopMode = StopModePin\<rparr>],
       res_Persistence = PersistenceEphemeral, res_ClosePolicy = CloseCoTerminateWithRoot,
       res_Incarnation = None, res_PossibleVMDependency = True, res_UpdatedAt = nowUTC now\<rparr>)"

definition give_lease :: "establishment \<Rightarrow> coordinator \<Rightarrow> coordinator" where
  "give_lease e c = (case es_Lease e of None \<Rightarrow> c | Some lease \<Rightarrow> release_lease lease c)"

definition Promote ::
  "establishment \<Rightarrow> coordinator \<Rightarrow> lc_error option \<Rightarrow> gotime \<Rightarrow>
   (lc_error + registration) \<times> establishment \<times> coordinator" where
  "Promote e c ctx now =
     (case first_err [ctx,
        check (es_Phase e \<noteq> EstablishmentPrepared) (Errorf ''lifecycle establishment is not prepared''),
        check (is_closed c) ErrCoordinatorClosed] of
        Some err \<Rightarrow> (Inl err, e, c)
      | None \<Rightarrow>
        (case get_env c (es_Environment e) of
           None \<Rightarrow> (Inl (Errorf ''lifecycle establishment reservation is not active''), e, c)
         | Some st \<Rightarrow>
           (case first_err
              [check (\<not> establishing_as st e) (Errorf ''lifecycle establishment reservation is not active''),
               attach_fence st,
               check (es_Session e \<in> set (re_Handles st)) (Errorf ''lifecycle session is already registered'')] of
              Some err \<Rightarrow> (Inl err, e, c)
            | None \<Rightarrow>
              let env = es_Environment e; s = es_Session e; g = er_StartGeneration (es_Incarnation e);
                  session = session_resource c e now;
                  closing = removeAll s (re_Closing st) in
              (case addOrJoinResource
                      (st\<lparr>re_Handles := List.insert s (re_Handles st), re_Closing := closing\<rparr>) s session of
                 (Some err, st1) \<Rightarrow>
                   (Inl err, e, put_env c env (st1\<lparr>re_Handles := removeAll s (re_Handles st1)\<rparr>))
               | (None, st1) \<Rightarrow>
                   let st2 = st1\<lparr>re_Committed := removeAll s (re_Committed st1),
                                 re_Establishing := AList.delete s (re_Establishing st1),
                                 re_Journal := (re_Journal st1)\<lparr>j_Reconciliation := complete_rc c now\<rparr>\<rparr>;
                       reg = \<lparr>rg_Environment = env, rg_ID = s, rg_Incarnation = es_Incarnation e,
                              rg_Root = es_Root e, rg_Session = res_Ref session, rg_Refs = [res_Ref session],
                              rg_Committed = False, rg_Finished = False\<rparr>
                   in (Inr reg, e\<lparr>es_Lease := None, es_Phase := EstablishmentPromoted\<rparr>,
                       emitLocked env g ''attach-establishment-promoted'' ''owner-established'' now
                         (emitLocked env g ''resource-registered'' [] now
                           (give_lease e (put_env c env st2))))))))"

definition Abort ::
  "establishment \<Rightarrow> coordinator \<Rightarrow> lc_error option \<Rightarrow> gotime \<Rightarrow> lc_error option \<times> establishment \<times> coordinator" where
  "Abort e c cause now =
     (if es_Phase e = EstablishmentPromoted \<or> es_Phase e = EstablishmentAborted then (None, e, c)
      else
        let env = es_Environment e;
            done = (\<lambda>c. (None, e\<lparr>es_Lease := None, es_Phase := EstablishmentAborted\<rparr>, give_lease e c)) in
        case get_env c env of
          None \<Rightarrow> done c
        | Some st \<Rightarrow>
          if \<not> establishing_as st e then done c
          else
            let st1 = st\<lparr>re_Establishing := AList.delete (es_Session e) (re_Establishing st)\<rparr>;
                c1 = emitLocked env (j_StartGeneration (re_Journal st)) ''attach-establishment-aborted''
                       (establishmentAbortReason cause) now (put_env c env st1) in
            if re_Establishing st1 = [] \<and> re_Handles st1 = [] \<and> \<not> is_closed c then
              if j_StartGeneration (re_Journal st1) = 0 \<and> j_Incarnation (re_Journal st1) = None
              then done (del_env c1 env)
              else (case scheduleIfIdleLocked c1 env st1 now of
                      (Some err, st2, c2) \<Rightarrow>
                        (Some err, e\<lparr>es_Phase := EstablishmentAborted\<rparr>, put_env c2 env st2)
                    | (None, st2, c2) \<Rightarrow> done (put_env c2 env st2))
            else done c1)"

section \<open>BeginAttach\<close>

text \<open>
  The one-shot attach: it does not wait for a stop, and gives the reservation back when a phase
  fails. A reconciliation in flight is the case of a context that is cancelled while it waits;
  otherwise the loop runs \<open>reserve_iteration\<close> again.
\<close>

definition BeginAttach ::
  "coordinator \<Rightarrow> lc_error option \<Rightarrow> attach_request \<Rightarrow> gotime \<Rightarrow> (lc_error + registration) \<times> coordinator" where
  "BeginAttach c ctx request now =
     (let erequest = \<lparr>eq_EnvironmentID = ar_EnvironmentID request, eq_SessionID = ar_SessionID request,
                      eq_MutationKeys = []\<rparr> in
      case reserve_request ctx erequest now of
        Inl err \<Rightarrow> (Inl err, c)
      | Inr mrequest \<Rightarrow>
        (case reserve_iteration c erequest mrequest False [] now of
           (ReserveFails err, c1) \<Rightarrow> (Inl err, c1)
         | (ReserveWaits _, c1) \<Rightarrow> (Inl ContextCanceled, c1)
         | (Reserved e, c1) \<Rightarrow>
           (case Prepare e c1 ctx request now of
              (Inl err, e2, c2) \<Rightarrow> (case Abort e2 c2 (Some err) now of (_, _, c3) \<Rightarrow> (Inl err, c3))
            | (Inr _, e2, c2) \<Rightarrow>
              (case Promote e2 c2 ctx now of
                 (Inl err, e3, c3) \<Rightarrow> (case Abort e3 c3 (Some err) now of (_, _, c4) \<Rightarrow> (Inl err, c4))
               | (Inr reg, e3, c3) \<Rightarrow> (Inr reg, c3)))))"

end
