(* ===== verification/Lifecycle_Reconcile.thy ===== *)
theory Lifecycle_Reconcile
  imports Lifecycle_Establishment
begin

text \<open>
  Reconciliation after a restart: \<open>internal/lifecycle/reconcile.go\<close> and
  \<open>internal/lifecycle/reconciliation_fence.go\<close>. The fence refuses attaches while the backend and the
  providers are probed; \<open>Reconcile\<close> classifies the environment from what was observed.
\<close>

section \<open>The fence\<close>

definition attemptBlocksReconciliation :: "stop_attempt option \<Rightarrow> string \<Rightarrow> bool" where
  "attemptBlocksReconciliation attempt daemonID \<longleftrightarrow>
     (case attempt of None \<Rightarrow> False | Some a \<Rightarrow> sa_DaemonInstanceID a = daemonID \<and> attemptBlocksAttach (Some a))"

definition reconcile_owner :: "coordinator \<Rightarrow> gotime \<Rightarrow> mutation_owner" where
  "reconcile_owner c now =
     \<lparr>mo_Kind = MutationOwnerReconcile, mo_ID = c_DaemonID c, mo_Phase = ''reconciling'',
      mo_Recovery = ''wait for lifecycle reconciliation to finish, then retry'', mo_StartedAt = nowUTC now\<rparr>"

definition reconcile_busy :: "coordinator \<Rightarrow> registry_env \<Rightarrow> bool" where
  "reconcile_busy c st \<longleftrightarrow>
     re_Handles st \<noteq> [] \<or> re_Establishing st \<noteq> [] \<or> re_Mutation st \<or>
     attemptBlocksReconciliation (j_StopAttempt (re_Journal st)) (c_DaemonID c) \<or> re_StopCancel st"

text \<open>Claiming the environment for a reconciliation, or the conflict that refuses it.\<close>

definition claim_reconcile ::
  "coordinator \<Rightarrow> string \<Rightarrow> registry_env \<Rightarrow> gotime \<Rightarrow> (lc_error + mutation_lease) \<times> coordinator" where
  "claim_reconcile c env st now =
     (case normalizeMutationRequest (env_request env (reconcile_owner c now)) now of
        Inl e \<Rightarrow> (Inl e, c)
      | Inr request \<Rightarrow>
        (case claim_env c request of
           (Inl e, c1) \<Rightarrow> (Inl e, c1)
         | (Inr lease, c1) \<Rightarrow>
             if reconcile_busy c st
             then let c2 = release_lease lease c1
                  in (Inl (environmentConflictLocked c2 env st (mr_Owner request)
                        (Some ErrMutationBlockedByActivity) now), c2)
             else (Inr lease, c1)))"

definition pending_rc :: "coordinator \<Rightarrow> gotime \<Rightarrow> reconciliation" where
  "pending_rc c now =
     \<lparr>rc_DaemonInstanceID = c_DaemonID c, rc_State = ''pending'',
      rc_ReasonCode = ''reconciliation-pending'', rc_ObservedAt = nowUTC now\<rparr>"

definition BeginReconciliation ::
  "coordinator \<Rightarrow> lc_error option \<Rightarrow> string \<Rightarrow> gotime \<Rightarrow> (lc_error + bool) \<times> coordinator" where
  "BeginReconciliation c ctx env now =
     (case first_err [ctx, check (\<not> idPattern env) (Errorf ''lifecycle reconciliation identity is invalid''),
        check (is_closed c) ErrCoordinatorClosed] of
        Some e \<Rightarrow> (Inl e, c)
      | None \<Rightarrow>
        (case loadEnvironmentLocked c env now of
           (Inl e, c1) \<Rightarrow> (Inl e, c1)
         | (Inr st, c1) \<Rightarrow>
           if re_Reconciling st then (Inr False, c1)
           else if rc_DaemonInstanceID (j_Reconciliation (re_Journal st)) = c_DaemonID c \<and>
                   rc_State (j_Reconciliation (re_Journal st)) = ''complete''
           then (Inr False, c1)
           else (case claim_reconcile c1 env st now of
             (Inl e, c2) \<Rightarrow> (Inl e, c2)
           | (Inr lease, c2) \<Rightarrow>
               let j = re_Journal st;
                   st1 = st\<lparr>re_Timer := False, re_DeadlineSeq := re_DeadlineSeq st + 1, re_Blocked := True,
                            re_Reconciling := True, re_ReconcileLease := Some lease,
                            re_Journal := j\<lparr>j_IdleDeadline := None,
                              j_StartGeneration := (if j_StartGeneration j = 0 then 1 else j_StartGeneration j),
                              j_Reconciliation := pending_rc c now\<rparr>\<rparr> in
               (case persistLocked c2 st1 now of
                  (Some e, st2, c3) \<Rightarrow>
                    (case finishReconciliationLocked c3 st2 of (st3, c4) \<Rightarrow> (Inl e, put_env c4 env st3))
                | (None, st2, c3) \<Rightarrow>
                    (Inr True, emitLocked env (j_StartGeneration (re_Journal st2)) ''reconciliation-started''
                       ''reconciliation-pending'' now (put_env c3 env st2))))))"

text \<open>One iteration of \<open>WaitReconciliation\<close>; \<open>None\<close> is a wait on the fence.\<close>

definition wait_iteration :: "coordinator \<Rightarrow> string \<Rightarrow> gotime \<Rightarrow> (lc_error option) option \<times> coordinator" where
  "wait_iteration c env now =
     (if \<not> idPattern env then (Some (Some (Errorf ''lifecycle reconciliation identity is invalid'')), c)
      else if is_closed c then (Some (Some ErrCoordinatorClosed), c)
      else case loadEnvironmentLocked c env now of
        (Inl e, c1) \<Rightarrow> (Some (Some e), c1)
      | (Inr st, c1) \<Rightarrow> if re_Reconciling st then (None, c1) else (Some None, c1))"

definition BlockReconciliation ::
  "coordinator \<Rightarrow> string \<Rightarrow> string \<Rightarrow> gotime \<Rightarrow> lc_error option \<times> coordinator" where
  "BlockReconciliation c env reasonCode now =
     (if \<not> idPattern env then (Some (Errorf ''lifecycle reconciliation identity is invalid''), c)
      else if is_closed c then (Some ErrCoordinatorClosed, c)
      else case loadEnvironmentLocked c env now of
        (Inl e, c1) \<Rightarrow> (Some e, c1)
      | (Inr st, c1) \<Rightarrow>
          (case persistLocked c1 (block_env c1 reasonCode now
                  (mod_journal (\<lambda>j. j\<lparr>j_IdleDeadline := None, j_StopAttempt := None\<rparr>) st)) now of
             (e, st1, c2) \<Rightarrow>
               (case finishReconciliationLocked c2 st1 of
                  (st2, c3) \<Rightarrow>
                    (case e of
                       Some e \<Rightarrow> (Some e, put_env c3 env st2)
                     | None \<Rightarrow>
                         (None, emitLocked env (j_StartGeneration (re_Journal st2)) ''reconciliation-blocked''
                            (rc_ReasonCode (j_Reconciliation (re_Journal st2))) now (put_env c3 env st2))))))"

section \<open>Reconcile\<close>

record reconcile_input =
  ri_EnvironmentID :: string
  ri_InstanceName :: string
  ri_Observation :: observation
  ri_OwnerSessionIDs :: "string list"
  ri_AdditionalUnproved :: bool

definition newRootResource :: "environment_ref \<Rightarrow> string \<Rightarrow> gotime \<Rightarrow> resource" where
  "newRootResource inc daemonID now =
     \<lparr>res_Ref = root_ref (er_EnvironmentID inc) (er_StartGeneration inc),
      res_Owner = \<lparr>or_Kind = ''daemon'', or_ID = daemonID, or_Generation = er_StartGeneration inc\<rparr>,
      res_State = StateActive, res_Dependencies = [], res_Persistence = PersistenceEphemeral,
      res_ClosePolicy = CloseCoTerminateWithRoot, res_Incarnation = Some inc,
      res_PossibleVMDependency = False, res_UpdatedAt = now\<rparr>"

definition hasSessionResource :: "resource list \<Rightarrow> string \<Rightarrow> bool" where
  "hasSessionResource rs session \<longleftrightarrow>
     list_ex (\<lambda>r. rr_Kind (res_Ref r) = KindRunSession \<and> rr_ID (res_Ref r) = session) rs"

fun appendOwnerOrphans ::
  "string list \<Rightarrow> environment_ref \<Rightarrow> string \<Rightarrow> gotime \<Rightarrow> resource list \<Rightarrow> resource list" where
  "appendOwnerOrphans [] inc daemonID now rs = rs"
| "appendOwnerOrphans (s # ss) inc daemonID now rs =
     (if \<not> idPattern s \<or> hasSessionResource rs s then appendOwnerOrphans ss inc daemonID now rs
      else appendOwnerOrphans ss inc daemonID now (rs @
        [\<lparr>res_Ref = \<lparr>rr_Kind = KindRunSession, rr_ID = s, rr_Generation = er_StartGeneration inc\<rparr>,
          res_Owner = \<lparr>or_Kind = ''daemon'', or_ID = daemonID, or_Generation = er_StartGeneration inc\<rparr>,
          res_State = StateOrphaned,
          res_Dependencies = [\<lparr>ds_Ref = root_ref (er_EnvironmentID inc) (er_StartGeneration inc),
            ds_StopMode = StopModePin\<rparr>],
          res_Persistence = PersistenceEphemeral, res_ClosePolicy = CloseCoTerminateWithRoot,
          res_Incarnation = None, res_PossibleVMDependency = True, res_UpdatedAt = now\<rparr>]))"

definition orphaned :: "gotime \<Rightarrow> resource \<Rightarrow> resource" where
  "orphaned now r =
     r\<lparr>res_State := StateOrphaned, res_PossibleVMDependency := True, res_UpdatedAt := now\<rparr>"

definition markDependentJournalResourcesOrphaned :: "resource list \<Rightarrow> gotime \<Rightarrow> resource list" where
  "markDependentJournalResourcesOrphaned rs now =
     map (\<lambda>r. if rr_Kind (res_Ref r) = KindBackendIncarnation then r else orphaned now r) rs"

text \<open>What \<open>Reconcile\<close> clears before it classifies.\<close>

definition reconcile_reset :: "observation \<Rightarrow> registry_env \<Rightarrow> registry_env" where
  "reconcile_reset ob st =
     (let j = re_Journal st in
      st\<lparr>re_Timer := False, re_Observation := ob, re_Handles := [], re_Committed := [], re_Closing := [],
         re_ResourceUsers := (\<lambda>_. []), re_ResourceOrder := (\<lambda>_. []), re_Terminal := (\<lambda>_. None),
         re_Journal := j\<lparr>j_IdleDeadline := None, j_StopAttempt := None,
           j_StartGeneration := (if j_StartGeneration j = 0 then 1 else j_StartGeneration j)\<rparr>\<rparr>)"

definition reconcile_superseded ::
  "coordinator \<Rightarrow> reconcile_input \<Rightarrow> gotime \<Rightarrow> registry_env \<Rightarrow> registry_env" where
  "reconcile_superseded c input now st =
     (let g = next_generation (j_StartGeneration (re_Journal st));
          inc = \<lparr>er_EnvironmentID = ri_EnvironmentID input, er_StartGeneration = g,
                 er_InstanceName = ri_InstanceName input, er_BootID = obs_BootID (ri_Observation input)\<rparr>
      in block_env c ''backend-incarnation-changed'' now
           (mod_journal (\<lambda>j. j\<lparr>j_StartGeneration := g, j_Incarnation := Some inc,
              j_Resources := appendOwnerOrphans (ri_OwnerSessionIDs input) inc (c_DaemonID c) (nowUTC now)
                [newRootResource inc (c_DaemonID c) (nowUTC now)]\<rparr>) st))"

definition unproved_resources ::
  "coordinator \<Rightarrow> environment_ref \<Rightarrow> gotime \<Rightarrow> resource list \<Rightarrow> resource list" where
  "unproved_resources c inc now rs =
     (let root = newRootResource inc (c_DaemonID c) (nowUTC now);
          rs' = map (\<lambda>r. if rr_Kind (res_Ref r) = KindBackendIncarnation then root
                         else if res_State r \<noteq> StateOrphaned then orphaned (nowUTC now) r else r) rs
      in if list_ex (\<lambda>r. rr_Kind (res_Ref r) = KindBackendIncarnation) rs then rs' else rs' @ [root])"

text \<open>
  The branches of \<open>Reconcile\<close> after the reset, with the fence still held. In the last branch
  \<open>AdditionalUnproved\<close> is set, so \<open>possibleOldDependency\<close> is and the environment is blocked.
\<close>

definition reconcile_classify ::
  "coordinator \<Rightarrow> reconcile_input \<Rightarrow> registry_env \<Rightarrow> gotime \<Rightarrow> lc_error option \<times> registry_env \<times> coordinator" where
  "reconcile_classify c input st now =
     (let env = ri_EnvironmentID input; ob = ri_Observation input;
          persist_emit = (\<lambda>st kind reason. case persistLocked c st now of
             (Some e, st1, c1) \<Rightarrow> (Some e, st1, c1)
           | (None, st1, c1) \<Rightarrow>
               (None, st1, emitLocked env (j_StartGeneration (re_Journal st1)) kind reason now c1)) in
      case obs_State ob of
        LifecycleStopped \<Rightarrow>
          persist_emit (st\<lparr>re_Blocked := False, re_Journal := (re_Journal st)\<lparr>j_Incarnation := None,
            j_Resources := [], j_Reconciliation := complete_rc c now\<rparr>\<rparr>) ''reconciliation-completed'' []
      | LifecycleAbsent \<Rightarrow>
          persist_emit (st\<lparr>re_Blocked := False, re_Journal := (re_Journal st)\<lparr>j_Incarnation := None,
            j_Resources := [], j_Reconciliation := complete_rc c now\<rparr>\<rparr>) ''reconciliation-completed'' []
      | LifecycleUnknown \<Rightarrow>
          persist_emit (block_env c (obs_ReasonCode ob) now
            (mod_journal (\<lambda>j. j\<lparr>j_Resources := markDependentJournalResourcesOrphaned (j_Resources j) (nowUTC now)\<rparr>) st))
            ''reconciliation-blocked'' (obs_ReasonCode ob)
      | _ \<Rightarrow>
        (case j_Incarnation (re_Journal st) of
           None \<Rightarrow> persist_emit (reconcile_superseded c input now st) ''backend-incarnation-superseded''
                     ''backend-incarnation-changed''
         | Some inc \<Rightarrow>
           if er_InstanceName inc \<noteq> ri_InstanceName input \<or> er_BootID inc \<noteq> obs_BootID ob
           then persist_emit (reconcile_superseded c input now st) ''backend-incarnation-superseded''
                  ''backend-incarnation-changed''
           else if \<not> ri_AdditionalUnproved input then
             let st1 = mod_journal (\<lambda>j. j\<lparr>j_Resources := appendOwnerOrphans (ri_OwnerSessionIDs input) inc
                   (c_DaemonID c) (nowUTC now) [newRootResource inc (c_DaemonID c) (nowUTC now)]\<rparr>) st in
             if ri_OwnerSessionIDs input \<noteq> []
             then persist_emit (block_env c ''owner-requires-explicit-recovery'' now st1)
                    ''reconciliation-blocked'' ''owner-requires-explicit-recovery''
             else
               let st2 = st1\<lparr>re_Blocked := False,
                     re_Journal := (re_Journal st1)\<lparr>j_Reconciliation := complete_rc c now\<rparr>\<rparr>;
                   c2 = emitLocked env (j_StartGeneration (re_Journal st2)) ''reconciliation-completed'' [] now c in
               (case scheduleIfIdleLocked c2 env st2 now of
                  (Some e, st3, c3) \<Rightarrow> (Some e, st3, c3)
                | (None, st3, c3) \<Rightarrow> persistNowLocked c3 st3 now)
           else
             persist_emit (block_env c ''provider-state-unproved'' now
               (mod_journal (\<lambda>j. j\<lparr>j_Resources := appendOwnerOrphans (ri_OwnerSessionIDs input) inc
                  (c_DaemonID c) (nowUTC now) (unproved_resources c inc now (j_Resources j))\<rparr>) st))
               ''reconciliation-blocked'' ''provider-state-unproved''))"

definition Reconcile ::
  "coordinator \<Rightarrow> lc_error option \<Rightarrow> reconcile_input \<Rightarrow> gotime \<Rightarrow> lc_error option \<times> coordinator" where
  "Reconcile c ctx input now =
     (let env = ri_EnvironmentID input in
      case first_err [ctx,
        check (\<not> idPattern env \<or> \<not> idPattern (ri_InstanceName input))
          (Errorf ''lifecycle reconciliation identity is invalid''),
        LifecycleObservation_Validate (ri_Observation input),
        check (obs_InstanceName (ri_Observation input) \<noteq> ri_InstanceName input)
          (Errorf ''lifecycle reconciliation observation belongs to another instance''),
        check (is_closed c) ErrCoordinatorClosed] of
        Some e \<Rightarrow> (Some e, c)
      | None \<Rightarrow>
        (case loadEnvironmentLocked c env now of
           (Inl e, c1) \<Rightarrow> (Some e, c1)
         | (Inr st, c1) \<Rightarrow>
           (case (if re_Reconciling st then (Inr st, c1)
                  else case claim_reconcile c1 env st now of
                         (Inl e, c2) \<Rightarrow> (Inl e, c2)
                       | (Inr lease, c2) \<Rightarrow>
                           (Inr (st\<lparr>re_Reconciling := True, re_ReconcileLease := Some lease\<rparr>), c2)) of
              (Inl e, c2) \<Rightarrow> (Some e, c2)
            | (Inr st1, c2) \<Rightarrow>
              (case reconcile_classify c2 input (reconcile_reset (ri_Observation input) st1) now of
                 (e, st2, c3) \<Rightarrow>
                   (case finishReconciliationLocked c3 st2 of (st3, c4) \<Rightarrow> (e, put_env c4 env st3))))))"

end
