(* ===== verification/Lifecycle_Disposal.thy ===== *)
theory Lifecycle_Disposal
  imports Lifecycle_Reconcile
begin

text \<open>
  Removing an environment: \<open>ForgetEnvironment\<close>, the disposal operations and the destructive
  mutation of \<open>internal/lifecycle/coordinator.go\<close>. A disposal goes forward through
  planned, backend-absent and metadata-cleaning; only the last one lets the journal be removed.
\<close>

section \<open>Activity that refuses a mutation\<close>

definition mutation_conflict :: "registry_env \<Rightarrow> lc_error option" where
  "mutation_conflict st =
     (if re_Reconciling st then Some ErrReconciliationInFlight
      else if re_Handles st \<noteq> [] \<or> re_Establishing st \<noteq> [] \<or> re_Mutation st \<or> attempt_blocks st \<or>
              re_StopCancel st
      then Some ErrMutationBlockedByActivity
      else None)"

text \<open>The claim of the environment's key and the refusals that follow it.\<close>

definition claim_mutation ::
  "coordinator \<Rightarrow> string \<Rightarrow> registry_env \<Rightarrow> mutation_request \<Rightarrow> gotime \<Rightarrow>
   (lc_error + mutation_lease) \<times> coordinator" where
  "claim_mutation c env st request now =
     (case claim_env c request of
        (Inl e, c1) \<Rightarrow> (Inl e, c1)
      | (Inr lease, c1) \<Rightarrow>
        (case mutation_conflict st of
           Some fallback \<Rightarrow>
             let c2 = release_lease lease c1
             in (Inl (environmentConflictLocked c2 env st (mr_Owner request) (Some fallback) now), c2)
         | None \<Rightarrow> (Inr lease, c1)))"

section \<open>ForgetEnvironment\<close>

definition cleanup_owner :: "coordinator \<Rightarrow> string \<Rightarrow> gotime \<Rightarrow> mutation_owner" where
  "cleanup_owner c recovery started =
     \<lparr>mo_Kind = MutationOwnerCleanup, mo_ID = c_DaemonID c, mo_Phase = ''applying'',
      mo_Recovery = recovery, mo_StartedAt = started\<rparr>"

definition ForgetEnvironment :: "coordinator \<Rightarrow> string \<Rightarrow> gotime \<Rightarrow> lc_error option \<times> coordinator" where
  "ForgetEnvironment c env now =
     (if \<not> idPattern env then (Some (Errorf ''lifecycle forget identity is invalid''), c)
      else if is_closed c then (Some ErrCoordinatorClosed, c)
      else case loadEnvironmentLocked c env now of
        (Inl e, c1) \<Rightarrow> (if errors_Is e ErrNotExist then None else Some e, c1)
      | (Inr st, c1) \<Rightarrow>
        (case normalizeMutationRequest (env_request env (cleanup_owner c
                ''wait for lifecycle activity to finish, then retry metadata cleanup'' (nowUTC now))) now of
           Inl e \<Rightarrow> (Some e, c1)
         | Inr request \<Rightarrow>
           (case claim_mutation c1 env st request now of
              (Inl e, c2) \<Rightarrow> (Some e, c2)
            | (Inr lease, c2) \<Rightarrow>
              (case Remove (c_Disk c2) env of
                 (Some e, d) \<Rightarrow>
                   (Some e, release_lease lease (put_env (c2\<lparr>c_Disk := d\<rparr>) env (st\<lparr>re_Timer := False\<rparr>)))
               | (None, d) \<Rightarrow> (None, release_lease lease (del_env (c2\<lparr>c_Disk := d\<rparr>) env))))))"

section \<open>Disposal\<close>

definition new_disposal :: "disposal_request \<Rightarrow> u64 \<Rightarrow> gotime \<Rightarrow> disposal_intent" where
  "new_disposal request g now =
     \<lparr>di_Schema = DisposalIntentSchema, di_Authority = DisposalRequest_authority request,
      di_Backend = dq_Backend request, di_InstanceName = dq_InstanceName request,
      di_RecordDigest = dq_RecordDigest request, di_ActivitySessionID = dq_ActivitySessionID request,
      di_Generation = g, di_State = DisposalStatePlanned, di_RequestedAt = nowUTC now,
      di_UpdatedAt = nowUTC now, di_ReasonCode = []\<rparr>"

definition same_disposal :: "disposal_intent \<Rightarrow> disposal_request \<Rightarrow> u64 \<Rightarrow> bool" where
  "same_disposal i request g \<longleftrightarrow>
     di_Authority i = DisposalRequest_authority request \<and> di_Backend i = dq_Backend request \<and>
     di_InstanceName i = dq_InstanceName request \<and> di_RecordDigest i = dq_RecordDigest request \<and>
     di_ActivitySessionID i = dq_ActivitySessionID request \<and> di_Generation i = g"

text \<open>The journal's generation: a never-attached environment gets a fresh, blocked journal.\<close>

definition disposal_journal :: "coordinator \<Rightarrow> disposal_request \<Rightarrow> journal \<Rightarrow> gotime \<Rightarrow> lc_error + journal" where
  "disposal_journal c request j now =
     (if j_StartGeneration j = 0
      then Inr ((newJournal (dq_EnvironmentID request) (c_DaemonID c)
                   (if dq_Generation request = 0 then 1 else dq_Generation request) (nowUTC now))
                \<lparr>j_Reconciliation := blockedReconciliation (c_DaemonID c) ''disposal-in-progress'' (nowUTC now)\<rparr>)
      else if dq_Generation request \<noteq> 0 \<and> dq_Generation request \<noteq> j_StartGeneration j
      then Inl (Errorf ''lifecycle disposal request generation mismatch'')
      else Inr j)"

definition disposal_intent_of :: "disposal_request \<Rightarrow> journal \<Rightarrow> gotime \<Rightarrow> lc_error + disposal_intent" where
  "disposal_intent_of request j now =
     (case j_Disposal j of
        None \<Rightarrow> Inr (new_disposal request (j_StartGeneration j) now)
      | Some i \<Rightarrow>
          if \<not> same_disposal i request (j_StartGeneration j)
          then Inl (Errorf ''lifecycle disposal intent identity mismatch'')
          else if di_State i = DisposalStateBlocked
          then (case ValidateDisposalTransition (di_State i) DisposalStatePlanned of
                  Some e \<Rightarrow> Inl e
                | None \<Rightarrow> Inr (i\<lparr>di_State := DisposalStatePlanned, di_ReasonCode := [], di_UpdatedAt := nowUTC now\<rparr>))
          else Inr i)"

definition start_disposal ::
  "coordinator \<Rightarrow> string \<Rightarrow> registry_env \<Rightarrow> mutation_owner \<Rightarrow> mutation_lease \<Rightarrow> disposal_intent \<Rightarrow> gotime \<Rightarrow>
   (lc_error + disposal_intent) \<times> coordinator" where
  "start_disposal c env st owner lease i now =
     (case cancelDeadlineLocked c st now of
        (Some e, st1, c1) \<Rightarrow> (Inl e, release_lease lease (put_env c1 env st1))
      | (None, st1, c1) \<Rightarrow>
        (case persistLocked c1 (block_env c ''disposal-in-progress'' now
                (st1\<lparr>re_Mutation := True, re_MutationOwner := Some owner, re_MutationLease := Some lease\<rparr>)) now of
           (Some e, st2, c2) \<Rightarrow>
             (Inl e, release_lease lease (put_env c2 env
                (st2\<lparr>re_Mutation := False, re_MutationOwner := None, re_MutationLease := None\<rparr>)))
         | (None, st2, c2) \<Rightarrow>
             (Inr i, emitLocked env (j_StartGeneration (re_Journal st2)) ''disposal-started'' [] now
                (put_env c2 env st2))))"

definition BeginDisposal ::
  "coordinator \<Rightarrow> lc_error option \<Rightarrow> disposal_request \<Rightarrow> gotime \<Rightarrow> (lc_error + disposal_intent) \<times> coordinator" where
  "BeginDisposal c ctx request now =
     (let env = dq_EnvironmentID request in
      case first_err [DisposalRequest_validate request, ctx, check (is_closed c) ErrCoordinatorClosed] of
        Some e \<Rightarrow> (Inl e, c)
      | None \<Rightarrow>
        (case loadEnvironmentLocked c env now of
           (Inl e, c1) \<Rightarrow> (Inl e, c1)
         | (Inr st, c1) \<Rightarrow>
           (case normalizeMutationRequest (env_request env
                \<lparr>mo_Kind = MutationOwnerDisposal, mo_ID = DisposalRequest_authority request,
                 mo_Phase = ''applying'',
                 mo_Recovery = ''inspect the owning disposal operation and retry after it reaches a terminal or blocked phase'',
                 mo_StartedAt = nowUTC now\<rparr>) now of
              Inl e \<Rightarrow> (Inl e, c1)
            | Inr claimRequest \<Rightarrow>
              (case claim_mutation c1 env st claimRequest now of
                 (Inl e, c2) \<Rightarrow> (Inl e, c2)
               | (Inr lease, c2) \<Rightarrow>
                 (case disposal_journal c request (re_Journal st) now of
                    Inl e \<Rightarrow> (Inl e, release_lease lease c2)
                  | Inr j \<Rightarrow>
                    (case disposal_intent_of request j now of
                       Inl e \<Rightarrow> (Inl e, release_lease lease (put_env c2 env (st\<lparr>re_Journal := j\<rparr>)))
                     | Inr i \<Rightarrow>
                         start_disposal c2 env (st\<lparr>re_Journal := j\<lparr>j_Disposal := Some i\<rparr>\<rparr>)
                           (mr_Owner claimRequest) lease i now))))))"

definition disposalLocked ::
  "coordinator \<Rightarrow> string \<Rightarrow> string \<Rightarrow> gotime \<Rightarrow> (lc_error + (registry_env \<times> disposal_intent)) \<times> coordinator" where
  "disposalLocked c env recordDigest now =
     (if is_closed c then (Inl ErrCoordinatorClosed, c)
      else if \<not> idPattern env \<or> \<not> lowerHex recordDigest 64
      then (Inl (Errorf ''lifecycle disposal lease identity is invalid''), c)
      else case loadEnvironmentLocked c env now of
        (Inl e, c1) \<Rightarrow> (Inl e, c1)
      | (Inr st, c1) \<Rightarrow>
        (case j_Disposal (re_Journal st) of
           None \<Rightarrow> (Inl (Errorf ''lifecycle disposal lease identity mismatch''), c1)
         | Some i \<Rightarrow>
             if di_RecordDigest i \<noteq> recordDigest
             then (Inl (Errorf ''lifecycle disposal lease identity mismatch''), c1)
             else (Inr (st, i), c1)))"

definition activeDisposalLocked ::
  "coordinator \<Rightarrow> string \<Rightarrow> string \<Rightarrow> gotime \<Rightarrow> (lc_error + (registry_env \<times> disposal_intent)) \<times> coordinator" where
  "activeDisposalLocked c env recordDigest now =
     (case disposalLocked c env recordDigest now of
        (Inl e, c1) \<Rightarrow> (Inl e, c1)
      | (Inr (st, i), c1) \<Rightarrow>
          if \<not> re_Mutation st then (Inl (Errorf ''lifecycle disposal mutation is not active''), c1)
          else (Inr (st, i), c1))"

definition AdvanceDisposal ::
  "coordinator \<Rightarrow> lc_error option \<Rightarrow> string \<Rightarrow> string \<Rightarrow> string \<Rightarrow> gotime \<Rightarrow> lc_error option \<times> coordinator" where
  "AdvanceDisposal c ctx env recordDigest nextState now =
     (case ctx of
        Some e \<Rightarrow> (Some e, c)
      | None \<Rightarrow>
        (case activeDisposalLocked c env recordDigest now of
           (Inl e, c1) \<Rightarrow> (Some e, c1)
         | (Inr (st, i), c1) \<Rightarrow>
           if nextState = DisposalStateBlocked then (Some (Errorf ''blocked disposal requires a reason''), c1)
           else case ValidateDisposalTransition (di_State i) nextState of
             Some e \<Rightarrow> (Some e, c1)
           | None \<Rightarrow>
             (case persistLocked c1 (mod_journal (\<lambda>j. j\<lparr>
                    j_Disposal := Some (i\<lparr>di_State := nextState, di_ReasonCode := [], di_UpdatedAt := nowUTC now\<rparr>),
                    j_Reconciliation := blockedReconciliation (c_DaemonID c) ''disposal-in-progress'' (nowUTC now)\<rparr>) st)
                  now of
                (Some e, st1, c2) \<Rightarrow> (Some e, put_env c2 env st1)
              | (None, st1, c2) \<Rightarrow>
                  (None, emitLocked env (j_StartGeneration (re_Journal st1)) ''disposal-progressed'' nextState now
                     (put_env c2 env st1)))))"

definition end_mutation :: "coordinator \<Rightarrow> registry_env \<Rightarrow> registry_env \<times> coordinator" where
  "end_mutation c st =
     (st\<lparr>re_Mutation := False, re_MutationOwner := None, re_MutationLease := None\<rparr>,
      case re_MutationLease st of None \<Rightarrow> c | Some lease \<Rightarrow> release_lease lease c)"

definition BlockDisposal ::
  "coordinator \<Rightarrow> lc_error option \<Rightarrow> string \<Rightarrow> string \<Rightarrow> string \<Rightarrow> gotime \<Rightarrow> lc_error option \<times> coordinator" where
  "BlockDisposal c ctx env recordDigest reasonCode now =
     (case first_err [ctx, check (\<not> validDisposalReasonCode reasonCode)
        (Errorf ''lifecycle disposal block reason is invalid'')] of
        Some e \<Rightarrow> (Some e, c)
      | None \<Rightarrow>
        (case disposalLocked c env recordDigest now of
           (Inl e, c1) \<Rightarrow> (Some e, c1)
         | (Inr (st, i), c1) \<Rightarrow>
           (case ValidateDisposalTransition (di_State i) DisposalStateBlocked of
              Some e \<Rightarrow> (Some e, c1)
            | None \<Rightarrow>
              (case end_mutation c1 (mod_journal (\<lambda>j. j\<lparr>j_Disposal := Some (i\<lparr>di_State := DisposalStateBlocked,
                       di_ReasonCode := reasonCode, di_UpdatedAt := nowUTC now\<rparr>)\<rparr>) st) of
                 (st1, c2) \<Rightarrow>
                   (case persistLocked c2 (block_env c2 reasonCode now st1) now of
                      (e, st2, c3) \<Rightarrow>
                        (e, emitLocked env (j_StartGeneration (re_Journal st2)) ''disposal-blocked'' reasonCode now
                              (put_env c3 env st2)))))))"

definition CompleteDisposalMetadata ::
  "coordinator \<Rightarrow> lc_error option \<Rightarrow> string \<Rightarrow> string \<Rightarrow> gotime \<Rightarrow> lc_error option \<times> coordinator" where
  "CompleteDisposalMetadata c ctx env recordDigest now =
     (case ctx of
        Some e \<Rightarrow> (Some e, c)
      | None \<Rightarrow>
        (case activeDisposalLocked c env recordDigest now of
           (Inl e, c1) \<Rightarrow> (Some e, c1)
         | (Inr (st, i), c1) \<Rightarrow>
           if di_State i \<noteq> DisposalStateMetadataCleaning
           then (Some (Errorf ''lifecycle disposal metadata is not ready for completion''), c1)
           else (case Remove (c_Disk c1) env of
             (Some e, d) \<Rightarrow>
               (case end_mutation (c1\<lparr>c_Disk := d\<rparr>) (st\<lparr>re_Timer := False\<rparr>) of
                  (st1, c2) \<Rightarrow>
                    (case persistLocked c2 (block_env c2 ''journal-removal-failed'' now st1) now of
                       (e2, st2, c3) \<Rightarrow> (errors_Join (Some e) e2, put_env c3 env st2)))
           | (None, d) \<Rightarrow>
               (case end_mutation (c1\<lparr>c_Disk := d\<rparr>) st of
                  (st1, c2) \<Rightarrow>
                    (None, emitLocked env (di_Generation i) ''disposal-metadata-removed'' [] now
                       (del_env c2 env))))))"

section \<open>Destructive mutations\<close>

text \<open>A callback that runs: the environment and the lease that is held meanwhile.\<close>

record mutation_txn =
  mt_EnvironmentID :: string
  mt_Lease :: mutation_lease

definition start_mutation ::
  "coordinator \<Rightarrow> string \<Rightarrow> registry_env \<Rightarrow> mutation_owner \<Rightarrow> mutation_lease \<Rightarrow> gotime \<Rightarrow>
   (lc_error + mutation_txn) \<times> coordinator" where
  "start_mutation c env st owner lease now =
     (case cancelDeadlineLocked c st now of
        (Some e, st1, c1) \<Rightarrow> (Inl e, release_lease lease (put_env c1 env st1))
      | (None, st1, c1) \<Rightarrow>
          let st2 = st1\<lparr>re_Mutation := True, re_MutationOwner := Some owner, re_Blocked := True\<rparr> in
          (case (if j_StartGeneration (re_Journal st2) = 0 then (None, st2, c1)
                 else persistLocked c1 (block_env c ''destructive-mutation-in-progress'' now st2) now) of
             (Some e, st3, c2) \<Rightarrow>
               (Inl e, release_lease lease (put_env c2 env (st3\<lparr>re_Mutation := False, re_MutationOwner := None\<rparr>)))
           | (None, st3, c2) \<Rightarrow>
               (Inr \<lparr>mt_EnvironmentID = env, mt_Lease = lease\<rparr>,
                emitLocked env (j_StartGeneration (re_Journal st3)) ''destructive-mutation-started''
                  ''operator-requested'' now (put_env c2 env st3))))"

definition RunDestructiveMutationWithOwner ::
  "coordinator \<Rightarrow> lc_error option \<Rightarrow> string \<Rightarrow> mutation_owner \<Rightarrow> gotime \<Rightarrow> (lc_error + mutation_txn) \<times> coordinator" where
  "RunDestructiveMutationWithOwner c ctx env owner now =
     (case first_err [check (\<not> idPattern env) (Errorf ''lifecycle destructive mutation is invalid''), ctx] of
        Some e \<Rightarrow> (Inl e, c)
      | None \<Rightarrow>
        (case normalizeMutationRequest (env_request env owner) now of
           Inl e \<Rightarrow> (Inl e, c)
         | Inr request \<Rightarrow>
           if is_closed c then (Inl ErrCoordinatorClosed, c)
           else case loadEnvironmentLocked c env now of
             (Inl e, c1) \<Rightarrow> (Inl e, c1)
           | (Inr st, c1) \<Rightarrow>
             (case claim_mutation c1 env st request now of
                (Inl e, c2) \<Rightarrow> (Inl e, c2)
              | (Inr lease, c2) \<Rightarrow> start_mutation c2 env st (mr_Owner request) lease now)))"

definition RunDestructiveMutation ::
  "coordinator \<Rightarrow> lc_error option \<Rightarrow> string \<Rightarrow> gotime \<Rightarrow> (lc_error + mutation_txn) \<times> coordinator" where
  "RunDestructiveMutation c ctx env now =
     RunDestructiveMutationWithOwner c ctx env (cleanup_owner c
       ''inspect lifecycle status and retry the cleanup after the blocker finishes'' zero_time) now"

text \<open>After the callback has returned \<open>mutationErr\<close>; the lease is released afterwards.\<close>

definition mutation_returns ::
  "coordinator \<Rightarrow> mutation_txn \<Rightarrow> lc_error option \<Rightarrow> gotime \<Rightarrow> lc_error option \<times> coordinator" where
  "mutation_returns c txn mutationErr now =
     (let env = mt_EnvironmentID txn in
      if is_closed c then (errors_Join mutationErr (Some ErrCoordinatorClosed), c)
      else case get_env c env of
        None \<Rightarrow>
          (errors_Join mutationErr (Some (Errorf ''lifecycle destructive mutation lost coordinator state'')), c)
      | Some st \<Rightarrow>
          let st1 = st\<lparr>re_Mutation := False, re_MutationOwner := None\<rparr>;
              journalless = (j_StartGeneration (re_Journal st1) = 0) in
          (case mutationErr of
             Some e \<Rightarrow>
               if journalless
               then (Some e, emitLocked env 0 ''destructive-mutation-failed'' ''cleanup-unproved'' now (del_env c env))
               else (case persistLocked c (mod_journal (\<lambda>j. j\<lparr>j_Reconciliation :=
                        blockedReconciliation (c_DaemonID c) ''cleanup-unproved'' (nowUTC now)\<rparr>) st1) now of
                       (e2, st2, c2) \<Rightarrow>
                         (errors_Join (Some e) e2,
                          emitLocked env (j_StartGeneration (re_Journal st2)) ''destructive-mutation-failed''
                            ''cleanup-unproved'' now (put_env c2 env st2)))
           | None \<Rightarrow>
               if journalless then (None, del_env c env)
               else (case Remove (c_Disk c) env of
                       (Some e, d) \<Rightarrow>
                         (case persistLocked (c\<lparr>c_Disk := d\<rparr>) st1 now of
                            (e2, st2, c2) \<Rightarrow> (errors_Join (Some e) e2, put_env c2 env st2))
                     | (None, d) \<Rightarrow> (None, del_env (c\<lparr>c_Disk := d\<rparr>) env))))"

definition mutation_releases :: "coordinator \<Rightarrow> mutation_txn \<Rightarrow> coordinator" where
  "mutation_releases c txn = release_lease (mt_Lease txn) c"

end
