(* ===== verification/Lifecycle_Invariant.thy ===== *)
theory Lifecycle_Invariant
  imports Lifecycle_Disposal
begin

text \<open>
  The activities of an environment exclude each other. Every operation of the coordinator keeps
  the invariant \<open>env_inv\<close> of all environments, whatever its arguments, and none but the return of
  its callback or the shutdown ends a stop or a mutation that runs.
\<close>

section \<open>The invariant\<close>

definition attached :: "registry_env \<Rightarrow> bool" where
  "attached st \<longleftrightarrow> re_Handles st \<noteq> [] \<or> re_Establishing st \<noteq> []"

definition env_inv :: "registry_env \<Rightarrow> bool" where
  "env_inv st \<longleftrightarrow>
     (attached st \<longrightarrow> \<not> re_Mutation st \<and> \<not> re_Reconciling st \<and> \<not> re_StopCancel st) \<and>
     (re_Mutation st \<longrightarrow> \<not> re_Reconciling st \<and> \<not> re_StopCancel st) \<and>
     (re_Reconciling st \<longrightarrow> \<not> re_StopCancel st \<and> j_IdleDeadline (re_Journal st) = None) \<and>
     (re_StopCancel st \<longrightarrow> j_IdleDeadline (re_Journal st) = None \<and> attempt_blocks st)"

definition coord_inv :: "coordinator \<Rightarrow> bool" where
  "coord_inv c \<longleftrightarrow> (\<forall>env st. get_env c env = Some st \<longrightarrow> env_inv st)"

text \<open>What runs goes on running.\<close>

definition goes_on :: "registry_env \<Rightarrow> registry_env \<Rightarrow> bool" where
  "goes_on st st' \<longleftrightarrow> (re_StopCancel st \<longrightarrow> re_StopCancel st') \<and> (re_Mutation st \<longrightarrow> re_Mutation st')"

definition evolves :: "registry_env option \<Rightarrow> registry_env option \<Rightarrow> bool" where
  "evolves s s' \<longleftrightarrow>
     (\<forall>st'. s' = Some st' \<longrightarrow> env_inv st') \<and>
     (\<forall>st. s = Some st \<longrightarrow> re_StopCancel st \<or> re_Mutation st \<longrightarrow>
        (\<exists>st'. s' = Some st' \<and> goes_on st st'))"

definition quiet :: "coordinator \<Rightarrow> coordinator \<Rightarrow> bool" where
  "quiet c c' \<longleftrightarrow> (\<forall>env. evolves (get_env c env) (get_env c' env))"

lemma quiet_inv: "quiet c c' \<Longrightarrow> coord_inv c'"
  by (auto simp: quiet_def evolves_def coord_inv_def)

lemma evolves_refl: "(\<And>st. s = Some st \<Longrightarrow> env_inv st) \<Longrightarrow> evolves s s"
  by (simp add: evolves_def goes_on_def)

lemma quiet_refl [simp]: "coord_inv c \<Longrightarrow> quiet c c"
  by (simp add: quiet_def coord_inv_def evolves_refl)

lemma evolves_trans:
  assumes "evolves s t" "evolves t u"
  shows "evolves s u"
  unfolding evolves_def
proof (intro conjI allI impI)
  show "env_inv st" if "u = Some st" for st using assms(2) that by (simp add: evolves_def)
  fix st assume st: "s = Some st" "re_StopCancel st \<or> re_Mutation st"
  then obtain st1 where st1: "t = Some st1" "goes_on st st1" using assms(1) by (auto simp: evolves_def)
  then have "re_StopCancel st1 \<or> re_Mutation st1" using st(2) by (auto simp: goes_on_def)
  then obtain st2 where "u = Some st2" "goes_on st1 st2" using assms(2) st1 by (auto simp: evolves_def)
  then show "\<exists>st'. u = Some st' \<and> goes_on st st'" using st1 by (auto simp: goes_on_def)
qed

lemma quiet_trans: "quiet c c1 \<Longrightarrow> quiet c1 c2 \<Longrightarrow> quiet c c2"
  using evolves_trans by (force simp: quiet_def)

lemma quiet_frame [simp]:
  "quiet c (emitLocked a g k r now c') = quiet c c'" "quiet c (release_lease lease c') = quiet c c'"
  "quiet c (c'\<lparr>c_Disk := d\<rparr>) = quiet c c'" "quiet c (c'\<lparr>c_Claims := t\<rparr>) = quiet c c'"
  "quiet c (c'\<lparr>c_NextIdent := n\<rparr>) = quiet c c'" "quiet c (c'\<lparr>c_StopWG := n\<rparr>) = quiet c c'"
  "quiet c (persisted c' st now) = quiet c c'"
  by (simp_all add: quiet_def)

lemma quiet_put:
  assumes "coord_inv c" "\<And>e. e \<noteq> env \<Longrightarrow> get_env c' e = get_env c e"
    and "env_inv st" "\<And>st0. get_env c env = Some st0 \<Longrightarrow> goes_on st0 st"
  shows "quiet c (put_env c' env st)"
  using assms by (auto simp: quiet_def evolves_def coord_inv_def goes_on_def)

lemma quiet_put_same:
  assumes "coord_inv c" "get_env c env = Some st0" "\<And>e. get_env c' e = get_env c e"
    and "env_inv st0 \<Longrightarrow> env_inv st \<and> goes_on st0 st"
  shows "quiet c (put_env c' env st)"
  using assms by (intro quiet_put) (auto simp: coord_inv_def)

lemma goes_on_refl [simp]: "goes_on st st"
  by (simp add: goes_on_def)

lemma quiet_del:
  assumes "coord_inv c" "\<And>e. get_env c' e = get_env c e"
    and "\<And>st0. get_env c env = Some st0 \<Longrightarrow> \<not> re_StopCancel st0 \<and> \<not> re_Mutation st0"
  shows "quiet c (del_env c' env)"
  using assms by (auto simp: quiet_def evolves_def coord_inv_def goes_on_def)

text \<open>The invariant looks at few fields.\<close>

lemma env_inv_cong:
  assumes "re_Handles st' = re_Handles st" "re_Establishing st' = re_Establishing st"
    "re_Mutation st' = re_Mutation st" "re_Reconciling st' = re_Reconciling st"
    "re_StopCancel st' = re_StopCancel st"
    "j_IdleDeadline (re_Journal st') = j_IdleDeadline (re_Journal st)"
    "j_StopAttempt (re_Journal st') = j_StopAttempt (re_Journal st)"
  shows "env_inv st' = env_inv st" "goes_on st st'" "goes_on st0 st' = goes_on st0 st"
  using assms by (simp_all add: env_inv_def attached_def goes_on_def)

lemma env_inv_frame [simp]:
  "env_inv (stamped now st) = env_inv st" "env_inv (stop_checkpoint st) = env_inv st"
  "env_inv (persisted_now c st now) = env_inv st" "env_inv (checkpointLaterLocked st) = env_inv st"
  "env_inv (block_env c r now st) = env_inv st" "env_inv (st\<lparr>re_Dirty := b\<rparr>) = env_inv st"
  "env_inv (st\<lparr>re_Checkpoint := b\<rparr>) = env_inv st" "env_inv (st\<lparr>re_Blocked := b\<rparr>) = env_inv st"
  "env_inv (st\<lparr>re_Timer := b\<rparr>) = env_inv st"
  by (simp_all add: env_inv_def attached_def)

lemma goes_on_frame [simp]:
  "goes_on st0 (stamped now st) = goes_on st0 st" "goes_on st0 (stop_checkpoint st) = goes_on st0 st"
  "goes_on st0 (persisted_now c st now) = goes_on st0 st"
  "goes_on st0 (checkpointLaterLocked st) = goes_on st0 st"
  "goes_on st0 (block_env c r now st) = goes_on st0 st" "goes_on st0 (st\<lparr>re_Dirty := b\<rparr>) = goes_on st0 st"
  "goes_on st0 (st\<lparr>re_Checkpoint := b\<rparr>) = goes_on st0 st" "goes_on st0 (st\<lparr>re_Blocked := b\<rparr>) = goes_on st0 st"
  "goes_on st0 (st\<lparr>re_Timer := b\<rparr>) = goes_on st0 st" "goes_on st0 (set_attempt a st) = goes_on st0 st"
  "goes_on st0 (set_deadline c inc s now st) = goes_on st0 st"
  by (simp_all add: goes_on_def)

section \<open>Loading, checkpoints and claims\<close>

lemma new_env_inv: "env_inv (new_registry_env j n)"
  by (simp add: env_inv_def attached_def new_registry_env_def)

lemma load_quiet:
  assumes "loadEnvironmentLocked c env now = (r, c1)" "coord_inv c"
  shows "quiet c c1 \<and> coord_inv c1 \<and> c_Claims c1 = c_Claims c \<and> c_Closing c1 = c_Closing c \<and>
    c_Closed c1 = c_Closed c \<and> c_DaemonID c1 = c_DaemonID c \<and>
    (\<forall>st. r = Inr st \<longrightarrow> get_env c1 env = Some st)"
proof (cases "get_env c env")
  case (Some st)
  then show ?thesis using assms by (auto simp: loadEnvironmentLocked_def)
next
  case None
  obtain l d where ld: "Load (c_Disk c) env = (l, d)" by (rule prod.exhaust)
  have inst: "quiet c c' \<and> c_Claims c' = c_Claims c \<and> c_Closing c' = c_Closing c \<and>
      c_Closed c' = c_Closed c \<and> c_DaemonID c' = c_DaemonID c \<and> get_env c' env = Some st"
    if "install_env (c\<lparr>c_Disk := d\<rparr>) env j now = (st, c')" for j st c'
  proof -
    have "env_inv st" "c' = put_env (c\<lparr>c_Disk := d, c_NextIdent := Suc (c_NextIdent c)\<rparr>) env st"
      using that by (auto simp: install_env_def Let_def new_env_inv)
    then show ?thesis using quiet_put[OF assms(2), of env _ st] None by simp
  qed
  have "quiet c c1 \<and> c_Claims c1 = c_Claims c \<and> c_Closing c1 = c_Closing c \<and>
    c_Closed c1 = c_Closed c \<and> c_DaemonID c1 = c_DaemonID c \<and>
    (\<forall>st. r = Inr st \<longrightarrow> get_env c1 env = Some st)"
    using assms(1) None ld inst assms(2)
    by (auto simp: loadEnvironmentLocked_def split: sum.splits prod.splits if_splits)
  then show ?thesis using quiet_inv[of c c1] by blast
qed

lemma checkpoint_fire_quiet: "coord_inv c \<Longrightarrow> quiet c (checkpoint_fire c env ident s now)"
  by (auto simp: checkpoint_fire_def persist_eqs Let_def split: option.splits intro!: quiet_put_same)

lemma claim_env_frame:
  "claim_env c r = (res, c1) \<Longrightarrow> get_env c1 e = get_env c e \<and> c_Closing c1 = c_Closing c \<and>
     c_Closed c1 = c_Closed c \<and> c_DaemonID c1 = c_DaemonID c \<and> c_HasStop c1 = c_HasStop c \<and>
     c_Enabled c1 = c_Enabled c \<and> c_Disk c1 = c_Disk c"
  by (auto simp: claim_env_def split: prod.splits)

lemma claim_env_quiet: "claim_env c r = (res, c1) \<Longrightarrow> coord_inv c \<Longrightarrow> quiet c c1"
  by (auto simp: claim_env_def split: prod.splits)

text \<open>An environment in which nothing runs may become anything that keeps the invariant.\<close>

definition idle :: "registry_env \<Rightarrow> bool" where
  "idle st \<longleftrightarrow> \<not> attached st \<and> \<not> re_Mutation st \<and> \<not> re_Reconciling st \<and> \<not> re_StopCancel st"

lemma idle_inv: "idle st \<Longrightarrow> env_inv st"
  by (simp add: idle_def env_inv_def)

lemma idle_frame [simp]:
  "idle (stamped now st) = idle st" "idle (stop_checkpoint st) = idle st"
  "idle (persisted_now c st now) = idle st" "idle (checkpointLaterLocked st) = idle st"
  "idle (block_env c r now st) = idle st" "idle (st\<lparr>re_Dirty := b\<rparr>) = idle st"
  "idle (st\<lparr>re_Checkpoint := b\<rparr>) = idle st" "idle (st\<lparr>re_Blocked := b\<rparr>) = idle st"
  "idle (st\<lparr>re_Timer := b\<rparr>) = idle st" "idle (set_attempt a st) = idle st"
  "idle (set_deadline c inc s now st) = idle st" "idle (st\<lparr>re_Journal := j\<rparr>) = idle st"
  by (simp_all add: idle_def attached_def)

lemma quiet_idle:
  assumes "coord_inv c" "get_env c env = Some st" "idle st"
    and "\<And>e. e \<noteq> env \<Longrightarrow> get_env c' e = get_env c e"
    and "\<And>st'. get_env c' env = Some st' \<Longrightarrow> env_inv st'"
  shows "quiet c c'"
  unfolding quiet_def
proof
  fix e
  show "evolves (get_env c e) (get_env c' e)"
  proof (cases "e = env")
    case True
    then show ?thesis using assms(2,3,5) by (auto simp: evolves_def idle_def)
  next
    case False
    then show ?thesis using assms(1,4) by (auto simp: coord_inv_def intro: evolves_refl)
  qed
qed

section \<open>Deadlines\<close>

lemma env_inv_set_deadline:
  "env_inv st \<Longrightarrow> \<not> re_Reconciling st \<Longrightarrow> \<not> re_StopCancel st \<Longrightarrow> env_inv (set_deadline c inc s now st)"
  by (simp add: env_inv_def attached_def)

text \<open>The fields of the coordinator that the operations on one environment leave alone.\<close>

definition same_frame :: "coordinator \<Rightarrow> coordinator \<Rightarrow> bool" where
  "same_frame c c' \<longleftrightarrow> (\<forall>e. get_env c' e = get_env c e) \<and> c_Claims c' = c_Claims c \<and>
     c_Closing c' = c_Closing c \<and> c_Closed c' = c_Closed c \<and> c_DaemonID c' = c_DaemonID c"

lemma same_frame_simps [simp]:
  "same_frame c c" "same_frame c (persisted c' st now) = same_frame c c'"
  "same_frame c (emitLocked a g k r now c') = same_frame c c'"
  by (simp_all add: same_frame_def)

lemma schedule_shape:
  assumes "scheduleIfIdleLocked c env st now = (e, st', c')"
  shows "same_frame c c' \<and>
    (st' = st \<or> st' = stamped now st \<or> (\<exists>r. st' = stamped now (block_env c r now st)) \<or>
     (\<exists>inc s. st' = set_deadline c inc s now st \<and> re_Establishing st = [] \<and> \<not> re_Blocked st))"
  using assms
  by (auto simp: scheduleIfIdleLocked_def persist_eqs Let_def split: if_splits option.splits sum.splits)

lemma schedule_inv:
  assumes "scheduleIfIdleLocked c env st now = (e, st', c')"
    and "env_inv st" "\<not> re_Reconciling st" "\<not> re_StopCancel st"
  shows "env_inv st'"
  using schedule_shape[OF assms(1)] assms(2-4) env_inv_set_deadline by auto

lemma schedule_goes_on:
  assumes "scheduleIfIdleLocked c env st now = (e, st', c')"
  shows "goes_on st0 st' = goes_on st0 st"
  using schedule_shape[OF assms(1)] by auto

lemma cancelForAttach_frame:
  assumes "cancelDeadlineForAttachLocked c st now = (b, st', c')"
  shows "same_frame c c' \<and> re_Handles st' = re_Handles st \<and> re_Establishing st' = re_Establishing st \<and>
    re_Mutation st' = re_Mutation st \<and> re_Reconciling st' = re_Reconciling st \<and>
    re_StopCancel st' = re_StopCancel st \<and> j_IdleDeadline (re_Journal st') = None \<and>
    j_StopAttempt (re_Journal st') = j_StopAttempt (re_Journal st) \<and> re_Blocked st' = re_Blocked st"
  using assms by (auto simp: cancelDeadlineForAttachLocked_def Let_def split: option.splits)

lemma cancelDeadline_frame:
  assumes "cancelDeadlineLocked c st now = (e, st', c')"
  shows "same_frame c c' \<and> re_Handles st' = re_Handles st \<and> re_Establishing st' = re_Establishing st \<and>
    re_Mutation st' = re_Mutation st \<and> re_Reconciling st' = re_Reconciling st \<and>
    re_StopCancel st' = re_StopCancel st \<and> j_IdleDeadline (re_Journal st') = None \<and>
    j_StopAttempt (re_Journal st') = j_StopAttempt (re_Journal st) \<and> re_Blocked st' = re_Blocked st"
proof -
  obtain b st1 c1 where cf: "cancelDeadlineForAttachLocked c st now = (b, st1, c1)" by (rule prod_cases3)
  from assms cf have "(st' = st1 \<and> c' = c1) \<or>
      (st' = persisted_now c1 st1 now \<and> c' = persisted c1 (stop_checkpoint st1) now)"
    by (cases b) (simp_all add: cancelDeadlineLocked_def persist_eqs)
  then show ?thesis using cancelForAttach_frame[OF cf] by auto
qed

lemma cancelDeadline_idle:
  assumes "cancelDeadlineLocked c st now = (e, st', c')" "idle st"
  shows "idle st'"
  using cancelDeadline_frame[OF assms(1)] assms(2) by (simp add: idle_def attached_def)

section \<open>Stopping\<close>

lemma begin_stop_get [simp]:
  "get_env (begin_stop c env st) e =
     (if e = env then Some (st\<lparr>re_StopCancel := True, re_StopDone := True\<rparr>) else get_env c e)"
  by (simp add: begin_stop_def)

lemma begin_stop_fields [simp]:
  "c_Claims (begin_stop c env st) = c_Claims c" "c_Closing (begin_stop c env st) = c_Closing c"
  "c_Closed (begin_stop c env st) = c_Closed c"
  by (simp_all add: begin_stop_def)

lemma begin_stop_inv:
  "idle st \<Longrightarrow> attempt_blocks st \<Longrightarrow> j_IdleDeadline (re_Journal st) = None \<Longrightarrow>
     env_inv (st\<lparr>re_StopCancel := True, re_StopDone := True\<rparr>)"
  by (simp add: idle_def env_inv_def attached_def)

lemma attempt_states [simp]:
  "attemptBlocksAttach (Some (new_attempt c i inc m ''invoked'' now))"
  "attemptBlocksAttach (Some ((new_attempt c i inc m s now)\<lparr>sa_State := ''invoked''\<rparr>))"
  by (simp_all add: attemptBlocksAttach_def new_attempt_def)

lemma expire_attempt_effect:
  assumes "expire_attempt c env st inc i lease now = (t, c')" "idle st"
  shows "(\<forall>e. e \<noteq> env \<longrightarrow> get_env c' e = get_env c e) \<and> (\<exists>st'. get_env c' env = Some st' \<and> env_inv st' \<and>
    (t = None \<longrightarrow> idle st' \<and> c_Claims c' = releaseLocked lease (c_Claims c)) \<and>
    (\<forall>txn. t = Some txn \<longrightarrow> tx_EnvironmentID txn = env \<and> tx_Lease txn = lease \<and> re_StopCancel st' \<and> c_Claims c' = c_Claims c))"
  using assms
  by (auto simp: expire_attempt_def persist_eqs Let_def begin_stop_inv idle_inv split: option.splits if_splits)

text \<open>
  What an operation may do that acts on one environment in which nothing runs and perhaps starts a
  callback there.
\<close>

definition starts :: "coordinator \<Rightarrow> string \<Rightarrow> (registry_env \<Rightarrow> bool) \<Rightarrow> bool \<Rightarrow> coordinator \<Rightarrow> bool" where
  "starts c env running started c' \<longleftrightarrow>
     (\<forall>e. e \<noteq> env \<longrightarrow> get_env c' e = get_env c e) \<and>
     (\<exists>st'. get_env c' env = Some st' \<and> env_inv st' \<and> (started \<longrightarrow> running st'))"

lemma starts_quiet:
  assumes "starts c env P b c'" "coord_inv c" "get_env c env = Some st" "idle st"
  shows "quiet c c'"
  using assms(1) by (intro quiet_idle[OF assms(2-4)]) (auto simp: starts_def)

lemma expire_claim_starts:
  assumes "expire_claim c env st inc s now = (t, c')" "idle st" "get_env c env = Some st"
  shows "starts c env re_StopCancel (t \<noteq> None) c' \<and> (\<forall>txn. t = Some txn \<longrightarrow> tx_EnvironmentID txn = env)"
proof (cases "normalizeMutationRequest (env_request env (stop_owner (''stop-'' @ show_u64 (er_StartGeneration inc) @ ''-'' @ show_u64 s) (nowUTC now))) now")
  case (Inl e)
  then show ?thesis using assms
    by (auto simp: expire_claim_def Let_def persist_eqs starts_def idle_inv)
next
  case (Inr r)
  obtain l c1 where cl: "claim_env c r = (l, c1)" by (rule prod.exhaust)
  note f = claim_env_frame[OF cl]
  show ?thesis
  proof (cases l)
    case (Inl e)
    then show ?thesis using assms Inr cl f
      by (auto simp: expire_claim_def Let_def starts_def idle_inv)
  next
    case (Inr lease)
    with assms(1) \<open>_ = Inr r\<close> cl have
      "expire_attempt c1 env st inc (''stop-'' @ show_u64 (er_StartGeneration inc) @ ''-'' @ show_u64 s) lease now = (t, c')"
      by (simp add: expire_claim_def Let_def)
    from expire_attempt_effect[OF this assms(2)] f show ?thesis by (auto simp: starts_def)
  qed
qed

lemma expire_quiet:
  assumes "expire c env inc s now = (t, c')" "coord_inv c"
  shows "quiet c c' \<and> (\<forall>txn. t = Some txn \<longrightarrow> tx_EnvironmentID txn = env \<and>
    (\<exists>st. get_env c env = Some st \<and> idle st) \<and> (\<exists>st'. get_env c' env = Some st' \<and> re_StopCancel st'))"
proof (cases "get_env c env")
  case None
  then show ?thesis using assms by (simp add: expire_def)
next
  case (Some st)
  have inv: "env_inv st" using assms(2) Some by (simp add: coord_inv_def)
  show ?thesis
  proof (cases "is_closed c \<or> re_Mutation st \<or> re_Establishing st \<noteq> [] \<or>
      (case j_IdleDeadline (re_Journal st) of None \<Rightarrow> True
       | Some dl \<Rightarrow> id_Generation dl \<noteq> s \<or> \<not> EnvironmentRef_Equal (id_Incarnation dl) inc) \<or> re_Handles st \<noteq> []")
    case True
    then have "(t, c') = (None, c)" using assms(1) Some unfolding expire_def by simp
    then show ?thesis using assms(2) by simp
  next
    case False
    then have idle: "idle st" using inv by (auto simp: idle_def env_inv_def attached_def)
    have "starts c env re_StopCancel (t \<noteq> None) c' \<and> (\<forall>txn. t = Some txn \<longrightarrow> tx_EnvironmentID txn = env)"
    proof (cases "\<exists>ob ev. currentIncarnationObservation st = Inr ob \<and>
        EvaluateAutoStop (stop_input st inc ob True) = Inr ev \<and> ev_Allowed ev \<and> ev_Drains ev = []")
      case True
      then have "expire_claim c env st inc s now = (t, c')"
        using assms(1) Some False unfolding expire_def by auto
      then show ?thesis using idle Some by (rule expire_claim_starts)
    next
      case False': False
      then show ?thesis using assms(1) Some False idle
        unfolding expire_def
        by (auto simp: persist_eqs starts_def idle_inv simp del: not_None_eq split: sum.splits if_splits)
    qed
    then show ?thesis using starts_quiet[OF _ assms(2) Some idle] idle Some by (auto simp: starts_def)
  qed
qed

lemma explicit_attempt_effect:
  assumes "explicit_attempt c env st inc i lease now = (t, c')" "idle st"
  shows "starts c env re_StopCancel (\<not> isl t) c' \<and> (\<forall>txn. t = Inr txn \<longrightarrow> tx_EnvironmentID txn = env)"
proof -
  obtain e st1 c1 where cd: "cancelDeadlineLocked c st now = (e, st1, c1)" by (rule prod_cases3)
  have f: "\<And>x. get_env c1 x = get_env c x" "j_IdleDeadline (re_Journal st1) = None" "idle st1"
    using cancelDeadline_frame[OF cd] cancelDeadline_idle[OF cd assms(2)] by (simp_all add: same_frame_def)
  let ?a = "new_attempt c i inc ''explicit-recovery'' ''invoked'' now"
  let ?st2 = "stamped now (set_attempt (Some ?a) st1)"
  have inv: "env_inv (?st2\<lparr>re_StopCancel := True, re_StopDone := True\<rparr>)"
    by (rule begin_stop_inv) (simp_all add: f)
  show ?thesis
  proof (cases e)
    case (Some err)
    then show ?thesis using assms(1) cd f by (auto simp: explicit_attempt_def starts_def idle_inv)
  next
    case None
    show ?thesis
    proof (cases "write_error c1 (set_attempt (Some ?a) st1) now")
      case (Some err)
      then show ?thesis using assms(1) cd f \<open>e = None\<close>
        by (auto simp: explicit_attempt_def persist_eqs starts_def idle_inv)
    next
      case no: None
      then show ?thesis using assms(1) cd f inv \<open>e = None\<close>
        by (cases "c_HasStop c") (auto simp: explicit_attempt_def persist_eqs starts_def idle_inv Let_def)
    qed
  qed
qed

lemma explicit_conflict_None: "explicit_conflict st = None \<Longrightarrow> env_inv st \<Longrightarrow> idle st"
  by (auto simp: explicit_conflict_def idle_def attached_def env_inv_def split: if_splits)

lemma StopExplicit_shape:
  assumes "StopExplicit c env now = (t, c')"
  obtains (early) e where "t = Inl e" "c' = c"
  | (loaded) r c1 where "loadEnvironmentLocked c env now = (r, c1)" "\<And>e. get_env c' e = get_env c1 e" "\<exists>e. t = Inl e"
  | (attempt) st c1 c2 inc i lease where "loadEnvironmentLocked c env now = (Inr st, c1)"
      "\<And>e. get_env c2 e = get_env c1 e" "explicit_conflict st = None" "explicit_recovery st = Inr inc"
      "explicit_attempt c2 env st inc i lease now = (t, c')"
proof -
  obtain r c1 where ld: "loadEnvironmentLocked c env now = (r, c1)" by (rule prod.exhaust)
  show thesis
  proof (cases "\<not> idPattern env \<or> is_closed c")
    case True
    then show thesis using assms early by (auto simp: StopExplicit_def split: if_splits)
  next
    case go: False
    show thesis
    proof (cases r)
      case (Inl e)
      then show thesis using assms go ld loaded[OF ld] by (auto simp: StopExplicit_def)
    next
      case (Inr st)
      let ?i = "''explicit-'' @ show_u64 (j_StartGeneration (re_Journal st)) @ ''-'' @ show_int (UnixNano (nowUTC now))"
      show thesis
      proof (cases "normalizeMutationRequest (env_request env (stop_owner ?i (nowUTC now))) now")
        case err: (Inl e)
        then show thesis using assms go ld Inr loaded[OF ld] by (auto simp: StopExplicit_def Let_def)
      next
        case req: (Inr q)
        obtain l c2 where cl: "claim_env c1 q = (l, c2)" by (rule prod.exhaust)
        have f: "\<And>e. get_env c2 e = get_env c1 e" using claim_env_frame[OF cl] by simp
        show thesis
        proof (cases l)
          case err: (Inl e)
          then show thesis using assms go ld Inr req cl f loaded[OF ld] by (auto simp: StopExplicit_def Let_def)
        next
          case lease: (Inr lease)
          show thesis
          proof (cases "explicit_conflict st")
            case (Some fb)
            then show thesis using assms go ld Inr req cl lease f loaded[OF ld] by (auto simp: StopExplicit_def Let_def)
          next
            case None
            show thesis
            proof (cases "explicit_recovery st")
              case rec: (Inl e)
              then show thesis using assms go ld Inr req cl lease f None loaded[OF ld]
                by (auto simp: StopExplicit_def Let_def)
            next
              case rec: (Inr inc)
              have "explicit_attempt c2 env st inc ?i lease now = (t, c')"
                using assms go ld Inr req cl lease None rec by (simp add: StopExplicit_def Let_def)
              then show thesis using attempt[of st c1 c2 inc ?i lease] ld Inr f None rec by blast
            qed
          qed
        qed
      qed
    qed
  qed
qed

lemma quiet_get: "(\<And>e. get_env c' e = get_env c1 e) \<Longrightarrow> quiet c c1 \<Longrightarrow> quiet c c'"
  by (simp add: quiet_def)

lemma starts_frame: "starts c2 env P b c' \<Longrightarrow> (\<And>e. get_env c2 e = get_env c1 e) \<Longrightarrow> starts c1 env P b c'"
  by (simp add: starts_def)

lemma load_known:
  assumes "loadEnvironmentLocked c env now = (Inr st, c1)" "get_env c env = Some st0"
  shows "st0 = st"
  using assms by (simp add: loadEnvironmentLocked_def)

lemma StopExplicit_quiet:
  assumes "StopExplicit c env now = (t, c')" "coord_inv c"
  shows "quiet c c' \<and> (\<forall>txn. t = Inr txn \<longrightarrow> tx_EnvironmentID txn = env \<and>
    (\<forall>st. get_env c env = Some st \<longrightarrow> idle st) \<and> (\<exists>st'. get_env c' env = Some st' \<and> re_StopCancel st'))"
  using assms(1)
proof (cases rule: StopExplicit_shape)
  case (early e)
  then show ?thesis using assms(2) by simp
next
  case (loaded r c1)
  then show ?thesis using load_quiet[OF loaded(1) assms(2)] quiet_get[OF loaded(2)] by auto
next
  case (attempt st c1 c2 inc i lease)
  note l = load_quiet[OF attempt(1) assms(2)]
  then have st: "get_env c1 env = Some st" "coord_inv c1" by simp_all
  then have idle: "idle st" using explicit_conflict_None[OF attempt(3)] by (simp add: coord_inv_def)
  note eff = explicit_attempt_effect[OF attempt(5) idle]
  have s: "starts c1 env re_StopCancel (\<not> isl t) c'" using eff starts_frame[OF _ attempt(2)] by blast
  have "quiet c1 c'" using starts_quiet[OF s st(2,1) idle] .
  then have "quiet c c'" using l quiet_trans by blast
  then show ?thesis using eff s idle load_known[OF attempt(1)] by (auto simp: starts_def)
qed

section \<open>Registrations\<close>

text \<open>Two states of an environment in which the same things run.\<close>

definition same_activity :: "registry_env \<Rightarrow> registry_env \<Rightarrow> bool" where
  "same_activity st st' \<longleftrightarrow>
     re_Handles st' = re_Handles st \<and> re_Establishing st' = re_Establishing st \<and>
     re_Mutation st' = re_Mutation st \<and> re_Reconciling st' = re_Reconciling st \<and>
     re_StopCancel st' = re_StopCancel st \<and>
     j_IdleDeadline (re_Journal st') = j_IdleDeadline (re_Journal st) \<and>
     j_StopAttempt (re_Journal st') = j_StopAttempt (re_Journal st)"

lemma same_activity_refl [simp]: "same_activity st st"
  by (simp add: same_activity_def)

lemma same_activity_frame [simp]:
  "same_activity st (stamped now st') = same_activity st st'"
  "same_activity st (persisted_now c st' now) = same_activity st st'"
  "same_activity st (checkpointLaterLocked st') = same_activity st st'"
  "same_activity st (st'\<lparr>re_Committed := hs\<rparr>) = same_activity st st'"
  "same_activity st (st'\<lparr>re_Closing := hs\<rparr>) = same_activity st st'"
  "same_activity st (st'\<lparr>re_ResourceUsers := us\<rparr>) = same_activity st st'"
  "same_activity st (st'\<lparr>re_ResourceOrder := os\<rparr>) = same_activity st st'"
  "same_activity st (st'\<lparr>re_Terminal := t\<rparr>) = same_activity st st'"
  "same_activity st (st'\<lparr>re_Observation := ob\<rparr>) = same_activity st st'"
  "same_activity st (set_resource i r st') = same_activity st st'"
  "same_activity st (remove_resource i st') = same_activity st st'"
  "same_activity st (set_terminal k s st') = same_activity st st'"
  "same_activity st (removeResourceUser st' h ref) = same_activity st st'"
  "same_activity st (removeResourceOrder st' h ref) = same_activity st st'"
  "same_activity st (add_user k h st') = same_activity st st'"
  "same_activity st (add_order h ref st') = same_activity st st'"
  by (simp_all add: same_activity_def set_resource_def remove_resource_def set_terminal_def
      removeResourceUser_def removeResourceOrder_def add_user_def add_order_def Let_def)

lemma addOrJoin_same: "addOrJoinResource st h r = (e, st') \<Longrightarrow> same_activity st st'"
  by (auto simp: addOrJoinResource_def Let_def split: option.splits if_splits)
     (simp_all add: same_activity_def add_order_def)

lemma fold_removeUser_same: "same_activity st (fold (\<lambda>ref st. removeResourceUser st h ref) refs st') = same_activity st st'"
  by (induction refs arbitrary: st') simp_all

lemma quiet_same:
  assumes "coord_inv c" "get_env c env = Some st" "\<And>e. get_env c' e = get_env c e" "same_activity st st'"
  shows "quiet c (put_env c' env st')"
  using assms(1-3)
proof (rule quiet_put_same)
  show "env_inv st \<Longrightarrow> env_inv st' \<and> goes_on st st'"
    using assms(4) by (simp add: same_activity_def env_inv_def attached_def goes_on_def)
qed

definition keeps :: "coordinator \<Rightarrow> string \<Rightarrow> coordinator \<Rightarrow> bool" where
  "keeps c env c' \<longleftrightarrow> c' = c \<or>
     (\<forall>e. e \<noteq> env \<longrightarrow> get_env c' e = get_env c e) \<and>
     (\<exists>st st'. get_env c env = Some st \<and> get_env c' env = Some st' \<and> same_activity st st')"

lemma keeps_refl [simp]: "keeps c env c"
  by (simp add: keeps_def)

lemma keeps_put:
  "get_env c env = Some st \<Longrightarrow> (\<And>e. get_env c1 e = get_env c e) \<Longrightarrow> same_activity st st' \<Longrightarrow>
     keeps c env (put_env c1 env st')"
  by (simp add: keeps_def)

lemma keeps_emit [simp]:
  "keeps c env (put_env c1 env st') \<Longrightarrow> keeps c env (emitLocked a g k r now (put_env c1 env st'))"
  by (auto simp: keeps_def)

lemma keeps_quiet: "keeps c env c' \<Longrightarrow> coord_inv c \<Longrightarrow> quiet c c'"
  unfolding keeps_def
proof (elim disjE conjE exE)
  fix st st'
  assume o: "\<forall>e. e \<noteq> env \<longrightarrow> get_env c' e = get_env c e" and g: "get_env c env = Some st" "get_env c' env = Some st'"
    and s: "same_activity st st'" and inv: "coord_inv c"
  have "quiet c (put_env c env st')" using quiet_same[OF inv g(1) refl s] .
  moreover have "get_env c' e = get_env (put_env c env st') e" for e using o g(2) by simp
  ultimately show "quiet c c'" using quiet_get by blast
qed simp

lemma register_keeps: "register c env h spec now = (r, c') \<Longrightarrow> keeps c env c'"
  by (auto simp: register_def persist_eqs Let_def dest!: addOrJoin_same
      split: if_splits option.splits prod.splits intro!: keeps_emit keeps_put)

lemma commitRegistration_keeps: "commitRegistration c env h now = (r, c') \<Longrightarrow> keeps c env c'"
  by (auto simp: commitRegistration_def persist_eqs split: if_splits option.splits intro!: keeps_put)

lemma same_activity_facts [simp]:
  "same_activity st (mod_journal (\<lambda>j. j\<lparr>j_Facts := fs\<rparr>) st') = same_activity st st'"
  "same_activity st (mod_journal (\<lambda>j. j\<lparr>j_Incarnation := i, j_Resources := rs\<rparr>) st') = same_activity st st'"
  by (simp_all add: same_activity_def)

lemma recordFact_keeps: "recordFact c env h spec now = (r, c') \<Longrightarrow> keeps c env c'"
  by (auto simp: recordFact_def persist_eqs Let_def split: if_splits option.splits intro!: keeps_emit keeps_put)
     (simp add: same_activity_def)

lemma resourceLocked_get: "resourceLocked c env h ref = Inr (st, r, i) \<Longrightarrow> get_env c env = Some st"
  by (auto simp: resourceLocked_def split: option.splits if_splits)

lemma transition_keeps: 
  assumes "transition c env h ref t now = (r, c')"
  shows "keeps c env c'"
proof (cases "resourceLocked c env h ref")
  case (Inl e)
  then show ?thesis using assms by (auto simp: transition_def split: if_splits)
next
  case (Inr x)
  obtain st rs i where x: "x = (st, rs, i)" by (rule prod_cases3)
  note get = resourceLocked_get[OF Inr[unfolded x]]
  show ?thesis using assms Inr x get
    by (auto simp: transition_def persist_eqs Let_def split: if_splits option.splits intro!: keeps_emit keeps_put[OF get])
qed

lemma release_last_keeps:
  assumes "get_env c env = Some st0" "same_activity st0 st"
    and "release_last c env st ref r i e now = (res, c')"
  shows "keeps c env c'"
  using assms(2,3) by (auto simp: release_last_def persist_eqs Let_def split: if_splits option.splits
      intro!: keeps_emit keeps_put[OF assms(1)])

lemma release_keeps:
  assumes "release c env h ref e now = (r, c')"
  shows "keeps c env c'"
proof (cases "resourceLocked c env h ref")
  case (Inl e)
  then show ?thesis using assms by (auto simp: release_def split: if_splits)
next
  case (Inr x)
  obtain st rs i where x: "x = (st, rs, i)" by (rule prod_cases3)
  note get = resourceLocked_get[OF Inr[unfolded x]]
  let ?st = "st\<lparr>re_ResourceUsers := (re_ResourceUsers st)(Key ref := removeAll h (re_ResourceUsers st (Key ref)))\<rparr>"
  have "keeps c env c'" if "release_last c env ?st ref rs i e now = (r, c')"
    using release_last_keeps[OF get _ that] by simp
  moreover have "keeps c env (put_env c env ?st)" using get by (auto intro: keeps_put)
  moreover have "c' = c \<or> release_last c env ?st ref rs i e now = (r, c') \<or>
      c' = emitLocked env (j_StartGeneration (re_Journal st)) ''resource-released'' [] now (put_env c env ?st)"
    using assms Inr x by (auto simp: release_def Let_def split: if_splits)
  ultimately show ?thesis by auto
qed

lemma beginFinish_keeps: "beginFinishRegistration c env h = (r, c') \<Longrightarrow> keeps c env c'"
  by (auto simp: beginFinishRegistration_def Let_def split: if_splits option.splits intro!: keeps_put)

lemma bindBoot_keeps: "bindBoot c env h b now = (r, c') \<Longrightarrow> keeps c env c'"
  by (auto simp: bindBoot_def persist_eqs Let_def split: if_splits option.splits intro!: keeps_put)
     (simp_all add: same_activity_def)

text \<open>The last handle of an environment goes.\<close>

lemma drop_handle_inv:
  assumes "same_activity st st1" "env_inv st" "h \<in> set (re_Handles st)"
  shows "env_inv (drop_handle h st1)" "\<not> re_Reconciling (drop_handle h st1)" "\<not> re_StopCancel (drop_handle h st1)"
    "\<not> re_Mutation (drop_handle h st1)" "goes_on st (drop_handle h st1)"
  using assms by (auto simp: env_inv_def same_activity_def drop_handle_def attached_def goes_on_def)

lemma schedule_put_quiet:
  assumes "coord_inv c" "get_env c env = Some st0" "goes_on st0 st" "env_inv st"
    and "\<not> re_Reconciling st" "\<not> re_StopCancel st"
    and "scheduleIfIdleLocked c env st now = (e, st', c1)"
  shows "quiet c (put_env c1 env st')"
  using assms(1,2)
proof (rule quiet_put_same)
  show "get_env c1 x = get_env c x" for x using schedule_shape[OF assms(7)] by (simp add: same_frame_def)
  show "env_inv st' \<and> goes_on st0 st'"
    using schedule_inv[OF assms(7,4-6)] schedule_goes_on[OF assms(7)] assms(3) by simp
qed

lemma abortRegistration_quiet:
  assumes "coord_inv c" "abortRegistration c env h now = (r, c')"
  shows "quiet c c'"
proof (cases "is_closed c \<or> (case get_env c env of None \<Rightarrow> True | Some st \<Rightarrow> h \<notin> set (re_Handles st))")
  case True
  then show ?thesis using assms by (auto simp: abortRegistration_def split: option.splits if_splits)
next
  case False
  then obtain st where st: "get_env c env = Some st" "h \<in> set (re_Handles st)" by (auto split: option.splits)
  let ?st1 = "drop_handle h (fold (\<lambda>ref st. removeResourceUser st h ref) (releaseOrderForHandleLocked st h) st)"
  have inv: "env_inv st" using assms(1) st(1) by (simp add: coord_inv_def)
  note d = drop_handle_inv[OF _ inv st(2), of "fold (\<lambda>ref st. removeResourceUser st h ref) (releaseOrderForHandleLocked st h) st",
    unfolded fold_removeUser_same, OF same_activity_refl]
  obtain e st2 c2 where s: "scheduleIfIdleLocked c env ?st1 now = (e, st2, c2)" by (rule prod_cases3)
  have "c' = put_env c2 env st2 \<or> c' = put_env c env ?st1"
    using assms(2) False st s by (auto simp: abortRegistration_def Let_def split: if_splits)
  then show ?thesis
    using schedule_put_quiet[OF assms(1) st(1) d(5,1,2,3) s] quiet_put_same[OF assms(1) st(1), of c ?st1] d(1,5) by auto
qed

lemma finishRegistration_quiet:
  assumes "coord_inv c" "finishRegistration c env h ce now = (r, c')"
  shows "quiet c c'"
proof (cases "is_closed c \<or> (case get_env c env of None \<Rightarrow> True | Some st \<Rightarrow> h \<notin> set (re_Handles st))")
  case True
  then show ?thesis using assms by (auto simp: finishRegistration_def split: option.splits if_splits)
next
  case False
  then obtain st where st: "get_env c env = Some st" "h \<in> set (re_Handles st)" by (auto split: option.splits)
  let ?st1 = "drop_handle h st"
  have inv: "env_inv st" using assms(1) st(1) by (simp add: coord_inv_def)
  note d = drop_handle_inv[OF same_activity_refl inv st(2)]
  obtain e st2 c2 where s: "scheduleIfIdleLocked c env ?st1 now = (e, st2, c2)" by (rule prod_cases3)
  let ?b = "block_env c ''cleanup-unproved'' now ?st1"
  have "c' = put_env c2 env st2 \<or> c' = put_env c env (checkpointLaterLocked ?st1) \<or>
      c' = put_env (persisted c ?b now) env (stamped now ?b) \<or>
      (\<exists>g. c' = emitLocked env g ''reconciliation-blocked'' ''cleanup-unproved'' now
         (put_env (persisted c ?b now) env (stamped now ?b)))"
    using assms(2) False st s
    by (auto simp: finishRegistration_def Let_def persist_eqs split: if_splits option.splits)
  then show ?thesis
    using schedule_put_quiet[OF assms(1) st(1) d(5,1,2,3) s] quiet_put_same[OF assms(1) st(1), of _ "checkpointLaterLocked ?st1"]
      quiet_put_same[OF assms(1) st(1), of "persisted c ?b now" "stamped now ?b"] d(1,5) by auto
qed

lemma ActiveAttachObservation_quiet:
  assumes "coord_inv c" "ActiveAttachObservation c ctx env i now = (r, c')"
  shows "quiet c c'"
proof -
  obtain l c1 where ld: "loadEnvironmentLocked c env now = (l, c1)" by (rule prod.exhaust)
  have "c' = c \<or> c' = c1" using assms(2) ld by (auto simp: ActiveAttachObservation_def Let_def split: if_splits sum.splits)
  then show ?thesis using load_quiet[OF ld assms(1)] assms(1) by auto
qed

section \<open>Establishing an attach\<close>

text \<open>No mutation, reconciliation or stop runs: sessions may come and go.\<close>

definition off :: "registry_env \<Rightarrow> bool" where
  "off st \<longleftrightarrow> \<not> re_Mutation st \<and> \<not> re_Reconciling st \<and> \<not> re_StopCancel st"

lemma off_inv: "off st \<Longrightarrow> env_inv st"
  by (simp add: off_def env_inv_def)

lemma attached_off: "env_inv st \<Longrightarrow> attached st \<Longrightarrow> off st"
  by (simp add: off_def env_inv_def)

lemma quiet_off:
  assumes "coord_inv c" "get_env c env = Some st" "off st"
    and "\<And>e. e \<noteq> env \<Longrightarrow> get_env c' e = get_env c e"
    and "\<And>st'. get_env c' env = Some st' \<Longrightarrow> env_inv st'"
  shows "quiet c c'"
  unfolding quiet_def
proof
  fix e
  show "evolves (get_env c e) (get_env c' e)"
  proof (cases "e = env")
    case True
    then show ?thesis using assms(2,3,5) by (auto simp: evolves_def off_def)
  next
    case False
    then show ?thesis using assms(1,4) by (auto simp: coord_inv_def intro: evolves_refl)
  qed
qed

lemma establishing_as_attached: "establishing_as st e \<Longrightarrow> attached st"
  by (auto simp: establishing_as_def attached_def)

lemma reserve_claim_quiet:
  assumes "coord_inv c" "get_env c (eq_EnvironmentID q) = Some st" "\<not> re_Reconciling st"
    and "reserve_claim c st q m now = (r, c')"
  shows "quiet c c'"
proof -
  obtain l c1 where cl: "claim_env c m = (l, c1)" by (rule prod.exhaust)
  note f = claim_env_frame[OF cl]
  have q1: "quiet c c1" using claim_env_quiet[OF cl assms(1)] .
  obtain b st1 c2 where cd: "cancelDeadlineForAttachLocked c1 st now = (b, st1, c2)" by (rule prod_cases3)
  note g = cancelForAttach_frame[OF cd]
  show ?thesis
  proof (cases "\<exists>lease. l = Inr lease \<and> \<not> re_Mutation st \<and> \<not> attempt_blocks st \<and> \<not> re_StopCancel st \<and>
      eq_SessionID q \<notin> set (re_Handles st) \<and> map_of (re_Establishing st) (eq_SessionID q) = None")
    case True
    then have off: "off st" using assms(3) by (simp add: off_def)
    show ?thesis using assms(1,2) off
    proof (rule quiet_off)
      show "get_env c' e = get_env c e" if "e \<noteq> eq_EnvironmentID q" for e
        using assms(4) cl cd True that f g by (auto simp: reserve_claim_def Let_def same_frame_def)
      show "env_inv st'" if "get_env c' (eq_EnvironmentID q) = Some st'" for st'
        using assms(4) cl cd True that g off by (auto simp: reserve_claim_def Let_def off_def intro!: off_inv)
    qed
  next
    case False
    then have "c' = c1 \<or> (\<exists>lease. c' = release_lease lease c1)"
      using assms(4) cl by (auto simp: reserve_claim_def Let_def split: sum.splits if_splits)
    then show ?thesis using q1 by auto
  qed
qed

lemma reserve_iteration_quiet:
  assumes "coord_inv c" "reserve_iteration c q m w reason now = (r, c')"
  shows "quiet c c'"
proof -
  obtain l c1 where ld: "loadEnvironmentLocked c (eq_EnvironmentID q) now = (l, c1)" by (rule prod.exhaust)
  note lq = load_quiet[OF ld assms(1)]
  have "quiet c c'" if "l = Inr st" "\<not> re_Reconciling st" "reserve_claim c1 st q m now = (r, c')" for st
    using reserve_claim_quiet[OF _ _ that(2,3)] lq that(1) quiet_trans by blast
  moreover have "c' = c \<or> c' = c1 \<or> (\<exists>g s. c' = emitLocked (eq_EnvironmentID q) g ''attach-establishment-waiting'' s now c1) \<or>
      (\<exists>st. l = Inr st \<and> \<not> re_Reconciling st \<and> reserve_claim c1 st q m now = (r, c'))"
    using assms(2) ld by (auto simp: reserve_iteration_def Let_def split: if_splits sum.splits option.splits)
  ultimately show ?thesis using lq assms(1) by auto
qed

lemma select_off: "selectIncarnationLocked c st q now = (inc, root, st') \<Longrightarrow> off st' = off st"
  by (auto simp: selectIncarnationLocked_def Let_def off_def split: option.splits if_splits)

lemma Prepare_quiet:
  assumes "coord_inv c" "Prepare e c ctx q now = (r, e', c')"
  shows "quiet c c'"
proof (cases "c' = c")
  case False
  then obtain st inc root st1 where st: "get_env c (es_Environment e) = Some st" "establishing_as st e"
    and sel: "selectIncarnationLocked c (st\<lparr>re_Observation := ar_Observation q\<rparr>) q now = (inc, root, st1)"
    and c': "c' = emitLocked (es_Environment e) (er_StartGeneration inc) ''attach-establishment-prepared''
       ''attach-establishment-in-progress'' now (put_env c (es_Environment e) st1)"
    using assms(2) by (auto simp: Prepare_def simp del: first_err_None split: option.splits prod.splits dest: first_err_None[THEN iffD1])
  have "off st" using assms(1) st establishing_as_attached attached_off by (auto simp: coord_inv_def)
  moreover have "off st1 = off st" using select_off[OF sel] by (simp add: off_def)
  ultimately show ?thesis using c' by (intro quiet_off[OF assms(1) st(1)]) (auto intro: off_inv)
qed (simp add: assms)

lemma give_lease_get [simp]: "get_env (give_lease e c) x = get_env c x"
  by (simp add: give_lease_def split: option.splits)

lemma Promote_quiet:
  assumes "coord_inv c" "Promote e c ctx now = (r, e', c')"
  shows "quiet c c'"
proof (cases "c' = c")
  case False
  obtain st where st: "get_env c (es_Environment e) = Some st" "establishing_as st e"
    using assms(2) False by (auto simp: Promote_def simp del: first_err_None split: option.splits dest: first_err_None[THEN iffD1])
  have off: "off st" using assms(1) st establishing_as_attached attached_off by (auto simp: coord_inv_def)
  let ?st = "st\<lparr>re_Handles := List.insert (es_Session e) (re_Handles st), re_Closing := removeAll (es_Session e) (re_Closing st)\<rparr>"
  obtain err st1 where aj: "addOrJoinResource ?st (es_Session e) (session_resource c e now) = (err, st1)"
    by (rule prod.exhaust)
  have "off st1" using addOrJoin_same[OF aj] off by (simp add: same_activity_def off_def)
  show ?thesis using assms(1) st(1) off
  proof (rule quiet_off)
    show "get_env c' x = get_env c x" if "x \<noteq> es_Environment e" for x
      using assms(2) st aj that
      by (auto simp: Promote_def Let_def simp del: first_err_None split: option.splits)
    show "env_inv st'" if "get_env c' (es_Environment e) = Some st'" for st'
      using assms(2) st aj that \<open>off st1\<close> off
      by (auto simp: Promote_def Let_def off_def simp del: first_err_None split: option.splits intro!: off_inv)
  qed
qed (simp add: assms)

lemma Abort_quiet:
  assumes "coord_inv c" "Abort e c cause now = (r, e', c')"
  shows "quiet c c'"
proof (cases "es_Phase e = EstablishmentPromoted \<or> es_Phase e = EstablishmentAborted \<or>
    (case get_env c (es_Environment e) of None \<Rightarrow> True | Some st \<Rightarrow> \<not> establishing_as st e)")
  case True
  then have "c' = c \<or> c' = give_lease e c" using assms(2) by (auto simp: Abort_def Let_def split: if_splits option.splits)
  then show ?thesis using assms(1) quiet_get[of "give_lease e c" c c] by auto
next
  case False
  then obtain st where st: "get_env c (es_Environment e) = Some st" "establishing_as st e" by (auto split: option.splits)
  have off: "off st" using assms(1) st establishing_as_attached attached_off by (auto simp: coord_inv_def)
  let ?st1 = "st\<lparr>re_Establishing := AList.delete (es_Session e) (re_Establishing st)\<rparr>"
  let ?c1 = "emitLocked (es_Environment e) (j_StartGeneration (re_Journal st)) ''attach-establishment-aborted''
                       (establishmentAbortReason cause) now (put_env c (es_Environment e) ?st1)"
  obtain err st2 c2 where s: "scheduleIfIdleLocked ?c1 (es_Environment e) ?st1 now = (err, st2, c2)" by (rule prod_cases3)
  have off1: "off ?st1" using off by (simp add: off_def)
  have inv2: "env_inv st2" using schedule_inv[OF s off_inv[OF off1]] off1 by (simp add: off_def)
  have fr: "get_env c2 x = get_env ?c1 x" for x using schedule_shape[OF s] by (simp add: same_frame_def)
  have cases: "c' = give_lease e (del_env ?c1 (es_Environment e)) \<or> c' = put_env c2 (es_Environment e) st2 \<or>
      c' = give_lease e (put_env c2 (es_Environment e) st2) \<or> c' = give_lease e ?c1"
    using assms(2) False st s by (auto simp: Abort_def Let_def split: if_splits option.splits)
  show ?thesis using assms(1) st(1) off
  proof (rule quiet_off)
    show "get_env c' x = get_env c x" if "x \<noteq> es_Environment e" for x using cases that fr by auto
    show "env_inv st'" if "get_env c' (es_Environment e) = Some st'" for st'
      using cases that fr inv2 off_inv[OF off1] by (auto split: if_splits)
  qed
qed

section \<open>Reconciliation\<close>

text \<open>Neither a stop nor a mutation runs.\<close>

definition calm :: "registry_env \<Rightarrow> bool" where
  "calm st \<longleftrightarrow> \<not> re_StopCancel st \<and> \<not> re_Mutation st"

lemma calm_intros: "off st \<Longrightarrow> calm st" "idle st \<Longrightarrow> calm st" "env_inv st \<Longrightarrow> re_Reconciling st \<Longrightarrow> calm st"
  by (auto simp: calm_def off_def idle_def env_inv_def)

lemma quiet_calm:
  assumes "coord_inv c" "get_env c env = Some st" "calm st"
    and "\<And>e. e \<noteq> env \<Longrightarrow> get_env c' e = get_env c e"
    and "\<And>st'. get_env c' env = Some st' \<Longrightarrow> env_inv st'"
  shows "quiet c c'"
  unfolding quiet_def
proof
  fix e
  show "evolves (get_env c e) (get_env c' e)"
  proof (cases "e = env")
    case True
    then show ?thesis using assms(2,3,5) by (auto simp: evolves_def calm_def)
  next
    case False
    then show ?thesis using assms(1,4) by (auto simp: coord_inv_def intro: evolves_refl)
  qed
qed

lemma finishReconciliation_shape:
  assumes "finishReconciliationLocked c st = (st', c')"
  shows "(\<forall>e. get_env c' e = get_env c e) \<and> \<not> re_Reconciling st' \<and>
    (st' = st \<or> st' = st\<lparr>re_Reconciling := False, re_ReconcileLease := None\<rparr>)"
  using assms by (auto simp: finishReconciliationLocked_def split: if_splits option.splits)

lemma claim_reconcile_frame:
  assumes "claim_reconcile c env st now = (r, c1)"
  shows "\<And>e. get_env c1 e = get_env c e" "\<And>l. r = Inr l \<Longrightarrow> \<not> reconcile_busy c st"
proof -
  show "get_env c1 e = get_env c e" for e
    using assms claim_env_frame[of c _ _ _ e]
    by (auto simp: claim_reconcile_def Let_def split: sum.splits prod.splits if_splits)
  show "\<not> reconcile_busy c st" if "r = Inr l" for l
    using assms that by (auto simp: claim_reconcile_def Let_def split: sum.splits prod.splits if_splits)
qed

lemma busy_idle: "\<not> reconcile_busy c st \<Longrightarrow> \<not> re_Reconciling st \<Longrightarrow> idle st"
  by (simp add: reconcile_busy_def idle_def attached_def)

lemma BeginReconciliation_quiet:
  assumes "coord_inv c" "BeginReconciliation c ctx env now = (r, c')"
  shows "quiet c c'"
proof -
  obtain l c1 where ld: "loadEnvironmentLocked c env now = (l, c1)" by (rule prod.exhaust)
  note lq = load_quiet[OF ld assms(1)]
  show ?thesis
  proof (cases "c' = c \<or> c' = c1")
    case True
    then show ?thesis using lq assms(1) by auto
  next
    case False
    then obtain st where st: "l = Inr st" "\<not> re_Reconciling st"
      using assms(2) ld by (auto simp: BeginReconciliation_def split: option.splits sum.splits if_splits)
    obtain cr c2 where cl: "claim_reconcile c1 env st now = (cr, c2)" by (rule prod.exhaust)
    note f = claim_reconcile_frame[OF cl]
    have get: "get_env c1 env = Some st" "coord_inv c1" using lq st by auto
    show ?thesis
    proof (cases cr)
      case (Inl e)
      then have "c' = c2" using assms(2) ld st cl False
        by (auto simp: BeginReconciliation_def split: option.splits if_splits)
      then show ?thesis using quiet_get[OF f(1)] lq by blast
    next
      case (Inr lease)
      then have idle: "idle st" using busy_idle f(2) st(2) by blast
      let ?j = "re_Journal st"
      define st1 where "st1 = st\<lparr>re_Timer := False, re_DeadlineSeq := re_DeadlineSeq st + 1, re_Blocked := True,
          re_Reconciling := True, re_ReconcileLease := Some lease,
          re_Journal := ?j\<lparr>j_IdleDeadline := None,
            j_StartGeneration := (if j_StartGeneration ?j = 0 then 1 else j_StartGeneration ?j),
            j_Reconciliation := pending_rc c now\<rparr>\<rparr>"
      have inv1: "env_inv (stamped now st1)" using idle by (simp add: st1_def idle_def env_inv_def attached_def)
      obtain st3 c4 where fin: "finishReconciliationLocked (persisted c2 st1 now) (stamped now st1) = (st3, c4)"
        by (rule prod.exhaust)
      note fs = finishReconciliation_shape[OF fin]
      have inv3: "env_inv st3" using fs idle
        by (intro off_inv) (auto simp: st1_def idle_def off_def)
      have "c' = put_env c4 env st3 \<or> (\<exists>g. c' = emitLocked env g ''reconciliation-started'' ''reconciliation-pending'' now
          (put_env (persisted c2 st1 now) env (stamped now st1)))"
        using assms(2) ld st cl Inr False fin
        by (auto simp: BeginReconciliation_def Let_def persist_eqs st1_def[symmetric] split: option.splits if_splits)
      then have "quiet c1 c'"
        using fs f(1) inv1 inv3 by (intro quiet_idle[OF get(2,1) idle]) (auto split: if_splits)
      then show ?thesis using lq quiet_trans by blast
    qed
  qed
qed

lemma schedule_calm: "scheduleIfIdleLocked c env st now = (e, st', c') \<Longrightarrow> calm st' = calm st \<and> (\<forall>e. get_env c' e = get_env c e)"
  using schedule_shape[of c env st now e st' c'] by (auto simp: calm_def same_frame_def)

lemma calm_frame [simp]:
  "calm (stamped now st) = calm st" "calm (persisted_now c st now) = calm st" "calm (block_env c r now st) = calm st"
  "calm (st\<lparr>re_Journal := j\<rparr>) = calm st" "calm (st\<lparr>re_Blocked := b\<rparr>) = calm st"
  "calm (reconcile_superseded c i now st) = calm st" "calm (reconcile_reset ob st) = calm st"
  by (simp_all add: calm_def reconcile_superseded_def reconcile_reset_def Let_def)

lemma reconcile_classify_calm:
  assumes "reconcile_classify c input st now = (e, st', c')"
  shows "calm st' = calm st \<and> (\<forall>e. get_env c' e = get_env c e)"
proof -
  have pe: "calm st' = calm st0 \<and> (\<forall>e. get_env c' e = get_env c e)"
    if "(case persistLocked c st0 now of (Some e, st1, c1) \<Rightarrow> (Some e, st1, c1)
         | (None, st1, c1) \<Rightarrow> (None, st1, emitLocked a (j_StartGeneration (re_Journal st1)) k r now c1)) = (e, st', c')"
    for st0 a k r using that by (auto simp: persist_eqs split: option.splits)
  have sc: "calm st' = calm st0 \<and> (\<forall>e. get_env c' e = get_env c0 e)"
    if "(case scheduleIfIdleLocked c0 env0 st0 now of (Some e, st3, c3) \<Rightarrow> (Some e, st3, c3)
         | (None, st3, c3) \<Rightarrow> persistNowLocked c3 st3 now) = (e, st', c')" for st0 c0 env0
  proof -
    obtain e1 st3 c3 where s: "scheduleIfIdleLocked c0 env0 st0 now = (e1, st3, c3)" by (rule prod_cases3)
    show ?thesis using that s schedule_calm[OF s] by (auto simp: persist_eqs split: option.splits)
  qed
  show ?thesis
    using assms unfolding reconcile_classify_def Let_def
    by (auto split: lifecycle_state.splits option.splits if_splits dest!: pe sc)
qed

lemma Reconcile_quiet:
  assumes "coord_inv c" "Reconcile c ctx input now = (r, c')"
  shows "quiet c c'"
proof -
  let ?env = "ri_EnvironmentID input"
  obtain l c1 where ld: "loadEnvironmentLocked c ?env now = (l, c1)" by (rule prod.exhaust)
  note lq = load_quiet[OF ld assms(1)]
  have fin: "quiet c c'" if st: "l = Inr st" "calm st" "calm st1"
    and f: "\<And>e. get_env c2 e = get_env c1 e"
    and cl: "(case reconcile_classify c2 input (reconcile_reset (ri_Observation input) st1) now of
        (e, st2, c3) \<Rightarrow> (case finishReconciliationLocked c3 st2 of (st3, c4) \<Rightarrow> (e, put_env c4 ?env st3))) = (r, c')"
    for st st1 c2
  proof -
    obtain e st2 c3 where rc: "reconcile_classify c2 input (reconcile_reset (ri_Observation input) st1) now = (e, st2, c3)"
      by (rule prod_cases3)
    obtain st3 c4 where fr: "finishReconciliationLocked c3 st2 = (st3, c4)" by (rule prod.exhaust)
    note a = reconcile_classify_calm[OF rc] and b = finishReconciliation_shape[OF fr]
    have "calm st2" using a st(3) by simp
    then have inv: "env_inv st3" using b by (intro off_inv) (auto simp: calm_def off_def)
    have c': "c' = put_env c4 ?env st3" using cl rc fr by simp
    have "quiet c1 c'"
    proof (rule quiet_calm[of c1 ?env st])
      show "coord_inv c1" "get_env c1 ?env = Some st" using lq st(1) by auto
      show "get_env c' x = get_env c1 x" if "x \<noteq> ?env" for x using that c' a b f by simp
    qed (use c' inv st(2) in auto)
    then show ?thesis using lq quiet_trans by blast
  qed
  show ?thesis
  proof (cases "c' = c \<or> c' = c1")
    case True
    then show ?thesis using lq assms(1) by auto
  next
    case False
    then obtain st where st: "l = Inr st"
      using assms(2) ld by (auto simp: Reconcile_def Let_def split: option.splits sum.splits)
    have inv: "env_inv st" using lq st by (auto simp: coord_inv_def)
    show ?thesis
    proof (cases "re_Reconciling st")
      case True
      then have "calm st" using calm_intros(3) inv by blast
      show ?thesis
        by (rule fin[OF st \<open>calm st\<close> \<open>calm st\<close>, of c1])
           (use assms(2) ld st True False in \<open>auto simp: Reconcile_def Let_def split: option.splits\<close>)
    next
      case nr: False
      obtain cr c2 where cl: "claim_reconcile c1 ?env st now = (cr, c2)" by (rule prod.exhaust)
      note f = claim_reconcile_frame[OF cl]
      show ?thesis
      proof (cases cr)
        case (Inl e)
        then have "c' = c2" using assms(2) ld st cl False nr
          by (auto simp: Reconcile_def Let_def split: option.splits)
        then show ?thesis using quiet_get[OF f(1)] lq by blast
      next
        case (Inr lease)
        then have idle: "idle st" using busy_idle f(2) nr by blast
        show ?thesis
          by (rule fin[OF st, of "st\<lparr>re_Reconciling := True, re_ReconcileLease := Some lease\<rparr>" c2])
             (use idle f(1) assms(2) ld st cl Inr False nr in
               \<open>auto simp: Reconcile_def Let_def calm_def idle_def split: option.splits\<close>)
      qed
    qed
  qed
qed

lemma wait_iteration_quiet:
  assumes "coord_inv c" "wait_iteration c env now = (r, c')"
  shows "quiet c c'"
proof -
  obtain l c1 where ld: "loadEnvironmentLocked c env now = (l, c1)" by (rule prod.exhaust)
  have "c' = c \<or> c' = c1" using assms(2) ld by (auto simp: wait_iteration_def split: if_splits sum.splits)
  then show ?thesis using load_quiet[OF ld assms(1)] assms(1) by auto
qed

text \<open>The owner of a reconciliation does not block it while a stop callback runs.\<close>

lemma BlockReconciliation_quiet:
  assumes "coord_inv c" "BlockReconciliation c env reason now = (r, c')"
    and "\<And>st. get_env c env = Some st \<Longrightarrow> \<not> re_StopCancel st"
  shows "quiet c c'"
proof -
  obtain l c1 where ld: "loadEnvironmentLocked c env now = (l, c1)" by (rule prod.exhaust)
  note lq = load_quiet[OF ld assms(1)]
  show ?thesis
  proof (cases "c' = c \<or> c' = c1")
    case True
    then show ?thesis using lq assms(1) by auto
  next
    case False
    then obtain st where st: "l = Inr st"
      using assms(2) ld by (auto simp: BlockReconciliation_def split: if_splits sum.splits)
    have no_stop: "\<not> re_StopCancel st"
      using assms(3) ld st by (auto simp: loadEnvironmentLocked_def install_env_def new_registry_env_def Let_def
          split: option.splits prod.splits sum.splits if_splits)
    let ?st0 = "mod_journal (\<lambda>j. j\<lparr>j_IdleDeadline := None, j_StopAttempt := None\<rparr>) st"
    let ?st1 = "block_env c1 reason now ?st0"
    obtain st2 c3 where fr: "finishReconciliationLocked (persisted c1 ?st1 now) (stamped now ?st1) = (st2, c3)"
      by (rule prod.exhaust)
    note b = finishReconciliation_shape[OF fr]
    have "env_inv st" using lq st by (auto simp: coord_inv_def)
    then have inv: "env_inv st2" "goes_on st st2"
      using b no_stop by (auto simp: env_inv_def goes_on_def attached_def)
    have "c' = put_env c3 env st2 \<or> (\<exists>g k. c' = emitLocked env g ''reconciliation-blocked'' k now (put_env c3 env st2))"
      using assms(2) ld st fr False
      by (auto simp: BlockReconciliation_def persist_eqs split: if_splits option.splits)
    moreover have "quiet c1 (put_env c3 env st2)"
      using b inv lq st by (intro quiet_put_same[of c1 env st]) auto
    ultimately have "quiet c1 c'" by auto
    then show ?thesis using lq quiet_trans by blast
  qed
qed

section \<open>Disposal and destructive mutations\<close>

lemma claim_mutation_frame:
  assumes "claim_mutation c env st q now = (r, c1)"
  shows "\<And>e. get_env c1 e = get_env c e" "\<And>l. r = Inr l \<Longrightarrow> idle st"
proof -
  show "get_env c1 e = get_env c e" for e
    using assms claim_env_frame[of c _ _ _ e]
    by (auto simp: claim_mutation_def Let_def split: sum.splits prod.splits option.splits)
  show "idle st" if "r = Inr l" for l
    using assms that
    by (auto simp: claim_mutation_def Let_def mutation_conflict_def idle_def attached_def
        split: sum.splits prod.splits option.splits if_splits)
qed

lemma ForgetEnvironment_quiet:
  assumes "coord_inv c" "ForgetEnvironment c env now = (r, c')"
  shows "quiet c c'"
proof -
  obtain l c1 where ld: "loadEnvironmentLocked c env now = (l, c1)" by (rule prod.exhaust)
  note lq = load_quiet[OF ld assms(1)]
  show ?thesis
  proof (cases "c' = c \<or> c' = c1")
    case True
    then show ?thesis using lq assms(1) by auto
  next
    case False
    then obtain st q where st: "l = Inr st" and q: "normalizeMutationRequest (env_request env (cleanup_owner c
                ''wait for lifecycle activity to finish, then retry metadata cleanup'' (nowUTC now))) now = Inr q"
      using assms(2) ld by (auto simp: ForgetEnvironment_def split: if_splits sum.splits)
    obtain cr c2 where cl: "claim_mutation c1 env st q now = (cr, c2)" by (rule prod.exhaust)
    note f = claim_mutation_frame[OF cl]
    show ?thesis
    proof (cases cr)
      case (Inl e)
      then have "c' = c2" using assms(2) ld st q cl False by (auto simp: ForgetEnvironment_def split: if_splits)
      then show ?thesis using quiet_get[OF f(1)] lq by blast
    next
      case (Inr lease)
      then have idle: "idle st" using f(2) by blast
      have "(\<exists>d. c' = release_lease lease (put_env (c2\<lparr>c_Disk := d\<rparr>) env (st\<lparr>re_Timer := False\<rparr>))) \<or>
          (\<exists>d. c' = release_lease lease (del_env (c2\<lparr>c_Disk := d\<rparr>) env))"
        using assms(2) ld st q cl Inr False
        by (auto simp: ForgetEnvironment_def split: if_splits option.splits prod.splits)
      then have "quiet c1 c'"
        using lq st f(1) idle by (intro quiet_idle[of c1 env st]) (auto simp: idle_inv split: if_splits)
      then show ?thesis using lq quiet_trans by blast
    qed
  qed
qed

lemma start_disposal_starts:
  assumes "start_disposal c env st ow lease i now = (r, c')" "idle st"
  shows "starts c env re_Mutation (\<not> isl r) c'"
proof -
  obtain e st1 c1 where cd: "cancelDeadlineLocked c st now = (e, st1, c1)" by (rule prod_cases3)
  have f: "\<And>x. get_env c1 x = get_env c x" "idle st1"
    using cancelDeadline_frame[OF cd] cancelDeadline_idle[OF cd assms(2)] by (simp_all add: same_frame_def)
  let ?st2 = "block_env c ''disposal-in-progress'' now
      (st1\<lparr>re_Mutation := True, re_MutationOwner := Some ow, re_MutationLease := Some lease\<rparr>)"
  have inv: "env_inv (stamped now ?st2)" "env_inv ((stamped now ?st2)\<lparr>re_Mutation := False, re_MutationOwner := None, re_MutationLease := None\<rparr>)"
    using f(2) by (simp_all add: idle_def env_inv_def attached_def)
  show ?thesis
  proof (cases e)
    case (Some err)
    then show ?thesis using assms(1) cd f by (auto simp: start_disposal_def starts_def idle_inv)
  next
    case None
    then show ?thesis using assms(1) cd f inv
      by (auto simp: start_disposal_def persist_eqs starts_def split: option.splits)
  qed
qed

lemma BeginDisposal_quiet:
  assumes "coord_inv c" "BeginDisposal c ctx q now = (r, c')"
  shows "quiet c c'"
proof -
  let ?env = "dq_EnvironmentID q"
  obtain l c1 where ld: "loadEnvironmentLocked c ?env now = (l, c1)" by (rule prod.exhaust)
  note lq = load_quiet[OF ld assms(1)]
  show ?thesis
  proof (cases "c' = c \<or> c' = c1")
    case True
    then show ?thesis using lq assms(1) by auto
  next
    case False
    then obtain st m where st: "l = Inr st" and m: "normalizeMutationRequest (env_request ?env
                \<lparr>mo_Kind = MutationOwnerDisposal, mo_ID = DisposalRequest_authority q,
                 mo_Phase = ''applying'',
                 mo_Recovery = ''inspect the owning disposal operation and retry after it reaches a terminal or blocked phase'',
                 mo_StartedAt = nowUTC now\<rparr>) now = Inr m"
      using assms(2) ld by (auto simp: BeginDisposal_def Let_def split: option.splits sum.splits)
    obtain cr c2 where cl: "claim_mutation c1 ?env st m now = (cr, c2)" by (rule prod.exhaust)
    note f = claim_mutation_frame[OF cl]
    show ?thesis
    proof (cases cr)
      case (Inl e)
      then have "c' = c2" using assms(2) ld st m cl False
        by (auto simp: BeginDisposal_def Let_def split: option.splits)
      then show ?thesis using quiet_get[OF f(1)] lq by blast
    next
      case (Inr lease)
      then have idle: "idle st" using f(2) by blast
      have start: "starts c1 ?env re_Mutation (\<not> isl r) c'"
        if "start_disposal c2 ?env (st\<lparr>re_Journal := j\<rparr>) ow lease i now = (r, c')" for j ow i
        using start_disposal_starts[OF that] starts_frame[OF _ f(1)] idle by simp
      have "c' = release_lease lease c2 \<or> (\<exists>j. c' = release_lease lease (put_env c2 ?env (st\<lparr>re_Journal := j\<rparr>))) \<or>
          (\<exists>j ow i. start_disposal c2 ?env (st\<lparr>re_Journal := j\<rparr>) ow lease i now = (r, c'))"
        using assms(2) ld st m cl Inr False
        by (auto simp: BeginDisposal_def Let_def split: option.splits sum.splits)
      then have "quiet c1 c'"
      proof (elim disjE exE)
        assume "c' = release_lease lease c2"
        then show ?thesis using quiet_get[OF f(1), of c1] lq quiet_refl[of c1] by simp
      next
        fix j assume "c' = release_lease lease (put_env c2 ?env (st\<lparr>re_Journal := j\<rparr>))"
        then show ?thesis using lq st f(1) idle by (intro quiet_idle[of c1 ?env st]) (auto intro: idle_inv)
      next
        fix j ow i assume "start_disposal c2 ?env (st\<lparr>re_Journal := j\<rparr>) ow lease i now = (r, c')"
        from start[OF this] show ?thesis using starts_quiet lq st idle by blast
      qed
      then show ?thesis using lq quiet_trans by blast
    qed
  qed
qed

lemma disposalLocked_frame:
  assumes "disposalLocked c env dg now = (r, c1)" "coord_inv c"
  shows "quiet c c1 \<and> coord_inv c1 \<and> (\<forall>st i. r = Inr (st, i) \<longrightarrow> get_env c1 env = Some st)"
proof -
  obtain l c0 where ld: "loadEnvironmentLocked c env now = (l, c0)" by (rule prod.exhaust)
  have "c1 = c \<and> isl r \<or> c1 = c0 \<and> (isl r \<or> (\<exists>st i. l = Inr st \<and> r = Inr (st, i)))"
    using assms(1) ld by (auto simp: disposalLocked_def split: if_splits sum.splits option.splits)
  then show ?thesis using load_quiet[OF ld assms(2)] assms(2) by auto
qed

lemma activeDisposalLocked_frame:
  assumes "activeDisposalLocked c env dg now = (r, c1)" "coord_inv c"
  shows "quiet c c1 \<and> coord_inv c1 \<and> (\<forall>st i. r = Inr (st, i) \<longrightarrow> get_env c1 env = Some st \<and> re_Mutation st)"
proof -
  obtain l c0 where ld: "disposalLocked c env dg now = (l, c0)" by (rule prod.exhaust)
  have "c1 = c0 \<and> (isl r \<or> (\<exists>st i. l = Inr (st, i) \<and> r = Inr (st, i) \<and> re_Mutation st))"
    using assms(1) ld by (auto simp: activeDisposalLocked_def split: if_splits sum.splits)
  then show ?thesis using disposalLocked_frame[OF ld assms(2)] by auto
qed

lemma AdvanceDisposal_quiet:
  assumes "coord_inv c" "AdvanceDisposal c ctx env dg next now = (r, c')"
  shows "quiet c c'"
proof -
  obtain l c1 where ld: "activeDisposalLocked c env dg now = (l, c1)" by (rule prod.exhaust)
  note lq = activeDisposalLocked_frame[OF ld assms(1)]
  show ?thesis
  proof (cases "c' = c \<or> c' = c1")
    case True
    then show ?thesis using lq assms(1) by auto
  next
    case False
    then obtain st i where st: "l = Inr (st, i)"
      using assms(2) ld by (auto simp: AdvanceDisposal_def split: option.splits sum.splits)
    have "keeps c1 env c'"
      using assms(2) ld st False lq
      by (auto simp: AdvanceDisposal_def persist_eqs split: option.splits if_splits intro!: keeps_emit keeps_put)
         (simp_all add: same_activity_def)
    then show ?thesis using lq keeps_quiet quiet_trans by blast
  qed
qed

end
