(* ===== verification/Lifecycle_System.thy ===== *)
theory Lifecycle_System
  imports Lifecycle_Invariant
begin

text \<open>
  The lifecycle coordinator as a running system: its critical sections in any order, the stop and
  mutation callbacks that run outside its lock, and the shutdown. In every reachable state at most
  one callback runs per environment, and none together with a session, an attach in progress or a
  reconciliation.
\<close>

section \<open>Starts\<close>

lemma start_mutation_starts:
  assumes "start_mutation c env st ow lease now = (r, c')" "idle st"
  shows "starts c env re_Mutation (\<not> isl r) c' \<and> (\<forall>m. r = Inr m \<longrightarrow> mt_EnvironmentID m = env)"
proof -
  obtain e st1 c1 where cd: "cancelDeadlineLocked c st now = (e, st1, c1)" by (rule prod_cases3)
  have f: "\<And>x. get_env c1 x = get_env c x" "idle st1"
    using cancelDeadline_frame[OF cd] cancelDeadline_idle[OF cd assms(2)] by (simp_all add: same_frame_def)
  let ?st2 = "st1\<lparr>re_Mutation := True, re_MutationOwner := Some ow, re_Blocked := True\<rparr>"
  let ?st3 = "stamped now (block_env c ''destructive-mutation-in-progress'' now ?st2)"
  have inv: "env_inv ?st2" "env_inv ?st3" "env_inv (?st3\<lparr>re_Mutation := False, re_MutationOwner := None\<rparr>)"
    using f(2) by (simp_all add: idle_def env_inv_def attached_def)
  show ?thesis
  proof (cases e)
    case (Some err)
    then show ?thesis using assms(1) cd f by (auto simp: start_mutation_def starts_def idle_inv)
  next
    case None
    show ?thesis
    proof (cases "j_StartGeneration (re_Journal st1) = 0")
      case True
      then show ?thesis using assms(1) cd f inv None by (auto simp: start_mutation_def Let_def starts_def)
    next
      case False
      then show ?thesis using assms(1) cd f inv None
        by (auto simp: start_mutation_def Let_def persist_eqs starts_def split: option.splits)
    qed
  qed
qed

lemma RunDestructiveMutation_quiet:
  assumes "coord_inv c" "RunDestructiveMutationWithOwner c ctx env ow now = (r, c')"
  shows "quiet c c' \<and> (\<forall>m. r = Inr m \<longrightarrow> mt_EnvironmentID m = env \<and>
    (\<forall>st. get_env c env = Some st \<longrightarrow> idle st) \<and> (\<exists>st'. get_env c' env = Some st' \<and> re_Mutation st'))"
proof -
  obtain l c1 where ld: "loadEnvironmentLocked c env now = (l, c1)" by (rule prod.exhaust)
  note lq = load_quiet[OF ld assms(1)]
  show ?thesis
  proof (cases "isl r \<and> (c' = c \<or> c' = c1)")
    case True
    then show ?thesis using lq assms(1) by auto
  next
    case False
    then obtain st q where st: "l = Inr st" and q: "normalizeMutationRequest (env_request env ow) now = Inr q"
      using assms(2) ld by (auto simp: RunDestructiveMutationWithOwner_def split: option.splits if_splits sum.splits)
    obtain cr c2 where cl: "claim_mutation c1 env st q now = (cr, c2)" by (rule prod.exhaust)
    note f = claim_mutation_frame[OF cl]
    show ?thesis
    proof (cases cr)
      case (Inl e)
      then have "c' = c2 \<and> isl r" using assms(2) ld st q cl False
        by (auto simp: RunDestructiveMutationWithOwner_def split: option.splits if_splits)
      then show ?thesis using quiet_get[OF f(1)] lq by auto
    next
      case (Inr lease)
      then have idle: "idle st" using f(2) by blast
      have "start_mutation c2 env st (mr_Owner q) lease now = (r, c')"
        using assms(2) ld st q cl Inr False
        by (auto simp: RunDestructiveMutationWithOwner_def split: option.splits if_splits)
      note s = start_mutation_starts[OF this idle]
      then have s1: "starts c1 env re_Mutation (\<not> isl r) c'" using starts_frame[OF _ f(1)] by blast
      then have "quiet c c'" using starts_quiet[OF s1] lq st idle quiet_trans by blast
      then show ?thesis using s s1 idle load_known[of c env now st c1] ld st by (auto simp: starts_def)
    qed
  qed
qed

section \<open>Ends\<close>

text \<open>
  An operation that ends what runs in one environment keeps the invariant and what runs in the
  others.
\<close>

definition ends :: "coordinator \<Rightarrow> string \<Rightarrow> coordinator \<Rightarrow> bool" where
  "ends c env c' \<longleftrightarrow> coord_inv c' \<and> (\<forall>e. e \<noteq> env \<longrightarrow> evolves (get_env c e) (get_env c' e))"

lemma endsI:
  assumes "coord_inv c" "\<And>e. e \<noteq> env \<Longrightarrow> get_env c' e = get_env c e"
    and "\<And>st'. get_env c' env = Some st' \<Longrightarrow> env_inv st'"
  shows "ends c env c'"
  unfolding ends_def coord_inv_def
proof (intro conjI allI impI)
  show "env_inv st" if "get_env c' e = Some st" for e st
    using that assms by (cases "e = env") (auto simp: coord_inv_def)
  show "evolves (get_env c e) (get_env c' e)" if "e \<noteq> env" for e
    using that assms(1,2) by (auto simp: coord_inv_def intro: evolves_refl)
qed

lemma quiet_ends: "quiet c c' \<Longrightarrow> ends c env c'"
  using quiet_inv by (auto simp: ends_def quiet_def)

lemma quiet_ends_trans: "quiet c c1 \<Longrightarrow> ends c1 env c2 \<Longrightarrow> ends c env c2"
  using evolves_trans by (fastforce simp: ends_def quiet_def)

lemma env_inv_ends:
  "env_inv st \<Longrightarrow> env_inv (st\<lparr>re_Mutation := False, re_MutationOwner := mo, re_MutationLease := ml\<rparr>)"
  "env_inv st \<Longrightarrow> env_inv (st\<lparr>re_Mutation := False, re_MutationOwner := mo\<rparr>)"
  by (auto simp: env_inv_def attached_def)

lemma end_mutation_shape:
  assumes "end_mutation c st = (st', c')"
  shows "(\<forall>e. get_env c' e = get_env c e) \<and> (env_inv st \<longrightarrow> env_inv st')"
  using assms env_inv_ends(1) by (auto simp: end_mutation_def split: option.splits)

lemma env_inv_disposal [simp]: "env_inv (mod_journal (\<lambda>j. j\<lparr>j_Disposal := d\<rparr>) st) = env_inv st"
  "env_inv (mod_journal (\<lambda>j. j\<lparr>j_Reconciliation := r\<rparr>) st) = env_inv st"
  by (simp_all add: env_inv_def attached_def)

lemma env_inv_journal:
  "env_inv st \<Longrightarrow> j_IdleDeadline j = j_IdleDeadline (re_Journal st) \<Longrightarrow>
   j_StopAttempt j = j_StopAttempt (re_Journal st) \<Longrightarrow> env_inv (st\<lparr>re_Journal := j\<rparr>)"
  by (simp add: env_inv_def attached_def)

lemma BlockDisposal_ends:
  assumes "coord_inv c" "BlockDisposal c ctx env dg reason now = (r, c')"
  shows "ends c env c'"
proof -
  obtain l c1 where ld: "disposalLocked c env dg now = (l, c1)" by (rule prod.exhaust)
  note lq = disposalLocked_frame[OF ld assms(1)]
  show ?thesis
  proof (cases "c' = c \<or> c' = c1")
    case True
    then show ?thesis using lq assms(1) quiet_ends by auto
  next
    case False
    then obtain st i where st: "l = Inr (st, i)"
      using assms(2) ld by (auto simp: BlockDisposal_def split: option.splits sum.splits)
    let ?st0 = "mod_journal (\<lambda>j. j\<lparr>j_Disposal := Some (i\<lparr>di_State := DisposalStateBlocked,
                       di_ReasonCode := reason, di_UpdatedAt := nowUTC now\<rparr>)\<rparr>) st"
    obtain st1 c2 where em: "end_mutation c1 ?st0 = (st1, c2)" by (rule prod.exhaust)
    note s = end_mutation_shape[OF em]
    have "env_inv st" using lq st by (auto simp: coord_inv_def)
    then have inv: "env_inv st1" using s by simp
    have "\<exists>g. c' = emitLocked env g ''disposal-blocked'' reason now (put_env (persisted c2 (block_env c2 reason now st1) now)
        env (stamped now (block_env c2 reason now st1)))"
      using assms(2) ld st em False by (auto simp: BlockDisposal_def persist_eqs split: option.splits)
    then have "ends c1 env c'" using lq s inv by (intro endsI) auto
    then show ?thesis using lq quiet_ends_trans by blast
  qed
qed

lemma CompleteDisposal_ends:
  assumes "coord_inv c" "CompleteDisposalMetadata c ctx env dg now = (r, c')"
  shows "ends c env c'"
proof -
  obtain l c1 where ld: "activeDisposalLocked c env dg now = (l, c1)" by (rule prod.exhaust)
  note lq = activeDisposalLocked_frame[OF ld assms(1)]
  show ?thesis
  proof (cases "c' = c \<or> c' = c1")
    case True
    then show ?thesis using lq assms(1) quiet_ends by auto
  next
    case False
    then obtain st i where st: "l = Inr (st, i)"
      using assms(2) ld by (auto simp: CompleteDisposalMetadata_def split: option.splits sum.splits)
    obtain e d where rm: "Remove (c_Disk c1) env = (e, d)" by (rule prod.exhaust)
    obtain st1 c2 where em: "end_mutation (c1\<lparr>c_Disk := d\<rparr>) (st\<lparr>re_Timer := False\<rparr>) = (st1, c2)" by (rule prod.exhaust)
    obtain st1' c2' where em': "end_mutation (c1\<lparr>c_Disk := d\<rparr>) st = (st1', c2')" by (rule prod.exhaust)
    note s = end_mutation_shape[OF em] end_mutation_shape[OF em']
    have "env_inv st" using lq st by (auto simp: coord_inv_def)
    then have inv: "env_inv st1" using s by simp
    let ?b = "block_env c2 ''journal-removal-failed'' now st1"
    have "(\<exists>g. c' = emitLocked env g ''disposal-metadata-removed'' [] now (del_env c2' env)) \<or>
        c' = put_env (persisted c2 ?b now) env (stamped now ?b)"
      using assms(2) ld st rm em em' False
      by (auto simp: CompleteDisposalMetadata_def persist_eqs split: option.splits if_splits)
    then have "ends c1 env c'" using lq s inv by (intro endsI) auto
    then show ?thesis using lq quiet_ends_trans by blast
  qed
qed

lemma mutation_returns_ends:
  assumes "coord_inv c" "mutation_returns c m err now = (r, c')"
  shows "ends c (mt_EnvironmentID m) c'"
proof (cases "is_closed c \<or> get_env c (mt_EnvironmentID m) = None")
  case True
  then have "c' = c" using assms(2) by (auto simp: mutation_returns_def Let_def split: if_splits)
  then show ?thesis using assms(1) quiet_ends by auto
next
  case False
  then obtain st where st: "get_env c (mt_EnvironmentID m) = Some st" by auto
  let ?st1 = "st\<lparr>re_Mutation := False, re_MutationOwner := None\<rparr>"
  have inv: "env_inv ?st1" using assms(1) st env_inv_ends(2) by (auto simp: coord_inv_def)
  show ?thesis
  proof (rule endsI[OF assms(1)])
    show "get_env c' e = get_env c e" if "e \<noteq> mt_EnvironmentID m" for e
      using assms(2) False st that
      by (auto simp: mutation_returns_def Let_def persist_eqs split: option.splits if_splits prod.splits)
    show "env_inv st'" if "get_env c' (mt_EnvironmentID m) = Some st'" for st'
      using assms(2) False st that inv
      by (auto simp: mutation_returns_def Let_def persist_eqs env_inv_journal split: option.splits if_splits prod.splits)
  qed
qed

lemma stopped_env_fields [simp]:
  "re_Handles (stopped_env c a ob u now st) = re_Handles st" "re_Establishing (stopped_env c a ob u now st) = re_Establishing st"
  "re_Mutation (stopped_env c a ob u now st) = re_Mutation st" "re_Reconciling (stopped_env c a ob u now st) = re_Reconciling st"
  "re_StopCancel (stopped_env c a ob u now st) = re_StopCancel st"
  "j_IdleDeadline (re_Journal (stopped_env c a ob u now st)) = j_IdleDeadline (re_Journal st)"
  "re_Handles (unknown_env a ob st) = re_Handles st" "re_Establishing (unknown_env a ob st) = re_Establishing st"
  "re_Mutation (unknown_env a ob st) = re_Mutation st" "re_Reconciling (unknown_env a ob st) = re_Reconciling st"
  "re_StopCancel (unknown_env a ob st) = re_StopCancel st"
  "j_IdleDeadline (re_Journal (unknown_env a ob st)) = j_IdleDeadline (re_Journal st)"
  by (simp_all add: stopped_env_def unknown_env_def)

lemma stop_end_inv:
  assumes "env_inv st"
  shows "env_inv (stopped_env c a ob u now (st\<lparr>re_StopCancel := False\<rparr>))"
    "env_inv (unknown_env a ob (st\<lparr>re_StopCancel := False\<rparr>))"
  using assms by (simp_all add: env_inv_def attached_def)

lemma finishStop_inv [simp]: "env_inv (finishStopLocked st) = env_inv st"
  by (simp add: finishStopLocked_def env_inv_def attached_def)

lemma commitStopResult_shape:
  "commitStopResult c env i inc res now = c \<or>
   (\<exists>st a ob st2 c2. get_env c env = Some st \<and> (\<forall>e. get_env c2 e = get_env c e) \<and>
      st2 \<in> {stopped_env c a ob (sres_CleanupUnproved res) now (st\<lparr>re_StopCancel := False\<rparr>),
             unknown_env a ob (st\<lparr>re_StopCancel := False\<rparr>)} \<and>
      commitStopResult c env i inc res now = put_env (persisted c2 st2 now) env (finishStopLocked (stamped now st2)))"
proof (cases "commitStopResult c env i inc res now = c")
  case False
  then obtain st a where st: "get_env c env = Some st" and a: "j_StopAttempt (re_Journal st) = Some a"
    and ok: "\<not> c_Closed c" "sa_ID a = i" "EnvironmentRef_Equal (sa_Incarnation a) inc"
    by (auto simp: commitStopResult_def split: option.splits if_splits)
  let ?st1 = "st\<lparr>re_StopCancel := False\<rparr>"
  let ?ob = "stop_observation inc (sres_Observation res) now"
  obtain k s where "commitStopResult c env i inc res now =
     (let stopped = (obs_State ?ob = LifecycleStopped \<or> obs_State ?ob = LifecycleAbsent);
          st2 = (if stopped then stopped_env c a ?ob (sres_CleanupUnproved res) now ?st1 else unknown_env a ?ob ?st1);
          c2 = emitLocked env (er_StartGeneration inc) k s now c
      in case persistLocked c2 st2 now of (_, st3, c3) \<Rightarrow> put_env c3 env (finishStopLocked st3))"
    using st a ok by (cases "obs_State ?ob = LifecycleStopped \<or> obs_State ?ob = LifecycleAbsent")
      (auto simp: commitStopResult_def Let_def)
  then show ?thesis using st
    by (intro disjI2 exI[of _ st] exI[of _ a] exI[of _ ?ob]
        exI[of _ "if obs_State ?ob = LifecycleStopped \<or> obs_State ?ob = LifecycleAbsent
          then stopped_env c a ?ob (sres_CleanupUnproved res) now ?st1 else unknown_env a ?ob ?st1"]
        exI[of _ "emitLocked env (er_StartGeneration inc) k s now c"]) (simp add: Let_def persist_eqs)
qed simp

lemma commitStopResult_ends:
  assumes "coord_inv c"
  shows "ends c env (commitStopResult c env i inc res now)"
  using commitStopResult_shape[of c env i inc res now]
proof (elim disjE exE conjE)
  assume "commitStopResult c env i inc res now = c"
  then show ?thesis using assms quiet_ends by simp
next
  fix st a ob st2 c2
  assume st: "get_env c env = Some st" and c2: "\<forall>e. get_env c2 e = get_env c e"
    and st2: "st2 \<in> {stopped_env c a ob (sres_CleanupUnproved res) now (st\<lparr>re_StopCancel := False\<rparr>),
             unknown_env a ob (st\<lparr>re_StopCancel := False\<rparr>)}"
    and eq: "commitStopResult c env i inc res now = put_env (persisted c2 st2 now) env (finishStopLocked (stamped now st2))"
  have "env_inv st2" using assms st st2 stop_end_inv by (auto simp: coord_inv_def)
  then show ?thesis using assms c2 eq by (intro endsI) auto
qed

lemma stop_returns_ends: "coord_inv c \<Longrightarrow> ends c (tx_EnvironmentID txn) (stop_returns c txn res now)"
  using commitStopResult_ends[of c "tx_EnvironmentID txn"] by (simp add: stop_returns_def ends_def coord_inv_def)

lemma AcquireMutation_quiet:
  assumes "coord_inv c" "AcquireMutation c ctx q now = (r, c')"
  shows "quiet c c'"
  using assms claim_env_quiet by (auto simp: AcquireMutation_def split: option.splits sum.splits if_splits)

section \<open>Shutdown\<close>

lemma close_env_inv:
  assumes "close_env c st now = (st', c')" "env_inv st"
  shows "env_inv st' \<and> (\<forall>e. get_env c' e = get_env c e)"
proof -
  let ?st1 = "finishStopLocked (mod_journal (\<lambda>j. j\<lparr>j_IdleDeadline := None\<rparr>)
            (st\<lparr>re_Establishing := [], re_Timer := False, re_StopCancel := False\<rparr>))"
  have inv1: "env_inv ?st1" using assms(2) by (auto simp: finishStopLocked_def env_inv_def attached_def)
  show ?thesis
  proof (cases "re_Reconciling st")
    case True
    then have fin: "finishReconciliationLocked c (block_env c ''daemon-shutdown'' now ?st1) = (st', c')"
      using assms(1) by (simp add: close_env_def Let_def finishStopLocked_def)
    have "calm st" using calm_intros(3)[OF assms(2) True] .
    then show ?thesis using finishReconciliation_shape[OF fin]
      by (auto simp: calm_def off_def finishStopLocked_def intro!: off_inv)
  next
    case False
    then show ?thesis using assms(1) inv1 by (auto simp: close_env_def Let_def finishStopLocked_def)
  qed
qed

lemma close_loop_inv:
  assumes "close_loop es now acc c = (r, c')" "coord_inv c"
  shows "coord_inv c'"
  using assms
proof (induction es now acc c arbitrary: r c' rule: close_loop.induct)
  case (2 env rest now acc c)
  show ?case
  proof (cases "get_env c env")
    case None
    then show ?thesis using "2.IH"(1) "2.prems" by simp
  next
    case (Some st)
    obtain st1 c1 where ce: "close_env c st now = (st1, c1)" by (rule prod.exhaust)
    have e: "env_inv st1 \<and> (\<forall>e. get_env c1 e = get_env c e)"
      using close_env_inv[OF ce] "2.prems"(2) Some by (simp add: coord_inv_def)
    have inv1: "coord_inv c1" using e "2.prems"(2) by (simp add: coord_inv_def)
    show ?thesis
    proof (cases "j_StartGeneration (re_Journal st1) = 0")
      case True
      have "coord_inv (del_env c1 (j_EnvironmentID (re_Journal st1)))" using inv1 by (simp add: coord_inv_def)
      then show ?thesis using "2.IH"(2)[OF Some ce[symmetric] True] "2.prems" Some ce True by auto
    next
      case False
      obtain e2 st2 c2 where p: "persistNowLocked c1 st1 now = (e2, st2, c2)" by (rule prod_cases3)
      have "env_inv st2 \<and> (\<forall>e. get_env c2 e = get_env c1 e)" using p e by (auto simp: persist_eqs)
      then have inv2: "coord_inv (put_env c2 env st2)" using inv1 by (simp add: coord_inv_def)
      then have "coord_inv (emitLocked a g k s now (put_env c2 env st2))" for a g k s by (simp add: coord_inv_def)
      then show ?thesis
        using "2.IH"(3)[OF Some ce[symmetric] False p[symmetric]] "2.prems" Some ce False p inv2
        by (auto simp: Let_def split: if_splits)
    qed
  qed
qed simp

lemma Close_inv:
  assumes "Close c now = (r, c')" "coord_inv c"
  shows "coord_inv c'"
proof (cases "is_closed c")
  case True
  then show ?thesis using assms by (simp add: Close_def)
next
  case False
  obtain e c1 where cl: "close_loop (map fst (c_Environments c)) now None (c\<lparr>c_Closing := True\<rparr>) = (e, c1)"
    by (rule prod.exhaust)
  have "coord_inv (c\<lparr>c_Closing := True\<rparr>)" using assms(2) by (simp add: coord_inv_def)
  then have "coord_inv c1" by (rule close_loop_inv[OF cl])
  then show ?thesis using assms(1) cl False by (auto simp: Close_def coord_inv_def)
qed

section \<open>The running system\<close>

text \<open>
  The coordinator, the stop callbacks and the destructive mutation callbacks that run outside its
  lock, and those that outlive the shutdown.
\<close>

record system =
  sys_C :: coordinator
  sys_Stops :: "stop_txn list"
  sys_Muts :: "mutation_txn list"
  sys_LateStops :: "stop_txn list"
  sys_LateMuts :: "mutation_txn list"

abbreviation running :: "system \<Rightarrow> string list" where
  "running s \<equiv> map tx_EnvironmentID (sys_Stops s) @ map mt_EnvironmentID (sys_Muts s)"

text \<open>
  The critical sections that neither start nor end a callback, each under one hold of the
  coordinator's lock, with arbitrary arguments and at an arbitrary time. The last rule changes the
  disk: its contents and which of its next operations fail.
\<close>

inductive critical :: "coordinator \<Rightarrow> coordinator \<Rightarrow> bool" where
  Checkpoint: "critical c (checkpoint_fire c env ident sq now)"
| Acquire: "AcquireMutation c ctx q now = (ra, c') \<Longrightarrow> critical c c'"
| Release_lease: "critical c (release_lease lease c)"
| Expire: "expire c env inc sq now = (None, c') \<Longrightarrow> critical c c'"
| Explicit: "StopExplicit c env now = (Inl e, c') \<Longrightarrow> critical c c'"
| Register: "register c env h spec now = (rr, c') \<Longrightarrow> critical c c'"
| CommitReg: "commitRegistration c env h now = (re, c') \<Longrightarrow> critical c c'"
| AbortReg: "abortRegistration c env h now = (re, c') \<Longrightarrow> critical c c'"
| BeginFinish: "beginFinishRegistration c env h = (rf, c') \<Longrightarrow> critical c c'"
| FinishReg: "finishRegistration c env h ce now = (re, c') \<Longrightarrow> critical c c'"
| Record_fact: "recordFact c env h fs now = (re, c') \<Longrightarrow> critical c c'"
| Transition: "transition c env h ref tgt now = (re, c') \<Longrightarrow> critical c c'"
| Release: "release c env h ref ce now = (re, c') \<Longrightarrow> critical c c'"
| BindBoot: "bindBoot c env h boot now = (rb, c') \<Longrightarrow> critical c c'"
| Active: "ActiveAttachObservation c ctx env i now = (ro, c') \<Longrightarrow> critical c c'"
| Reserve: "reserve_iteration c er mr wt reason now = (rs, c') \<Longrightarrow> critical c c'"
| Prepare: "Prepare es c ctx ar now = (rp, es', c') \<Longrightarrow> critical c c'"
| Promote: "Promote es c ctx now = (rg, es', c') \<Longrightarrow> critical c c'"
| Abort: "Abort es c cause now = (re, es', c') \<Longrightarrow> critical c c'"
| BeginReconcile: "BeginReconciliation c ctx env now = (rq, c') \<Longrightarrow> critical c c'"
| Reconcile: "Reconcile c ctx input now = (re, c') \<Longrightarrow> critical c c'"
| Wait: "wait_iteration c env now = (rw, c') \<Longrightarrow> critical c c'"
| BlockReconcile: "BlockReconciliation c env reason now = (re, c') \<Longrightarrow>
    (\<And>st. get_env c env = Some st \<Longrightarrow> \<not> re_StopCancel st) \<Longrightarrow> critical c c'"
| Forget: "ForgetEnvironment c env now = (re, c') \<Longrightarrow> critical c c'"
| BeginDispose: "BeginDisposal c ctx dq now = (rd, c') \<Longrightarrow> critical c c'"
| AdvanceDispose: "AdvanceDisposal c ctx env dg nxt now = (re, c') \<Longrightarrow> critical c c'"
| Mutate: "RunDestructiveMutationWithOwner c ctx env ow now = (Inl e, c') \<Longrightarrow> critical c c'"
| Disk: "critical c (c\<lparr>c_Disk := d\<rparr>)"

text \<open>
  The steps that start and end callbacks. \<open>BlockDisposal\<close> and \<open>CompleteDisposalMetadata\<close> are calls
  of the owner of a disposal, which holds the environment's key: no callback runs for it. Shutdown
  cancels what runs.
\<close>

inductive step :: "system \<Rightarrow> system \<Rightarrow> bool" where
  Section: "critical (sys_C s) c' \<Longrightarrow> step s (s\<lparr>sys_C := c'\<rparr>)"
| Expires: "expire (sys_C s) env inc sq now = (Some txn, c') \<Longrightarrow>
    step s (s\<lparr>sys_C := c', sys_Stops := txn # sys_Stops s\<rparr>)"
| Stops: "StopExplicit (sys_C s) env now = (Inr txn, c') \<Longrightarrow>
    step s (s\<lparr>sys_C := c', sys_Stops := txn # sys_Stops s\<rparr>)"
| Mutates: "RunDestructiveMutationWithOwner (sys_C s) ctx env ow now = (Inr m, c') \<Longrightarrow>
    step s (s\<lparr>sys_C := c', sys_Muts := m # sys_Muts s\<rparr>)"
| Stop_returns: "txn \<in> set (sys_Stops s) \<Longrightarrow>
    step s (s\<lparr>sys_C := stop_returns (sys_C s) txn res now, sys_Stops := removeAll txn (sys_Stops s)\<rparr>)"
| Mutation_returns: "m \<in> set (sys_Muts s) \<Longrightarrow> mutation_returns (sys_C s) m err now = (re, c') \<Longrightarrow>
    step s (s\<lparr>sys_C := c', sys_Muts := removeAll m (sys_Muts s)\<rparr>)"
| BlockDispose: "env \<notin> set (running s) \<Longrightarrow> BlockDisposal (sys_C s) ctx env dg reason now = (re, c') \<Longrightarrow>
    step s (s\<lparr>sys_C := c'\<rparr>)"
| CompleteDispose: "env \<notin> set (running s) \<Longrightarrow>
    CompleteDisposalMetadata (sys_C s) ctx env dg now = (re, c') \<Longrightarrow> step s (s\<lparr>sys_C := c'\<rparr>)"
| Shutdown: "Close (sys_C s) now = (re, c') \<Longrightarrow>
    step s \<lparr>sys_C = c', sys_Stops = [], sys_Muts = [], sys_LateStops = sys_Stops s @ sys_LateStops s,
            sys_LateMuts = sys_Muts s @ sys_LateMuts s\<rparr>"
| Late_stop_returns: "txn \<in> set (sys_LateStops s) \<Longrightarrow> tx_EnvironmentID txn \<notin> set (running s) \<Longrightarrow>
    step s (s\<lparr>sys_C := stop_returns (sys_C s) txn res now, sys_LateStops := removeAll txn (sys_LateStops s)\<rparr>)"
| Late_mutation_returns: "m \<in> set (sys_LateMuts s) \<Longrightarrow> mt_EnvironmentID m \<notin> set (running s) \<Longrightarrow>
    mutation_returns (sys_C s) m err now = (re, c') \<Longrightarrow>
    step s (s\<lparr>sys_C := c', sys_LateMuts := removeAll m (sys_LateMuts s)\<rparr>)"
| Shut: "Close_done (sys_C s) err timedOut = (re, c') \<Longrightarrow> step s (s\<lparr>sys_C := c'\<rparr>)"

text \<open>The states that a coordinator of a fresh daemon can reach.\<close>

inductive reachable :: "system \<Rightarrow> bool" where
  Start: "NewCoordinator d root daemonID grace hasStop enabled redact = Inr c \<Longrightarrow>
    reachable \<lparr>sys_C = c, sys_Stops = [], sys_Muts = [], sys_LateStops = [], sys_LateMuts = []\<rparr>"
| Step: "reachable s \<Longrightarrow> step s s' \<Longrightarrow> reachable s'"

section \<open>The invariant of the running system\<close>

definition runs :: "coordinator \<Rightarrow> string \<Rightarrow> (registry_env \<Rightarrow> bool) \<Rightarrow> bool" where
  "runs c env P \<longleftrightarrow> (\<exists>st. get_env c env = Some st \<and> P st)"

definition sys_inv :: "system \<Rightarrow> bool" where
  "sys_inv s \<longleftrightarrow> coord_inv (sys_C s) \<and> distinct (running s) \<and>
     (\<forall>t \<in> set (sys_Stops s). runs (sys_C s) (tx_EnvironmentID t) re_StopCancel) \<and>
     (\<forall>m \<in> set (sys_Muts s). runs (sys_C s) (mt_EnvironmentID m) re_Mutation)"

lemma critical_quiet: "critical c c' \<Longrightarrow> coord_inv c \<Longrightarrow> quiet c c'"
proof (induction rule: critical.induct)
  case (Checkpoint c env ident sq now) then show ?case by (rule checkpoint_fire_quiet)
next case (Acquire c ctx q now ra c') then show ?case using AcquireMutation_quiet by blast
next case (Release_lease c lease) then show ?case by simp
next case (Expire c env inc sq now c') then show ?case using expire_quiet by blast
next case (Explicit c env now e c') then show ?case using StopExplicit_quiet by blast
next case (Register c env h spec now rr c') then show ?case using register_keeps keeps_quiet by blast
next case (CommitReg c env h now re c') then show ?case using commitRegistration_keeps keeps_quiet by blast
next case (AbortReg c env h now re c') then show ?case using abortRegistration_quiet by blast
next case (BeginFinish c env h rf c') then show ?case using beginFinish_keeps keeps_quiet by blast
next case (FinishReg c env h ce now re c') then show ?case using finishRegistration_quiet by blast
next case (Record_fact c env h fs now re c') then show ?case using recordFact_keeps keeps_quiet by blast
next case (Transition c env h ref tgt now re c') then show ?case using transition_keeps keeps_quiet by blast
next case (Release c env h ref ce now re c') then show ?case using release_keeps keeps_quiet by blast
next case (BindBoot c env h boot now rb c') then show ?case using bindBoot_keeps keeps_quiet by blast
next case (Active c ctx env i now ro c') then show ?case using ActiveAttachObservation_quiet by blast
next case (Reserve c er mr wt reason now rs c') then show ?case using reserve_iteration_quiet by blast
next case (Prepare es c ctx ar now rp es' c') then show ?case using Prepare_quiet by blast
next case (Promote es c ctx now rg es' c') then show ?case using Promote_quiet by blast
next case (Abort es c cause now re es' c') then show ?case using Abort_quiet by blast
next case (BeginReconcile c ctx env now rq c') then show ?case using BeginReconciliation_quiet by blast
next case (Reconcile c ctx input now re c') then show ?case using Reconcile_quiet by blast
next case (Wait c env now rw c') then show ?case using wait_iteration_quiet by blast
next case (BlockReconcile c env reason now re c') then show ?case using BlockReconciliation_quiet by blast
next case (Forget c env now re c') then show ?case using ForgetEnvironment_quiet by blast
next case (BeginDispose c ctx dq now rd c') then show ?case using BeginDisposal_quiet by blast
next case (AdvanceDispose c ctx env dg nxt now re c') then show ?case using AdvanceDisposal_quiet by blast
next case (Mutate c ctx env ow now e c') then show ?case using RunDestructiveMutation_quiet by blast
next case (Disk c d) then show ?case by simp
qed

lemma quiet_runs:
  assumes "quiet c c'"
  shows "runs c env re_StopCancel \<Longrightarrow> runs c' env re_StopCancel" "runs c env re_Mutation \<Longrightarrow> runs c' env re_Mutation"
  using assms by (fastforce simp: runs_def quiet_def evolves_def goes_on_def)+

lemma ends_runs:
  assumes "ends c env c'" "e \<noteq> env"
  shows "runs c e re_StopCancel \<Longrightarrow> runs c' e re_StopCancel" "runs c e re_Mutation \<Longrightarrow> runs c' e re_Mutation"
  using assms by (fastforce simp: runs_def ends_def evolves_def goes_on_def)+

lemma sys_inv_quiet:
  assumes "sys_inv s" "quiet (sys_C s) c'"
  shows "sys_inv (s\<lparr>sys_C := c'\<rparr>)"
  using assms quiet_runs[OF assms(2)] quiet_inv by (simp add: sys_inv_def)

lemma sys_inv_idle:
  assumes "sys_inv s" "\<And>st. get_env (sys_C s) env = Some st \<Longrightarrow> idle st"
  shows "env \<notin> set (running s)"
  using assms by (force simp: sys_inv_def runs_def idle_def)

lemma sys_inv_stop:
  assumes "sys_inv s" "quiet (sys_C s) c'" "\<And>st. get_env (sys_C s) env = Some st \<Longrightarrow> idle st"
    and "tx_EnvironmentID txn = env" "runs c' env re_StopCancel"
  shows "sys_inv (s\<lparr>sys_C := c', sys_Stops := txn # sys_Stops s\<rparr>)"
  using sys_inv_quiet[OF assms(1,2)] sys_inv_idle[OF assms(1,3)] assms(4,5) by (simp add: sys_inv_def)

lemma sys_inv_mutate:
  assumes "sys_inv s" "quiet (sys_C s) c'" "\<And>st. get_env (sys_C s) env = Some st \<Longrightarrow> idle st"
    and "mt_EnvironmentID m = env" "runs c' env re_Mutation"
  shows "sys_inv (s\<lparr>sys_C := c', sys_Muts := m # sys_Muts s\<rparr>)"
  using sys_inv_quiet[OF assms(1,2)] sys_inv_idle[OF assms(1,3)] assms(4,5) by (simp add: sys_inv_def)

lemma distinct_removeAll_map: "distinct (map f xs) \<Longrightarrow> distinct (map f (removeAll x xs))"
  by (simp add: removeAll_filter_not_eq distinct_map_filter)

lemma sys_inv_ends:
  assumes "sys_inv s" "ends (sys_C s) env c'"
    and "set (sys_Stops s') \<subseteq> set (sys_Stops s)" "set (sys_Muts s') \<subseteq> set (sys_Muts s)"
    and "distinct (running s')" "env \<notin> set (running s')" "sys_C s' = c'"
  shows "sys_inv s'"
  unfolding sys_inv_def
proof (intro conjI ballI)
  show "coord_inv (sys_C s')" using assms(2,7) by (simp add: ends_def)
  show "distinct (running s')" by fact
next
  fix t assume t: "t \<in> set (sys_Stops s')"
  then have "tx_EnvironmentID t \<noteq> env" "runs (sys_C s) (tx_EnvironmentID t) re_StopCancel" using assms(1,3,4,6) by (auto simp: sys_inv_def)
  then show "runs (sys_C s') (tx_EnvironmentID t) re_StopCancel" using ends_runs(1)[OF assms(2)] assms(7) by blast
next
  fix m assume m: "m \<in> set (sys_Muts s')"
  then have "mt_EnvironmentID m \<noteq> env" "runs (sys_C s) (mt_EnvironmentID m) re_Mutation" using assms(1,3,4,6) by (auto simp: sys_inv_def)
  then show "runs (sys_C s') (mt_EnvironmentID m) re_Mutation" using ends_runs(2)[OF assms(2)] assms(7) by blast
qed

lemma removeAll_image: "distinct (map f xs) \<Longrightarrow> x \<in> set xs \<Longrightarrow> f x \<notin> f ` set (removeAll x xs)"
  by (auto simp: distinct_map inj_on_def)

lemma sys_inv_coord: "sys_inv s \<Longrightarrow> coord_inv (sys_C s)"
  by (simp add: sys_inv_def)

lemma sys_inv_stop_ends:
  assumes "sys_inv s" "txn \<in> set (sys_Stops s)" "ends (sys_C s) (tx_EnvironmentID txn) c'"
  shows "sys_inv (s\<lparr>sys_C := c', sys_Stops := removeAll txn (sys_Stops s)\<rparr>)"
proof (rule sys_inv_ends[OF assms(1,3)])
  have "distinct (running s)" using assms(1) by (simp add: sys_inv_def)
  then show "distinct (running (s\<lparr>sys_C := c', sys_Stops := removeAll txn (sys_Stops s)\<rparr>))"
    "tx_EnvironmentID txn \<notin> set (running (s\<lparr>sys_C := c', sys_Stops := removeAll txn (sys_Stops s)\<rparr>))"
    using assms(2) removeAll_image[of tx_EnvironmentID "sys_Stops s" txn] by (auto simp: distinct_removeAll_map)
qed auto

lemma sys_inv_mutation_ends:
  assumes "sys_inv s" "m \<in> set (sys_Muts s)" "ends (sys_C s) (mt_EnvironmentID m) c'"
  shows "sys_inv (s\<lparr>sys_C := c', sys_Muts := removeAll m (sys_Muts s)\<rparr>)"
proof (rule sys_inv_ends[OF assms(1,3)])
  have "distinct (running s)" using assms(1) by (simp add: sys_inv_def)
  then show "distinct (running (s\<lparr>sys_C := c', sys_Muts := removeAll m (sys_Muts s)\<rparr>))"
    "mt_EnvironmentID m \<notin> set (running (s\<lparr>sys_C := c', sys_Muts := removeAll m (sys_Muts s)\<rparr>))"
    using assms(2) removeAll_image[of mt_EnvironmentID "sys_Muts s" m] by (auto simp: distinct_removeAll_map)
qed auto

lemma sys_inv_other_ends:
  assumes "sys_inv s" "env \<notin> set (running s)" "ends (sys_C s) env c'"
  shows "sys_inv (s\<lparr>sys_C := c'\<rparr>)" "sys_inv (s\<lparr>sys_C := c', sys_LateStops := ls\<rparr>)"
    "sys_inv (s\<lparr>sys_C := c', sys_LateMuts := lm\<rparr>)"
proof -
  have "distinct (running s)" using assms(1) by (simp add: sys_inv_def)
  then have "sys_inv s'" if "sys_C s' = c'" "sys_Stops s' = sys_Stops s" "sys_Muts s' = sys_Muts s" for s'
    using sys_inv_ends[OF assms(1,3), of s'] assms(2) that by simp
  then show "sys_inv (s\<lparr>sys_C := c'\<rparr>)" "sys_inv (s\<lparr>sys_C := c', sys_LateStops := ls\<rparr>)"
    "sys_inv (s\<lparr>sys_C := c', sys_LateMuts := lm\<rparr>)" by simp_all
qed

lemma step_inv: "step s s' \<Longrightarrow> sys_inv s \<Longrightarrow> sys_inv s'"
proof (induction rule: step.induct)
  case (Section s c')
  then show ?case using critical_quiet sys_inv_quiet sys_inv_coord by blast
next
  case (Expires s env inc sq now txn c')
  note q = expire_quiet[OF Expires(1) sys_inv_coord[OF Expires(2)]]
  show ?case by (rule sys_inv_stop[OF Expires(2)]) (use q in \<open>auto simp: runs_def\<close>)
next
  case (Stops s env now txn c')
  note q = StopExplicit_quiet[OF Stops(1) sys_inv_coord[OF Stops(2)]]
  show ?case by (rule sys_inv_stop[OF Stops(2)]) (use q in \<open>auto simp: runs_def\<close>)
next
  case (Mutates s ctx env ow now m c')
  note q = RunDestructiveMutation_quiet[OF sys_inv_coord[OF Mutates(2)] Mutates(1)]
  show ?case by (rule sys_inv_mutate[OF Mutates(2)]) (use q in \<open>auto simp: runs_def\<close>)
next
  case (Stop_returns txn s res now)
  then show ?case using sys_inv_stop_ends stop_returns_ends sys_inv_coord by blast
next
  case (Mutation_returns m s err now re c')
  then show ?case using sys_inv_mutation_ends mutation_returns_ends sys_inv_coord by blast
next
  case (BlockDispose env s ctx dg reason now re c')
  then show ?case using sys_inv_other_ends(1) BlockDisposal_ends sys_inv_coord by blast
next
  case (CompleteDispose env s ctx dg now re c')
  then show ?case using sys_inv_other_ends(1) CompleteDisposal_ends sys_inv_coord by blast
next
  case (Shutdown s now re c')
  then show ?case using Close_inv[OF Shutdown(1)] by (simp add: sys_inv_def)
next
  case (Late_stop_returns txn s res now)
  then show ?case using sys_inv_other_ends(2) stop_returns_ends sys_inv_coord by blast
next
  case (Late_mutation_returns m s err now re c')
  then show ?case using sys_inv_other_ends(3) mutation_returns_ends sys_inv_coord by blast
next
  case (Shut s err timedOut re c')
  then have "c' = (sys_C s)\<lparr>c_Closed := True, c_Closing := False\<rparr>" by (simp add: Close_done_def)
  then have "get_env c' e = get_env (sys_C s) e" for e by simp
  then show ?case using Shut sys_inv_quiet quiet_get quiet_refl sys_inv_coord by metis
qed

lemma reachable_inv: "reachable s \<Longrightarrow> sys_inv s"
proof (induction rule: reachable.induct)
  case (Start d root daemonID grace hasStop enabled redact c)
  then have "c_Environments c = []" by (auto simp: NewCoordinator_def Let_def split: if_splits)
  then show ?case by (simp add: sys_inv_def coord_inv_def get_env_def)
next
  case (Step s s')
  then show ?case using step_inv by blast
qed

end
