(* ===== verification/Lifecycle_Safety.thy ===== *)
theory Lifecycle_Safety
  imports Lifecycle_System
begin

text \<open>
  What the exclusion of activities and the journal together guarantee about stops: what runs beside
  a callback, when an automatic stop may start, and what a restart finds of it.
\<close>

section \<open>A run\<close>

definition sample_observation :: observation where
  "sample_observation = \<lparr>obs_State = LifecycleRunning, obs_InstanceName = ''vm'',
     obs_BootID = ''01234567-89ab-cdef-0123-456789abcdef'', obs_ObservedAt = GoTime 5 0, obs_ReasonCode = []\<rparr>"

definition sample_coordinator :: coordinator where
  "sample_coordinator = \<lparr>c_Disk = sample_disk, c_DaemonID = ''d1'', c_IdleGrace = DefaultIdleGrace,
     c_HasStop = True, c_Enabled = True, c_Redact = id, c_Environments = [],
     c_Claims = \<lparr>ct_Claims = (\<lambda>_. []), ct_Sequence = 0\<rparr>, c_StopWG = 0, c_Closing = False,
     c_Closed = False, c_Events = [], c_NextIdent = 0\<rparr>"

definition sample_attach :: attach_request where
  "sample_attach = \<lparr>ar_EnvironmentID = ''env'', ar_InstanceName = ''vm'', ar_SessionID = ''s1'',
     ar_Observation = sample_observation\<rparr>"

text \<open>A session attaches to a running backend and is given up; the idle deadline is set.\<close>

definition sample_attached :: coordinator where
  "sample_attached = snd (BeginAttach sample_coordinator None sample_attach (GoTime 6 0))"

definition sample_idle :: coordinator where
  "sample_idle = snd (abortRegistration sample_attached ''env'' ''s1'' (GoTime 7 0))"

definition sample_expired :: "stop_txn option \<times> coordinator" where
  "sample_expired = expire sample_idle ''env'' sample_incarnation 1 (GoTime 22000000000 0)"

definition sample_stopping :: system where
  "sample_stopping = \<lparr>sys_C = snd sample_expired, sys_Stops = [the (fst sample_expired)], sys_Muts = [],
     sys_LateStops = [], sys_LateMuts = []\<rparr>"

definition idle_system :: "coordinator \<Rightarrow> system" where
  "idle_system c = \<lparr>sys_C = c, sys_Stops = [], sys_Muts = [], sys_LateStops = [], sys_LateMuts = []\<rparr>"

lemma idle_system_simps [simp]:
  "sys_C (idle_system c) = c" "(idle_system c)\<lparr>sys_C := c'\<rparr> = idle_system c'"
  "sys_Stops (idle_system c) = []" "sys_Muts (idle_system c) = []"
  by (simp_all add: idle_system_def)

lemma reachable_critical: "reachable s \<Longrightarrow> critical (sys_C s) c' \<Longrightarrow> reachable (s\<lparr>sys_C := c'\<rparr>)"
  using reachable.Step step.Section by blast

text \<open>\<open>BeginAttach\<close> is a sequence of critical sections.\<close>

lemma BeginAttach_critical: "critical\<^sup>*\<^sup>* c (snd (BeginAttach c ctx q now))"
proof (cases "reserve_request ctx \<lparr>eq_EnvironmentID = ar_EnvironmentID q, eq_SessionID = ar_SessionID q,
    eq_MutationKeys = []\<rparr> now")
  case (Inl e)
  then show ?thesis by (simp add: BeginAttach_def)
next
  case (Inr m)
  obtain r c1 where ri: "reserve_iteration c \<lparr>eq_EnvironmentID = ar_EnvironmentID q, eq_SessionID = ar_SessionID q,
    eq_MutationKeys = []\<rparr> m False [] now = (r, c1)" by (rule prod.exhaust)
  then have 1: "critical\<^sup>*\<^sup>* c c1" using critical.Reserve by blast
  show ?thesis
  proof (cases r)
    case (Reserved e)
    obtain p e2 c2 where pr: "Prepare e c1 ctx q now = (p, e2, c2)" by (rule prod_cases3)
    then have 2: "critical\<^sup>*\<^sup>* c c2" using 1 critical.Prepare by (meson rtranclp.rtrancl_into_rtrancl)
    obtain g e3 c3 where pm: "Promote e2 c2 ctx now = (g, e3, c3)" by (rule prod_cases3)
    then have 3: "critical\<^sup>*\<^sup>* c c3" using 2 critical.Promote by (meson rtranclp.rtrancl_into_rtrancl)
    have abort: "critical\<^sup>*\<^sup>* c (snd (snd (Abort e' c' x now)))" if "critical\<^sup>*\<^sup>* c c'" for e' c' x
      using that critical.Abort[of e' c' x now] by (metis prod.collapse rtranclp.rtrancl_into_rtrancl)
    show ?thesis using Inr ri Reserved pr pm 3 abort[OF 2] abort[OF 3]
      by (cases p; cases g) (simp_all add: BeginAttach_def case_prod_beta)
  qed (use Inr ri 1 in \<open>simp_all add: BeginAttach_def\<close>)
qed

lemma reachable_criticals:
  assumes "critical\<^sup>*\<^sup>* c c'" "reachable (idle_system c)"
  shows "reachable (idle_system c')"
  using assms
proof (induction rule: rtranclp_induct)
  case (step c1 c2)
  then show ?case using reachable_critical[of "idle_system c1" c2] by simp
qed

lemma sample_reachable: "reachable (idle_system sample_idle)"
proof -
  have "idPattern ''d1''" by code_simp
  then have "NewCoordinator sample_disk ''/root'' ''d1'' 0 True True id = Inr sample_coordinator"
    by (simp add: NewCoordinator_def sample_coordinator_def DefaultIdleGrace_def)
  then have "reachable (idle_system sample_coordinator)" unfolding idle_system_def by (rule reachable.Start)
  then have a: "reachable (idle_system sample_attached)"
    unfolding sample_attached_def using BeginAttach_critical reachable_criticals by blast
  have "critical sample_attached sample_idle"
    unfolding sample_idle_def using critical.AbortReg prod.collapse by metis
  then show ?thesis using a reachable_criticals by blast
qed

lemma sample_expired_run:
  "(case fst sample_expired of None \<Rightarrow> False | Some t \<Rightarrow> tx_EnvironmentID t = ''env'') \<and>
   d_LifecycleDir (c_Disk (snd sample_expired)) \<noteq> None"
  by code_simp

lemma sample_expired_stops:
  "fst sample_expired \<noteq> None" "tx_EnvironmentID (the (fst sample_expired)) = ''env''"
  "disk_wf (c_Disk (snd sample_expired))"
  using sample_expired_run by (auto simp: disk_wf_def split: option.splits)

lemma sample_expire_eq:
  "expire sample_idle ''env'' sample_incarnation 1 (GoTime 22000000000 0) =
     (Some (the (fst sample_expired)), snd sample_expired)"
  using sample_expired_stops(1) by (simp add: sample_expired_def prod_eq_iff)

lemma sample_stopping_reachable: "reachable sample_stopping"
proof -
  have "step (idle_system sample_idle) sample_stopping"
    using step.Expires[of "idle_system sample_idle", unfolded idle_system_simps, OF sample_expire_eq]
    by (simp add: sample_stopping_def idle_system_def)
  then show ?thesis using sample_reachable reachable.Step by blast
qed

section \<open>What runs beside a callback\<close>

lemma reachable_stop:
  assumes "reachable s" "t \<in> set (sys_Stops s)"
  obtains st where "get_env (sys_C s) (tx_EnvironmentID t) = Some st" "re_StopCancel st" "env_inv st"
  using reachable_inv[OF assms(1)] assms(2) by (auto simp: sys_inv_def runs_def coord_inv_def)

lemma reachable_mutation:
  assumes "reachable s" "m \<in> set (sys_Muts s)"
  obtains st where "get_env (sys_C s) (mt_EnvironmentID m) = Some st" "re_Mutation st" "env_inv st"
  using reachable_inv[OF assms(1)] assms(2) by (auto simp: sys_inv_def runs_def coord_inv_def)




definition sample_mutation :: "(lc_error + mutation_txn) \<times> coordinator" where
  "sample_mutation = RunDestructiveMutation sample_coordinator None ''env'' (GoTime 6 0)"

lemma sample_mutation_runs: "\<not> isl (fst sample_mutation)" "mt_EnvironmentID (projr (fst sample_mutation)) = ''env''"
  by code_simp+

definition sample_mutating :: system where
  "sample_mutating = (idle_system (snd sample_mutation))\<lparr>sys_Muts := [projr (fst sample_mutation)]\<rparr>"

lemma sample_mutating_reachable: "reachable sample_mutating"
proof -
  have "idPattern ''d1''" by code_simp
  then have "NewCoordinator sample_disk ''/root'' ''d1'' 0 True True id = Inr sample_coordinator"
    by (simp add: NewCoordinator_def sample_coordinator_def DefaultIdleGrace_def)
  then have r: "reachable (idle_system sample_coordinator)" unfolding idle_system_def by (rule reachable.Start)
  have "RunDestructiveMutationWithOwner sample_coordinator None ''env'' (cleanup_owner sample_coordinator
       ''inspect lifecycle status and retry the cleanup after the blocker finishes'' zero_time) (GoTime 6 0) =
    (Inr (projr (fst sample_mutation)), snd sample_mutation)"
    using sample_mutation_runs(1) by (simp add: sample_mutation_def RunDestructiveMutation_def prod_eq_iff)
  then have "step (idle_system sample_coordinator) sample_mutating"
    using step.Mutates[of "idle_system sample_coordinator", unfolded idle_system_simps]
    by (simp add: sample_mutating_def idle_system_def)
  then show ?thesis using r reachable.Step by blast
qed


text \<open>What a reservation needs.\<close>

lemma reserve_needs:
  assumes "reserve_iteration c q m w reason now = (Reserved e, c')"
  obtains st c1 where "loadEnvironmentLocked c (eq_EnvironmentID q) now = (Inr st, c1)"
    "\<not> is_closed c" "\<not> re_Reconciling st" "\<not> re_Blocked st" "\<not> re_Mutation st" "\<not> attempt_blocks st"
    "\<not> re_StopCancel st" "eq_SessionID q \<notin> set (re_Handles st)"
proof -
  obtain l c1 where ld: "loadEnvironmentLocked c (eq_EnvironmentID q) now = (l, c1)" by (rule prod.exhaust)
  then obtain st where st: "l = Inr st" using assms by (cases l) (auto simp: reserve_iteration_def Let_def split: if_splits)
  have "\<not> is_closed c \<and> \<not> re_Reconciling st \<and> \<not> re_Blocked st \<and> reserve_claim c1 st q m now = (Reserved e, c')"
    using assms ld st by (auto simp: reserve_iteration_def Let_def split: if_splits)
  then show thesis using that[OF ld[unfolded st]]
    by (auto simp: reserve_claim_def Let_def split: prod.splits sum.splits if_splits)
qed


definition sample_reservation :: establishment_request where
  "sample_reservation = \<lparr>eq_EnvironmentID = ''env'', eq_SessionID = ''s2'', eq_MutationKeys = []\<rparr>"

section \<open>When an automatic stop starts\<close>

lemma expire_shape:
  assumes "expire c env inc sq now = (Some txn, c')"
  obtains st dl ob ev where "get_env c env = Some st" "\<not> is_closed c" "\<not> re_Mutation st" "re_Establishing st = []"
    "re_Handles st = []" "j_IdleDeadline (re_Journal st) = Some dl" "id_Generation dl = sq"
    "EnvironmentRef_Equal (id_Incarnation dl) inc" "currentIncarnationObservation st = Inr ob"
    "EvaluateAutoStop (stop_input st inc ob True) = Inr ev" "ev_Allowed ev" "ev_Drains ev = []"
    "expire_claim c env st inc sq now = (Some txn, c')"
proof -
  obtain st where st: "get_env c env = Some st" using assms by (cases "get_env c env") (auto simp: expire_def)
  obtain dl where dl: "j_IdleDeadline (re_Journal st) = Some dl" "id_Generation dl = sq"
      "EnvironmentRef_Equal (id_Incarnation dl) inc"
    and g: "\<not> is_closed c" "\<not> re_Mutation st" "re_Establishing st = []" "re_Handles st = []"
    using assms st by (auto simp: expire_def split: option.splits if_splits)
  obtain ob where ob: "currentIncarnationObservation st = Inr ob"
    using assms st dl g by (cases "currentIncarnationObservation st") (auto simp: expire_def split: prod.splits)
  obtain ev where ev: "EvaluateAutoStop (stop_input st inc ob True) = Inr ev"
    using assms st dl g ob by (cases "EvaluateAutoStop (stop_input st inc ob True)") (auto simp: expire_def split: prod.splits)
  have "ev_Allowed ev" "ev_Drains ev = []" "expire_claim c env st inc sq now = (Some txn, c')"
    using assms st dl g ob ev by (auto simp: expire_def split: prod.splits if_splits)
  then show thesis using that st dl g ob ev by blast
qed

lemma expire_claim_shape:
  assumes "expire_claim c env st inc sq now = (Some txn, c')"
  obtains c1 i lease where "\<And>e. get_env c1 e = get_env c e" "c_Disk c1 = c_Disk c" "c_Enabled c1 = c_Enabled c"
    "c_HasStop c1 = c_HasStop c" "expire_attempt c1 env st inc i lease now = (Some txn, c')"
proof -
  have "\<exists>t i lease. expire_attempt (c\<lparr>c_Claims := t\<rparr>) env st inc i lease now = (Some txn, c')"
    using assms by (auto simp: expire_claim_def claim_env_def Let_def split: sum.splits prod.splits)
  then obtain t i lease where "expire_attempt (c\<lparr>c_Claims := t\<rparr>) env st inc i lease now = (Some txn, c')" by blast
  then show thesis by (rule that[rotated -1]) simp_all
qed

lemma expire_attempt_txn:
  assumes "expire_attempt c env st inc i lease now = (Some txn, c')"
  shows "c_Enabled c \<and> c_HasStop c \<and>
    txn = \<lparr>tx_EnvironmentID = env, tx_AttemptID = i, tx_Mode = ''automatic'', tx_Incarnation = inc, tx_Lease = lease\<rparr>"
  using assms by (auto simp: expire_attempt_def persist_eqs Let_def split: option.splits if_splits)

text \<open>
  C4. An automatic stop is started only on full authority: the deadline that fired is the current
  one of that incarnation, there is no session, no attach in progress and no mutation, the last
  observation proves the incarnation running, and the evaluation of the recorded resources allows
  the stop with nothing left to drain; automatic stops are enabled and a provider is configured,
  and the request names exactly that incarnation.
\<close>

theorem expire_authorized:
  assumes "expire c env inc sq now = (Some txn, c')"
  shows "\<exists>st dl ob ev. get_env c env = Some st \<and> re_Handles st = [] \<and> re_Establishing st = [] \<and> \<not> re_Mutation st \<and>
    j_IdleDeadline (re_Journal st) = Some dl \<and> id_Generation dl = sq \<and>
    EnvironmentRef_Equal (id_Incarnation dl) inc \<and> currentIncarnationObservation st = Inr ob \<and>
    EvaluateAutoStop (stop_input st inc ob True) = Inr ev \<and> ev_Allowed ev \<and> ev_Pins ev = [] \<and> ev_Drains ev = [] \<and>
    rc_State (j_Reconciliation (re_Journal st)) = ''complete'' \<and>
    c_Enabled c \<and> c_HasStop c \<and> tx_EnvironmentID txn = env \<and> tx_Incarnation txn = inc \<and> tx_Mode txn = ''automatic''"
  using assms
proof (cases rule: expire_shape)
  case (1 st dl ob ev)
  from 1(13) obtain c1 i lease where "c_Enabled c1 = c_Enabled c" "c_HasStop c1 = c_HasStop c"
    "expire_attempt c1 env st inc i lease now = (Some txn, c')" by (rule expire_claim_shape)
  with expire_attempt_txn[OF this(3)] have t: "c_Enabled c" "c_HasStop c" "tx_EnvironmentID txn = env"
    "tx_Incarnation txn = inc" "tx_Mode txn = ''automatic''" by auto
  have "ev_Pins ev = []" "rc_State (j_Reconciliation (re_Journal st)) = ''complete''"
    using 1(10,11)
    by (auto simp: EvaluateAutoStop_def stop_reasons_def stop_input_def Let_def simp del: first_err_None
        split: option.splits if_splits)
  with 1 t show ?thesis by blast
qed

theorem expire_authorized_witness:
  "\<exists>st. get_env sample_idle ''env'' = Some st \<and> re_Handles st = [] \<and>
     rc_State (j_Reconciliation (re_Journal st)) = ''complete''"
  using expire_authorized[OF sample_expire_eq] by blast

lemma expire_attempt_stored:
  assumes "expire_attempt c env st inc i lease now = (Some txn, c')"
  shows "\<exists>j a. stored (c_Disk c') (j_EnvironmentID (re_Journal st)) = Some j \<and> j_StopAttempt j = Some a \<and>
    sa_ID a = i \<and> sa_Incarnation a = inc \<and> sa_State a \<in> {''planned'', ''invoked''}"
proof -
  let ?st1 = "set_attempt (Some (new_attempt c i inc ''automatic'' ''planned'' now))
                  ((mod_journal (\<lambda>j. j\<lparr>j_IdleDeadline := None\<rparr>) st)\<lparr>re_Timer := False\<rparr>)"
  let ?j1 = "re_Journal (stamped now ?st1)"
  let ?st2 = "set_attempt (Some ((new_attempt c i inc ''automatic'' ''planned'' now)\<lparr>sa_State := ''invoked''\<rparr>)) (stamped now ?st1)"
  let ?j2 = "re_Journal (stamped now ?st2)"
  obtain d1 where w1: "Write (c_Disk c) ?j1 = (None, d1)"
    using assms by (cases "Write (c_Disk c) ?j1") (auto simp: expire_attempt_def persist_eqs Let_def split: option.splits)
  obtain e2 d2 where w2: "Write d1 ?j2 = (e2, d2)" by (rule prod.exhaust)
  have "c_Disk c' = d2"
    using assms w1 w2 by (auto simp: expire_attempt_def persist_eqs persisted_def begin_stop_def Let_def split: if_splits)
  moreover have ids: "j_EnvironmentID ?j1 = j_EnvironmentID (re_Journal st)" "j_EnvironmentID ?j2 = j_EnvironmentID (re_Journal st)"
    by (simp_all add: set_attempt_def)
  ultimately have "stored (c_Disk c') (j_EnvironmentID (re_Journal st)) \<in> {Some ?j1, Some ?j2}"
    using js.write_ok[OF w1] js.write_any[OF w2] by simp
  then show ?thesis by (auto simp: new_attempt_def)
qed

text \<open>
  C5. A stop is in the journal before it happens: when the timer of an automatic stop hands the
  request to the provider, the journal on disk holds this attempt as planned or invoked, even if the
  second of the two writes fails.
\<close>

theorem stop_journaled_before_callback:
  assumes "expire c env inc sq now = (Some txn, c')" "get_env c env = Some st"
  shows "\<exists>j a. stored (c_Disk c') (j_EnvironmentID (re_Journal st)) = Some j \<and> j_StopAttempt j = Some a \<and>
    sa_ID a = tx_AttemptID txn \<and> sa_Incarnation a = inc \<and> sa_State a \<in> {''planned'', ''invoked''}"
  using assms(1)
proof (cases rule: expire_shape)
  case (1 st' dl ob ev)
  from 1(13) obtain c1 i lease where "expire_attempt c1 env st inc i lease now = (Some txn, c')"
    using 1(1) assms(2) by (auto elim: expire_claim_shape)
  with expire_attempt_stored[OF this] expire_attempt_txn[OF this] show ?thesis by auto
qed

lemma sample_idle_env: "(case get_env sample_idle ''env'' of None \<Rightarrow> [] | Some st \<Rightarrow> j_EnvironmentID (re_Journal st)) = ''env''"
  by code_simp

theorem stop_journaled_before_callback_witness:
  "\<exists>j a. stored (c_Disk (snd sample_expired)) ''env'' = Some j \<and> j_StopAttempt j = Some a \<and>
     sa_State a \<in> {''planned'', ''invoked''}"
proof -
  obtain st where st: "get_env sample_idle ''env'' = Some st" "j_EnvironmentID (re_Journal st) = ''env''"
    using sample_idle_env by (auto split: option.splits)
  show ?thesis using stop_journaled_before_callback[OF sample_expire_eq st(1)] st(2) by auto
qed

text \<open>
  C6. A daemon that starts after a crash in the middle of an automatic stop does not admit a
  session: whatever its identity and whichever system calls fail, as long as the journal file is
  what the crash left, no reservation is given for an environment it has not loaded yet.
\<close>

theorem restart_after_stop_refuses:
  assumes "expire c env inc sq now = (Some txn, c')" "get_env c env = Some st" "j_EnvironmentID (re_Journal st) = env"
    and "get_env c2 env = None" "disk_wf (c_Disk c2)" "stored (c_Disk c2) env = stored (c_Disk c') env"
    and "eq_EnvironmentID q = env"
  shows "\<forall>e. fst (reserve_iteration c2 q m w reason now2) \<noteq> Reserved e"
proof (intro allI notI)
  fix e assume "fst (reserve_iteration c2 q m w reason now2) = Reserved e"
  then obtain c3 where "reserve_iteration c2 q m w reason now2 = (Reserved e, c3)" by (metis prod.collapse)
  then obtain st2 c4 where ld: "loadEnvironmentLocked c2 env now2 = (Inr st2, c4)" and "\<not> attempt_blocks st2"
    using assms(7) by (auto elim: reserve_needs)
  moreover from assms(1) obtain j a where j: "stored (c_Disk c2) env = Some j" "j_StopAttempt j = Some a"
    "sa_State a \<in> {''planned'', ''invoked''}"
  proof (cases rule: expire_shape)
    case (1 st' dl ob ev)
    from 1(13) obtain c1 i lease where "expire_attempt c1 env st inc i lease now = (Some txn, c')"
      using 1(1) assms(2) by (auto elim: expire_claim_shape)
    from expire_attempt_stored[OF this] show thesis using that assms(3,6) by auto
  qed
  obtain r d where l: "Load (c_Disk c2) env = (r, d)" by (rule prod.exhaust)
  have "r = Inr j \<or> (\<exists>x. r = Inl x \<and> x \<noteq> ErrNotExist)"
    using j(1) js.load_ok[of "c_Disk c2" env _ d] js.load_absent[OF assms(5), of env d] l by (cases r) auto
  then have "j_StopAttempt (re_Journal st2) = Some a"
    using ld l assms(4) j(2)
    by (auto simp: loadEnvironmentLocked_def install_env_def new_registry_env_def Let_def split: if_splits)
  ultimately show False using j(3) by (auto simp: attemptBlocksAttach_def)
qed

theorem restart_after_stop_refuses_witness:
  "\<forall>e. fst (reserve_iteration (sample_coordinator\<lparr>c_DaemonID := ''d2'', c_Disk := c_Disk (snd sample_expired)\<rparr>)
      sample_reservation sample_request True [] (GoTime 30000000000 0)) \<noteq> Reserved e"
proof -
  obtain st where st: "get_env sample_idle ''env'' = Some st" "j_EnvironmentID (re_Journal st) = ''env''"
    using sample_idle_env by (auto split: option.splits)
  show ?thesis
    by (intro restart_after_stop_refuses[OF sample_expire_eq st])
      (simp_all add: sample_coordinator_def get_env_def sample_reservation_def sample_expired_stops(3))
qed

end
