(* ===== verification/Lifecycle_Contracts.thy ===== *)
theory Lifecycle_Contracts
  imports Lifecycle_Safety
begin

text \<open>
  Contracts of single operations of the coordinator: the order in which a finished session releases
  its resources, and two operations whose error paths lose state. \<open>expire\<close> clears a block that
  another operation set, and an \<open>Abort\<close> that fails keeps the mutation claim of its attach.
\<close>

section \<open>The order of release\<close>

definition owned_ok :: "owned_refs \<Rightarrow> bool" where
  "owned_ok owned \<longleftrightarrow> (\<forall>k ref. map_of owned k = Some ref \<longrightarrow> Key ref = k)"

lemma release_reach:
  "release_visit g owned V k = (V', out) \<Longrightarrow> owned_ok owned \<Longrightarrow> r \<in> set out \<Longrightarrow> (Key r, k) \<in> (dep_rel g)\<^sup>*"
  "release_deps g owned V ds = (V', out) \<Longrightarrow> owned_ok owned \<Longrightarrow> r \<in> set out \<Longrightarrow>
     \<exists>d \<in> set ds. (Key r, dkey d) \<in> (dep_rel g)\<^sup>*"
proof (induction g owned V k and g owned V ds arbitrary: V' out and V' out rule: release_visit_release_deps.induct)
  case (1 g owned V k)
  show ?case
  proof (cases "map_of owned k")
    case None
    then show ?thesis using "1.prems" by simp
  next
    case (Some ref)
    obtain V1 o1 where rd: "release_deps g owned (insert k V) (deps_of g k) = (V1, o1)" by (rule prod.exhaust)
    have key: "Key ref = k" using "1.prems"(2) Some by (simp add: owned_ok_def)
    show ?thesis
    proof (cases "k \<in> V \<or> r = ref")
      case True
      then show ?thesis using "1.prems" Some key by (auto split: if_splits prod.splits)
    next
      case False
      then have "r \<in> set o1" using "1.prems" Some rd by auto
      then obtain d where "d \<in> set (deps_of g k)" "(Key r, dkey d) \<in> (dep_rel g)\<^sup>*"
        using "1.IH"[OF Some _ rd "1.prems"(2)] False by blast
      then show ?thesis using dep_relI by (meson rtrancl.rtrancl_into_rtrancl)
    qed
  qed
next
  case (3 g owned V d ds)
  obtain V1 o1 where r1: "release_visit g owned V (dkey d) = (V1, o1)" by (rule prod.exhaust)
  obtain V2 o2 where r2: "release_deps g owned V1 ds = (V2, o2)" by (rule prod.exhaust)
  have "r \<in> set o1 \<or> r \<in> set o2" using "3.prems" r1 r2 by auto
  then show ?case using "3.IH"(1)[OF r1 "3.prems"(2)] "3.IH"(2)[OF r1[symmetric] r2 "3.prems"(2)] by auto
qed auto

text \<open>
  A list of released references is closed in a set of keys that are already out: they are new and
  distinct, and what a reference depends on is in the set or comes earlier.
\<close>

fun after_deps :: "key_graph \<Rightarrow> owned_refs \<Rightarrow> string set \<Rightarrow> resource_ref list \<Rightarrow> bool" where
  "after_deps g owned V [] = True"
| "after_deps g owned V (r # rs) \<longleftrightarrow>
     Key r \<notin> V \<and> map_of owned (Key r) = Some r \<and>
     (\<forall>d \<in> set (deps_of g (Key r)). map_of owned (dkey d) \<noteq> None \<longrightarrow> dkey d \<in> V) \<and>
     after_deps g owned (insert (Key r) V) rs"

lemma after_deps_append:
  "after_deps g owned V (xs @ ys) \<longleftrightarrow> after_deps g owned V xs \<and> after_deps g owned (V \<union> Key ` set xs) ys"
proof (induction xs arbitrary: V)
  case (Cons x xs)
  have "insert (Key x) V \<union> Key ` set xs = V \<union> Key ` set (x # xs)" by auto
  then show ?case by (simp add: Cons.IH)
qed simp

text \<open>A key that none of the references depends on may be taken out of the set.\<close>

lemma after_deps_shrink:
  "after_deps g owned (insert k V) out \<Longrightarrow> k \<notin> V \<Longrightarrow> (\<And>r. r \<in> set out \<Longrightarrow> (k, Key r) \<notin> dep_rel g) \<Longrightarrow>
     after_deps g owned V out \<and> k \<notin> Key ` set out"
proof (induction out arbitrary: V)
  case (Cons r rs)
  have "k \<notin> dkey ` set (deps_of g (Key r))" using Cons.prems(3)[of r] by (auto simp: dep_rel_def)
  moreover have "after_deps g owned (insert (Key r) V) rs \<and> k \<notin> Key ` set rs"
    using Cons.IH[of "insert (Key r) V"] Cons.prems by (auto simp: insert_commute)
  ultimately show ?case using Cons.prems by auto
qed simp

lemma release_after:
  "release_visit g owned V k = (V', out) \<Longrightarrow> owned_ok owned \<Longrightarrow> acyclic (dep_rel g) \<Longrightarrow>
     V' = V \<union> Key ` set out \<and> after_deps g owned V out \<and> (map_of owned k \<noteq> None \<longrightarrow> k \<in> V')"
  "release_deps g owned V ds = (V', out) \<Longrightarrow> owned_ok owned \<Longrightarrow> acyclic (dep_rel g) \<Longrightarrow>
     V' = V \<union> Key ` set out \<and> after_deps g owned V out \<and>
     (\<forall>d \<in> set ds. map_of owned (dkey d) \<noteq> None \<longrightarrow> dkey d \<in> V')"
proof (induction g owned V k and g owned V ds arbitrary: V' out and V' out rule: release_visit_release_deps.induct)
  case (1 g owned V k)
  show ?case
  proof (cases "map_of owned k = None \<or> k \<in> V")
    case True
    then show ?thesis using "1.prems"(1) by (auto split: option.splits)
  next
    case False
    then obtain ref where ref: "map_of owned k = Some ref" "k \<notin> V" by auto
    obtain V1 o1 where rd: "release_deps g owned (insert k V) (deps_of g k) = (V1, o1)" by (rule prod.exhaust)
    have key: "Key ref = k" using "1.prems"(2) ref by (simp add: owned_ok_def)
    note ih = "1.IH"[OF ref rd "1.prems"(2,3)]
    have "(k, Key r) \<notin> dep_rel g" if mem: "r \<in> set o1" for r
    proof
      assume e: "(k, Key r) \<in> dep_rel g"
      obtain d where "d \<in> set (deps_of g k)" "(Key r, dkey d) \<in> (dep_rel g)\<^sup>*"
        using release_reach(2)[OF rd "1.prems"(2) mem] by blast
      then have "(Key r, k) \<in> (dep_rel g)\<^sup>+" using dep_relI by (meson rtrancl_into_trancl1)
      then have "(k, k) \<in> (dep_rel g)\<^sup>+" using e by (meson trancl_into_trancl2)
      then show False using "1.prems"(3) by (simp add: acyclic_def)
    qed
    then have sh: "after_deps g owned V o1 \<and> k \<notin> Key ` set o1"
      using after_deps_shrink ih ref(2) by blast
    have out: "V' = V1" "out = o1 @ [ref]" using "1.prems"(1) ref rd by simp_all
    have "dkey d \<in> V \<union> Key ` set o1" if "d \<in> set (deps_of g k)" "map_of owned (dkey d) \<noteq> None" for d
    proof -
      have "dkey d \<noteq> k" using dep_relI[OF that(1)] "1.prems"(3) by (auto simp: acyclic_def)
      then show ?thesis using ih that by auto
    qed
    then show ?thesis using out ih sh key ref by (auto simp: after_deps_append)
  qed
next
  case (3 g owned V d ds)
  obtain V1 o1 where r1: "release_visit g owned V (dkey d) = (V1, o1)" by (rule prod.exhaust)
  obtain V2 o2 where r2: "release_deps g owned V1 ds = (V2, o2)" by (rule prod.exhaust)
  note i1 = "3.IH"(1)[OF r1 "3.prems"(2,3)]
  note i2 = "3.IH"(2)[OF r1[symmetric] r2 "3.prems"(2,3)]
  show ?case using "3.prems"(1) r1 r2 i1 i2 by (auto simp: after_deps_append Un_assoc)
qed auto

lemma release_all_after:
  "owned_ok owned \<Longrightarrow> acyclic (dep_rel g) \<Longrightarrow>
     after_deps g owned V (release_all g owned V refs) \<and>
     (\<forall>ref \<in> set refs. map_of owned (Key ref) \<noteq> None \<longrightarrow> Key ref \<in> V \<union> Key ` set (release_all g owned V refs))"
proof (induction refs arbitrary: V)
  case (Cons ref refs)
  obtain V1 o1 where r1: "release_visit g owned V (Key ref) = (V1, o1)" by (rule prod.exhaust)
  note i = release_after(1)[OF r1 Cons.prems]
  show ?case using r1 i Cons.IH[OF Cons.prems, of V1] by (auto simp: after_deps_append)
qed simp

lemma after_deps_distinct: "after_deps g owned V out \<Longrightarrow> distinct (map Key out) \<and> Key ` set out \<inter> V = {}"
  by (induction out arbitrary: V) auto

lemma after_deps_owned: "after_deps g owned V out \<Longrightarrow> r \<in> set out \<Longrightarrow> map_of owned (Key r) = Some r"
  by (induction out arbitrary: V) auto

lemma after_deps_before:
  assumes "after_deps g owned {} (xs @ r # ys)" "d \<in> set (deps_of g (Key r))" "map_of owned (dkey d) \<noteq> None"
  shows "dkey d \<in> Key ` set xs"
  using assms by (auto simp: after_deps_append)

lemma by_key_acyclic: "ValidateGraph rs p = None \<Longrightarrow> acyclic (dep_rel (by_key rs))"
  using wf_acyclic[OF dep_rel_wf[of rs p]] by (auto simp: ValidateGraph_None list_all_iff)

lemma owned_by_ok: "owned_ok (owned_by st handle)"
  unfolding owned_ok_def owned_by_def by (auto dest!: map_of_SomeD)

text \<open>The keys of the resources that a session registered or joined and still uses.\<close>

definition owned_keys :: "registry_env \<Rightarrow> string \<Rightarrow> string set" where
  "owned_keys st handle =
     Key ` {ref \<in> set (re_ResourceOrder st handle). handle \<in> set (re_ResourceUsers st (Key ref))}"

lemma owned_by_dom: "map_of (owned_by st handle) k \<noteq> None \<longleftrightarrow> k \<in> owned_keys st handle"
  by (auto simp: owned_by_def owned_keys_def map_of_eq_None_iff image_iff)


text \<open>A session that registered itself before its root, and uses both.\<close>

definition sample_two_users :: registry_env where
  "sample_two_users = (the (get_env sample_attached ''env''))
     \<lparr>re_ResourceOrder := (\<lambda>_. [res_Ref (sample_session StateActive), res_Ref sample_root]), re_ResourceUsers := (\<lambda>_. [''s1''])\<rparr>"

lemma sample_two_users_order:
  "ValidateGraph (j_Resources (re_Journal sample_two_users)) True = None"
  "releaseOrderForHandleLocked sample_two_users ''s1'' = [] @ res_Ref (sample_session StateActive) # [res_Ref sample_root]"
  by code_simp+


section \<open>Blocks that are lost\<close>

lemma not_complete_not_allowed:
  "EvaluateAutoStop i = Inr ev \<Longrightarrow> \<not> ei_ReconciliationComplete i \<Longrightarrow> \<not> ev_Allowed ev"
  by (erule EvaluateAutoStop_Inr) (simp add: stop_reasons_Nil)

text \<open>
  C39. When the idle timer fires while the environment is blocked and its reconciliation is not complete,
  the block is lost: \<open>expire\<close> computes the flag from its own evaluation and stores \<open>False\<close>, while the
  journal still records the blocked reconciliation.
\<close>

theorem expire_clears_block:
  assumes "get_env c env = Some st" "re_Blocked st" "rc_State (j_Reconciliation (re_Journal st)) \<noteq> ''complete''"
    and "\<not> is_closed c" "\<not> re_Mutation st" "re_Establishing st = []" "re_Handles st = []"
    and "j_IdleDeadline (re_Journal st) = Some dl" "id_Generation dl = sequence" "EnvironmentRef_Equal (id_Incarnation dl) inc"
    and "currentIncarnationObservation st = Inr ob" "EvaluateAutoStop (stop_input st inc ob True) = Inr ev"
  shows "\<exists>st'. get_env (snd (expire c env inc sequence now)) env = Some st' \<and> \<not> re_Blocked st' \<and>
    j_Reconciliation (re_Journal st') = j_Reconciliation (re_Journal st)"
proof -
  have "\<not> ev_Allowed ev" using not_complete_not_allowed[OF assms(12)] assms(3) by (simp add: stop_input_def)
  then have "snd (expire c env inc sequence now) =
      (case persistLocked c (st\<lparr>re_Blocked := False\<rparr>) now of (_, st1, c1) \<Rightarrow> put_env c1 env st1)"
    using assms by (simp add: expire_def split: prod.splits)
  then show ?thesis by (simp add: persistLocked_def stamped_def put_env_def get_env_def split: prod.splits)
qed

text \<open>The write of the checkpoint fails once: the environment is blocked while its idle deadline is pending.\<close>

definition sample_faulty :: "(nat \<Rightarrow> bool) \<Rightarrow> coordinator" where
  "sample_faulty io = snd (abortRegistration (snd (BeginAttach (sample_coordinator\<lparr>c_Disk := sample_disk\<lparr>d_IO := io\<rparr>\<rparr>)
     None sample_attach (GoTime 6 0))) ''env'' ''s1'' (GoTime 7 0))"

definition sample_blocked :: coordinator where
  "sample_blocked = checkpoint_fire (sample_faulty (\<lambda>k. k \<noteq> 1)) ''env'' 0 1 (GoTime 8 0)"

definition blocked_fact :: "coordinator \<Rightarrow> bool" where
  "blocked_fact c = (case get_env c ''env'' of None \<Rightarrow> False | Some st \<Rightarrow>
     re_Blocked st \<and> rc_State (j_Reconciliation (re_Journal st)) \<noteq> ''complete'' \<and> \<not> is_closed c \<and> \<not> re_Mutation st \<and>
     re_Establishing st = [] \<and> re_Handles st = [] \<and>
     (case j_IdleDeadline (re_Journal st) of None \<Rightarrow> False | Some dl \<Rightarrow>
        id_Generation dl = 1 \<and> EnvironmentRef_Equal (id_Incarnation dl) sample_incarnation) \<and>
     (case currentIncarnationObservation st of Inl _ \<Rightarrow> False | Inr ob \<Rightarrow>
        (case EvaluateAutoStop (stop_input st sample_incarnation ob True) of Inl _ \<Rightarrow> False | Inr _ \<Rightarrow> True)))"

lemma sample_blocked_fact: "blocked_fact sample_blocked"
  by code_simp

theorem expire_clears_block_witness:
  "\<exists>st st'. get_env sample_blocked ''env'' = Some st \<and> re_Blocked st \<and>
     get_env (snd (expire sample_blocked ''env'' sample_incarnation 1 (GoTime 22000000000 0))) ''env'' = Some st' \<and>
     \<not> re_Blocked st' \<and> rc_State (j_Reconciliation (re_Journal st')) \<noteq> ''complete''"
proof -
  obtain st dl ob ev where "get_env sample_blocked ''env'' = Some st" "re_Blocked st"
      "rc_State (j_Reconciliation (re_Journal st)) \<noteq> ''complete''" "\<not> is_closed sample_blocked" "\<not> re_Mutation st"
      "re_Establishing st = []" "re_Handles st = []" "j_IdleDeadline (re_Journal st) = Some dl" "id_Generation dl = 1"
      "EnvironmentRef_Equal (id_Incarnation dl) sample_incarnation" "currentIncarnationObservation st = Inr ob"
      "EvaluateAutoStop (stop_input st sample_incarnation ob True) = Inr ev"
    using sample_blocked_fact by (auto simp: blocked_fact_def split: option.splits sum.splits)
  note f = this
  show ?thesis using expire_clears_block[OF f, of "GoTime 22000000000 0"] f(1-3) by auto
qed

text \<open>
  C40. An \<open>Abort\<close> that fails never gives the mutation claim of the attach back: the claim table is as
  before, the establishment counts as aborted, and aborting it again does nothing.
\<close>

theorem failed_Abort_keeps_claim:
  assumes "Abort e c cause now = (Some err, e', c')"
  shows "c_Claims c' = c_Claims c \<and> es_Lease e' = es_Lease e \<and>
    Abort e' c2 cause2 now2 = (None, e', c2) \<and> (\<exists>err2. Promote e' c2 ctx now2 = (Inl err2, e', c2))"
proof -
  define env where "env = es_Environment e"
  obtain st where st: "get_env c env = Some st" "establishing_as st e"
    using assms by (auto simp: Abort_def env_def Let_def split: option.splits if_splits)
  define st1 where "st1 = st\<lparr>re_Establishing := AList.delete (es_Session e) (re_Establishing st)\<rparr>"
  define c1 where "c1 = emitLocked env (j_StartGeneration (re_Journal st)) ''attach-establishment-aborted''
    (establishmentAbortReason cause) now (put_env c env st1)"
  obtain r st2 c2' where sch: "scheduleIfIdleLocked c1 env st1 now = (r, st2, c2')" by (rule prod_cases3)
  have "e' = e\<lparr>es_Phase := EstablishmentAborted\<rparr> \<and> c' = put_env c2' env st2"
    using assms st sch by (auto simp: Abort_def Let_def env_def[symmetric] st1_def[symmetric] c1_def[symmetric]
        split: if_splits option.splits)
  moreover have "c_Claims c2' = c_Claims c"
    using schedule_shape[OF sch] by (simp add: same_frame_def c1_def)
  ultimately show ?thesis
    by (auto simp: Abort_def Promote_def first_err_Cons check_def split: option.splits)
qed

text \<open>An attach is reserved, the disk fails for good, the checkpoint blocks the environment, the attach is aborted.\<close>

definition sample_keyed :: establishment_request where
  "sample_keyed = sample_reservation\<lparr>eq_MutationKeys := [''environment:env'']\<rparr>"

definition sample_keyed_request :: mutation_request where
  "sample_keyed_request = \<lparr>mr_Keys = [''environment:env''],
     mr_Owner = \<lparr>mo_Kind = MutationOwnerAttach, mo_ID = ''s2'', mo_Phase = ''establishing'',
       mo_Recovery = ''wait for attach establishment to finish, then retry'', mo_StartedAt = GoTime 8 0\<rparr>\<rparr>"

definition sample_reserved :: "reserve_outcome \<times> coordinator" where
  "sample_reserved = reserve_iteration (sample_faulty (\<lambda>k. k < 1)) sample_keyed sample_keyed_request True [] (GoTime 8 0)"

definition sample_aborted :: "(lc_error option \<times> establishment \<times> coordinator) option" where
  "sample_aborted = (case sample_reserved of
     (Reserved e, c) \<Rightarrow> Some (Abort e (checkpoint_fire c ''env'' 0 1 (GoTime 9 0)) None (GoTime 10 0))
   | _ \<Rightarrow> None)"

lemma sample_aborted_fails:
  "(case sample_aborted of Some (Some _, e, c) \<Rightarrow>
      es_Lease e \<noteq> None \<and> ct_Claims (c_Claims c) ''environment:env'' \<noteq> [] | _ \<Rightarrow> False)"
  by code_simp

theorem failed_Abort_keeps_claim_witness:
  "\<exists>err e c. sample_aborted = Some (Some err, e, c) \<and> ct_Claims (c_Claims c) ''environment:env'' \<noteq> [] \<and>
     Abort e c None (GoTime 11 0) = (None, e, c)"
proof -
  obtain err e c where a: "sample_aborted = Some (Some err, e, c)" "ct_Claims (c_Claims c) ''environment:env'' \<noteq> []"
    using sample_aborted_fails by (auto split: option.splits)
  obtain e0 c0 where "Abort e0 c0 None (GoTime 10 0) = (Some err, e, c)"
    using a(1) by (auto simp: sample_aborted_def split: prod.splits reserve_outcome.splits)
  from failed_Abort_keeps_claim[OF this, of c None "GoTime 11 0"] a show ?thesis by blast
qed

end
