(* ===== verification/Go_Path.thy ===== *)
theory Go_Path
  imports Hideout_Prelude
begin

text \<open>
  What the packages use of Go's \<open>strings\<close> and \<open>path\<close>: splitting at a separator, joining, and the
  lexical functions \<open>Clean\<close>, \<open>Join\<close>, \<open>Dir\<close>, \<open>Base\<close> and \<open>IsAbs\<close> on slash-separated paths.
\<close>

section \<open>Split and Join\<close>

fun Split :: "char \<Rightarrow> string \<Rightarrow> string list" where
  "Split sep [] = [[]]"
| "Split sep (c # cs) =
     (if c = sep then [] # Split sep cs
      else case Split sep cs of [] \<Rightarrow> [[c]] | e # es \<Rightarrow> (c # e) # es)"

fun Join :: "char \<Rightarrow> string list \<Rightarrow> string" where
  "Join sep [] = []"
| "Join sep [e] = e"
| "Join sep (e # es) = e @ sep # Join sep es"

lemma Split_ne [simp]: "Split sep s \<noteq> []"
  by (cases s) (auto split: list.splits)

lemma Split_elem: "e \<in> set (Split sep s) \<Longrightarrow> sep \<notin> set e"
proof (induction s arbitrary: e)
  case (Cons c cs)
  then show ?case by (cases "Split sep cs") (auto split: if_splits)
qed simp

lemma Split_subset: "e \<in> set (Split sep s) \<Longrightarrow> set e \<subseteq> set s"
proof (induction s arbitrary: e)
  case (Cons c cs)
  show ?case
  proof (cases "Split sep cs")
    case (Cons a es)
    have "set e' \<subseteq> set cs" if "e' \<in> set (a # es)" for e' using Cons.IH that \<open>Split sep cs = a # es\<close> by simp
    then show ?thesis using Cons.prems \<open>Split sep cs = a # es\<close> by (fastforce split: if_splits)
  qed simp
qed simp

lemma Join_set: "set (Join sep es) \<subseteq> insert sep (\<Union> (set ` set es))"
  by (induction sep es rule: Join.induct) auto

lemma Split_plain: "sep \<notin> set s \<Longrightarrow> Split sep s = [s]"
  by (induction s) auto

lemma Split_append: "sep \<notin> set e \<Longrightarrow> Split sep (e @ sep # s) = e # Split sep s"
  by (induction e) (auto split: list.splits)

lemma Split_sep: "Split sep (a @ sep # b) = Split sep a @ Split sep b"
proof (induction a)
  case (Cons c a)
  then show ?case by (cases "Split sep a") auto
qed simp

lemma Join_Cons: "es \<noteq> [] \<Longrightarrow> Join sep (e # es) = e @ sep # Join sep es"
  by (cases es) auto

lemma Split_Join: "es \<noteq> [] \<Longrightarrow> (\<And>e. e \<in> set es \<Longrightarrow> sep \<notin> set e) \<Longrightarrow> Split sep (Join sep es) = es"
proof (induction es)
  case (Cons e es)
  then show ?case by (cases "es = []") (auto simp: Split_plain Join_Cons Split_append)
qed simp

lemma Join_Split [simp]: "Join sep (Split sep s) = s"
proof (induction s)
  case (Cons c cs)
  then show ?case
    by (cases "Split sep cs") (auto simp: Join_Cons, metis Join_Cons append_Cons Join.simps(2) list.exhaust)
qed simp

lemma Join_append: "xs \<noteq> [] \<Longrightarrow> ys \<noteq> [] \<Longrightarrow> Join sep (xs @ ys) = Join sep xs @ sep # Join sep ys"
proof (induction xs)
  case (Cons x xs)
  then show ?case by (cases "xs = []") (simp_all add: Join_Cons)
qed simp

lemma Join_inject:
  "es \<noteq> [] \<Longrightarrow> fs \<noteq> [] \<Longrightarrow> (\<And>e. e \<in> set es \<union> set fs \<Longrightarrow> sep \<notin> set e) \<Longrightarrow>
     Join sep es = Join sep fs \<Longrightarrow> es = fs"
  by (metis Split_Join Un_iff)

section \<open>Clean\<close>

abbreviation slash :: char where "slash \<equiv> CHR 0x2F"
abbreviation dot_elem :: string where "dot_elem \<equiv> ''.''"
abbreviation dotdot_elem :: string where "dotdot_elem \<equiv> ''..''"

definition path_IsAbs :: "string \<Rightarrow> bool" where
  "path_IsAbs p \<longleftrightarrow> (case p of [] \<Rightarrow> False | c # _ \<Rightarrow> c = slash)"

text \<open>
  One element of a path. The elements kept so far are in reverse order; an element \<open>..\<close> removes the
  last one, is dropped at the root and is kept at the start of a relative path.
\<close>

fun clean_elem :: "bool \<Rightarrow> string \<Rightarrow> string list \<Rightarrow> string list" where
  "clean_elem rooted e kept =
     (if e = [] \<or> e = dot_elem then kept
      else if e = dotdot_elem then
        (case kept of
           [] \<Rightarrow> if rooted then [] else [dotdot_elem]
         | k # ks \<Rightarrow> if k = dotdot_elem \<and> \<not> rooted then dotdot_elem # kept else ks)
      else e # kept)"

definition clean_elems :: "bool \<Rightarrow> string list \<Rightarrow> string list" where
  "clean_elems rooted es = rev (fold (clean_elem rooted) es [])"

definition path_Clean :: "string \<Rightarrow> string" where
  "path_Clean p =
     (if p = [] then dot_elem
      else let rooted = path_IsAbs p; es = clean_elems rooted (Split slash p) in
        if rooted then slash # Join slash es
        else if es = [] then dot_elem else Join slash es)"

text \<open>\<open>Join\<close> of two elements.\<close>

definition path_Join :: "string \<Rightarrow> string \<Rightarrow> string" where
  "path_Join a b =
     (if a = [] then (if b = [] then [] else path_Clean b)
      else path_Clean (if b = [] then a else a @ slash # b))"

definition path_Dir :: "string \<Rightarrow> string" where
  "path_Dir p =
     path_Clean (case Split slash p of [_] \<Rightarrow> [] | es \<Rightarrow> Join slash (butlast es) @ [slash])"

fun strip_slashes :: "string \<Rightarrow> string" where
  "strip_slashes [] = []"
| "strip_slashes (c # cs) = (if c = slash then strip_slashes cs else c # cs)"

definition path_Base :: "string \<Rightarrow> string" where
  "path_Base p =
     (if p = [] then dot_elem
      else let q = rev (strip_slashes (rev p)) in
        if q = [] then [slash] else last (Split slash q))"

section \<open>Clean paths\<close>

text \<open>An element that \<open>Clean\<close> keeps as it is.\<close>

definition real_elem :: "string \<Rightarrow> bool" where
  "real_elem e \<longleftrightarrow> e \<noteq> [] \<and> e \<noteq> dot_elem \<and> e \<noteq> dotdot_elem \<and> slash \<notin> set e"

abbreviation kept_elem :: "string \<Rightarrow> bool" where
  "kept_elem e \<equiv> e \<noteq> [] \<and> e \<noteq> dot_elem"

lemma fold_clean_elem:
  "dotdot_elem \<notin> set es \<Longrightarrow> fold (clean_elem r) es kept = rev (filter kept_elem es) @ kept"
  by (induction es arbitrary: kept) auto

lemma clean_elems_filter: "dotdot_elem \<notin> set es \<Longrightarrow> clean_elems r es = filter kept_elem es"
  by (simp add: clean_elems_def fold_clean_elem)

lemma clean_elems_rooted_real:
  assumes "\<And>e. e \<in> set es \<Longrightarrow> slash \<notin> set e"
  shows "\<forall>e \<in> set (clean_elems True es). real_elem e"
proof -
  have "\<forall>e \<in> set (fold (clean_elem True) es kept). real_elem e"
    if "\<forall>e \<in> set kept. real_elem e" "\<forall>e \<in> set es. slash \<notin> set e" for kept
    using that
  proof (induction es arbitrary: kept)
    case (Cons e es)
    have "\<forall>x \<in> set (clean_elem True e kept). real_elem x"
      using Cons.prems by (auto simp: real_elem_def split: list.splits)
    then show ?case using Cons.IH Cons.prems(2) by simp
  qed simp
  from this[of "[]"] show ?thesis using assms by (simp add: clean_elems_def)
qed

lemma clean_elems_real: "\<forall>e \<in> set es. real_elem e \<Longrightarrow> clean_elems r es = es"
  by (subst clean_elems_filter) (auto simp: real_elem_def filter_id_conv)

lemma Clean_abs: "path_Clean (slash # p) = slash # Join slash (clean_elems True (Split slash p))"
  by (simp add: path_Clean_def path_IsAbs_def clean_elems_def)

lemma Clean_abs_elems:
  obtains es where "path_Clean (slash # p) = slash # Join slash es" "\<forall>e \<in> set es. real_elem e"
  using Clean_abs clean_elems_rooted_real Split_elem by metis

text \<open>A rooted path of real elements is clean; joining real elements to it keeps it clean.\<close>

lemma Clean_real: "\<forall>e \<in> set es. real_elem e \<Longrightarrow> path_Clean (slash # Join slash es) = slash # Join slash es"
proof (cases "es = []")
  case False
  assume "\<forall>e \<in> set es. real_elem e"
  then show ?thesis using False by (simp add: Clean_abs Split_Join clean_elems_real real_elem_def)
qed (simp add: Clean_abs clean_elems_def)

lemma Clean_idem_abs: "path_IsAbs p \<Longrightarrow> path_Clean (path_Clean p) = path_Clean p"
  by (cases p) (auto simp: path_IsAbs_def, metis Clean_abs_elems Clean_real)

lemma Join_real:
  assumes "\<forall>e \<in> set es. real_elem e" "\<forall>e \<in> set fs. real_elem e" "es \<noteq> []" "fs \<noteq> []"
  shows "path_Join (slash # Join slash es) (Join slash fs) = slash # Join slash (es @ fs)"
proof -
  have "Join slash fs \<noteq> []" using assms(2,4) by (cases fs; cases "tl fs") (auto simp: real_elem_def)
  then have "path_Join (slash # Join slash es) (Join slash fs) = path_Clean (slash # Join slash (es @ fs))"
    using assms(3,4) by (simp add: path_Join_def Join_append)
  moreover have "\<forall>e \<in> set (es @ fs). real_elem e" using assms(1,2) by auto
  ultimately show ?thesis using Clean_real by metis
qed

end
