(* ===== verification/Workspace_Path.thy ===== *)
theory Workspace_Path
  imports Go_Path
begin

text \<open>
  Guest workspace paths: \<open>internal/workspacepath/workspacepath.go\<close>. A guest names a file of its
  workspace by the logical root or by the physical root that is derived from the workspace's
  identity; \<open>Resolve\<close> maps both to one identity and refuses everything else.
\<close>

section \<open>Data\<close>

abbreviation LogicalRoot :: string where "LogicalRoot \<equiv> ''/workspace''"
abbreviation PhysicalBase :: string where "PhysicalBase \<equiv> ''/hideout/workspaces''"

datatype workspace_error = ErrIdentityInvalid | ErrPathInvalid | ErrOutsideAttachment

datatype workspace_alias = LogicalAlias | PhysicalAlias

record workspace_identity =
  wi_WorkspaceID :: string
  wi_RelativePath :: string
  wi_LogicalPath :: string
  wi_PhysicalPath :: string
  wi_SourceAlias :: workspace_alias

record workspace_binding =
  wb_WorkspaceID :: string
  wb_LogicalRoot :: string
  wb_PhysicalRoot :: string

section \<open>Operations\<close>

text \<open>\<open>strings.Trim\<close> of the digits is empty exactly when there are no other characters.\<close>

definition ValidWorkspaceID :: "string \<Rightarrow> bool" where
  "ValidWorkspaceID v \<longleftrightarrow>
     (case strip_prefix ''wrk_'' v of
        None \<Rightarrow> False
      | Some rest \<Rightarrow> length v = 4 + 64 \<and> list_all is_lower_hex rest)"

definition containsParentElement :: "string \<Rightarrow> bool" where
  "containsParentElement v \<longleftrightarrow> list_ex (\<lambda>e. e = dotdot_elem) (Split slash v)"

fun relative_to :: "string \<Rightarrow> (string \<times> workspace_alias) list \<Rightarrow> (string \<times> workspace_alias) option" where
  "relative_to candidate [] = None"
| "relative_to candidate ((root, alias) # roots) =
     (if candidate = root then Some (dot_elem, alias)
      else case strip_prefix (root @ [slash]) candidate of
             Some rel \<Rightarrow> Some (rel, alias)
           | None \<Rightarrow> relative_to candidate roots)"

definition relativeToAlias :: "string \<Rightarrow> string \<Rightarrow> string \<Rightarrow> (string \<times> workspace_alias) option" where
  "relativeToAlias candidate logicalRoot physicalRoot =
     relative_to candidate [(logicalRoot, LogicalAlias), (physicalRoot, PhysicalAlias)]"

definition Resolve :: "string \<Rightarrow> string \<Rightarrow> workspace_error + workspace_identity" where
  "Resolve workspaceID guestPath =
     (if \<not> ValidWorkspaceID workspaceID then Inl ErrIdentityInvalid
      else if guestPath = [] \<or> \<not> path_IsAbs guestPath \<or> CHR 0x00 \<in> set guestPath \<or>
              containsParentElement guestPath
      then Inl ErrPathInvalid
      else let physicalRoot = path_Join PhysicalBase workspaceID; clean = path_Clean guestPath in
        case relativeToAlias clean LogicalRoot physicalRoot of
          None \<Rightarrow> Inl ErrOutsideAttachment
        | Some (relative, alias) \<Rightarrow>
            Inr \<lparr>wi_WorkspaceID = workspaceID, wi_RelativePath = relative,
                 wi_LogicalPath = (if relative \<noteq> dot_elem then path_Join LogicalRoot relative else LogicalRoot),
                 wi_PhysicalPath = (if relative \<noteq> dot_elem then path_Join physicalRoot relative else physicalRoot),
                 wi_SourceAlias = alias\<rparr>)"

definition NewBinding :: "string \<Rightarrow> string \<Rightarrow> string \<Rightarrow> workspace_error + workspace_binding" where
  "NewBinding workspaceID logicalRoot physicalRoot =
     (if logicalRoot \<noteq> LogicalRoot then Inl ErrIdentityInvalid
      else case Resolve workspaceID physicalRoot of
        Inl _ \<Rightarrow> Inl ErrIdentityInvalid
      | Inr r \<Rightarrow>
          if wi_RelativePath r \<noteq> dot_elem \<or> wi_SourceAlias r \<noteq> PhysicalAlias \<or> wi_PhysicalPath r \<noteq> physicalRoot
          then Inl ErrIdentityInvalid
          else Inr \<lparr>wb_WorkspaceID = workspaceID, wb_LogicalRoot = logicalRoot, wb_PhysicalRoot = physicalRoot\<rparr>)"

definition BindingFromPhysicalRoot :: "string \<Rightarrow> string \<Rightarrow> workspace_error + workspace_binding" where
  "BindingFromPhysicalRoot logicalRoot physicalRoot =
     (let clean = path_Clean physicalRoot in
      if clean \<noteq> physicalRoot \<or> path_Dir clean \<noteq> PhysicalBase then Inl ErrIdentityInvalid
      else NewBinding (path_Base clean) logicalRoot clean)"

definition Binding_Validate :: "workspace_binding \<Rightarrow> workspace_error option" where
  "Binding_Validate b =
     (case NewBinding (wb_WorkspaceID b) (wb_LogicalRoot b) (wb_PhysicalRoot b) of
        Inl e \<Rightarrow> Some e | Inr _ \<Rightarrow> None)"

definition Binding_Resolve :: "workspace_binding \<Rightarrow> string \<Rightarrow> workspace_error + workspace_identity" where
  "Binding_Resolve b guestPath =
     (case Binding_Validate b of
        Some e \<Rightarrow> Inl e | None \<Rightarrow> Resolve (wb_WorkspaceID b) guestPath)"

section \<open>Resolve on the elements of a path\<close>

abbreviation physical_root :: "string \<Rightarrow> string" where
  "physical_root w \<equiv> PhysicalBase @ slash # w"

lemma ValidWorkspaceID_real: "ValidWorkspaceID w \<Longrightarrow> real_elem w \<and> CHR 0x00 \<notin> set w"
  by (auto simp: ValidWorkspaceID_def real_elem_def strip_prefix_Some char_class_defs list_all_iff split: option.splits)

lemma roots_elems:
  "LogicalRoot = slash # Join slash [''workspace'']"
  "physical_root w = slash # Join slash [''hideout'', ''workspaces'', w]"
  "PhysicalBase = slash # Join slash [''hideout'', ''workspaces'']"
  "real_elem ''workspace''" "real_elem ''hideout''" "real_elem ''workspaces''"
  by (simp_all add: real_elem_def)

lemma physicalRoot_eq: "ValidWorkspaceID w \<Longrightarrow> path_Join PhysicalBase w = physical_root w"
  using Join_real[of "[''hideout'', ''workspaces'']" "[w]"] ValidWorkspaceID_real[of w] roots_elems(5,6) by simp

text \<open>The elements of a path below a root.\<close>

definition below :: "string list \<Rightarrow> string list \<Rightarrow> string list option" where
  "below root es = (if take (length root) es = root then Some (drop (length root) es) else None)"

definition rel_string :: "string list \<Rightarrow> string" where
  "rel_string es = (if es = [] then dot_elem else Join slash es)"

lemma prefix_elems:
  assumes "root \<noteq> []" "\<forall>e \<in> set root. real_elem e" "\<forall>e \<in> set es. real_elem e"
  shows "(case strip_prefix (slash # Join slash root @ [slash]) (slash # Join slash es) of
       Some rel \<Rightarrow> Some rel | None \<Rightarrow> None) =
     (if \<exists>fs. fs \<noteq> [] \<and> es = root @ fs then Some (Join slash (drop (length root) es)) else None)"
proof (cases "strip_prefix (slash # Join slash root @ [slash]) (slash # Join slash es)")
  case None
  have "\<not> (\<exists>fs. fs \<noteq> [] \<and> es = root @ fs)"
  proof (rule notI, elim exE conjE)
    fix fs assume "fs \<noteq> []" "es = root @ fs"
    then have "slash # Join slash es = (slash # Join slash root @ [slash]) @ Join slash fs"
      using assms(1) by (simp add: Join_append)
    then show False using None strip_prefix_append by (metis option.distinct(1))
  qed
  then show ?thesis using None by simp
next
  case (Some rel)
  then have eq: "Join slash es = Join slash root @ slash # rel" by (simp add: strip_prefix_Some)
  have "es \<noteq> []"
  proof
    assume "es = []"
    then show False using eq by simp
  qed
  then have "es = Split slash (Join slash root @ slash # rel)"
    using assms(3) Split_Join[of es slash] eq by (auto simp: real_elem_def)
  also have "\<dots> = root @ Split slash rel"
    using assms(1,2) Split_Join[of root slash] by (auto simp: Split_sep real_elem_def)
  finally have es: "es = root @ Split slash rel" .
  then show ?thesis using Some by auto
qed

lemma relative_elems:
  assumes "ValidWorkspaceID w" "\<forall>e \<in> set es. real_elem e"
  shows "relativeToAlias (slash # Join slash es) LogicalRoot (physical_root w) =
    (case below [''workspace''] es of
       Some fs \<Rightarrow> Some (rel_string fs, LogicalAlias)
     | None \<Rightarrow> (case below [''hideout'', ''workspaces'', w] es of
                 Some fs \<Rightarrow> Some (rel_string fs, PhysicalAlias) | None \<Rightarrow> None))"
proof -
  have step: "relative_to (slash # Join slash es) ((slash # Join slash root, a) # roots) =
      (case below root es of Some fs \<Rightarrow> Some (rel_string fs, a) | None \<Rightarrow> relative_to (slash # Join slash es) roots)"
    if root: "root \<noteq> []" "\<forall>e \<in> set root. real_elem e" for root a roots
  proof (cases "es = root")
    case True
    then show ?thesis by (simp add: below_def rel_string_def)
  next
    case False
    then have ne: "slash # Join slash es \<noteq> slash # Join slash root"
    proof (cases "es = []")
      case True
      have "Join slash root \<noteq> []" using root by (cases root; cases "tl root") (auto simp: real_elem_def)
      then show ?thesis using True by simp
    next
      case ne: False
      then show ?thesis using False root assms(2) Join_inject[of es root slash] by (auto simp: real_elem_def)
    qed
    have b: "below root es = (if \<exists>fs. fs \<noteq> [] \<and> es = root @ fs then Some (drop (length root) es) else None)"
    proof (cases "take (length root) es = root")
      case True
      then have "es = root @ drop (length root) es" by (metis append_take_drop_id)
      moreover from this have "drop (length root) es \<noteq> []" using False by (metis append_Nil2)
      ultimately have "\<exists>fs. fs \<noteq> [] \<and> es = root @ fs" by blast
      then show ?thesis using True by (simp add: below_def)
    next
      case False
      then show ?thesis by (auto simp: below_def)
    qed
    show ?thesis
      using prefix_elems[OF root assms(2)] ne b
      by (cases "strip_prefix (slash # Join slash root @ [slash]) (slash # Join slash es)")
        (auto simp: rel_string_def split: if_splits)
  qed
  have w: "real_elem w" using assms(1) ValidWorkspaceID_real by blast
  have r: "LogicalRoot = slash # Join slash [''workspace'']"
    "physical_root w = slash # Join slash [''hideout'', ''workspaces'', w]" by simp_all
  show ?thesis
    unfolding relativeToAlias_def r
    using step[of "[''workspace'']"] step[of "[''hideout'', ''workspaces'', w]"] w roots_elems(4-6)
    by (simp del: Join.simps relative_to.simps(2) split: option.splits)
qed

text \<open>The elements of an absolute path that has no parent element.\<close>

abbreviation path_elems :: "string \<Rightarrow> string list" where
  "path_elems p \<equiv> filter kept_elem (Split slash p)"

definition identity_of :: "string \<Rightarrow> string list \<Rightarrow> workspace_alias \<Rightarrow> workspace_identity" where
  "identity_of w fs alias =
     \<lparr>wi_WorkspaceID = w, wi_RelativePath = rel_string fs,
      wi_LogicalPath = slash # Join slash (''workspace'' # fs),
      wi_PhysicalPath = slash # Join slash (''hideout'' # ''workspaces'' # w # fs), wi_SourceAlias = alias\<rparr>"

lemma rel_string_dot: "\<forall>e \<in> set fs. real_elem e \<Longrightarrow> rel_string fs = dot_elem \<longleftrightarrow> fs = []"
proof (cases fs)
  case (Cons e es)
  assume real: "\<forall>e \<in> set fs. real_elem e"
  show ?thesis
  proof (cases es)
    case Nil
    then show ?thesis using real Cons by (auto simp: rel_string_def real_elem_def)
  next
    case (Cons e' es')
    then have "slash \<in> set (Join slash fs)" using \<open>fs = e # es\<close> by (simp add: Join_Cons)
    moreover have "slash \<notin> set dot_elem" by simp
    ultimately have "Join slash fs \<noteq> dot_elem" by metis
    then show ?thesis using \<open>fs = e # es\<close> by (simp add: rel_string_def)
  qed
qed (simp add: rel_string_def)

lemma parent_elements: "\<not> containsParentElement (slash # p) \<longleftrightarrow> dotdot_elem \<notin> set (Split slash p)"
  by (auto simp: containsParentElement_def list_ex_iff)

lemma path_elems_real: "dotdot_elem \<notin> set (Split slash p) \<Longrightarrow> \<forall>e \<in> set (path_elems p). real_elem e"
  using Split_elem by (auto simp: real_elem_def)

lemma Resolve_elems:
  assumes "ValidWorkspaceID w" "CHR 0x00 \<notin> set p" "\<not> containsParentElement (slash # p)"
  shows "Resolve w (slash # p) =
    (case below [''workspace''] (path_elems p) of
       Some fs \<Rightarrow> Inr (identity_of w fs LogicalAlias)
     | None \<Rightarrow> (case below [''hideout'', ''workspaces'', w] (path_elems p) of
                 Some fs \<Rightarrow> Inr (identity_of w fs PhysicalAlias) | None \<Rightarrow> Inl ErrOutsideAttachment))"
proof -
  have dd: "dotdot_elem \<notin> set (Split slash p)" using assms(3) parent_elements by simp
  note real = path_elems_real[OF dd]
  have clean: "path_Clean (slash # p) = slash # Join slash (path_elems p)"
    using dd by (simp add: Clean_abs clean_elems_filter)
  have w: "real_elem w" using assms(1) ValidWorkspaceID_real by blast
  have join: "path_Join (slash # Join slash root) (rel_string fs) = slash # Join slash (root @ fs)"
    if "root \<noteq> []" "\<forall>e \<in> set root. real_elem e" "\<forall>e \<in> set fs. real_elem e" "fs \<noteq> []" for root fs
    using Join_real[OF that(2,3,1,4)] that(4) by (simp add: rel_string_def)
  have ident: "\<lparr>wi_WorkspaceID = w, wi_RelativePath = rel_string fs,
      wi_LogicalPath = (if rel_string fs \<noteq> dot_elem then path_Join LogicalRoot (rel_string fs) else LogicalRoot),
      wi_PhysicalPath = (if rel_string fs \<noteq> dot_elem then path_Join (physical_root w) (rel_string fs) else physical_root w),
      wi_SourceAlias = a\<rparr> = identity_of w fs a" if fs: "\<forall>e \<in> set fs. real_elem e" for fs a
  proof (cases "fs = []")
    case True
    then show ?thesis by (simp add: identity_of_def rel_string_def)
  next
    case False
    then have nd: "rel_string fs \<noteq> dot_elem" using rel_string_dot[OF fs] by blast
    have "path_Join LogicalRoot (rel_string fs) = slash # Join slash (''workspace'' # fs)"
      using join[of "[''workspace'']" fs] roots_elems(4) fs False by simp
    moreover have "path_Join (physical_root w) (rel_string fs) = slash # Join slash (''hideout'' # ''workspaces'' # w # fs)"
      using join[of "[''hideout'', ''workspaces'', w]" fs] roots_elems(5,6) w fs False by simp
    ultimately show ?thesis using nd by (simp add: identity_of_def)
  qed
  let ?mk = "\<lambda>rel a. \<lparr>wi_WorkspaceID = w, wi_RelativePath = rel,
      wi_LogicalPath = (if rel \<noteq> dot_elem then path_Join LogicalRoot rel else LogicalRoot),
      wi_PhysicalPath = (if rel \<noteq> dot_elem then path_Join (physical_root w) rel else physical_root w),
      wi_SourceAlias = a\<rparr>"
  have res: "Resolve w (slash # p) =
      (case relativeToAlias (slash # Join slash (path_elems p)) LogicalRoot (physical_root w) of
         None \<Rightarrow> Inl ErrOutsideAttachment | Some (rel, a) \<Rightarrow> Inr (?mk rel a))"
    using assms by (simp only: Resolve_def clean physicalRoot_eq[OF assms(1)] Let_def) (simp add: path_IsAbs_def)
  have sub: "\<forall>e \<in> set fs. real_elem e" if "below root (path_elems p) = Some fs" for root fs
    using that real by (auto simp: below_def simp del: filter_set set_filter split: if_splits dest: in_set_dropD)
  show ?thesis
    unfolding res relative_elems[OF assms(1) real]
    by (cases "below [''workspace''] (path_elems p)"; cases "below [''hideout'', ''workspaces'', w] (path_elems p)")
      (simp_all only: option.case prod.case ident[OF sub])
qed

lemma Resolve_Inr:
  assumes "Resolve w g = Inr i"
  obtains p fs where "g = slash # p" "ValidWorkspaceID w" "CHR 0x00 \<notin> set p" "\<not> containsParentElement g"
    "\<forall>e \<in> set fs. real_elem e \<and> e \<in> set (Split slash p)" "i = identity_of w fs (wi_SourceAlias i)"
proof -
  have v: "ValidWorkspaceID w" "path_IsAbs g" "CHR 0x00 \<notin> set g" "\<not> containsParentElement g"
    using assms by (auto simp: Resolve_def Let_def split: if_splits)
  from v(2) obtain p where g: "g = slash # p" by (cases g) (auto simp: path_IsAbs_def)
  have r: "\<forall>e \<in> set (path_elems p). real_elem e" using path_elems_real parent_elements v(4) g by blast
  obtain root fs a where b: "below root (path_elems p) = Some fs" "i = identity_of w fs a"
    using assms Resolve_elems[of w p] v g by (auto split: option.splits)
  have "\<forall>e \<in> set fs. real_elem e \<and> e \<in> set (Split slash p)"
  proof
    fix e assume "e \<in> set fs"
    then have "e \<in> set (path_elems p)" using b(1) by (auto simp: below_def split: if_splits dest: in_set_dropD)
    then show "real_elem e \<and> e \<in> set (Split slash p)" using r by auto
  qed
  then show thesis using that g v b(2) by (auto simp: identity_of_def)
qed

lemma path_elems_Join: "\<forall>e \<in> set es. real_elem e \<Longrightarrow> path_elems (Join slash es) = es"
  by (cases "es = []") (auto simp: Split_Join real_elem_def filter_id_conv)

lemma below_append [simp]: "below root (root @ fs) = Some fs"
  by (simp add: below_def)

lemma Resolve_real:
  assumes "ValidWorkspaceID w" "\<forall>e \<in> set fs. real_elem e" "\<forall>e \<in> set fs. CHR 0x00 \<notin> set e"
  shows "Resolve w (slash # Join slash (''workspace'' # fs)) = Inr (identity_of w fs LogicalAlias)"
    "Resolve w (slash # Join slash (''hideout'' # ''workspaces'' # w # fs)) = Inr (identity_of w fs PhysicalAlias)"
proof -
  have w: "real_elem w" "CHR 0x00 \<notin> set w" using assms(1) ValidWorkspaceID_real by blast+
  have nul: "CHR 0x00 \<notin> set (Join slash es)" if "\<forall>e \<in> set es. CHR 0x00 \<notin> set e" for es
    using that Join_set[of slash es] by auto
  have ok: "Resolve w (slash # Join slash es) = Inr (identity_of w fs a)"
    if "es \<noteq> []" "\<forall>e \<in> set es. real_elem e" "\<forall>e \<in> set es. CHR 0x00 \<notin> set e"
      "(case below [''workspace''] es of
         Some fs \<Rightarrow> Inr (identity_of w fs LogicalAlias)
       | None \<Rightarrow> (case below [''hideout'', ''workspaces'', w] es of
           Some fs \<Rightarrow> Inr (identity_of w fs PhysicalAlias) | None \<Rightarrow> Inl ErrOutsideAttachment)) = Inr (identity_of w fs a)"
    for es a
  proof -
    have "Split slash (Join slash es) = es" using that(1,2) by (intro Split_Join) (auto simp: real_elem_def)
    then have "\<not> containsParentElement (slash # Join slash es)"
      using that(2) by (auto simp: parent_elements real_elem_def)
    from Resolve_elems[OF assms(1) nul[OF that(3)] this, unfolded path_elems_Join[OF that(2)]] that(4)
    show ?thesis by simp
  qed
  show "Resolve w (slash # Join slash (''workspace'' # fs)) = Inr (identity_of w fs LogicalAlias)"
    by (rule ok) (use assms roots_elems(4-6) in \<open>auto simp: below_def\<close>)
  show "Resolve w (slash # Join slash (''hideout'' # ''workspaces'' # w # fs)) = Inr (identity_of w fs PhysicalAlias)"
    by (rule ok) (use assms w roots_elems(4-6) in \<open>auto simp: below_def\<close>)
qed

section \<open>Properties\<close>

text \<open>
  C15. A path that \<open>Resolve\<close> accepts stays inside the attachment: the physical path is the root of
  this very workspace followed by proper path elements, none of them empty, \<open>.\<close>, \<open>..\<close> or with a
  slash or NUL in it, each an element of the guest's path; the logical and the relative path are made
  of the same elements.
\<close>

theorem Resolve_contained:
  assumes "Resolve w g = Inr i"
  shows "ValidWorkspaceID w \<and> wi_WorkspaceID i = w \<and>
    (\<exists>fs. list_all (\<lambda>e. real_elem e \<and> CHR 0x00 \<notin> set e \<and> e \<in> set (Split slash g)) fs \<and>
      wi_PhysicalPath i = Join slash ((''/hideout/workspaces/'' @ w) # fs) \<and>
      wi_LogicalPath i = Join slash (''/workspace'' # fs) \<and>
      wi_RelativePath i = (if fs = [] then ''.'' else Join slash fs))"
  using assms
proof (cases rule: Resolve_Inr)
  case (1 p fs)
  have "CHR 0x00 \<notin> set e" if "e \<in> set (Split slash p)" for e
    using Split_subset[OF that] 1(3) by auto
  then have "list_all (\<lambda>e. real_elem e \<and> CHR 0x00 \<notin> set e \<and> e \<in> set (Split slash g)) fs"
    using 1(1,5) by (auto simp: list_all_iff)
  moreover have "wi_PhysicalPath i = Join slash ((''/hideout/workspaces/'' @ w) # fs)"
    "wi_LogicalPath i = Join slash (''/workspace'' # fs)"
    by (subst 1(6), cases fs, simp_all add: identity_of_def)+
  moreover have "wi_WorkspaceID i = w" "wi_RelativePath i = (if fs = [] then ''.'' else Join slash fs)"
    by (subst 1(6), simp add: identity_of_def rel_string_def)+
  ultimately show ?thesis using 1(2) by blast
qed

definition sample_workspace :: string where
  "sample_workspace = ''wrk_'' @ replicate 64 (CHR ''a'')"

lemma sample_resolve: "Resolve sample_workspace ''/workspace/src/./main.go'' =
    Inr (identity_of sample_workspace [''src'', ''main.go''] LogicalAlias)"
  by code_simp

theorem Resolve_contained_witness:
  "ValidWorkspaceID sample_workspace \<and>
   wi_PhysicalPath (identity_of sample_workspace [''src'', ''main.go''] LogicalAlias) =
     ''/hideout/workspaces/'' @ sample_workspace @ ''/src/main.go''"
  using Resolve_contained[OF sample_resolve] by (simp add: identity_of_def)

text \<open>
  C37. The two names of a file agree: below a workspace, the logical and the physical alias are
  accepted for exactly the same rests of a path, with the same errors, and give the same
  identity up to the alias; and the paths of an identity resolve to that identity again.
\<close>

theorem Resolve_aliases_agree:
  assumes "ValidWorkspaceID w"
  shows "Resolve w (''/hideout/workspaces/'' @ w @ ''/'' @ rest) =
      (case Resolve w (''/workspace/'' @ rest) of
         Inl e \<Rightarrow> Inl e | Inr i \<Rightarrow> Inr (i\<lparr>wi_SourceAlias := PhysicalAlias\<rparr>)) \<and>
    (\<forall>g i. Resolve w g = Inr i \<longrightarrow> Resolve w (wi_LogicalPath i) = Inr (i\<lparr>wi_SourceAlias := LogicalAlias\<rparr>) \<and>
       Resolve w (wi_PhysicalPath i) = Inr (i\<lparr>wi_SourceAlias := PhysicalAlias\<rparr>))"
proof (intro conjI allI impI)
  have w: "real_elem w" "CHR 0x00 \<notin> set w" using assms ValidWorkspaceID_real by blast+
  let ?p = "''hideout/workspaces/'' @ w @ slash # rest" and ?l = "''workspace/'' @ rest"
  have sp: "Split slash ?p = ''hideout'' # ''workspaces'' # w # Split slash rest"
    using w Split_append[of slash w rest] by (simp add: real_elem_def)
  have sl: "Split slash ?l = ''workspace'' # Split slash rest" by simp
  have par: "containsParentElement (slash # ?p) = containsParentElement (slash # ?l)"
    using sp sl w parent_elements[of ?p] parent_elements[of ?l] by (auto simp: real_elem_def)
  show "Resolve w (''/hideout/workspaces/'' @ w @ ''/'' @ rest) =
      (case Resolve w (''/workspace/'' @ rest) of
         Inl e \<Rightarrow> Inl e | Inr i \<Rightarrow> Inr (i\<lparr>wi_SourceAlias := PhysicalAlias\<rparr>))"
  proof (cases "CHR 0x00 \<in> set rest \<or> containsParentElement (slash # ?l)")
    case True
    then show ?thesis using par assms w by (auto simp: Resolve_def path_IsAbs_def)
  next
    case False
    have "Resolve w (slash # ?p) = Inr (identity_of w (path_elems rest) PhysicalAlias)"
      using Resolve_elems[OF assms, of ?p] False par w sp by (simp add: below_def real_elem_def)
    moreover have "Resolve w (slash # ?l) = Inr (identity_of w (path_elems rest) LogicalAlias)"
      using Resolve_elems[OF assms, of ?l] False sl by (simp add: below_def)
    ultimately show ?thesis by (simp add: identity_of_def)
  qed
  fix g i assume "Resolve w g = Inr i"
  then obtain p fs where g: "CHR 0x00 \<notin> set p" "\<forall>e \<in> set fs. real_elem e \<and> e \<in> set (Split slash p)"
    and i: "i = identity_of w fs (wi_SourceAlias i)" by (rule Resolve_Inr)
  have "CHR 0x00 \<notin> set e" if "e \<in> set (Split slash p)" for e
    using Split_subset[OF that] g(1) by auto
  then have ok: "\<forall>e \<in> set fs. real_elem e" "\<forall>e \<in> set fs. CHR 0x00 \<notin> set e" using g(2) by auto
  have "wi_LogicalPath i = slash # Join slash (''workspace'' # fs)"
    "i\<lparr>wi_SourceAlias := LogicalAlias\<rparr> = identity_of w fs LogicalAlias"
    by (subst i, simp add: identity_of_def)+
  then show "Resolve w (wi_LogicalPath i) = Inr (i\<lparr>wi_SourceAlias := LogicalAlias\<rparr>)"
    using Resolve_real(1)[OF assms ok] by simp
  have "wi_PhysicalPath i = slash # Join slash (''hideout'' # ''workspaces'' # w # fs)"
    "i\<lparr>wi_SourceAlias := PhysicalAlias\<rparr> = identity_of w fs PhysicalAlias"
    by (subst i, simp add: identity_of_def)+
  then show "Resolve w (wi_PhysicalPath i) = Inr (i\<lparr>wi_SourceAlias := PhysicalAlias\<rparr>)"
    using Resolve_real(2)[OF assms ok] by simp
qed

theorem Resolve_aliases_agree_witness:
  "Resolve sample_workspace (''/hideout/workspaces/'' @ sample_workspace @ ''/'' @ ''src/main.go'') =
     Inr (identity_of sample_workspace [''src'', ''main.go''] PhysicalAlias)"
proof -
  have v: "ValidWorkspaceID sample_workspace" by code_simp
  have "Resolve sample_workspace (''/workspace/'' @ ''src/main.go'') =
      Inr (identity_of sample_workspace [''src'', ''main.go''] LogicalAlias)" by code_simp
  then show ?thesis using Resolve_aliases_agree[OF v, of "''src/main.go''"] by (simp add: identity_of_def)
qed

text \<open>
  Workspaces are isolated from each other: no path into the physical root of another
  workspace is accepted, whatever follows it.
\<close>

theorem Resolve_sibling_refused:
  assumes "ValidWorkspaceID w" "ValidWorkspaceID w'" "w' \<noteq> w"
  shows "Resolve w (''/hideout/workspaces/'' @ w') = Inl ErrOutsideAttachment \<and>
    isl (Resolve w (''/hideout/workspaces/'' @ w' @ ''/'' @ rest))"
proof
  have w': "real_elem w'" "CHR 0x00 \<notin> set w'" using assms(2) ValidWorkspaceID_real by blast+
  have s0: "Split slash (''hideout/workspaces/'' @ w') = [''hideout'', ''workspaces'', w']"
    using w' Split_plain[of slash w'] by (simp add: real_elem_def)
  show "Resolve w (''/hideout/workspaces/'' @ w') = Inl ErrOutsideAttachment"
    using Resolve_elems[OF assms(1), of "''hideout/workspaces/'' @ w'"] w' s0 assms(3)
      parent_elements[of "''hideout/workspaces/'' @ w'"]
    by (auto simp: below_def real_elem_def)
  let ?p = "''hideout/workspaces/'' @ w' @ slash # rest"
  have sp: "Split slash ?p = ''hideout'' # ''workspaces'' # w' # Split slash rest"
    using w' Split_append[of slash w' rest] by (simp add: real_elem_def)
  show "isl (Resolve w (''/hideout/workspaces/'' @ w' @ ''/'' @ rest))"
  proof (cases "CHR 0x00 \<in> set ?p \<or> containsParentElement (slash # ?p)")
    case True
    then show ?thesis using assms(1) by (auto simp: Resolve_def path_IsAbs_def)
  next
    case False
    then show ?thesis using Resolve_elems[OF assms(1), of ?p] sp w' assms(3) by (simp add: below_def real_elem_def)
  qed
qed

theorem Resolve_sibling_refused_witness:
  "isl (Resolve sample_workspace (''/hideout/workspaces/'' @ (''wrk_'' @ replicate 64 (CHR ''b'')) @ ''/'' @ ''secret''))"
proof -
  have "ValidWorkspaceID sample_workspace" "ValidWorkspaceID (''wrk_'' @ replicate 64 (CHR ''b''))"
    "''wrk_'' @ replicate 64 (CHR ''b'') \<noteq> sample_workspace" by code_simp+
  from Resolve_sibling_refused[OF this, of "''secret''", THEN conjunct2] show ?thesis .
qed

lemma NewBinding_exact:
  "NewBinding w l p = Inr b \<longleftrightarrow> l = LogicalRoot \<and> ValidWorkspaceID w \<and> p = physical_root w \<and>
     b = \<lparr>wb_WorkspaceID = w, wb_LogicalRoot = l, wb_PhysicalRoot = p\<rparr>"
proof
  assume n: "NewBinding w l p = Inr b"
  then obtain i where i: "Resolve w p = Inr i" "wi_RelativePath i = dot_elem" "wi_PhysicalPath i = p"
    and b: "l = LogicalRoot" "b = \<lparr>wb_WorkspaceID = w, wb_LogicalRoot = l, wb_PhysicalRoot = p\<rparr>"
    by (auto simp: NewBinding_def split: if_splits sum.splits)
  from i(1) obtain q fs where "ValidWorkspaceID w" and fs: "\<forall>e \<in> set fs. real_elem e \<and> e \<in> set (Split slash q)"
    and eq: "i = identity_of w fs (wi_SourceAlias i)" by (rule Resolve_Inr)
  moreover have "wi_RelativePath i = rel_string fs" by (subst eq) (simp add: identity_of_def)
  then have "fs = []" using rel_string_dot fs i(2) by metis
  then have "wi_PhysicalPath i = physical_root w" by (subst eq) (simp add: identity_of_def)
  ultimately show "l = LogicalRoot \<and> ValidWorkspaceID w \<and> p = physical_root w \<and>
     b = \<lparr>wb_WorkspaceID = w, wb_LogicalRoot = l, wb_PhysicalRoot = p\<rparr>" using i(3) b by simp
next
  assume a: "l = LogicalRoot \<and> ValidWorkspaceID w \<and> p = physical_root w \<and>
     b = \<lparr>wb_WorkspaceID = w, wb_LogicalRoot = l, wb_PhysicalRoot = p\<rparr>"
  then have "Resolve w p = Inr (identity_of w [] PhysicalAlias)" using Resolve_real(2)[of w "[]"] by simp
  then show "NewBinding w l p = Inr b" using a by (simp add: NewBinding_def identity_of_def rel_string_def)
qed

lemma physical_root_parts:
  assumes "ValidWorkspaceID w"
  shows "path_Clean (physical_root w) = physical_root w" "path_Dir (physical_root w) = PhysicalBase"
    "path_Base (physical_root w) = w"
proof -
  have w: "real_elem w" using assms ValidWorkspaceID_real by blast
  have clean: "path_Clean (slash # Join slash es) = slash # Join slash es" if "\<forall>e \<in> set es. real_elem e" for es
    using Clean_real[OF that] .
  show "path_Clean (physical_root w) = physical_root w"
    using clean[of "[''hideout'', ''workspaces'', w]"] w roots_elems(5,6) by simp
  have sp: "Split slash (physical_root w) = [[], ''hideout'', ''workspaces'', w]"
    using w Split_plain[of slash w] by (simp add: real_elem_def)
  have "path_Clean (PhysicalBase @ [slash]) = PhysicalBase" by code_simp
  then show "path_Dir (physical_root w) = PhysicalBase" using sp by (simp add: path_Dir_def)
  have "rev (physical_root w) = rev w @ rev (PhysicalBase @ [slash])" by simp
  moreover obtain c cs where "rev w = c # cs" using w by (cases "rev w") (auto simp: real_elem_def)
  moreover from this have "c \<in> set w" by (metis list.set_intros(1) set_rev)
  moreover from this have "c \<noteq> slash" using w by (auto simp: real_elem_def)
  ultimately have "strip_slashes (rev (physical_root w)) = rev (physical_root w)" by simp
  then have "rev (strip_slashes (rev (physical_root w))) = physical_root w" by (metis rev_rev_ident)
  then show "path_Base (physical_root w) = w" using sp unfolding path_Base_def by (simp add: Let_def)
qed

text \<open>
  A binding is exactly a workspace identity: \<open>BindingFromPhysicalRoot\<close> accepts the canonical
  physical roots under the logical root \<open>/workspace\<close> and nothing else, and what it returns is valid.
\<close>

theorem BindingFromPhysicalRoot_exact:
  "BindingFromPhysicalRoot l p = Inr b \<longleftrightarrow>
     (\<exists>w. ValidWorkspaceID w \<and> l = ''/workspace'' \<and> p = ''/hideout/workspaces/'' @ w \<and>
       b = \<lparr>wb_WorkspaceID = w, wb_LogicalRoot = l, wb_PhysicalRoot = p\<rparr> \<and> Binding_Validate b = None)"
proof
  assume "BindingFromPhysicalRoot l p = Inr b"
  then have n: "NewBinding (path_Base p) l p = Inr b"
    by (auto simp: BindingFromPhysicalRoot_def Let_def split: if_splits)
  then have b: "b = \<lparr>wb_WorkspaceID = path_Base p, wb_LogicalRoot = l, wb_PhysicalRoot = p\<rparr>"
    using NewBinding_exact by blast
  have "Binding_Validate b = None" unfolding Binding_Validate_def b using n by simp
  then show "\<exists>w. ValidWorkspaceID w \<and> l = ''/workspace'' \<and> p = ''/hideout/workspaces/'' @ w \<and>
       b = \<lparr>wb_WorkspaceID = w, wb_LogicalRoot = l, wb_PhysicalRoot = p\<rparr> \<and> Binding_Validate b = None"
    using n NewBinding_exact[of "path_Base p" l p b] by (intro exI[of _ "path_Base p"]) simp
next
  assume "\<exists>w. ValidWorkspaceID w \<and> l = ''/workspace'' \<and> p = ''/hideout/workspaces/'' @ w \<and>
       b = \<lparr>wb_WorkspaceID = w, wb_LogicalRoot = l, wb_PhysicalRoot = p\<rparr> \<and> Binding_Validate b = None"
  then obtain w where "ValidWorkspaceID w" "l = LogicalRoot" "p = physical_root w"
    "b = \<lparr>wb_WorkspaceID = w, wb_LogicalRoot = l, wb_PhysicalRoot = p\<rparr>" by auto
  then show "BindingFromPhysicalRoot l p = Inr b"
    using physical_root_parts[of w] NewBinding_exact[of w l p b] by (simp add: BindingFromPhysicalRoot_def)
qed

end
