(* ===== verification/Go_Utf8.thy ===== *)
theory Go_Utf8
  imports Hideout_Prelude
begin

text \<open>
  What the validators of the program use of Go's \<open>utf8\<close>, \<open>unicode\<close> and \<open>strings\<close>: decoding a byte string to
  code points, \<open>utf8.ValidString\<close>, and the classes of ASCII code points. The Unicode tables beyond
  ASCII are a parameter.
\<close>

abbreviation len :: "'a list \<Rightarrow> int" where "len s \<equiv> int (length s)"

definition char_in :: "char \<Rightarrow> char \<Rightarrow> char \<Rightarrow> bool" where
  "char_in lo hi c \<longleftrightarrow> lo \<le> c \<and> c \<le> hi"

abbreviation continuation :: "char \<Rightarrow> bool" where "continuation \<equiv> char_in (CHR 0x80) (CHR 0xBF)"

abbreviation bits_of :: "char \<Rightarrow> int \<Rightarrow> int" where "bits_of c base \<equiv> of_char c - base"

text \<open>\<open>utf8.DecodeRuneInString\<close>: the first code point and the rest, or None for an invalid encoding.\<close>

fun decode_rune :: "string \<Rightarrow> (int \<times> string) option" where
  "decode_rune [] = None"
| "decode_rune (a # r) =
     (if a < CHR 0x80 then Some (of_char a, r)
      else case r of
        [] \<Rightarrow> None
      | b # r2 \<Rightarrow>
          if char_in (CHR 0xC2) (CHR 0xDF) a then
            (if continuation b then Some (bits_of a 0xC0 * 64 + bits_of b 0x80, r2) else None)
          else case r2 of
            [] \<Rightarrow> None
          | c # r3 \<Rightarrow>
              if char_in (CHR 0xE0) (CHR 0xEF) a then
                (if char_in (if a = CHR 0xE0 then CHR 0xA0 else CHR 0x80) (if a = CHR 0xED then CHR 0x9F else CHR 0xBF) b \<and>
                    continuation c
                 then Some ((bits_of a 0xE0 * 64 + bits_of b 0x80) * 64 + bits_of c 0x80, r3) else None)
              else case r3 of
                [] \<Rightarrow> None
              | d # r4 \<Rightarrow>
                  if char_in (CHR 0xF0) (CHR 0xF4) a \<and>
                     char_in (if a = CHR 0xF0 then CHR 0x90 else CHR 0x80) (if a = CHR 0xF4 then CHR 0x8F else CHR 0xBF) b \<and>
                     continuation c \<and> continuation d
                  then Some (((bits_of a 0xF0 * 64 + bits_of b 0x80) * 64 + bits_of c 0x80) * 64 + bits_of d 0x80, r4)
                  else None)"

lemma decode_rune_shorter: "decode_rune s = Some (r, t) \<Longrightarrow> length t < length s"
  by (cases s) (auto split: if_splits list.splits)

lemma decode_rune_ascii: "c < CHR 0x80 \<Longrightarrow> decode_rune (c # s) = Some (of_char c, s)"
  by simp

declare decode_rune.simps [simp del]

abbreviation RuneError :: int where "RuneError \<equiv> 0xFFFD"

text \<open>The code points a \<open>range\<close> loop visits: an invalid byte gives \<open>RuneError\<close>.\<close>

function runes :: "string \<Rightarrow> int list" where
  "runes [] = []"
| "runes (c # cs) =
     (case decode_rune (c # cs) of None \<Rightarrow> RuneError # runes cs | Some (r, t) \<Rightarrow> r # runes t)"
  by pat_completeness auto
termination
  by (relation "measure length") (auto dest: decode_rune_shorter)

function ValidString :: "string \<Rightarrow> bool" where
  "ValidString [] = True"
| "ValidString (c # cs) = (case decode_rune (c # cs) of None \<Rightarrow> False | Some (r, t) \<Rightarrow> ValidString t)"
  by pat_completeness auto
termination
  by (relation "measure length") (auto dest: decode_rune_shorter)

lemma runes_ascii: "list_all (\<lambda>c. c < CHR 0x80) s \<Longrightarrow> runes s = map of_char s \<and> ValidString s"
  by (induction s) (auto simp: decode_rune_ascii)

text \<open>The Unicode tables.\<close>

record unicode_tables =
  ut_letter :: "int \<Rightarrow> bool"
  ut_digit :: "int \<Rightarrow> bool"
  ut_print :: "int \<Rightarrow> bool"

definition rune_in :: "int \<Rightarrow> int \<Rightarrow> int \<Rightarrow> bool" where
  "rune_in lo hi r \<longleftrightarrow> lo \<le> r \<and> r \<le> hi"

definition IsLetter :: "unicode_tables \<Rightarrow> int \<Rightarrow> bool" where
  "IsLetter u r = (if r < 0x80 then rune_in 0x41 0x5A r \<or> rune_in 0x61 0x7A r else ut_letter u r)"

definition IsDigit :: "unicode_tables \<Rightarrow> int \<Rightarrow> bool" where
  "IsDigit u r = (if r < 0x80 then rune_in 0x30 0x39 r else ut_digit u r)"

definition IsPrint :: "unicode_tables \<Rightarrow> int \<Rightarrow> bool" where
  "IsPrint u r = (if r < 0x80 then rune_in 0x20 0x7E r else ut_print u r)"

lemmas rune_class_defs = rune_in_def IsLetter_def IsDigit_def IsPrint_def

text \<open>Tables with no letter, digit or printable code point beyond ASCII.\<close>

definition ascii_tables :: unicode_tables where
  "ascii_tables = \<lparr>ut_letter = (\<lambda>_. False), ut_digit = (\<lambda>_. False), ut_print = (\<lambda>_. False)\<rparr>"

definition HasPrefix :: "string \<Rightarrow> string \<Rightarrow> bool" where
  "HasPrefix s p \<longleftrightarrow> strip_prefix p s \<noteq> None"

lemma HasPrefix_append [simp]: "HasPrefix (p @ s) p"
  by (simp add: HasPrefix_def)

text \<open>The regular expressions of the validators: a prefix, a first class and between \<open>lo\<close> and \<open>hi\<close>
  characters of a second class.\<close>

definition class_between :: "(char \<Rightarrow> bool) \<Rightarrow> int \<Rightarrow> int \<Rightarrow> string \<Rightarrow> bool" where
  "class_between P lo hi s \<longleftrightarrow> lo \<le> len s \<and> len s \<le> hi \<and> list_all P s"

definition match_prefixed :: "string \<Rightarrow> (char \<Rightarrow> bool) \<Rightarrow> int \<Rightarrow> int \<Rightarrow> string \<Rightarrow> bool" where
  "match_prefixed p P lo hi s = (case strip_prefix p s of None \<Rightarrow> False | Some r \<Rightarrow> class_between P lo hi r)"

fun match_first :: "(char \<Rightarrow> bool) \<Rightarrow> (char \<Rightarrow> bool) \<Rightarrow> int \<Rightarrow> string \<Rightarrow> bool" where
  "match_first F P hi [] = False"
| "match_first F P hi (c # cs) \<longleftrightarrow> F c \<and> class_between P 0 hi cs"

end
