(* ===== verification/Activity_Model.thy ===== *)
theory Activity_Model
  imports Go_Utf8 Go_Path
begin

text \<open>
  The workload activity model: \<open>internal/workloadobs/types/model.go\<close> and \<open>retention.go\<close>. Owners,
  boundaries, executions, activity records and coverage intervals with their validators, which return
  the error or None. The digest of an execution identity (SHA-256 over JSON) and \<open>net.ParseIP\<close> are
  parameters.
\<close>

datatype activity_error =
    ErrInvalidActivityOwner | ErrInvalidExecutionIdentity | ErrOwnerMismatch | ErrInvalidActivity
  | ErrInvalidCoverage | ErrFalseAvailableCoverage | ErrNotRedacted | ErrActivityRetentionPolicy

section \<open>Identifiers and texts\<close>

definition id_char :: "char \<Rightarrow> bool" where
  "id_char c \<longleftrightarrow> is_alnum c \<or> c = CHR ''_'' \<or> c = CHR ''-''"

definition code_char :: "char \<Rightarrow> bool" where
  "code_char c \<longleftrightarrow> is_lower c \<or> is_digit c \<or> c = CHR ''.'' \<or> c = CHR ''_'' \<or> c = CHR ''-''"

definition environmentIDPattern :: "string \<Rightarrow> bool" where
  "environmentIDPattern = match_prefixed ''env_'' id_char 1 124"
definition sessionIDPattern :: "string \<Rightarrow> bool" where
  "sessionIDPattern = match_prefixed ''ses_'' id_char 1 124"
definition activityIDPattern :: "string \<Rightarrow> bool" where
  "activityIDPattern = match_prefixed ''act_'' id_char 8 124"
definition executionIDPattern :: "string \<Rightarrow> bool" where
  "executionIDPattern = match_prefixed ''exec_'' id_char 8 124"
definition coverageIDPattern :: "string \<Rightarrow> bool" where
  "coverageIDPattern = match_prefixed ''cov_'' id_char 8 124"
definition operationPattern :: "string \<Rightarrow> bool" where
  "operationPattern = match_first is_lower code_char 127"

abbreviation containsControl :: "string \<Rightarrow> bool" where "containsControl \<equiv> has_control"

definition boundedPrintable :: "string \<Rightarrow> int \<Rightarrow> int \<Rightarrow> bool" where
  "boundedPrintable v lo hi \<longleftrightarrow> lo \<le> len v \<and> len v \<le> hi \<and> TrimSpace v = v \<and> \<not> containsControl v"

abbreviation time_Before :: "gotime \<Rightarrow> gotime \<Rightarrow> bool" where "time_Before t u \<equiv> time_After u t"

abbreviation NUL :: char where "NUL \<equiv> CHR 0x00"

section \<open>Owners\<close>

abbreviation OwnerReusableEnvironment :: string where "OwnerReusableEnvironment \<equiv> ''reusable-environment''"
abbreviation OwnerDisposableSession :: string where "OwnerDisposableSession \<equiv> ''disposable-session''"

record activity_owner =
  ao_Kind :: string
  ao_EnvironmentID :: string
  ao_SessionID :: string
  ao_Backend :: string
  ao_BackendIncarnationID :: string
  ao_GuestBootID :: string

definition Owner_Validate :: "activity_owner \<Rightarrow> activity_error option" where
  "Owner_Validate o1 =
     (if ao_GuestBootID o1 \<noteq> '''' \<or> \<not> boundedPrintable (ao_Backend o1) 1 32 \<or>
         \<not> boundedPrintable (ao_BackendIncarnationID o1) 1 256 then Some ErrInvalidActivityOwner
      else if ao_Kind o1 = OwnerReusableEnvironment then
        check (\<not> environmentIDPattern (ao_EnvironmentID o1) \<or> ao_SessionID o1 \<noteq> '''') ErrInvalidActivityOwner
      else if ao_Kind o1 = OwnerDisposableSession then
        check (\<not> sessionIDPattern (ao_SessionID o1) \<or> ao_EnvironmentID o1 \<noteq> '''') ErrInvalidActivityOwner
      else Some ErrInvalidActivityOwner)"

definition NewReusableOwner :: "string \<Rightarrow> string \<Rightarrow> string \<Rightarrow> activity_owner \<times> activity_error option" where
  "NewReusableOwner environmentID backend backendIncarnationID =
     (let o1 = \<lparr>ao_Kind = OwnerReusableEnvironment, ao_EnvironmentID = environmentID, ao_SessionID = '''',
        ao_Backend = backend, ao_BackendIncarnationID = backendIncarnationID, ao_GuestBootID = ''''\<rparr>
      in (o1, Owner_Validate o1))"

definition NewDisposableOwner :: "string \<Rightarrow> string \<Rightarrow> string \<Rightarrow> activity_owner \<times> activity_error option" where
  "NewDisposableOwner sessionID backend backendIncarnationID =
     (let o1 = \<lparr>ao_Kind = OwnerDisposableSession, ao_EnvironmentID = '''', ao_SessionID = sessionID,
        ao_Backend = backend, ao_BackendIncarnationID = backendIncarnationID, ao_GuestBootID = ''''\<rparr>
      in (o1, Owner_Validate o1))"

definition Owner_Equal :: "activity_owner \<Rightarrow> activity_owner \<Rightarrow> bool" where
  "Owner_Equal a b \<longleftrightarrow> ao_Kind a = ao_Kind b \<and> ao_EnvironmentID a = ao_EnvironmentID b \<and>
     ao_SessionID a = ao_SessionID b \<and> ao_Backend a = ao_Backend b \<and>
     ao_BackendIncarnationID a = ao_BackendIncarnationID b \<and> ao_GuestBootID a = '''' \<and> ao_GuestBootID b = ''''"

lemma Owner_Equal_valid: "Owner_Validate a = None \<Longrightarrow> Owner_Equal a b \<longleftrightarrow> a = b"
  by (cases a; cases b) (auto simp: Owner_Validate_def Owner_Equal_def split: if_splits)

lemma Owner_Equal_eq: "Owner_Equal a b \<Longrightarrow> a = b"
  by (cases a; cases b) (auto simp: Owner_Equal_def)

lemma Owner_Equal_refl: "Owner_Validate a = None \<Longrightarrow> Owner_Equal a a"
  by (simp add: Owner_Equal_valid)

definition Owner_String :: "activity_owner \<Rightarrow> string" where
  "Owner_String o1 =
     ao_Backend o1 @ ''/'' @
     (if ao_Kind o1 = OwnerReusableEnvironment then ao_EnvironmentID o1 else ao_SessionID o1) @ ''/'' @
     ao_BackendIncarnationID o1"

section \<open>Executions\<close>

record execution_identity =
  ei_Owner :: activity_owner
  ei_SessionID :: string
  ei_GuestBootID :: string
  ei_ObserverGeneration :: u64
  ei_PID :: "32 word"
  ei_ExecSequence :: u64
  ei_StartedAtMonoNS :: u64

definition NewExecutionID :: "(execution_identity \<Rightarrow> string) \<Rightarrow> execution_identity \<Rightarrow> activity_error + string" where
  "NewExecutionID digest i =
     (if Owner_Validate (ei_Owner i) \<noteq> None \<or> \<not> sessionIDPattern (ei_SessionID i) \<or>
         \<not> boundedPrintable (ei_GuestBootID i) 1 128 \<or> ei_ObserverGeneration i = 0 \<or>
         ei_PID i = 0 \<or> 4194304 < ei_PID i \<or> ei_ExecSequence i = 0 \<or> ei_StartedAtMonoNS i = 0
      then Inl ErrInvalidExecutionIdentity else Inr (''exec_'' @ digest i))"

abbreviation WorkloadBoundarySchema :: string where "WorkloadBoundarySchema \<equiv> ''hideout.workload-boundary.v1''"
abbreviation ExecutionSchema :: string where "ExecutionSchema \<equiv> ''hideout.execution.v1''"
abbreviation ActivityRecordSchema :: string where "ActivityRecordSchema \<equiv> ''hideout.activity-record.v1''"
abbreviation CoverageIntervalSchema :: string where "CoverageIntervalSchema \<equiv> ''hideout.coverage-interval.v1''"

abbreviation BoundaryReady :: string where "BoundaryReady \<equiv> ''ready''"
abbreviation BoundaryRemoved :: string where "BoundaryRemoved \<equiv> ''removed''"
abbreviation BoundaryUnproved :: string where "BoundaryUnproved \<equiv> ''unproved''"

record workload_boundary =
  wb_Schema :: string
  wb_Owner :: activity_owner
  wb_SessionID :: string
  wb_CgroupPath :: string
  wb_CgroupID :: u64
  wb_TargetUser :: string
  wb_State :: string
  wb_ObserverGeneration :: u64
  wb_GuestBootID :: string
  wb_CreatedAtMonoNS :: u64

definition Boundary_Validate :: "workload_boundary \<Rightarrow> activity_error option" where
  "Boundary_Validate b =
     (if wb_Schema b \<noteq> WorkloadBoundarySchema \<or> Owner_Validate (wb_Owner b) \<noteq> None \<or>
         \<not> sessionIDPattern (wb_SessionID b) \<or> \<not> path_IsAbs (wb_CgroupPath b) \<or>
         \<not> HasPrefix (path_Clean (wb_CgroupPath b)) ''/sys/fs/cgroup/'' \<or> wb_CgroupID b = 0 \<or>
         \<not> boundedPrintable (wb_TargetUser b) 1 64 \<or> wb_ObserverGeneration b = 0 \<or>
         \<not> boundedPrintable (wb_GuestBootID b) 1 128 \<or> wb_CreatedAtMonoNS b = 0
      then Some ErrInvalidExecutionIdentity
      else check (wb_State b \<notin> {''creating'', ''observing'', BoundaryReady, ''draining'', ''empty'',
        BoundaryRemoved, BoundaryUnproved}) ErrInvalidExecutionIdentity)"

record guest_identity =
  gi_UID :: "32 word"
  gi_GID :: "32 word"
  gi_User :: string
  gi_Group :: string

definition GuestIdentity_Validate :: "guest_identity \<Rightarrow> activity_error option" where
  "GuestIdentity_Validate g =
     check (64 < len (gi_User g) \<or> 64 < len (gi_Group g) \<or> containsControl (gi_User g) \<or>
       containsControl (gi_Group g)) ErrInvalidActivity"

record exit_observation =
  xo_Code :: "int option"
  xo_Signal :: "32 word"
  xo_AtMonoNS :: u64
  xo_At :: gotime
  xo_UnknownReason :: string

definition Exit_Validate :: "exit_observation \<Rightarrow> u64 \<Rightarrow> gotime \<Rightarrow> activity_error option" where
  "Exit_Validate x startedAtMonoNS startedAt =
     check (xo_AtMonoNS x < startedAtMonoNS \<or> time_IsZero (xo_At x) \<or> time_Before (xo_At x) startedAt \<or>
       (xo_Code x = None \<and> xo_Signal x = 0 \<and> \<not> operationPattern (xo_UnknownReason x)) \<or>
       (xo_Code x \<noteq> None \<and> xo_Signal x \<noteq> 0) \<or>
       (case xo_Code x of None \<Rightarrow> False | Some code \<Rightarrow> code < 0 \<or> 255 < code) \<or>
       128 < xo_Signal x \<or>
       (xo_UnknownReason x \<noteq> '''' \<and> \<not> operationPattern (xo_UnknownReason x))) ErrInvalidExecutionIdentity"

record execution =
  ex_Schema :: string
  ex_ID :: string
  ex_Owner :: activity_owner
  ex_SessionID :: string
  ex_ParentExecutionID :: string
  ex_GuestBootID :: string
  ex_ObserverGeneration :: u64
  ex_PID :: "32 word"
  ex_TID :: "32 word"
  ex_ExecSequence :: u64
  ex_StartedAtMonoNS :: u64
  ex_StartedAt :: gotime
  ex_Executable :: string
  ex_Argv :: "string list"
  ex_Cwd :: string
  ex_Identity :: guest_identity
  ex_Limitations :: "string list"
  ex_Exit :: "exit_observation option"

definition execution_input :: "execution \<Rightarrow> execution_identity" where
  "execution_input e = \<lparr>ei_Owner = ex_Owner e, ei_SessionID = ex_SessionID e, ei_GuestBootID = ex_GuestBootID e,
     ei_ObserverGeneration = ex_ObserverGeneration e, ei_PID = ex_PID e, ei_ExecSequence = ex_ExecSequence e,
     ei_StartedAtMonoNS = ex_StartedAtMonoNS e\<rparr>"

definition argument_valid :: "string \<Rightarrow> bool" where
  "argument_valid a \<longleftrightarrow> \<not> (8192 < len a \<or> NUL \<in> set a)"

fun limitations_valid :: "string \<Rightarrow> string list \<Rightarrow> bool" where
  "limitations_valid previous [] = True"
| "limitations_valid previous (l # ls) \<longleftrightarrow>
     operationPattern l \<and> \<not> l \<le> previous \<and> limitations_valid l ls"

definition Execution_Validate :: "(execution_identity \<Rightarrow> string) \<Rightarrow> execution \<Rightarrow> activity_error option" where
  "Execution_Validate digest e = first_err
     [check (ex_Schema e \<noteq> ExecutionSchema \<or> \<not> executionIDPattern (ex_ID e) \<or>
        Owner_Validate (ex_Owner e) \<noteq> None \<or> \<not> sessionIDPattern (ex_SessionID e) \<or>
        (ex_ParentExecutionID e \<noteq> '''' \<and> \<not> executionIDPattern (ex_ParentExecutionID e)) \<or>
        \<not> boundedPrintable (ex_GuestBootID e) 1 128 \<or> ex_ObserverGeneration e = 0 \<or>
        ex_PID e = 0 \<or> 4194304 < ex_PID e \<or> ex_TID e = 0 \<or> 4194304 < ex_TID e \<or>
        ex_ExecSequence e = 0 \<or> ex_StartedAtMonoNS e = 0 \<or> time_IsZero (ex_StartedAt e) \<or>
        \<not> boundedPrintable (ex_Executable e) 1 4096 \<or> 1024 < len (ex_Argv e) \<or> 4096 < len (ex_Cwd e) \<or>
        containsControl (ex_Cwd e) \<or> GuestIdentity_Validate (ex_Identity e) \<noteq> None) ErrInvalidExecutionIdentity,
      (case ex_Exit e of None \<Rightarrow> None | Some x \<Rightarrow> Exit_Validate x (ex_StartedAtMonoNS e) (ex_StartedAt e)),
      check (\<not> list_all argument_valid (ex_Argv e)) ErrInvalidExecutionIdentity,
      check (16 < len (ex_Limitations e)) ErrInvalidExecutionIdentity,
      check (\<not> limitations_valid '''' (ex_Limitations e)) ErrInvalidExecutionIdentity,
      check (NewExecutionID digest (execution_input e) \<noteq> Inr (ex_ID e)) ErrInvalidExecutionIdentity]"

section \<open>Activity records\<close>

abbreviation ActivityProcess :: string where "ActivityProcess \<equiv> ''process''"
abbreviation ActivityFile :: string where "ActivityFile \<equiv> ''file''"
abbreviation ActivityConnection :: string where "ActivityConnection \<equiv> ''connection''"
abbreviation ActivityDNS :: string where "ActivityDNS \<equiv> ''dns''"
abbreviation ActivityRisk :: string where "ActivityRisk \<equiv> ''risk''"
abbreviation ActivityCoverage :: string where "ActivityCoverage \<equiv> ''coverage''"
abbreviation AttributionExact :: string where "AttributionExact \<equiv> ''exact''"
abbreviation AttributionInferred :: string where "AttributionInferred \<equiv> ''inferred''"
abbreviation AttributionMediated :: string where "AttributionMediated \<equiv> ''mediated''"
abbreviation AttributionUnknown :: string where "AttributionUnknown \<equiv> ''unknown''"
abbreviation RedactionPending :: string where "RedactionPending \<equiv> ''pending''"
abbreviation RedactionPassed :: string where "RedactionPassed \<equiv> ''passed''"

record actor =
  ac_ExecutionID :: string
  ac_PID :: "32 word"
  ac_UID :: "32 word"
  ac_GID :: "32 word"
  ac_User :: string
  ac_Group :: string

definition Actor_Validate :: "actor \<Rightarrow> activity_error option" where
  "Actor_Validate a =
     check (\<not> executionIDPattern (ac_ExecutionID a) \<or> ac_PID a = 0 \<or> 4194304 < ac_PID a \<or>
       64 < len (ac_User a) \<or> 64 < len (ac_Group a) \<or> containsControl (ac_User a) \<or>
       containsControl (ac_Group a)) ErrInvalidActivity"

record mediator =
  md_Kind :: string
  md_ID :: string
  md_ExecutionID :: string
  md_Attribution :: string
  md_Reason :: string

definition Mediator_Validate :: "mediator \<Rightarrow> activity_error option" where
  "Mediator_Validate m = first_err
     [check (md_Kind m \<notin> {''hostfs'', ''workspace-portal'', ''broker'', ''proxy'', ''resolver'', ''guest-service'', ''unknown''})
        ErrInvalidActivity,
      check (\<not> boundedPrintable (md_ID m) 1 128 \<or>
        (md_ExecutionID m \<noteq> '''' \<and> \<not> executionIDPattern (md_ExecutionID m))) ErrInvalidActivity,
      check (md_Attribution m \<notin> {AttributionExact, AttributionInferred, AttributionUnknown}) ErrInvalidActivity,
      check (md_Reason m \<noteq> '''' \<and> \<not> operationPattern (md_Reason m)) ErrInvalidActivity]"

record outcome =
  oc_Status :: string
  oc_Code :: "int option"
  oc_Signal :: "32 word"
  oc_Reason :: string

definition Outcome_Validate :: "outcome \<Rightarrow> activity_error option" where
  "Outcome_Validate x = first_err
     [check (oc_Status x \<notin> {''succeeded'', ''failed'', ''denied'', ''cancelled'', ''unknown''}) ErrInvalidActivity,
      check (0 < oc_Signal x \<and> 128 < oc_Signal x) ErrInvalidActivity,
      check (oc_Reason x \<noteq> '''' \<and> \<not> operationPattern (oc_Reason x)) ErrInvalidActivity]"

record process_subject =
  ps_Kind :: string
  ps_ExecutionID :: string
  ps_ParentExecutionID :: string
  ps_Executable :: string
  ps_Argv :: "string list"
  ps_Cwd :: string
  ps_GuestIdentity :: guest_identity
  ps_DurationNS :: u64

definition ProcessSubject_Validate :: "process_subject \<Rightarrow> activity_error option" where
  "ProcessSubject_Validate p = first_err
     [check (ps_Kind p \<noteq> ActivityProcess \<or> \<not> executionIDPattern (ps_ExecutionID p) \<or>
        (ps_ParentExecutionID p \<noteq> '''' \<and> \<not> executionIDPattern (ps_ParentExecutionID p)) \<or>
        \<not> boundedPrintable (ps_Executable p) 1 4096 \<or> 1024 < len (ps_Argv p) \<or> 4096 < len (ps_Cwd p) \<or>
        NUL \<in> set (ps_Cwd p) \<or> GuestIdentity_Validate (ps_GuestIdentity p) \<noteq> None) ErrInvalidActivity,
      check (\<not> list_all argument_valid (ps_Argv p)) ErrInvalidActivity]"

record file_subject =
  fs_Kind :: string
  fs_Path :: string
  fs_TargetPath :: string
  fs_PathState :: string
  fs_PathClass :: string
  fs_FileType :: string
  fs_Device :: u64
  fs_Inode :: u64
  fs_MountID :: u64
  fs_Destructive :: bool

definition FileSubject_Validate :: "file_subject \<Rightarrow> activity_error option" where
  "FileSubject_Validate f = first_err
     [check (fs_Kind f \<noteq> ActivityFile \<or> 4096 < len (fs_Path f) \<or> NUL \<in> set (fs_Path f) \<or>
        \<not> ValidString (fs_Path f) \<or> 4096 < len (fs_TargetPath f) \<or> NUL \<in> set (fs_TargetPath f) \<or>
        \<not> ValidString (fs_TargetPath f)) ErrInvalidActivity,
      (if fs_PathState f = ''resolved'' then
         check (fs_Path f = '''' \<or> \<not> path_IsAbs (fs_Path f)) ErrInvalidActivity
       else if fs_PathState f \<in> {''aliased'', ''raced'', ''truncated''} then
         check (fs_Path f = '''') ErrInvalidActivity
       else if fs_PathState f = ''unknown'' then check (fs_Path f \<noteq> '''') ErrInvalidActivity
       else Some ErrInvalidActivity),
      check (fs_PathClass f \<notin> {''workspace'', ''hostfs'', ''profile'', ''runtime'', ''system'', ''external'', ''unknown''})
        ErrInvalidActivity,
      check (fs_FileType f \<notin> {''regular'', ''directory'', ''symlink'', ''socket'', ''fifo'', ''device'', ''unknown''})
        ErrInvalidActivity,
      check (fs_Inode f = 0 \<and> (fs_Device f \<noteq> 0 \<or> fs_MountID f \<noteq> 0)) ErrInvalidActivity]"

record network_subject =
  ns_Kind :: string
  ns_Protocol :: string
  ns_IP :: string
  ns_Port :: "16 word"
  ns_TargetIP :: string
  ns_TargetPort :: "16 word"
  ns_Domain :: string
  ns_DomainAttribution :: string
  ns_CorrelationReason :: string
  ns_Route :: string
  ns_Direction :: string
  ns_SocketCookie :: u64

definition NetworkSubject_Validate :: "(string \<Rightarrow> bool) \<Rightarrow> network_subject \<Rightarrow> activity_error option" where
  "NetworkSubject_Validate parses_ip n = first_err
     [check (ns_Kind n \<noteq> ActivityConnection \<or> (ns_Protocol n \<noteq> ''tcp'' \<and> ns_Protocol n \<noteq> ''udp'') \<or>
        \<not> parses_ip (ns_IP n) \<or> ns_Port n = 0 \<or> (ns_TargetIP n \<noteq> '''' \<and> \<not> parses_ip (ns_TargetIP n)) \<or>
        253 < len (ns_Domain n) \<or> containsControl (ns_Domain n) \<or>
        \<not> operationPattern (ns_CorrelationReason n)) ErrInvalidActivity,
      check ((ns_TargetIP n \<noteq> '''' \<and> ns_Domain n \<noteq> '''') \<or> (ns_TargetIP n \<noteq> '''' \<and> ns_TargetPort n = 0) \<or>
        (ns_Route n = ''proxy'' \<and> ns_Domain n \<noteq> '''' \<and> ns_TargetPort n = 0) \<or>
        (ns_TargetPort n \<noteq> 0 \<and> ns_TargetIP n = '''' \<and> ns_Domain n = '''')) ErrInvalidActivity,
      (if ns_DomainAttribution n \<in> {AttributionExact, AttributionInferred} then
         check (ns_Domain n = '''') ErrInvalidActivity
       else if ns_DomainAttribution n = AttributionUnknown then check (ns_Domain n \<noteq> '''') ErrInvalidActivity
       else Some ErrInvalidActivity),
      check (ns_Route n \<notin> {''direct'', ''proxy'', ''unknown''}) ErrInvalidActivity,
      check (ns_Route n \<noteq> ''proxy'' \<and> (ns_TargetIP n \<noteq> '''' \<or> ns_TargetPort n \<noteq> 0)) ErrInvalidActivity,
      check (ns_Direction n \<notin> {''egress'', ''ingress''}) ErrInvalidActivity]"

record dns_subject =
  ds_Kind :: string
  ds_Query :: string
  ds_QueryType :: string
  ds_Answers :: "string list"
  ds_TTLSeconds :: "32 word"
  ds_ResponseCode :: string
  ds_Resolver :: string

definition DNSSubject_Validate :: "dns_subject \<Rightarrow> activity_error option" where
  "DNSSubject_Validate d = first_err
     [check (ds_Kind d \<noteq> ActivityDNS \<or> \<not> boundedPrintable (ds_Query d) 1 253 \<or>
        \<not> boundedPrintable (ds_QueryType d) 1 16 \<or> 64 < len (ds_Answers d) \<or>
        \<not> boundedPrintable (ds_ResponseCode d) 1 32 \<or> 256 < len (ds_Resolver d) \<or>
        containsControl (ds_Resolver d)) ErrInvalidActivity,
      check (\<not> list_all (\<lambda>a. \<not> (512 < len a \<or> containsControl a)) (ds_Answers d)) ErrInvalidActivity]"

record generic_subject =
  gs_Kind :: string
  gs_Code :: string
  gs_Summary :: string

definition GenericSubject_Validate :: "generic_subject \<Rightarrow> activity_error option" where
  "GenericSubject_Validate g =
     check (\<not> operationPattern (gs_Kind g) \<or> \<not> operationPattern (gs_Code g) \<or> 2048 < len (gs_Summary g) \<or>
       containsControl (gs_Summary g)) ErrInvalidActivity"

text \<open>The dynamic type of a subject; \<open>NoSubject\<close> is a nil pointer or a type outside the union.\<close>

datatype activity_subject =
    ProcessSubject process_subject | FileSubject file_subject | NetworkSubject network_subject
  | DNSSubject dns_subject | GenericSubject generic_subject | NoSubject

fun validateActivitySubject :: "(string \<Rightarrow> bool) \<Rightarrow> string \<Rightarrow> activity_subject \<Rightarrow> activity_error option" where
  "validateActivitySubject parses_ip kind (ProcessSubject p) =
     (if kind \<noteq> ActivityProcess then Some ErrInvalidActivity else ProcessSubject_Validate p)"
| "validateActivitySubject parses_ip kind (FileSubject f) =
     (if kind \<noteq> ActivityFile then Some ErrInvalidActivity else FileSubject_Validate f)"
| "validateActivitySubject parses_ip kind (NetworkSubject n) =
     (if kind \<noteq> ActivityConnection then Some ErrInvalidActivity else NetworkSubject_Validate parses_ip n)"
| "validateActivitySubject parses_ip kind (DNSSubject d) =
     (if kind \<noteq> ActivityDNS then Some ErrInvalidActivity else DNSSubject_Validate d)"
| "validateActivitySubject parses_ip kind (GenericSubject g) =
     (if kind \<noteq> ActivityRisk \<and> kind \<noteq> ActivityCoverage then Some ErrInvalidActivity else GenericSubject_Validate g)"
| "validateActivitySubject parses_ip kind NoSubject = Some ErrInvalidActivity"

record activity_record =
  ar_Schema :: string
  ar_ID :: string
  ar_Owner :: activity_owner
  ar_SessionID :: string
  ar_Actor :: "actor option"
  ar_Mediator :: "mediator option"
  ar_Kind :: string
  ar_Operation :: string
  ar_Subject :: activity_subject
  ar_Outcome :: outcome
  ar_Count :: u64
  ar_Bytes :: u64
  ar_FirstAt :: gotime
  ar_LastAt :: gotime
  ar_FirstSequence :: u64
  ar_LastSequence :: u64
  ar_Attribution :: string
  ar_Truncation :: "string list"
  ar_CoverageID :: string
  ar_RedactionStatus :: string

definition validActivityKind :: "string \<Rightarrow> bool" where
  "validActivityKind k \<longleftrightarrow> k \<in> {ActivityProcess, ActivityFile, ActivityConnection, ActivityDNS, ActivityRisk, ActivityCoverage}"

definition validAttribution :: "string \<Rightarrow> bool" where
  "validAttribution a \<longleftrightarrow> a \<in> {AttributionExact, AttributionInferred, AttributionMediated, AttributionUnknown}"

definition Record_Validate :: "(string \<Rightarrow> bool) \<Rightarrow> activity_record \<Rightarrow> activity_error option" where
  "Record_Validate parses_ip r = first_err
     [check (ar_Schema r \<noteq> ActivityRecordSchema \<or> \<not> activityIDPattern (ar_ID r) \<or>
        Owner_Validate (ar_Owner r) \<noteq> None \<or> \<not> sessionIDPattern (ar_SessionID r) \<or>
        \<not> validActivityKind (ar_Kind r) \<or> \<not> operationPattern (ar_Operation r) \<or> ar_Count r = 0 \<or>
        time_IsZero (ar_FirstAt r) \<or> time_IsZero (ar_LastAt r) \<or> time_Before (ar_LastAt r) (ar_FirstAt r) \<or>
        ar_LastSequence r < ar_FirstSequence r \<or> \<not> validAttribution (ar_Attribution r) \<or>
        \<not> coverageIDPattern (ar_CoverageID r) \<or>
        (ar_RedactionStatus r \<noteq> RedactionPending \<and> ar_RedactionStatus r \<noteq> RedactionPassed) \<or>
        32 < len (ar_Truncation r)) ErrInvalidActivity,
      check (case ar_Actor r of None \<Rightarrow> False | Some a \<Rightarrow> Actor_Validate a \<noteq> None) ErrInvalidActivity,
      check (case ar_Mediator r of None \<Rightarrow> False | Some m \<Rightarrow> Mediator_Validate m \<noteq> None) ErrInvalidActivity,
      Outcome_Validate (ar_Outcome r),
      validateActivitySubject parses_ip (ar_Kind r) (ar_Subject r),
      check (\<not> (list_all operationPattern (ar_Truncation r) \<and> distinct (ar_Truncation r))) ErrInvalidActivity]"

definition ValidatePersistable :: "(string \<Rightarrow> bool) \<Rightarrow> activity_record \<Rightarrow> activity_error option" where
  "ValidatePersistable parses_ip r = first_err
     [Record_Validate parses_ip r, check (ar_RedactionStatus r \<noteq> RedactionPassed) ErrNotRedacted]"

definition Record_ValidateForOwner ::
  "(string \<Rightarrow> bool) \<Rightarrow> activity_record \<Rightarrow> activity_owner \<Rightarrow> activity_error option" where
  "Record_ValidateForOwner parses_ip r o1 = first_err
     [Owner_Validate o1, check (\<not> Owner_Equal (ar_Owner r) o1) ErrOwnerMismatch, Record_Validate parses_ip r]"

section \<open>Coverage intervals\<close>

abbreviation CoverageAvailable :: string where "CoverageAvailable \<equiv> ''Available''"
abbreviation CoveragePartial :: string where "CoveragePartial \<equiv> ''Partial''"
abbreviation CoverageUnavailable :: string where "CoverageUnavailable \<equiv> ''Unavailable''"

abbreviation SubsystemProcess :: string where "SubsystemProcess \<equiv> ''process''"
abbreviation SubsystemFile :: string where "SubsystemFile \<equiv> ''file''"
abbreviation SubsystemNetwork :: string where "SubsystemNetwork \<equiv> ''network''"
abbreviation SubsystemDNS :: string where "SubsystemDNS \<equiv> ''dns''"

definition validSubsystem :: "string \<Rightarrow> bool" where
  "validSubsystem s \<longleftrightarrow> s \<in> {SubsystemProcess, SubsystemFile, SubsystemNetwork, SubsystemDNS}"

record coverage_evidence =
  ce_Code :: string
  ce_Value :: string

record coverage_interval =
  ci_Schema :: string
  ci_ID :: string
  ci_Owner :: activity_owner
  ci_SessionID :: string
  ci_Subsystem :: string
  ci_State :: string
  ci_Reason :: string
  ci_CollectorGeneration :: u64
  ci_DroppedEventCount :: u64
  ci_RetentionGap :: bool
  ci_Evidence :: "coverage_evidence list"
  ci_StartSequence :: u64
  ci_EndSequence :: "u64 option"
  ci_StartedAt :: gotime
  ci_EndedAt :: "gotime option"

definition evidence_valid :: "coverage_evidence \<Rightarrow> bool" where
  "evidence_valid e \<longleftrightarrow>
     boundedPrintable (ce_Code e) 1 128 \<and> \<not> 1024 < len (ce_Value e) \<and> \<not> containsControl (ce_Value e)"

definition Interval_Validate :: "coverage_interval \<Rightarrow> activity_error option" where
  "Interval_Validate i = first_err
     [check (ci_Schema i \<noteq> CoverageIntervalSchema \<or> \<not> coverageIDPattern (ci_ID i) \<or>
        Owner_Validate (ci_Owner i) \<noteq> None \<or> \<not> sessionIDPattern (ci_SessionID i) \<or>
        \<not> validSubsystem (ci_Subsystem i) \<or> \<not> operationPattern (ci_Reason i) \<or>
        ci_CollectorGeneration i = 0 \<or> time_IsZero (ci_StartedAt i) \<or> 256 < len (ci_Evidence i)) ErrInvalidCoverage,
      (if ci_State i = CoverageAvailable then
         check (ci_DroppedEventCount i \<noteq> 0 \<or> ci_RetentionGap i) ErrFalseAvailableCoverage
       else check (ci_State i \<noteq> CoveragePartial \<and> ci_State i \<noteq> CoverageUnavailable) ErrInvalidCoverage),
      check (case ci_EndSequence i of None \<Rightarrow> False | Some n \<Rightarrow> n < ci_StartSequence i) ErrInvalidCoverage,
      check (case ci_EndedAt i of None \<Rightarrow> False | Some t \<Rightarrow> time_Before t (ci_StartedAt i)) ErrInvalidCoverage,
      check (\<not> list_all evidence_valid (ci_Evidence i)) ErrInvalidCoverage]"

definition Interval_ValidateForOwner :: "coverage_interval \<Rightarrow> activity_owner \<Rightarrow> activity_error option" where
  "Interval_ValidateForOwner i o1 = first_err
     [Owner_Validate o1, check (\<not> Owner_Equal (ci_Owner i) o1) ErrOwnerMismatch, Interval_Validate i]"

text \<open>A valid interval that claims \<open>Available\<close> knows of no loss.\<close>

lemma Available_no_loss:
  "Interval_Validate i = None \<Longrightarrow> ci_State i = CoverageAvailable \<Longrightarrow> ci_DroppedEventCount i = 0 \<and> \<not> ci_RetentionGap i"
  by (simp add: Interval_Validate_def)

section \<open>Retention policies\<close>

record retention_policy =
  rp_MaxBytes :: int
  rp_MaxAgeSeconds :: int

definition RetentionPolicy_Validate :: "retention_policy \<Rightarrow> activity_error option" where
  "RetentionPolicy_Validate p =
     check (rp_MaxBytes p < 1024 \<or> 10737418240 < rp_MaxBytes p \<or> rp_MaxAgeSeconds p < 0 \<or>
       31536000 < rp_MaxAgeSeconds p) ErrActivityRetentionPolicy"

end
