(* ===== verification/Coverage_Timeline.thy ===== *)
theory Coverage_Timeline
  imports Activity_Model
begin

text \<open>
  The coverage timeline of one subsystem of one session: \<open>internal/workloadobs/coverage/coverage.go\<close> and
  \<open>reasons.go\<close>. A timeline is the list of its intervals; a transition closes the last one and opens the
  next. The clock and the generator of interval identifiers are arguments.
\<close>

section \<open>Reasons\<close>

record reason_definition =
  rd_Code :: string
  rd_AllowedStates :: "string list"
  rd_Loss :: bool
  rd_RequiresLossEvidence :: bool

definition reasonRegistry :: "(string \<times> string list \<times> bool \<times> bool) list" where
  "reasonRegistry =
     [(''observer-ready'', [CoverageAvailable], False, False),
      (''collector-recovered'', [CoverageAvailable], False, False),
      (''observer-starting'', [CoveragePartial], False, False),
      (''observer-restarted'', [CoveragePartial, CoverageUnavailable], True, False),
      (''collector-partial'', [CoveragePartial], False, False),
      (''collector-unavailable'', [CoverageUnavailable], False, False),
      (''backend-unsupported'', [CoverageUnavailable], False, False),
      (''cgroup-unavailable'', [CoverageUnavailable], False, False),
      (''hook-unavailable'', [CoveragePartial, CoverageUnavailable], False, False),
      (''bpf-unavailable'', [CoveragePartial, CoverageUnavailable], False, False),
      (''fanotify-unavailable'', [CoveragePartial, CoverageUnavailable], False, False),
      (''permission-denied'', [CoveragePartial, CoverageUnavailable], False, False),
      (''collector-restarted'', [CoveragePartial, CoverageUnavailable], True, False),
      (''sequence-gap'', [CoveragePartial, CoverageUnavailable], True, True),
      (''ring-overflow'', [CoveragePartial, CoverageUnavailable], True, True),
      (''transport-drop'', [CoveragePartial, CoverageUnavailable], True, True),
      (''invalid-frame'', [CoveragePartial, CoverageUnavailable], True, True),
      (''schema-mismatch'', [CoveragePartial, CoverageUnavailable], True, True),
      (''path-unresolved'', [CoveragePartial], False, False),
      (''actor-unresolved'', [CoveragePartial], False, False),
      (''encrypted-dns'', [CoveragePartial], False, False),
      (''redaction-dropped'', [CoveragePartial, CoverageUnavailable], True, True),
      (''retention-pruned'', [CoveragePartial], True, False),
      (''quota-pruned'', [CoveragePartial], True, False),
      (''store-corrupt'', [CoveragePartial, CoverageUnavailable], True, False),
      (''owner-cleaned'', [CoverageUnavailable], False, False),
      (''daemon-disconnected'', [CoverageUnavailable], True, False),
      (''cleanup-unproved'', [CoverageUnavailable], False, False),
      (''target-exited'', [CoverageUnavailable], False, False),
      (''target-tamper'', [CoveragePartial, CoverageUnavailable], True, False)]"

definition Reason :: "string \<Rightarrow> reason_definition option" where
  "Reason code = map_option (\<lambda>(states, loss, requires). \<lparr>rd_Code = code, rd_AllowedStates = states,
     rd_Loss = loss, rd_RequiresLossEvidence = requires\<rparr>) (map_of reasonRegistry code)"

definition Reasons :: "reason_definition list" where
  "Reasons = map (\<lambda>code. the (Reason code)) (sort (map fst reasonRegistry))"

section \<open>Timelines\<close>

datatype coverage_error = ErrInvalidTransition | ErrTimelineEmpty | ErrCoverageID | CoverageModelError activity_error

record coverage_transition =
  tr_State :: string
  tr_Reason :: string
  tr_CollectorGeneration :: u64
  tr_DroppedEventCount :: u64
  tr_RetentionGap :: bool
  tr_Evidence :: "coverage_evidence list"
  tr_Sequence :: u64
  tr_At :: gotime

record timeline =
  tl_owner :: activity_owner
  tl_sessionID :: string
  tl_subsystem :: string
  tl_intervals :: "coverage_interval list"

definition probe_interval :: "activity_owner \<Rightarrow> string \<Rightarrow> string \<Rightarrow> coverage_interval" where
  "probe_interval owner sessionID subsystem =
     \<lparr>ci_Schema = CoverageIntervalSchema, ci_ID = ''cov_validation'', ci_Owner = owner, ci_SessionID = sessionID,
      ci_Subsystem = subsystem, ci_State = CoverageAvailable, ci_Reason = ''observer-ready'',
      ci_CollectorGeneration = 1, ci_DroppedEventCount = 0, ci_RetentionGap = False, ci_Evidence = [],
      ci_StartSequence = 0, ci_EndSequence = None, ci_StartedAt = GoTime 62135596801000000000 0, ci_EndedAt = None\<rparr>"

definition NewTimeline :: "activity_owner \<Rightarrow> string \<Rightarrow> string \<Rightarrow> coverage_error + timeline" where
  "NewTimeline owner sessionID subsystem =
     (case first_err [Owner_Validate owner, Interval_Validate (probe_interval owner sessionID subsystem)] of
        Some e \<Rightarrow> Inl (CoverageModelError e)
      | None \<Rightarrow> Inr \<lparr>tl_owner = owner, tl_sessionID = sessionID, tl_subsystem = subsystem, tl_intervals = []\<rparr>)"

text \<open>The checks on the open interval, and the intervals with that one closed.\<close>

definition close_current :: "timeline \<Rightarrow> coverage_transition \<Rightarrow> gotime \<Rightarrow> coverage_error + coverage_interval list" where
  "close_current tml next at =
     (if tl_intervals tml = [] then Inr []
      else let current = last (tl_intervals tml) in
        if time_Before at (ci_StartedAt current) then Inl ErrInvalidTransition
        else if tr_CollectorGeneration next < ci_CollectorGeneration current then Inl ErrInvalidTransition
        else if tr_CollectorGeneration next = ci_CollectorGeneration current \<and>
                tr_Sequence next < ci_StartSequence current then Inl ErrInvalidTransition
        else let closed = current\<lparr>ci_EndedAt := Some at, ci_EndSequence := Some (tr_Sequence next)\<rparr> in
          (case Interval_Validate closed of
             Some e \<Rightarrow> Inl (CoverageModelError e)
           | None \<Rightarrow> Inr (butlast (tl_intervals tml) @ [closed])))"

definition new_interval :: "timeline \<Rightarrow> coverage_transition \<Rightarrow> gotime \<Rightarrow> string \<Rightarrow> coverage_interval" where
  "new_interval tml next at id1 =
     \<lparr>ci_Schema = CoverageIntervalSchema, ci_ID = id1, ci_Owner = tl_owner tml, ci_SessionID = tl_sessionID tml,
      ci_Subsystem = tl_subsystem tml, ci_State = tr_State next, ci_Reason = tr_Reason next,
      ci_CollectorGeneration = tr_CollectorGeneration next, ci_DroppedEventCount = tr_DroppedEventCount next,
      ci_RetentionGap = tr_RetentionGap next, ci_Evidence = tr_Evidence next,
      ci_StartSequence = tr_Sequence next, ci_EndSequence = None, ci_StartedAt = at, ci_EndedAt = None\<rparr>"

definition transition_at :: "gotime \<Rightarrow> coverage_transition \<Rightarrow> gotime" where
  "transition_at now next = (if time_IsZero (tr_At next) then time_UTC now else time_UTC (tr_At next))"

definition transition_refused :: "coverage_transition \<Rightarrow> coverage_error option" where
  "transition_refused next =
     (case Reason (tr_Reason next) of
        None \<Rightarrow> Some ErrInvalidTransition
      | Some d \<Rightarrow> first_err
          [check (tr_State next \<notin> set (rd_AllowedStates d) \<or> tr_CollectorGeneration next = 0) ErrInvalidTransition,
           check (rd_RequiresLossEvidence d \<and> tr_DroppedEventCount next = 0 \<and> \<not> tr_RetentionGap next) ErrInvalidTransition,
           check (tr_State next = CoverageAvailable \<and> (tr_DroppedEventCount next \<noteq> 0 \<or> tr_RetentionGap next))
             (CoverageModelError ErrFalseAvailableCoverage)])"

definition transitionLocked ::
  "gotime \<Rightarrow> string option \<Rightarrow> timeline \<Rightarrow> coverage_transition \<Rightarrow> (coverage_error + coverage_interval) \<times> timeline" where
  "transitionLocked now newID tml next =
     (case transition_refused next of
        Some e \<Rightarrow> (Inl e, tml)
      | None \<Rightarrow>
        let at = transition_at now next in
        (case close_current tml next at of
           Inl e \<Rightarrow> (Inl e, tml)
         | Inr before \<Rightarrow>
           (case newID of
              None \<Rightarrow> (Inl ErrCoverageID, tml)
            | Some id1 \<Rightarrow>
              let interval = new_interval tml next at id1 in
              (case Interval_ValidateForOwner interval (tl_owner tml) of
                 Some e \<Rightarrow> (Inl (CoverageModelError e), tml)
               | None \<Rightarrow> (Inr interval, tml\<lparr>tl_intervals := before @ [interval]\<rparr>)))))"

definition currentGenerationLocked :: "timeline \<Rightarrow> u64" where
  "currentGenerationLocked tml =
     (if tl_intervals tml = [] then 1 else ci_CollectorGeneration (last (tl_intervals tml)))"

definition MarkLoss ::
  "gotime \<Rightarrow> string option \<Rightarrow> timeline \<Rightarrow> string \<Rightarrow> u64 \<Rightarrow> u64 \<Rightarrow> gotime \<Rightarrow> (coverage_error + coverage_interval) \<times> timeline" where
  "MarkLoss now newID tml reason dropped sequence at =
     (if dropped = 0 then (Inl ErrInvalidTransition, tml)
      else transitionLocked now newID tml \<lparr>tr_State = CoveragePartial, tr_Reason = reason,
        tr_CollectorGeneration = currentGenerationLocked tml, tr_DroppedEventCount = dropped,
        tr_RetentionGap = False, tr_Evidence = [], tr_Sequence = sequence, tr_At = at\<rparr>)"

definition MarkRetentionGap ::
  "gotime \<Rightarrow> string option \<Rightarrow> timeline \<Rightarrow> string \<Rightarrow> u64 \<Rightarrow> gotime \<Rightarrow> (coverage_error + coverage_interval) \<times> timeline" where
  "MarkRetentionGap now newID tml reason sequence at =
     transitionLocked now newID tml \<lparr>tr_State = CoveragePartial, tr_Reason = reason,
       tr_CollectorGeneration = currentGenerationLocked tml, tr_DroppedEventCount = 0,
       tr_RetentionGap = True, tr_Evidence = [], tr_Sequence = sequence, tr_At = at\<rparr>"

definition Timeline_Current :: "timeline \<Rightarrow> coverage_error + coverage_interval" where
  "Timeline_Current tml =
     (if tl_intervals tml = [] then Inl ErrTimelineEmpty else Inr (last (tl_intervals tml)))"

definition in_window :: "gotime \<Rightarrow> gotime \<Rightarrow> coverage_interval \<Rightarrow> bool" where
  "in_window from to i \<longleftrightarrow>
     \<not> (\<not> time_IsZero from \<and> (case ci_EndedAt i of None \<Rightarrow> False | Some e \<Rightarrow> time_Before e from)) \<and>
     \<not> (\<not> time_IsZero to \<and> time_After (ci_StartedAt i) to)"

definition Timeline_Intervals :: "timeline \<Rightarrow> gotime \<Rightarrow> gotime \<Rightarrow> coverage_interval list" where
  "Timeline_Intervals tml from to =
     (if \<not> time_IsZero from \<and> \<not> time_IsZero to \<and> time_Before to from then []
      else filter (in_window from to) (tl_intervals tml))"

text \<open>\<open>StateAt\<close> searches from the last interval backwards.\<close>

definition covers :: "gotime \<Rightarrow> coverage_interval \<Rightarrow> bool" where
  "covers at i \<longleftrightarrow> \<not> time_Before at (ci_StartedAt i) \<and>
     (case ci_EndedAt i of None \<Rightarrow> True | Some e \<Rightarrow> \<not> time_After at e)"

definition StateAt :: "timeline \<Rightarrow> gotime \<Rightarrow> coverage_interval option" where
  "StateAt tml at = (if time_IsZero at then None else find (covers at) (rev (tl_intervals tml)))"

definition interval_clean :: "coverage_interval \<Rightarrow> bool" where
  "interval_clean i \<longleftrightarrow> ci_State i = CoverageAvailable \<and> ci_DroppedEventCount i = 0 \<and> \<not> ci_RetentionGap i"

definition GapReasons :: "timeline \<Rightarrow> gotime \<Rightarrow> gotime \<Rightarrow> string list" where
  "GapReasons tml from to =
     sort (foldl (\<lambda>reasons i. if interval_clean i \<or> ci_Reason i \<in> set reasons then reasons else reasons @ [ci_Reason i])
       [] (Timeline_Intervals tml from to))"

record coverage_summary =
  cs_CurrentState :: string
  cs_CurrentReason :: string
  cs_Intervals :: nat
  cs_DegradedIntervals :: nat
  cs_DroppedEventCount :: u64
  cs_RetentionGap :: bool
  cs_CollectorGeneration :: u64

definition Timeline_Summary :: "timeline \<Rightarrow> coverage_summary" where
  "Timeline_Summary tml =
     (let is = tl_intervals tml; open = (if is = [] then None else Some (last is)) in
      \<lparr>cs_CurrentState = (case open of None \<Rightarrow> '''' | Some i \<Rightarrow> ci_State i),
       cs_CurrentReason = (case open of None \<Rightarrow> '''' | Some i \<Rightarrow> ci_Reason i),
       cs_Intervals = length is,
       cs_DegradedIntervals = length (filter (\<lambda>i. ci_State i \<noteq> CoverageAvailable) is),
       cs_DroppedEventCount = sum_list (map ci_DroppedEventCount is),
       cs_RetentionGap = list_ex ci_RetentionGap is,
       cs_CollectorGeneration = (case open of None \<Rightarrow> 0 | Some i \<Rightarrow> ci_CollectorGeneration i)\<rparr>)"

section \<open>Operations in sequence\<close>

datatype timeline_op =
    Do_Transition coverage_transition
  | Do_MarkLoss string u64 u64 gotime
  | Do_MarkRetentionGap string u64 gotime

fun timeline_do ::
  "gotime \<Rightarrow> string option \<Rightarrow> timeline_op \<Rightarrow> timeline \<Rightarrow> (coverage_error + coverage_interval) \<times> timeline" where
  "timeline_do now newID (Do_Transition next) tml = transitionLocked now newID tml next"
| "timeline_do now newID (Do_MarkLoss reason dropped sequence at) tml = MarkLoss now newID tml reason dropped sequence at"
| "timeline_do now newID (Do_MarkRetentionGap reason sequence at) tml = MarkRetentionGap now newID tml reason sequence at"

inductive timeline_later :: "timeline \<Rightarrow> timeline \<Rightarrow> bool" where
  same: "timeline_later tml tml"
| later: "timeline_later tml tl1 \<Longrightarrow> timeline_do now newID op1 tl1 = (r, tl2) \<Longrightarrow> timeline_later tml tl2"

section \<open>Lemmas\<close>

text \<open>The shape of a transition: refused with the timeline as it was, or the last interval is closed and a
  new one follows it.\<close>

lemma transition_error: "transitionLocked now newID tml next = (Inl e, tml') \<Longrightarrow> tml' = tml"
  by (auto simp: transitionLocked_def Let_def split: option.splits sum.splits)

lemma transition_ok:
  assumes "transitionLocked now newID tml next = (Inr i, tml')"
  shows "\<exists>before. close_current tml next (transition_at now next) = Inr before \<and>
    i = new_interval tml next (transition_at now next) (the newID) \<and> Interval_Validate i = None \<and>
    tl_intervals tml' = before @ [i] \<and> transition_refused next = None"
  using assms by (auto simp: transitionLocked_def Let_def Interval_ValidateForOwner_def split: option.splits sum.splits)

definition closed_by :: "coverage_interval \<Rightarrow> coverage_transition \<Rightarrow> gotime \<Rightarrow> coverage_interval" where
  "closed_by i next at = i\<lparr>ci_EndedAt := Some at, ci_EndSequence := Some (tr_Sequence next)\<rparr>"

lemma close_current_ok:
  assumes "close_current tml next at = Inr before" "tl_intervals tml \<noteq> []"
  shows "before = butlast (tl_intervals tml) @ [closed_by (last (tl_intervals tml)) next at]"
    "Interval_Validate (closed_by (last (tl_intervals tml)) next at) = None"
    "ci_CollectorGeneration (last (tl_intervals tml)) \<le> tr_CollectorGeneration next"
    "\<not> time_Before at (ci_StartedAt (last (tl_intervals tml)))"
  using assms by (auto simp: close_current_def Let_def closed_by_def split: if_splits option.splits)

lemma close_current_Nil: "tl_intervals tml = [] \<Longrightarrow> close_current tml next at = Inr before \<Longrightarrow> before = []"
  by (simp add: close_current_def)

text \<open>Two consecutive intervals meet: the earlier ends when and where the later begins.\<close>

definition meets :: "coverage_interval \<Rightarrow> coverage_interval \<Rightarrow> bool" where
  "meets i j \<longleftrightarrow> ci_EndedAt i = Some (ci_StartedAt j) \<and> ci_EndSequence i = Some (ci_StartSequence j) \<and>
     ci_CollectorGeneration i \<le> ci_CollectorGeneration j \<and> \<not> time_Before (ci_StartedAt j) (ci_StartedAt i)"

definition is_open :: "coverage_interval \<Rightarrow> bool" where
  "is_open i \<longleftrightarrow> ci_EndedAt i = None \<and> ci_EndSequence i = None"

fun contiguous :: "coverage_interval list \<Rightarrow> bool" where
  "contiguous [] = True"
| "contiguous [i] = is_open i"
| "contiguous (i # j # is) \<longleftrightarrow> meets i j \<and> contiguous (j # is)"

lemma contiguous_extend:
  "contiguous (is @ [i]) \<Longrightarrow> meets i' j \<Longrightarrow> is_open j \<Longrightarrow> ci_StartedAt i' = ci_StartedAt i \<Longrightarrow>
     ci_StartSequence i' = ci_StartSequence i \<Longrightarrow> ci_CollectorGeneration i' = ci_CollectorGeneration i \<Longrightarrow>
     contiguous (is @ [i', j])"
proof (induction "is" rule: contiguous.induct)
  case (3 a b "is")
  then show ?case by simp
qed (simp_all add: meets_def)

lemma contiguous_transition:
  assumes "contiguous (tl_intervals tml)" "transitionLocked now newID tml next = (Inr i, tml')"
  shows "contiguous (tl_intervals tml')"
proof -
  let ?at = "transition_at now next"
  from transition_ok[OF assms(2)] obtain before where c: "close_current tml next ?at = Inr before"
    and i: "i = new_interval tml next ?at (the newID)" and t: "tl_intervals tml' = before @ [i]" by blast
  show ?thesis
  proof (cases "tl_intervals tml = []")
    case True
    then show ?thesis using close_current_Nil[OF True c] t i by (simp add: is_open_def new_interval_def)
  next
    case False
    let ?l = "last (tl_intervals tml)"
    note ok = close_current_ok[OF c False]
    have "contiguous (butlast (tl_intervals tml) @ [?l])" using assms(1) False by simp
    moreover have "meets (closed_by ?l next ?at) i" using ok by (simp add: meets_def closed_by_def i new_interval_def)
    moreover have "is_open i" by (simp add: is_open_def i new_interval_def)
    ultimately show ?thesis using ok(1) t contiguous_extend[of "butlast (tl_intervals tml)" ?l "closed_by ?l next ?at" i]
      by (simp add: closed_by_def)
  qed
qed

lemma valid_transition:
  assumes "list_all (\<lambda>i. Interval_Validate i = None) (tl_intervals tml)" "transitionLocked now newID tml next = (Inr i, tml')"
  shows "list_all (\<lambda>i. Interval_Validate i = None) (tl_intervals tml')"
proof -
  from transition_ok[OF assms(2)] obtain before where c: "close_current tml next (transition_at now next) = Inr before"
    and i: "Interval_Validate i = None" and t: "tl_intervals tml' = before @ [i]" by blast
  show ?thesis
  proof (cases "tl_intervals tml = []")
    case True
    then show ?thesis using close_current_Nil[OF True c] t i by simp
  next
    case False
    have "list_all (\<lambda>i. Interval_Validate i = None) (butlast (tl_intervals tml))"
      using assms(1) by (auto simp: list_all_iff dest: in_set_butlastD)
    then show ?thesis using close_current_ok(1,2)[OF c False] i t by simp
  qed
qed

text \<open>An operation is a transition, or changes nothing.\<close>

lemma timeline_do_cases:
  assumes "timeline_do now newID op1 tml = (r, tml')"
  obtains "tml' = tml" | "next" i where "transitionLocked now newID tml next = (Inr i, tml')" "r = Inr i"
proof -
  have "tml' = tml \<or> (\<exists>next i. transitionLocked now newID tml next = (Inr i, tml') \<and> r = Inr i)"
    using assms transition_error[of now newID tml]
    by (cases op1; cases r) (auto simp: MarkLoss_def MarkRetentionGap_def split: if_splits)
  then show thesis using that by blast
qed

lemma timeline_later_inv:
  assumes "timeline_later tml tml'" "contiguous (tl_intervals tml)"
    "list_all (\<lambda>i. Interval_Validate i = None) (tl_intervals tml)"
  shows "contiguous (tl_intervals tml') \<and> list_all (\<lambda>i. Interval_Validate i = None) (tl_intervals tml')"
  using assms
proof (induction rule: timeline_later.induct)
  case (later tml tml1 now newID op1 r tml2)
  from later.hyps(2) show ?case
  proof (cases rule: timeline_do_cases)
    case 1
    then show ?thesis using later by simp
  next
    case (2 "next" i)
    then show ?thesis using later contiguous_transition valid_transition by blast
  qed
qed simp

text \<open>A later timeline keeps every interval, up to the end of the one that was open.\<close>

definition same_interval :: "coverage_interval \<Rightarrow> coverage_interval \<Rightarrow> bool" where
  "same_interval i j \<longleftrightarrow> ci_ID i = ci_ID j \<and> ci_State i = ci_State j \<and> ci_Reason i = ci_Reason j \<and>
     ci_DroppedEventCount i = ci_DroppedEventCount j \<and> ci_RetentionGap i = ci_RetentionGap j \<and>
     ci_StartedAt i = ci_StartedAt j \<and> ci_StartSequence i = ci_StartSequence j"

lemma timeline_transition_keeps:
  assumes "transitionLocked now newID tml next = (Inr j, tml')" "i \<in> set (tl_intervals tml)"
  shows "\<exists>i' \<in> set (tl_intervals tml'). same_interval i i'"
proof -
  from transition_ok[OF assms(1)] obtain before where c: "close_current tml next (transition_at now next) = Inr before"
    and t: "tl_intervals tml' = before @ [j]" by blast
  have ne: "tl_intervals tml \<noteq> []" using assms(2) by auto
  note ok = close_current_ok(1)[OF c ne]
  have "i \<in> set (butlast (tl_intervals tml)) \<or> i = last (tl_intervals tml)"
    using assms(2) ne by (metis append_butlast_last_id in_set_conv_decomp rotate1.simps(2) set_ConsD set_rotate1)
  then show ?thesis using ok t by (auto simp: same_interval_def closed_by_def)
qed

lemma later_keeps:
  assumes "timeline_later tml tml'" "i \<in> set (tl_intervals tml)"
  shows "\<exists>i' \<in> set (tl_intervals tml'). same_interval i i'"
  using assms
proof (induction rule: timeline_later.induct)
  case (same tml)
  then show ?case by (auto simp: same_interval_def)
next
  case (later tml tml1 now newID op1 r tml2)
  then obtain i1 where i1: "i1 \<in> set (tl_intervals tml1)" "same_interval i i1" by blast
  from later.hyps(2) show ?case
  proof (cases rule: timeline_do_cases)
    case 1
    then show ?thesis using i1 by auto
  next
    case (2 "next" j)
    then show ?thesis using timeline_transition_keeps[OF 2(1) i1(1)] i1(2) by (fastforce simp: same_interval_def)
  qed
qed

lemma set_gap_fold:
  "set (foldl (\<lambda>reasons i. if interval_clean i \<or> ci_Reason i \<in> set reasons then reasons else reasons @ [ci_Reason i]) rs is) =
   set rs \<union> ci_Reason ` {i \<in> set is. \<not> interval_clean i}"
  by (induction "is" arbitrary: rs) auto

lemma set_GapReasons:
  "set (GapReasons tml from to) = ci_Reason ` {i \<in> set (Timeline_Intervals tml from to). \<not> interval_clean i}"
  by (simp add: GapReasons_def set_gap_fold)

text \<open>On a contiguous timeline \<open>StateAt\<close> finds the last interval that has started.\<close>

abbreviation started :: "gotime \<Rightarrow> coverage_interval \<Rightarrow> bool" where
  "started at i \<equiv> \<not> time_Before at (ci_StartedAt i)"

lemma find_append: "find P (xs @ ys) = (case find P xs of None \<Rightarrow> find P ys | Some x \<Rightarrow> Some x)"
  by (induction xs) auto

lemma contiguous_starts:
  "contiguous (i # is) \<Longrightarrow> j \<in> set is \<Longrightarrow> instant (ci_StartedAt i) \<le> instant (ci_StartedAt j)"
proof (induction "is" arbitrary: i)
  case (Cons k ks)
  then have "instant (ci_StartedAt i) \<le> instant (ci_StartedAt k)" by (simp add: meets_def time_After_def)
  then show ?case using Cons by (cases "j = k") fastforce+
qed simp

lemma find_covers:
  "contiguous (i # is) \<Longrightarrow> started at i \<Longrightarrow> find (covers at) (rev (i # is)) = Some (last (filter (started at) (i # is)))"
proof (induction "is" arbitrary: i)
  case Nil
  then show ?case by (simp add: covers_def is_open_def)
next
  case (Cons j js)
  then have m: "meets i j" "contiguous (j # js)" by simp_all
  show ?case
  proof (cases "started at j")
    case True
    then have f: "find (covers at) (rev (j # js)) = Some (last (filter (started at) (j # js)))" by (rule Cons.IH[OF m(2)])
    have "find (covers at) (rev (i # j # js)) = find (covers at) (rev (j # js) @ [i])" by simp
    then show ?thesis using f True Cons.prems(2) unfolding find_append f by simp
  next
    case False
    then have n: "\<not> started at k" if "k \<in> set (j # js)" for k
      using that contiguous_starts[OF m(2), of k] by (auto simp: time_After_def)
    then have "find (covers at) (rev (j # js)) = None" by (auto simp: find_None_iff covers_def)
    moreover have "covers at i" using m(1) False Cons.prems(2) by (simp add: covers_def meets_def time_After_def)
    moreover have "filter (started at) (j # js) = []" using n by (auto simp: filter_empty_conv)
    moreover have "find (covers at) (rev (i # j # js)) = find (covers at) (rev (j # js) @ [i])" by simp
    ultimately show ?thesis using Cons.prems(2) unfolding find_append by simp
  qed
qed

lemma NewTimeline_inv:
  "NewTimeline owner sessionID subsystem = Inr tml \<Longrightarrow>
     contiguous (tl_intervals tml) \<and> list_all (\<lambda>i. Interval_Validate i = None) (tl_intervals tml)"
  by (auto simp: NewTimeline_def simp del: first_err_None split: option.splits)

lemma timeline_later_trans: "timeline_later b c \<Longrightarrow> timeline_later a b \<Longrightarrow> timeline_later a c"
  by (induction rule: timeline_later.induct) (auto intro: timeline_later.intros)

lemma interval_ends_after_start:
  "Interval_Validate i = None \<Longrightarrow> ci_EndedAt i = Some e \<Longrightarrow> \<not> time_Before e (ci_StartedAt i)"
  by (simp add: Interval_Validate_def)

lemma loss_interval:
  assumes "MarkLoss now newID tml reason dropped sequence at = (Inr i, tml')"
  shows "i \<in> set (tl_intervals tml') \<and> \<not> interval_clean i \<and> ci_Reason i = reason \<and> dropped \<noteq> 0 \<and>
    timeline_later tml tml'"
proof -
  have "timeline_do now newID (Do_MarkLoss reason dropped sequence at) tml = (Inr i, tml')" using assms by simp
  then have "timeline_later tml tml'" by (rule timeline_later.later[OF timeline_later.same])
  moreover have t: "dropped \<noteq> 0" "transitionLocked now newID tml \<lparr>tr_State = CoveragePartial, tr_Reason = reason,
        tr_CollectorGeneration = currentGenerationLocked tml, tr_DroppedEventCount = dropped,
        tr_RetentionGap = False, tr_Evidence = [], tr_Sequence = sequence, tr_At = at\<rparr> = (Inr i, tml')"
    using assms by (auto simp: MarkLoss_def split: if_splits)
  ultimately show ?thesis using transition_ok[OF t(2)] by (auto simp: new_interval_def interval_clean_def)
qed

section \<open>Properties\<close>

definition sample_owner :: activity_owner where
  "sample_owner = \<lparr>ao_Kind = OwnerReusableEnvironment, ao_EnvironmentID = ''env_a'', ao_SessionID = '''',
     ao_Backend = ''vm'', ao_BackendIncarnationID = ''inc-1'', ao_GuestBootID = ''''\<rparr>"

definition sample_timeline0 :: timeline where
  "sample_timeline0 = \<lparr>tl_owner = sample_owner, tl_sessionID = ''ses_a'', tl_subsystem = SubsystemProcess, tl_intervals = []\<rparr>"

definition sample_ready :: coverage_transition where
  "sample_ready = \<lparr>tr_State = CoverageAvailable, tr_Reason = ''observer-ready'', tr_CollectorGeneration = 1,
     tr_DroppedEventCount = 0, tr_RetentionGap = False, tr_Evidence = [], tr_Sequence = 5, tr_At = GoTime 100 0\<rparr>"

definition sample_timeline1 :: timeline where
  "sample_timeline1 = snd (transitionLocked (GoTime 100 0) (Some ''cov_00000001'') sample_timeline0 sample_ready)"

definition sample_timeline2 :: timeline where
  "sample_timeline2 = snd (MarkLoss (GoTime 200 0) (Some ''cov_00000002'') sample_timeline1 ''sequence-gap'' 3 9 (GoTime 200 0))"

lemma sample_timelines:
  "NewTimeline sample_owner ''ses_a'' SubsystemProcess = Inr sample_timeline0 \<and>
   map (\<lambda>i. (ci_State i, ci_StartSequence i, ci_EndSequence i, ci_EndedAt i)) (tl_intervals sample_timeline1) =
     [(CoverageAvailable, 5, None, None)] \<and>
   map (\<lambda>i. (ci_State i, ci_StartSequence i, ci_EndSequence i, ci_EndedAt i)) (tl_intervals sample_timeline2) =
     [(CoverageAvailable, 5, Some 9, Some (GoTime 200 0)), (CoveragePartial, 9, None, None)] \<and>
   \<not> isl (fst (MarkLoss (GoTime 200 0) (Some ''cov_00000002'') sample_timeline1 ''sequence-gap'' 3 9 (GoTime 200 0)))"
  by code_simp

lemma sample_later: "timeline_later sample_timeline0 sample_timeline1" "timeline_later sample_timeline1 sample_timeline2"
proof -
  have "timeline_do (GoTime 100 0) (Some ''cov_00000001'') (Do_Transition sample_ready) sample_timeline0 =
      (fst (transitionLocked (GoTime 100 0) (Some ''cov_00000001'') sample_timeline0 sample_ready), sample_timeline1)"
    by (simp add: sample_timeline1_def)
  then show "timeline_later sample_timeline0 sample_timeline1" by (rule timeline_later.later[OF timeline_later.same])
  have "timeline_do (GoTime 200 0) (Some ''cov_00000002'') (Do_MarkLoss ''sequence-gap'' 3 9 (GoTime 200 0)) sample_timeline1 =
      (fst (MarkLoss (GoTime 200 0) (Some ''cov_00000002'') sample_timeline1 ''sequence-gap'' 3 9 (GoTime 200 0)), sample_timeline2)"
    by (simp add: sample_timeline2_def)
  then show "timeline_later sample_timeline1 sample_timeline2" by (rule timeline_later.later[OF timeline_later.same])
qed

lemma sample_two: "length (tl_intervals sample_timeline2) = 2"
  by code_simp

lemma sample_pair: "\<exists>i j. tl_intervals sample_timeline2 = [i, j]"
  using sample_two by (auto simp: length_Suc_conv numeral_2_eq_2)

text \<open>
  C17. Whatever operations run on a new coverage timeline, its intervals stay contiguous: each ends at the instant and at the
  sequence number where the next begins, collector generations never decrease, and only the last is open.\<close>

theorem timeline_contiguous:
  assumes "NewTimeline owner sessionID subsystem = Inr tml0" "timeline_later tml0 tml"
  shows "contiguous (tl_intervals tml)"
  using timeline_later_inv[OF assms(2)] NewTimeline_inv[OF assms(1)] by blast

theorem timeline_contiguous_witness:
  "contiguous (tl_intervals sample_timeline2) \<and> length (tl_intervals sample_timeline2) = 2"
  using timeline_contiguous[OF _ timeline_later_trans[OF sample_later(2,1)], of sample_owner "''ses_a''" SubsystemProcess]
    sample_timelines sample_two by simp

text \<open>
  A timeline answers for every instant from its first interval on, with the last interval that had started by then:
  there is no hole and no overlap in which coverage is unknown.\<close>

theorem StateAt_last_started:
  assumes "NewTimeline owner sessionID subsystem = Inr tml0" "timeline_later tml0 tml"
    and "tl_intervals tml = i # is" "\<not> time_Before at (ci_StartedAt i)" "\<not> time_IsZero at"
  shows "StateAt tml at = Some (last (filter (\<lambda>j. \<not> time_Before at (ci_StartedAt j)) (tl_intervals tml)))"
proof -
  have "contiguous (i # is)"
    using timeline_later_inv[OF assms(2)] NewTimeline_inv[OF assms(1)] assms(3) by simp
  then show ?thesis using find_covers assms(3-5) by (simp add: StateAt_def)
qed

theorem StateAt_last_started_witness:
  "map_option ci_State (StateAt sample_timeline2 (GoTime 150 0)) = Some CoverageAvailable"
proof -
  obtain i j where ij: "tl_intervals sample_timeline2 = [i, j]"
    using sample_pair by blast
  have s: "ci_StartedAt i = GoTime 100 0 \<and> ci_StartedAt j = GoTime 200 0 \<and> ci_State i = CoverageAvailable"
  proof -
    have "map (\<lambda>i. (ci_StartedAt i, ci_State i)) (tl_intervals sample_timeline2) =
      [(GoTime 100 0, CoverageAvailable), (GoTime 200 0, CoveragePartial)]" by code_simp
    then show ?thesis using ij by simp
  qed
  have "StateAt sample_timeline2 (GoTime 150 0) =
      Some (last (filter (\<lambda>j. \<not> time_Before (GoTime 150 0) (ci_StartedAt j)) (tl_intervals sample_timeline2)))"
    using sample_timelines s
    by (intro StateAt_last_started[OF _ timeline_later_trans[OF sample_later(2,1)] ij])
      (auto simp: time_After_def time_IsZero_def)
  then show ?thesis using ij s by (simp add: time_After_def)
qed

text \<open>
  C16. A loss that was recorded is never hidden again: in every later timeline, also after the collector recovered,
  \<open>GapReasons\<close> over any window that contains the instant of the loss names its reason.\<close>

theorem loss_never_hidden:
  assumes "NewTimeline owner sessionID subsystem = Inr tml0" "timeline_later tml0 tml"
    and "MarkLoss now newID tml reason dropped sequence at = (Inr i, tml1)" "timeline_later tml1 tml2"
    and "\<not> time_After from (ci_StartedAt i)" "time_IsZero to \<or> \<not> time_After (ci_StartedAt i) to"
  shows "reason \<in> set (GapReasons tml2 from to)"
proof -
  note l = loss_interval[OF assms(3)]
  have "timeline_later tml0 tml2"
    using timeline_later_trans[OF assms(4) timeline_later_trans[OF _ assms(2)]] l by blast
  then have v: "list_all (\<lambda>i. Interval_Validate i = None) (tl_intervals tml2)"
    using timeline_later_inv NewTimeline_inv[OF assms(1)] by blast
  obtain i' where i': "i' \<in> set (tl_intervals tml2)" "same_interval i i'" using later_keeps[OF assms(4)] l by blast
  have "in_window from to i'"
    using i' assms(5,6) interval_ends_after_start[of i'] v
    by (auto simp: in_window_def same_interval_def list_all_iff time_After_def split: option.splits)
  moreover have "\<not> (\<not> time_IsZero from \<and> \<not> time_IsZero to \<and> time_Before to from)"
    using assms(5,6) by (auto simp: time_After_def)
  ultimately have "i' \<in> set (Timeline_Intervals tml2 from to)" using i' by (simp add: Timeline_Intervals_def)
  moreover have "\<not> interval_clean i' \<and> ci_Reason i' = reason"
    using l i'(2) by (auto simp: same_interval_def interval_clean_def)
  ultimately show ?thesis unfolding set_GapReasons by blast
qed

theorem loss_never_hidden_witness:
  "''sequence-gap'' \<in> set (GapReasons sample_timeline2 (GoTime 150 0) (GoTime 250 0))"
proof -
  let ?run = "MarkLoss (GoTime 200 0) (Some ''cov_00000002'') sample_timeline1 ''sequence-gap'' 3 9 (GoTime 200 0)"
  obtain i where i: "?run = (Inr i, sample_timeline2)"
    using sample_timelines by (cases ?run; cases "fst ?run") (auto simp: sample_timeline2_def)
  have "map_sum (\<lambda>e. e) ci_StartedAt (fst ?run) = Inr (GoTime 200 0)" by code_simp
  then have "ci_StartedAt i = GoTime 200 0" using i by simp
  then show ?thesis
    using loss_never_hidden[OF _ sample_later(1) i timeline_later.same, of sample_owner "''ses_a''" SubsystemProcess
        "GoTime 150 0" "GoTime 250 0"] sample_timelines
    by (simp add: time_After_def time_IsZero_def)
qed

text \<open>
  A refused operation leaves the timeline as it was.\<close>

theorem refused_operation_changes_nothing:
  assumes "timeline_do now newID op1 tml = (Inl e, tml')"
  shows "tml' = tml"
  using assms by (cases rule: timeline_do_cases) auto

theorem refused_operation_changes_nothing_witness:
  "snd (MarkLoss (GoTime 200 0) None sample_timeline1 ''sequence-gap'' 3 9 (GoTime 200 0)) = sample_timeline1"
proof -
  let ?run = "MarkLoss (GoTime 200 0) None sample_timeline1 ''sequence-gap'' 3 9 (GoTime 200 0)"
  have "fst ?run = Inl ErrCoverageID" by code_simp
  then have "timeline_do (GoTime 200 0) None (Do_MarkLoss ''sequence-gap'' 3 9 (GoTime 200 0)) sample_timeline1 =
      (Inl ErrCoverageID, snd ?run)" by (simp add: prod_eq_iff)
  from refused_operation_changes_nothing[OF this] show ?thesis .
qed

text \<open>
  C38. A collector that restarts with a new generation and counts its sequence numbers from the beginning cannot report:
  a transition with a higher generation and a sequence number below the start of the open interval is
  refused, although the ordering of sequence numbers is demanded of one generation only.\<close>

theorem restart_with_lower_sequence_refused:
  assumes "tl_intervals tml = is @ [i]" "Interval_Validate i = None" "transition_refused next = None"
    and "ci_CollectorGeneration i < tr_CollectorGeneration next" "tr_Sequence next < ci_StartSequence i"
    and "\<not> time_Before (transition_at now next) (ci_StartedAt i)"
  shows "transitionLocked now newID tml next = (Inl (CoverageModelError ErrInvalidCoverage), tml)"
proof -
  have "Interval_Validate (i\<lparr>ci_EndedAt := Some at, ci_EndSequence := Some (tr_Sequence next)\<rparr>) = Some ErrInvalidCoverage" for at
    using assms(2,5) by (auto simp: Interval_Validate_def first_err_Cons split: option.splits if_splits)
  then have "close_current tml next (transition_at now next) = Inl (CoverageModelError ErrInvalidCoverage)"
    using assms order.asym[OF assms(4)] by (auto simp: close_current_def Let_def)
  then show ?thesis using assms(3) by (simp add: transitionLocked_def)
qed

definition sample_restart :: coverage_transition where
  "sample_restart = \<lparr>tr_State = CoveragePartial, tr_Reason = ''collector-restarted'', tr_CollectorGeneration = 2,
     tr_DroppedEventCount = 0, tr_RetentionGap = False, tr_Evidence = [], tr_Sequence = 1, tr_At = GoTime 300 0\<rparr>"

theorem restart_with_lower_sequence_refused_witness:
  "fst (transitionLocked (GoTime 300 0) (Some ''cov_00000003'') sample_timeline2 sample_restart) =
     Inl (CoverageModelError ErrInvalidCoverage)"
proof -
  obtain i j where ij: "tl_intervals sample_timeline2 = [i] @ [j]"
    using sample_pair by auto
  have "map (\<lambda>i. (Interval_Validate i, ci_CollectorGeneration i, ci_StartSequence i, ci_StartedAt i)) (tl_intervals sample_timeline2) =
     [(None, 1, 5, GoTime 100 0), (None, 1, 9, GoTime 200 0)] \<and> transition_refused sample_restart = None" by code_simp
  then have j: "Interval_Validate j = None" "ci_CollectorGeneration j = 1" "ci_StartSequence j = 9" "ci_StartedAt j = GoTime 200 0"
    "transition_refused sample_restart = None" using ij by simp_all
  show ?thesis using restart_with_lower_sequence_refused[OF ij j(1,5), of "GoTime 300 0" "Some ''cov_00000003''"] j(2-4)
    by (simp add: sample_restart_def transition_at_def time_IsZero_def time_After_def time_UTC_def)
qed

end
