(* ===== verification/Session_Wire.thy ===== *)
theory Session_Wire
  imports Hideout_Prelude
begin

text \<open>
  The frames of the session protocol: \<open>internal/sessionwire/frame.go\<close> and
  \<open>internal/sessionwire/stream.go\<close>. A frame is one type byte, a big-endian 32-bit length and the
  payload. The validation of the JSON of a control payload is a parameter.
\<close>

unbundle bit_operations_syntax

section \<open>Types and directions\<close>

type_synonym byte = "8 word"
type_synonym u32 = "32 word"

datatype wire_error =
    ErrInvalidDirection | ErrWrongDirection | ErrUnknownMandatoryFrame | ErrPayloadTooLarge
  | ErrTruncatedFrame | ErrInvalidControl | IoEOF | IoShortWrite | IoWriteError

abbreviation MaxPayloadSize :: u32 where "MaxPayloadSize \<equiv> 65536"
abbreviation HeaderSize :: nat where "HeaderSize \<equiv> 5"

abbreviation ClientToDaemon :: byte where "ClientToDaemon \<equiv> 1"
abbreviation DaemonToClient :: byte where "DaemonToClient \<equiv> 2"
abbreviation DaemonToSupervisor :: byte where "DaemonToSupervisor \<equiv> 3"
abbreviation SupervisorToDaemon :: byte where "SupervisorToDaemon \<equiv> 4"

definition direction_valid :: "byte \<Rightarrow> bool" where
  "direction_valid d \<longleftrightarrow> ClientToDaemon \<le> d \<and> d \<le> SupervisorToDaemon"

abbreviation TypeHello :: byte where "TypeHello \<equiv> 1"
abbreviation TypeHelloAccepted :: byte where "TypeHelloAccepted \<equiv> 2"
abbreviation TypeRunRequest :: byte where "TypeRunRequest \<equiv> 3"
abbreviation TypeConfirm :: byte where "TypeConfirm \<equiv> 4"
abbreviation TypeReview :: byte where "TypeReview \<equiv> 5"
abbreviation TypeStarted :: byte where "TypeStarted \<equiv> 6"
abbreviation TypeStdin :: byte where "TypeStdin \<equiv> 7"
abbreviation TypeStdinEOF :: byte where "TypeStdinEOF \<equiv> 8"
abbreviation TypeResize :: byte where "TypeResize \<equiv> 9"
abbreviation TypeSignal :: byte where "TypeSignal \<equiv> 10"
abbreviation TypeCancel :: byte where "TypeCancel \<equiv> 11"
abbreviation TypeRenew :: byte where "TypeRenew \<equiv> 12"
abbreviation TypeTerminal :: byte where "TypeTerminal \<equiv> 13"
abbreviation TypeStdout :: byte where "TypeStdout \<equiv> 14"
abbreviation TypeStderr :: byte where "TypeStderr \<equiv> 15"
abbreviation TypeNotice :: byte where "TypeNotice \<equiv> 16"
abbreviation TypeError :: byte where "TypeError \<equiv> 17"
abbreviation TypeCompletion :: byte where "TypeCompletion \<equiv> 18"
abbreviation TypeSupervisorStart :: byte where "TypeSupervisorStart \<equiv> 19"
abbreviation TypeSupervisorReady :: byte where "TypeSupervisorReady \<equiv> 20"
abbreviation TypeSupervisorCommit :: byte where "TypeSupervisorCommit \<equiv> 21"
abbreviation TypeHeartbeat :: byte where "TypeHeartbeat \<equiv> 22"
abbreviation TypeSupervisorError :: byte where "TypeSupervisorError \<equiv> 23"

definition IsExtension :: "byte \<Rightarrow> bool" where
  "IsExtension t \<longleftrightarrow> t AND 0x80 \<noteq> 0"

definition IsKnown :: "byte \<Rightarrow> bool" where
  "IsKnown t \<longleftrightarrow> TypeHello \<le> t \<and> t \<le> TypeSupervisorError"

definition IsData :: "byte \<Rightarrow> bool" where
  "IsData t \<longleftrightarrow> t \<in> {TypeStdin, TypeTerminal, TypeStdout, TypeStderr}"

definition IsControl :: "byte \<Rightarrow> bool" where
  "IsControl t \<longleftrightarrow> IsKnown t \<and> \<not> IsData t"

definition allowed :: "byte \<Rightarrow> byte \<Rightarrow> bool" where
  "allowed t direction \<longleftrightarrow>
     (if t \<in> {TypeHello, TypeRunRequest, TypeConfirm, TypeRenew} then direction = ClientToDaemon
      else if t \<in> {TypeHelloAccepted, TypeReview, TypeStarted, TypeNotice, TypeError}
      then direction = DaemonToClient
      else if t \<in> {TypeSupervisorStart, TypeSupervisorCommit, TypeHeartbeat}
      then direction = DaemonToSupervisor
      else if t \<in> {TypeSupervisorReady, TypeSupervisorError} then direction = SupervisorToDaemon
      else if t \<in> {TypeStdin, TypeStdinEOF, TypeResize, TypeSignal, TypeCancel}
      then direction = ClientToDaemon \<or> direction = DaemonToSupervisor
      else if t \<in> {TypeTerminal, TypeStdout, TypeStderr, TypeCompletion}
      then direction = DaemonToClient \<or> direction = SupervisorToDaemon
      else False)"

definition ValidateDirection :: "byte \<Rightarrow> byte \<Rightarrow> wire_error option" where
  "ValidateDirection direction t =
     (if \<not> direction_valid direction then Some ErrInvalidDirection
      else if IsExtension t then None
      else if \<not> IsKnown t then Some ErrUnknownMandatoryFrame
      else if \<not> allowed t direction then Some ErrWrongDirection
      else None)"

section \<open>Frames\<close>

record frame =
  fr_Type :: byte
  fr_Payload :: "byte list"

text \<open>\<open>control\<close> says whether the payload of a control frame of the type decodes and validates.\<close>

type_synonym control_check = "byte \<Rightarrow> byte list \<Rightarrow> bool"

definition validateFrame :: "control_check \<Rightarrow> byte \<Rightarrow> frame \<Rightarrow> u32 \<Rightarrow> wire_error option" where
  "validateFrame control direction f limit = first_err
     [ValidateDirection direction (fr_Type f),
      check (uint limit < int (length (fr_Payload f))) ErrPayloadTooLarge,
      check (\<not> (IsExtension (fr_Type f) \<or> IsData (fr_Type f)) \<and> \<not> control (fr_Type f) (fr_Payload f))
        ErrInvalidControl]"

text \<open>\<open>binary.BigEndian\<close> on 32-bit values.\<close>

definition PutUint32 :: "u32 \<Rightarrow> byte list" where
  "PutUint32 v = [ucast (drop_bit 24 v), ucast (drop_bit 16 v), ucast (drop_bit 8 v), ucast v]"

definition Uint32 :: "byte list \<Rightarrow> u32" where
  "Uint32 b = ucast (b ! 3) OR push_bit 8 (ucast (b ! 2)) OR push_bit 16 (ucast (b ! 1)) OR push_bit 24 (ucast (b ! 0))"

section \<open>Reading\<close>

text \<open>
  A stream delivers its bytes and then ends, with \<open>io.EOF\<close> or with another error. \<open>ReadFull\<close> returns
  the bytes or, when there are too few, how many there were.
\<close>

record byte_stream =
  bs_Bytes :: "byte list"
  bs_EOF :: bool

definition ReadFull :: "nat \<Rightarrow> byte_stream \<Rightarrow> (nat + byte list) \<times> byte_stream" where
  "ReadFull n s =
     (if length (bs_Bytes s) < n then (Inl (length (bs_Bytes s)), s\<lparr>bs_Bytes := []\<rparr>)
      else (Inr (take n (bs_Bytes s)), s\<lparr>bs_Bytes := drop n (bs_Bytes s)\<rparr>))"

record wire_reader =
  rd_Direction :: byte
  rd_Limit :: u32

definition clamp_limit :: "u32 \<Rightarrow> u32" where
  "clamp_limit limit = (if limit = 0 \<or> MaxPayloadSize < limit then MaxPayloadSize else limit)"

definition NewReaderWithLimit :: "byte \<Rightarrow> u32 \<Rightarrow> wire_reader" where
  "NewReaderWithLimit direction limit = \<lparr>rd_Direction = direction, rd_Limit = clamp_limit limit\<rparr>"

definition NewReader :: "byte \<Rightarrow> wire_reader" where
  "NewReader direction = NewReaderWithLimit direction MaxPayloadSize"

definition ReadFrame :: "control_check \<Rightarrow> wire_reader \<Rightarrow> byte_stream \<Rightarrow> (wire_error + frame) \<times> byte_stream" where
  "ReadFrame control r s =
     (case ReadFull HeaderSize s of
        (Inl n, s1) \<Rightarrow> (Inl (if bs_EOF s \<and> n = 0 then IoEOF else ErrTruncatedFrame), s1)
      | (Inr header, s1) \<Rightarrow>
          let t = header ! 0; len = Uint32 (tl header) in
          (case ValidateDirection (rd_Direction r) t of
             Some e \<Rightarrow> (Inl e, s1)
           | None \<Rightarrow>
               if rd_Limit r < len then (Inl ErrPayloadTooLarge, s1)
               else (case (if 0 < len then ReadFull (unat len) s1 else (Inr [], s1)) of
                 (Inl _, s2) \<Rightarrow> (Inl ErrTruncatedFrame, s2)
               | (Inr payload, s2) \<Rightarrow>
                   let f = \<lparr>fr_Type = t, fr_Payload = payload\<rparr> in
                   (case validateFrame control (rd_Direction r) f (rd_Limit r) of
                      Some e \<Rightarrow> (Inl e, s2) | None \<Rightarrow> (Inr f, s2)))))"

section \<open>Writing\<close>

text \<open>
  A writer takes some of the bytes of every call and may fail: \<open>wr_Take k\<close> is what the \<open>k\<close>-th call
  takes and whether it returns an error.
\<close>

record byte_sink =
  sk_Out :: "byte list"
  sk_Calls :: nat
  sk_Take :: "nat \<Rightarrow> nat \<times> bool"

definition sink_write :: "byte_sink \<Rightarrow> byte list \<Rightarrow> (nat \<times> bool) \<times> byte_sink" where
  "sink_write k bs =
     (let (n, failed) = sk_Take k (sk_Calls k); n = min n (length bs)
      in ((n, failed), k\<lparr>sk_Out := sk_Out k @ take n bs, sk_Calls := Suc (sk_Calls k)\<rparr>))"

function writeAll :: "byte_sink \<Rightarrow> byte list \<Rightarrow> wire_error option \<times> byte_sink" where
  "writeAll k bs =
     (if bs = [] then (None, k)
      else case sink_write k bs of
        ((n, failed), k1) \<Rightarrow>
          if failed then (Some IoWriteError, k1)
          else if n = 0 then (Some IoShortWrite, k1)
          else writeAll k1 (drop n bs))"
  by pat_completeness auto
termination
  by (relation "measure (\<lambda>(k, bs). length bs)") (auto simp: sink_write_def Let_def split: prod.splits)

declare writeAll.simps [simp del]

record wire_writer =
  ww_Direction :: byte
  ww_Limit :: u32

definition NewWriterWithLimit :: "byte \<Rightarrow> u32 \<Rightarrow> wire_writer" where
  "NewWriterWithLimit direction limit = \<lparr>ww_Direction = direction, ww_Limit = clamp_limit limit\<rparr>"

definition NewWriter :: "byte \<Rightarrow> wire_writer" where
  "NewWriter direction = NewWriterWithLimit direction MaxPayloadSize"

definition WriteFrame :: "control_check \<Rightarrow> wire_writer \<Rightarrow> frame \<Rightarrow> byte_sink \<Rightarrow> wire_error option \<times> byte_sink" where
  "WriteFrame control w f k =
     (case validateFrame control (ww_Direction w) f (ww_Limit w) of
        Some e \<Rightarrow> (Some e, k)
      | None \<Rightarrow>
        (case writeAll k (fr_Type f # PutUint32 (of_nat (length (fr_Payload f)))) of
           (Some e, k1) \<Rightarrow> (Some e, k1)
         | (None, k1) \<Rightarrow> writeAll k1 (fr_Payload f)))"

section \<open>Lemmas\<close>

definition encode_frame :: "frame \<Rightarrow> byte list" where
  "encode_frame f = fr_Type f # PutUint32 (of_nat (length (fr_Payload f))) @ fr_Payload f"

lemma PutUint32_length [simp]: "length (PutUint32 v) = 4"
  by (simp add: PutUint32_def)

lemma Uint32_PutUint32 [simp]: "Uint32 (PutUint32 v) = v"
proof (rule bit_word_eqI)
  fix n assume n: "n < LENGTH(32)"
  then consider "n < 8" | "8 \<le> n" "n < 16" | "16 \<le> n" "n < 24" | "24 \<le> n" "n < 32" by force
  then show "bit (Uint32 (PutUint32 v)) n \<longleftrightarrow> bit v n"
    by cases (auto simp: Uint32_def PutUint32_def bit_simps)
qed

lemma byte_high_bits: "8 \<le> n \<Longrightarrow> \<not> bit (b :: byte) n"
  by (auto dest: bit_imp_le_length)

lemma PutUint32_Uint32:
  assumes "length b = 4"
  shows "PutUint32 (Uint32 b) = b"
proof -
  from assms obtain b0 b1 b2 b3 where b: "b = [b0, b1, b2, b3]"
    by (auto simp: length_Suc_conv numeral_eq_Suc)
  show ?thesis
    unfolding b PutUint32_def Uint32_def
    by (auto intro!: bit_word_eqI simp: bit_simps byte_high_bits)
qed

lemma clamp_limit_le: "clamp_limit limit \<le> MaxPayloadSize" "clamp_limit limit \<noteq> 0"
  by (auto simp: clamp_limit_def)

lemma validateFrame_None:
  "validateFrame control d f limit = None \<longleftrightarrow>
     ValidateDirection d (fr_Type f) = None \<and> length (fr_Payload f) \<le> unat limit \<and>
     (IsExtension (fr_Type f) \<or> IsData (fr_Type f) \<or> control (fr_Type f) (fr_Payload f))"
proof -
  have "uint limit < int (length (fr_Payload f)) \<longleftrightarrow> \<not> length (fr_Payload f) \<le> unat limit"
    by (metis uint_nat not_le of_nat_less_iff)
  then show ?thesis by (auto simp: validateFrame_def)
qed

lemma limit_length:
  assumes "n \<le> unat (limit :: u32)"
  shows "unat (of_nat n :: u32) = n" "(of_nat n :: u32) \<le> limit"
proof -
  have "unat limit < 2 ^ LENGTH(32)" by (rule unsigned_less)
  then have "n < 2 ^ 32" using assms by simp
  then show u: "unat (of_nat n :: u32) = n" by (simp add: unsigned_of_nat take_bit_nat_eq_self)
  show "(of_nat n :: u32) \<le> limit" using assms u by (simp add: word_le_nat_alt)
qed

text \<open>A frame that the reader accepts is read back from its encoding.\<close>

lemma ReadFull_append:
  "length bs = n \<Longrightarrow> ReadFull n \<lparr>bs_Bytes = bs @ rest, bs_EOF = e\<rparr> = (Inr bs, \<lparr>bs_Bytes = rest, bs_EOF = e\<rparr>)"
  by (auto simp: ReadFull_def)

lemma ReadFrame_encode:
  assumes "validateFrame control (rd_Direction r) f (rd_Limit r) = None"
  shows "ReadFrame control r \<lparr>bs_Bytes = encode_frame f @ rest, bs_EOF = e\<rparr> = (Inr f, \<lparr>bs_Bytes = rest, bs_EOF = e\<rparr>)"
proof -
  let ?len = "of_nat (length (fr_Payload f)) :: u32"
  have v: "ValidateDirection (rd_Direction r) (fr_Type f) = None" "length (fr_Payload f) \<le> unat (rd_Limit r)"
    using assms by (simp_all add: validateFrame_None)
  note l = limit_length[OF v(2)]
  have h: "ReadFull HeaderSize \<lparr>bs_Bytes = encode_frame f @ rest, bs_EOF = e\<rparr> =
      (Inr (fr_Type f # PutUint32 ?len), \<lparr>bs_Bytes = fr_Payload f @ rest, bs_EOF = e\<rparr>)"
    using ReadFull_append[of "fr_Type f # PutUint32 ?len" 5 "fr_Payload f @ rest" e] by (simp add: encode_frame_def)
  have p: "(if 0 < ?len then ReadFull (unat ?len) \<lparr>bs_Bytes = fr_Payload f @ rest, bs_EOF = e\<rparr>
      else (Inr [], \<lparr>bs_Bytes = fr_Payload f @ rest, bs_EOF = e\<rparr>)) = (Inr (fr_Payload f), \<lparr>bs_Bytes = rest, bs_EOF = e\<rparr>)"
  proof (cases "0 < ?len")
    case True
    then show ?thesis using ReadFull_append[of "fr_Payload f" "unat ?len" rest e] l(1) by simp
  next
    case False
    then have "?len = 0" by (metis word_neq_0_conv)
    then have "unat ?len = 0" by simp
    then show ?thesis using l(1) False by simp
  qed
  have f: "\<lparr>fr_Type = fr_Type f, fr_Payload = fr_Payload f\<rparr> = f" by simp
  have "\<not> rd_Limit r < ?len" using l(2) by simp
  then show ?thesis using h p v(1) assms by (simp add: ReadFrame_def Let_def f)
qed

text \<open>And whatever is read was there in exactly that encoding.\<close>

lemma ReadFrame_Inr:
  assumes "ReadFrame control r s = (Inr f, s')"
  shows "bs_Bytes s = encode_frame f @ bs_Bytes s' \<and> bs_EOF s' = bs_EOF s \<and>
    validateFrame control (rd_Direction r) f (rd_Limit r) = None"
proof -
  have len: "5 \<le> length (bs_Bytes s)"
    using assms by (auto simp: ReadFrame_def ReadFull_def split: if_splits)
  let ?h = "take 5 (bs_Bytes s)" and ?rest = "drop 5 (bs_Bytes s)"
  let ?t = "?h ! 0" and ?len = "Uint32 (tl ?h)"
  have h: "?h = ?t # PutUint32 ?len"
    using len PutUint32_Uint32[of "tl ?h"] by (cases "bs_Bytes s") auto
  have dir: "ValidateDirection (rd_Direction r) ?t = None" "\<not> rd_Limit r < ?len"
    using assms len by (auto simp: ReadFrame_def ReadFull_def Let_def split: option.splits if_splits)
  obtain payload s2 where p: "(if 0 < ?len then ReadFull (unat ?len) (s\<lparr>bs_Bytes := ?rest\<rparr>)
      else (Inr [], s\<lparr>bs_Bytes := ?rest\<rparr>)) = (Inr payload, s2)"
    using assms len dir by (auto simp: ReadFrame_def ReadFull_def[of 5] Let_def split: sum.splits prod.splits)
  have f: "f = \<lparr>fr_Type = ?t, fr_Payload = payload\<rparr>" "s' = s2"
    "validateFrame control (rd_Direction r) f (rd_Limit r) = None"
    using assms len dir p by (auto simp: ReadFrame_def ReadFull_def[of 5] Let_def split: option.splits)
  have pl: "?rest = payload @ bs_Bytes s2 \<and> bs_EOF s2 = bs_EOF s \<and> unat ?len = length payload"
  proof (cases "0 < ?len")
    case True
    then show ?thesis using p append_take_drop_id[of "unat ?len" ?rest] by (auto simp: ReadFull_def split: if_splits)
  next
    case False
    then have "?len = 0" by (metis word_neq_0_conv)
    then have "unat ?len = 0" by simp
    then show ?thesis using p False by auto
  qed
  then have "of_nat (length payload) = ?len" by (metis of_nat_unat ucast_id)
  then have "encode_frame f = ?h @ payload" using h f(1) by (simp add: encode_frame_def)
  then show ?thesis using pl f(2,3) by (metis append.assoc append_take_drop_id)
qed

lemma writeAll_out:
  "writeAll k bs = (e, k') \<Longrightarrow>
     \<exists>n \<le> length bs. sk_Out k' = sk_Out k @ take n bs \<and> (e = None \<longrightarrow> n = length bs) \<and> sk_Take k' = sk_Take k"
proof (induction k bs arbitrary: e k' rule: writeAll.induct)
  case (1 k bs)
  show ?case
  proof (cases "bs = []")
    case True
    then show ?thesis using "1.prems" by (simp add: writeAll.simps)
  next
    case False
    obtain n failed k1 where w: "sink_write k bs = ((n, failed), k1)" by (metis prod.exhaust)
    have k1: "sk_Out k1 = sk_Out k @ take n bs" "n \<le> length bs" "sk_Take k1 = sk_Take k"
      using w by (auto simp: sink_write_def Let_def split: prod.splits)
    show ?thesis
    proof (cases "failed \<or> n = 0")
      case True
      then have "e \<noteq> None" "k' = k1" using "1.prems" w False by (auto simp: writeAll.simps[of k] split: if_splits)
      then show ?thesis using k1 by auto
    next
      case go: False
      then have "writeAll k1 (drop n bs) = (e, k')" using "1.prems" w False by (simp add: writeAll.simps[of k])
      from "1.IH"[OF False w[symmetric] refl _ _ this] go obtain m where
        "m \<le> length (drop n bs)" "sk_Out k' = sk_Out k1 @ take m (drop n bs)"
        "e = None \<longrightarrow> m = length (drop n bs)" "sk_Take k' = sk_Take k1" by auto
      then show ?thesis using k1 by (intro exI[of _ "n + m"]) (auto simp: take_add)
    qed
  qed
qed

lemma WriteFrame_out:
  assumes "WriteFrame control w f k = (e, k')"
  shows "\<exists>n \<le> length (encode_frame f). sk_Out k' = sk_Out k @ take n (encode_frame f) \<and>
    (e = None \<longrightarrow> n = length (encode_frame f) \<and> validateFrame control (ww_Direction w) f (ww_Limit w) = None) \<and>
    (validateFrame control (ww_Direction w) f (ww_Limit w) \<noteq> None \<longrightarrow> k' = k) \<and> sk_Take k' = sk_Take k"
proof (cases "validateFrame control (ww_Direction w) f (ww_Limit w)")
  case (Some err)
  then show ?thesis using assms by (intro exI[of _ 0]) (auto simp: WriteFrame_def)
next
  case None
  let ?h = "fr_Type f # PutUint32 (of_nat (length (fr_Payload f)))"
  obtain e1 k1 where w1: "writeAll k ?h = (e1, k1)" by (rule prod.exhaust)
  from writeAll_out[OF w1] obtain n where n: "n \<le> length ?h" "sk_Out k1 = sk_Out k @ take n ?h"
    "e1 = None \<longrightarrow> n = length ?h" "sk_Take k1 = sk_Take k" by blast
  have enc: "encode_frame f = ?h @ fr_Payload f" by (simp add: encode_frame_def)
  show ?thesis
  proof (cases e1)
    case (Some x)
    then have "e \<noteq> None" "k' = k1" using assms None w1 by (auto simp: WriteFrame_def)
    moreover have "take n (encode_frame f) = take n ?h" using n(1) take_append[of n ?h "fr_Payload f"] enc by simp
    ultimately show ?thesis using n None enc by (intro exI[of _ n]) auto
  next
    case e1: None
    then have "writeAll k1 (fr_Payload f) = (e, k')" using assms None w1 by (simp add: WriteFrame_def)
    from writeAll_out[OF this] obtain m where m: "m \<le> length (fr_Payload f)" "sk_Out k' = sk_Out k1 @ take m (fr_Payload f)"
      "e = None \<longrightarrow> m = length (fr_Payload f)" "sk_Take k' = sk_Take k1" by blast
    moreover have "take (length ?h + m) (encode_frame f) = ?h @ take m (fr_Payload f)"
      unfolding enc take_append by simp
    ultimately show ?thesis using n e1 None enc by (intro exI[of _ "length ?h + m"]) auto
  qed
qed

text \<open>A proper prefix of a valid frame is never read as a frame.\<close>

lemma ReadFrame_take:
  assumes "validateFrame control (rd_Direction r) f (rd_Limit r) = None" "n < length (encode_frame f)"
  shows "fst (ReadFrame control r \<lparr>bs_Bytes = take n (encode_frame f), bs_EOF = True\<rparr>) =
    Inl (if n = 0 then IoEOF else ErrTruncatedFrame)"
proof (cases "n < 5")
  case True
  then have "length (take n (encode_frame f)) = n" using assms(2) by simp
  then show ?thesis using True by (simp add: ReadFrame_def ReadFull_def)
next
  case False
  let ?len = "of_nat (length (fr_Payload f)) :: u32"
  have v: "ValidateDirection (rd_Direction r) (fr_Type f) = None" "length (fr_Payload f) \<le> unat (rd_Limit r)"
    using assms(1) by (simp_all add: validateFrame_None)
  note l = limit_length[OF v(2)]
  have pos: "n - 5 < length (fr_Payload f)" using assms(2) False by (simp add: encode_frame_def)
  then have "0 < unat ?len" unfolding l(1) by linarith
  then have "0 < ?len" by (simp add: word_less_nat_alt)
  moreover have t: "take n (encode_frame f) = (fr_Type f # PutUint32 ?len) @ take (n - 5) (fr_Payload f)"
    using False by (simp add: encode_frame_def take_Cons')
  moreover have "ReadFull HeaderSize \<lparr>bs_Bytes = take n (encode_frame f), bs_EOF = True\<rparr> =
      (Inr (fr_Type f # PutUint32 ?len), \<lparr>bs_Bytes = take (n - 5) (fr_Payload f), bs_EOF = True\<rparr>)"
    unfolding t by (rule ReadFull_append) simp
  moreover have "ReadFull (unat ?len) \<lparr>bs_Bytes = take (n - 5) (fr_Payload f), bs_EOF = True\<rparr> =
      (Inl (n - 5), \<lparr>bs_Bytes = [], bs_EOF = True\<rparr>)"
    using l(1) pos by (simp add: ReadFull_def)
  moreover have "\<not> rd_Limit r < ?len" using l(2) by simp
  ultimately show ?thesis using v(1) False by (simp add: ReadFrame_def Let_def)
qed

section \<open>Whole streams\<close>

fun write_frames :: "control_check \<Rightarrow> wire_writer \<Rightarrow> frame list \<Rightarrow> byte_sink \<Rightarrow> wire_error option \<times> byte_sink" where
  "write_frames control w [] k = (None, k)"
| "write_frames control w (f # fs) k =
     (case WriteFrame control w f k of
        (Some e, k1) \<Rightarrow> (Some e, k1) | (None, k1) \<Rightarrow> write_frames control w fs k1)"

text \<open>Reading until an error, at most the given number of frames.\<close>

fun read_frames :: "nat \<Rightarrow> control_check \<Rightarrow> wire_reader \<Rightarrow> byte_stream \<Rightarrow> frame list \<times> wire_error option" where
  "read_frames 0 control r s = ([], None)"
| "read_frames (Suc n) control r s =
     (case ReadFrame control r s of
        (Inl e, _) \<Rightarrow> ([], Some e)
      | (Inr f, s') \<Rightarrow> (case read_frames n control r s' of (fs, e) \<Rightarrow> (f # fs, e)))"

lemma encode_frame_ne: "encode_frame f \<noteq> []"
  by (simp add: encode_frame_def)

lemma write_frames_out:
  "write_frames control w fs k = (None, k') \<Longrightarrow> sk_Out k' = sk_Out k @ concat (map encode_frame fs) \<and>
     (\<forall>f \<in> set fs. validateFrame control (ww_Direction w) f (ww_Limit w) = None)"
proof (induction fs arbitrary: k)
  case (Cons f fs)
  obtain k1 where w1: "WriteFrame control w f k = (None, k1)" "write_frames control w fs k1 = (None, k')"
    using Cons.prems by (auto split: prod.splits option.splits)
  show ?case using Cons.IH[OF w1(2)] WriteFrame_out[OF w1(1)] by auto
qed simp

lemma read_frames_concat:
  assumes "\<forall>f \<in> set fs. validateFrame control (rd_Direction r) f (rd_Limit r) = None" "length fs < n"
  shows "read_frames n control r \<lparr>bs_Bytes = concat (map encode_frame fs), bs_EOF = True\<rparr> = (fs, Some IoEOF)"
  using assms
proof (induction fs arbitrary: n)
  case Nil
  then show ?case by (cases n) (simp_all add: ReadFrame_def ReadFull_def)
next
  case (Cons f fs)
  then obtain m where n: "n = Suc m" "length fs < m" by (cases n) auto
  have "ReadFrame control r \<lparr>bs_Bytes = encode_frame f @ concat (map encode_frame fs), bs_EOF = True\<rparr> =
      (Inr f, \<lparr>bs_Bytes = concat (map encode_frame fs), bs_EOF = True\<rparr>)"
    using Cons.prems(1) by (intro ReadFrame_encode) simp
  then show ?case using Cons.IH[OF _ n(2)] Cons.prems(1) n(1) by simp
qed

section \<open>Properties\<close>

text \<open>
  C28. A frame is read from a byte stream exactly when the stream starts with the encoding of that frame
  and the frame passes validation for the reader's direction and limit; what remains is the rest of the stream.\<close>

theorem ReadFrame_exact:
  "ReadFrame control r s = (Inr f, s') \<longleftrightarrow>
     bs_Bytes s = encode_frame f @ bs_Bytes s' \<and> bs_EOF s' = bs_EOF s \<and>
     validateFrame control (rd_Direction r) f (rd_Limit r) = None"
proof
  assume *: "bs_Bytes s = encode_frame f @ bs_Bytes s' \<and> bs_EOF s' = bs_EOF s \<and>
     validateFrame control (rd_Direction r) f (rd_Limit r) = None"
  then have "s = \<lparr>bs_Bytes = encode_frame f @ bs_Bytes s', bs_EOF = bs_EOF s'\<rparr>"
    by (cases s) simp
  then show "ReadFrame control r s = (Inr f, s')"
    using ReadFrame_encode[of control r f "bs_Bytes s'" "bs_EOF s'"] * by (cases s') simp
qed (rule ReadFrame_Inr)

definition accept_all :: control_check where
  "accept_all t p \<longleftrightarrow> True"

definition idle_sink :: byte_sink where
  "idle_sink = \<lparr>sk_Out = [], sk_Calls = 0, sk_Take = (\<lambda>k. (if even k then 1 else 3, False))\<rparr>"

text \<open>
  C29. Frames written one after the other without an error, whatever short writes the transport makes,
  are read back by a reader of the same direction and limit, all of them, in order, and followed by
  the end of the stream.\<close>

theorem frames_round_trip:
  assumes "write_frames control (NewWriterWithLimit d limit) fs k = (None, k')" "sk_Out k = []"
  shows "read_frames (Suc (length fs)) control (NewReaderWithLimit d limit) \<lparr>bs_Bytes = sk_Out k', bs_EOF = True\<rparr> =
    (fs, Some IoEOF)"
  using write_frames_out[OF assms(1)] assms(2) read_frames_concat[of fs control "NewReaderWithLimit d limit" "Suc (length fs)"]
  by (simp add: NewReaderWithLimit_def NewWriterWithLimit_def)

theorem frames_round_trip_witness:
  "read_frames 3 accept_all (NewReaderWithLimit ClientToDaemon 0)
     \<lparr>bs_Bytes = [7, 0, 0, 0, 3, 65, 66, 67, 8, 0, 0, 0, 0], bs_EOF = True\<rparr> =
   ([\<lparr>fr_Type = TypeStdin, fr_Payload = [65, 66, 67]\<rparr>, \<lparr>fr_Type = TypeStdinEOF, fr_Payload = []\<rparr>], Some IoEOF)"
proof -
  let ?fs = "[\<lparr>fr_Type = TypeStdin, fr_Payload = [65, 66, 67]\<rparr>, \<lparr>fr_Type = TypeStdinEOF, fr_Payload = []\<rparr>]"
  let ?run = "write_frames accept_all (NewWriterWithLimit ClientToDaemon 0) ?fs idle_sink"
  have run: "fst ?run = None \<and> sk_Out (snd ?run) = [7, 0, 0, 0, 3, 65, 66, 67, 8, 0, 0, 0, 0]" by code_simp
  then have "?run = (None, snd ?run)" by (simp add: prod_eq_iff)
  from frames_round_trip[OF this] run show ?thesis by (simp add: idle_sink_def numeral_3_eq_3)
qed

text \<open>
  C30. What a failed write leaves of a frame, any proper prefix of its encoding, is reported as truncated by the
  reader, and as the end of the stream when nothing was written: never as a frame.\<close>

theorem ReadFrame_truncated:
  assumes "validateFrame control (rd_Direction r) f (rd_Limit r) = None" "n < length (encode_frame f)"
  shows "fst (ReadFrame control r \<lparr>bs_Bytes = take n (encode_frame f), bs_EOF = True\<rparr>) =
    Inl (if n = 0 then IoEOF else ErrTruncatedFrame)"
  using assms by (rule ReadFrame_take)

theorem ReadFrame_truncated_witness:
  "fst (ReadFrame accept_all (NewReaderWithLimit ClientToDaemon 0)
     \<lparr>bs_Bytes = take 7 (encode_frame \<lparr>fr_Type = TypeStdin, fr_Payload = [65, 66, 67]\<rparr>), bs_EOF = True\<rparr>) = Inl ErrTruncatedFrame"
  using ReadFrame_truncated[of accept_all "NewReaderWithLimit ClientToDaemon 0"
      "\<lparr>fr_Type = TypeStdin, fr_Payload = [65, 66, 67]\<rparr>" 7]
  by (simp add: NewReaderWithLimit_def encode_frame_def validateFrame_None accept_all_def clamp_limit_def
      ValidateDirection_def direction_valid_def IsExtension_def IsKnown_def IsData_def allowed_def)

text \<open>
  Every frame a reader returns is within the limit, which never exceeds 64 KiB whatever limit is asked for.\<close>

theorem ReadFrame_bounded:
  assumes "ReadFrame control (NewReaderWithLimit d limit) s = (Inr f, s')"
  shows "length (fr_Payload f) \<le> unat (clamp_limit limit) \<and> length (fr_Payload f) \<le> 65536"
proof -
  have "length (fr_Payload f) \<le> unat (clamp_limit limit)"
    using ReadFrame_Inr[OF assms] by (simp add: validateFrame_None NewReaderWithLimit_def)
  then show ?thesis using clamp_limit_le(1)[of limit] by (simp add: word_le_nat_alt)
qed

theorem ReadFrame_bounded_witness:
  "\<exists>f s'. ReadFrame accept_all (NewReaderWithLimit ClientToDaemon 0) \<lparr>bs_Bytes = [7, 0, 0, 0, 1, 65], bs_EOF = True\<rparr> = (Inr f, s') \<and>
     length (fr_Payload f) \<le> 65536"
proof -
  have "ReadFrame accept_all (NewReaderWithLimit ClientToDaemon 0) \<lparr>bs_Bytes = [7, 0, 0, 0, 1, 65], bs_EOF = True\<rparr> =
    (Inr \<lparr>fr_Type = TypeStdin, fr_Payload = [65]\<rparr>, \<lparr>bs_Bytes = [], bs_EOF = True\<rparr>)" by code_simp
  from this ReadFrame_bounded[OF this] show ?thesis by blast
qed

end
