(* ===== verification/Observer_Queue.thy ===== *)
theory Observer_Queue
  imports Session_Wire
begin

text \<open>
  The bounded send queue of the observer channel, \<open>ObserverQueue\<close> of
  \<open>internal/sessionwire/observer.go\<close>. The state holds the fields the mutex protects; the two channels
  of capacity one are the booleans \<open>oq_notify\<close> and \<open>oq_space\<close> (is a token in the channel), and the
  channel \<open>done\<close> is closed exactly when \<open>oq_closed\<close> is set. \<open>EnqueueWait\<close> blocks between two turns of its
  loop, so its producers are processes of a step relation.
\<close>

section \<open>The queue\<close>

text \<open>The errors of the observer channel; \<open>ObserverIO\<close> is an error of the transport.\<close>

datatype observer_error =
    ErrObserverSchema | ErrObserverKind | ErrObserverIdentity | ErrObserverTargetAuthority
  | ErrObserverAuthentication | ErrObserverCRC | ErrObserverFrameTooLarge | ErrObserverTruncated
  | ErrObserverGenerationRollback | ErrObserverBackpressure | ErrObserverQueueClosed
  | ObserverQueueCapacity | ObserverQueueByteLimit | ObserverEOF | ObserverIO wire_error

abbreviation MaxObserverFrameSize :: int where "MaxObserverFrameSize \<equiv> 1048576"
abbreviation ObserverFrameHeaderSize :: int where "ObserverFrameHeaderSize \<equiv> 8"
abbreviation MaxObserverQueuedFrameBytes :: int where
  "MaxObserverQueuedFrameBytes \<equiv> MaxObserverFrameSize + ObserverFrameHeaderSize"
abbreviation DefaultObserverQueueBytes :: int where "DefaultObserverQueueBytes \<equiv> 16777216"
abbreviation MaxObserverQueueBytes :: int where "MaxObserverQueueBytes \<equiv> 67108864"
abbreviation maxObserverQueueEntries :: int where "maxObserverQueueEntries \<equiv> 65536"
abbreviation MaxUint64 :: u64 where "MaxUint64 \<equiv> - 1"

record observer_queue =
  oq_capacity :: int
  oq_byteLimit :: int
  oq_bytes :: int
  oq_values :: "byte list list"
  oq_dropped :: u64
  oq_droppedBytes :: u64
  oq_notify :: bool
  oq_space :: bool
  oq_closed :: bool

record observer_loss =
  ol_Dropped :: u64
  ol_DroppedBytes :: u64
  ol_Reason :: string

definition NewObserverQueueWithByteLimit :: "int \<Rightarrow> int \<Rightarrow> observer_error + observer_queue" where
  "NewObserverQueueWithByteLimit capacity byteLimit =
     (if capacity \<le> 0 \<or> maxObserverQueueEntries < capacity then Inl ObserverQueueCapacity
      else if byteLimit \<le> 0 \<or> MaxObserverQueueBytes < byteLimit then Inl ObserverQueueByteLimit
      else Inr \<lparr>oq_capacity = capacity, oq_byteLimit = byteLimit, oq_bytes = 0, oq_values = [],
        oq_dropped = 0, oq_droppedBytes = 0, oq_notify = False, oq_space = False, oq_closed = False\<rparr>)"

definition NewObserverQueue :: "int \<Rightarrow> observer_error + observer_queue" where
  "NewObserverQueue capacity = NewObserverQueueWithByteLimit capacity DefaultObserverQueueBytes"

definition oq_signalLocked :: "observer_queue \<Rightarrow> observer_queue" where
  "oq_signalLocked q = q\<lparr>oq_notify := True\<rparr>"

definition oq_signalSpaceLocked :: "observer_queue \<Rightarrow> observer_queue" where
  "oq_signalSpaceLocked q = q\<lparr>oq_space := True\<rparr>"

abbreviation size_invalid :: "byte list \<Rightarrow> bool" where
  "size_invalid v \<equiv> v = [] \<or> MaxObserverQueuedFrameBytes < int (length v)"

abbreviation has_room :: "observer_queue \<Rightarrow> byte list \<Rightarrow> bool" where
  "has_room q v \<equiv> int (length (oq_values q)) < oq_capacity q \<and> int (length v) \<le> oq_byteLimit q - oq_bytes q"

definition oq_append :: "observer_queue \<Rightarrow> byte list \<Rightarrow> observer_queue" where
  "oq_append q v = oq_signalLocked (q\<lparr>oq_values := oq_values q @ [v], oq_bytes := oq_bytes q + int (length v)\<rparr>)"

definition oq_Enqueue :: "observer_queue \<Rightarrow> byte list \<Rightarrow> observer_error option \<times> observer_queue" where
  "oq_Enqueue q v =
     (if size_invalid v then (Some ErrObserverFrameTooLarge, q)
      else if oq_closed q then (Some ErrObserverQueueClosed, q)
      else if oq_capacity q \<le> int (length (oq_values q)) \<or> oq_byteLimit q - oq_bytes q < int (length v) then
        let q1 = (if oq_dropped q \<noteq> MaxUint64 then q\<lparr>oq_dropped := oq_dropped q + 1\<rparr> else q);
            size = (of_int (int (length v)) :: u64);
            q2 = (if MaxUint64 - oq_droppedBytes q1 < size then q1\<lparr>oq_droppedBytes := MaxUint64\<rparr>
                  else q1\<lparr>oq_droppedBytes := oq_droppedBytes q1 + size\<rparr>)
        in (Some ErrObserverBackpressure, oq_signalLocked q2)
      else (None, oq_append q v))"

text \<open>One turn of the loop of \<open>EnqueueWait\<close>: it returns, or blocks in its \<open>select\<close>.\<close>

datatype wait_turn = Returned "observer_error option" | Blocked

definition EnqueueWait_turn :: "observer_queue \<Rightarrow> byte list \<Rightarrow> wait_turn \<times> observer_queue" where
  "EnqueueWait_turn q v =
     (if oq_closed q then (Returned (Some ErrObserverQueueClosed), q)
      else if oq_byteLimit q < int (length v) then (Returned (Some ErrObserverBackpressure), q)
      else if has_room q v then (Returned None, oq_append q v)
      else (Blocked, q))"

definition oq_Dequeue :: "observer_queue \<Rightarrow> byte list option \<times> observer_queue" where
  "oq_Dequeue q =
     (case oq_values q of
        [] \<Rightarrow> (None, q)
      | v # vs \<Rightarrow> (Some v, oq_signalSpaceLocked (q\<lparr>oq_values := vs, oq_bytes := oq_bytes q - int (length v)\<rparr>)))"

definition LossSummary :: "observer_queue \<Rightarrow> observer_loss \<times> observer_queue" where
  "LossSummary q =
     (let q' = q\<lparr>oq_dropped := 0, oq_droppedBytes := 0\<rparr>
      in (if oq_dropped q = 0 then \<lparr>ol_Dropped = 0, ol_DroppedBytes = 0, ol_Reason = ''''\<rparr>
          else \<lparr>ol_Dropped = oq_dropped q, ol_DroppedBytes = oq_droppedBytes q,
            ol_Reason = ''observer-send-queue-overflow''\<rparr>, q'))"

definition SealedAndDrained :: "observer_queue \<Rightarrow> bool" where
  "SealedAndDrained q \<longleftrightarrow>
     oq_closed q \<and> oq_values q = [] \<and> oq_bytes q = 0 \<and> oq_dropped q = 0 \<and> oq_droppedBytes q = 0"

definition oq_Seal :: "observer_queue \<Rightarrow> observer_queue" where
  "oq_Seal q = (if oq_closed q then q else oq_signalSpaceLocked (oq_signalLocked (q\<lparr>oq_closed := True\<rparr>)))"

definition oq_Close :: "observer_queue \<Rightarrow> observer_queue" where
  "oq_Close q = oq_signalSpaceLocked (oq_signalLocked (q\<lparr>oq_closed := True, oq_values := [], oq_bytes := 0\<rparr>))"

lemmas oq_defs = oq_signalLocked_def oq_signalSpaceLocked_def oq_append_def oq_Enqueue_def
  EnqueueWait_turn_def oq_Dequeue_def LossSummary_def oq_Seal_def oq_Close_def

section \<open>Producers and a consumer\<close>

text \<open>
  A call of \<open>EnqueueWait\<close> is running (about to take its next turn), waiting in its \<open>select\<close>, or
  returned. The lists \<open>os_admitted\<close>, \<open>os_taken\<close> and \<open>os_discarded\<close> record the frames the queue accepted,
  gave to the consumer, and threw away in \<open>Close\<close>.
\<close>

datatype producer = Running "byte list" | Waiting "byte list" | Returned_with "observer_error option"

record observer_system =
  os_queue :: observer_queue
  os_producers :: "producer list"
  os_admitted :: "byte list list"
  os_taken :: "byte list list"
  os_discarded :: "byte list list"

definition initial_system :: "observer_queue \<Rightarrow> observer_system" where
  "initial_system q = \<lparr>os_queue = q, os_producers = [], os_admitted = [], os_taken = [], os_discarded = []\<rparr>"

inductive oq_step :: "observer_system \<Rightarrow> observer_system \<Rightarrow> bool" where
  enqueue: "oq_Enqueue (os_queue s) v = (e, q) \<Longrightarrow>
    oq_step s (s\<lparr>os_queue := q, os_admitted := os_admitted s @ (if e = None then [v] else [])\<rparr>)"
| call: "oq_step s (s\<lparr>os_producers := os_producers s @
      [if size_invalid v then Returned_with (Some ErrObserverFrameTooLarge) else Running v]\<rparr>)"
| turn_returns: "p < length (os_producers s) \<Longrightarrow> os_producers s ! p = Running v \<Longrightarrow>
    EnqueueWait_turn (os_queue s) v = (Returned e, q) \<Longrightarrow>
    oq_step s (s\<lparr>os_queue := q, os_producers := (os_producers s)[p := Returned_with e],
      os_admitted := os_admitted s @ (if e = None then [v] else [])\<rparr>)"
| turn_blocks: "p < length (os_producers s) \<Longrightarrow> os_producers s ! p = Running v \<Longrightarrow>
    EnqueueWait_turn (os_queue s) v = (Blocked, q) \<Longrightarrow>
    oq_step s (s\<lparr>os_queue := q, os_producers := (os_producers s)[p := Waiting v]\<rparr>)"
| wake: "p < length (os_producers s) \<Longrightarrow> os_producers s ! p = Waiting v \<Longrightarrow> oq_space (os_queue s) \<Longrightarrow>
    oq_step s (s\<lparr>os_queue := (os_queue s)\<lparr>oq_space := False\<rparr>, os_producers := (os_producers s)[p := Running v]\<rparr>)"
| wake_done: "p < length (os_producers s) \<Longrightarrow> os_producers s ! p = Waiting v \<Longrightarrow> oq_closed (os_queue s) \<Longrightarrow>
    oq_step s (s\<lparr>os_producers := (os_producers s)[p := Returned_with (Some ErrObserverQueueClosed)]\<rparr>)"
| wake_stop: "p < length (os_producers s) \<Longrightarrow> os_producers s ! p = Waiting v \<Longrightarrow>
    oq_step s (s\<lparr>os_producers := (os_producers s)[p := Returned_with (Some ErrObserverQueueClosed)]\<rparr>)"
| dequeue: "oq_Dequeue (os_queue s) = (r, q) \<Longrightarrow>
    oq_step s (s\<lparr>os_queue := q, os_taken := os_taken s @ (case r of None \<Rightarrow> [] | Some v \<Rightarrow> [v])\<rparr>)"
| notified: "oq_notify (os_queue s) \<Longrightarrow> oq_step s (s\<lparr>os_queue := (os_queue s)\<lparr>oq_notify := False\<rparr>\<rparr>)"
| loss: "LossSummary (os_queue s) = (l, q) \<Longrightarrow> oq_step s (s\<lparr>os_queue := q\<rparr>)"
| seal: "oq_step s (s\<lparr>os_queue := oq_Seal (os_queue s)\<rparr>)"
| close: "oq_step s (s\<lparr>os_queue := oq_Close (os_queue s),
      os_discarded := os_discarded s @ oq_values (os_queue s)\<rparr>)"

inductive oq_reachable :: "int \<Rightarrow> int \<Rightarrow> observer_system \<Rightarrow> bool" for capacity byteLimit where
  start: "NewObserverQueueWithByteLimit capacity byteLimit = Inr q \<Longrightarrow>
    oq_reachable capacity byteLimit (initial_system q)"
| step: "oq_reachable capacity byteLimit s \<Longrightarrow> oq_step s t \<Longrightarrow> oq_reachable capacity byteLimit t"

section \<open>Invariants\<close>

definition oq_bounded :: "int \<Rightarrow> int \<Rightarrow> observer_queue \<Rightarrow> bool" where
  "oq_bounded capacity byteLimit q \<longleftrightarrow>
     oq_capacity q = capacity \<and> oq_byteLimit q = byteLimit \<and> 0 < capacity \<and>
     int (length (oq_values q)) \<le> capacity \<and> oq_bytes q = int (length (concat (oq_values q))) \<and>
     oq_bytes q \<le> byteLimit \<and> list_all (\<lambda>v. \<not> size_invalid v) (oq_values q)"

lemma oq_bounded_new:
  "NewObserverQueueWithByteLimit capacity byteLimit = Inr q \<Longrightarrow> oq_bounded capacity byteLimit q"
  by (auto simp: NewObserverQueueWithByteLimit_def oq_bounded_def split: if_splits)

lemma oq_bounded_append:
  "oq_bounded c l q \<Longrightarrow> has_room q v \<Longrightarrow> \<not> size_invalid v \<Longrightarrow> oq_bounded c l (oq_append q v)"
  by (auto simp: oq_bounded_def oq_append_def oq_signalLocked_def)

lemma oq_bounded_Enqueue: "oq_bounded c l q \<Longrightarrow> oq_Enqueue q v = (e, q') \<Longrightarrow> oq_bounded c l q'"
  using oq_bounded_append[of c l q v]
  by (auto simp: oq_Enqueue_def Let_def oq_signalLocked_def oq_bounded_def not_le not_less split: if_splits)

lemma oq_bounded_turn:
  "oq_bounded c l q \<Longrightarrow> \<not> size_invalid v \<Longrightarrow> EnqueueWait_turn q v = (r, q') \<Longrightarrow> oq_bounded c l q'"
  using oq_bounded_append[of c l q v] by (auto simp: EnqueueWait_turn_def split: if_splits)

lemma oq_bounded_Dequeue: "oq_bounded c l q \<Longrightarrow> oq_Dequeue q = (r, q') \<Longrightarrow> oq_bounded c l q'"
  by (auto simp: oq_Dequeue_def oq_bounded_def oq_signalSpaceLocked_def split: list.splits)

text \<open>A frame a producer holds passed the size test, and a waiting one fits the empty queue.\<close>

definition producer_ok :: "int \<Rightarrow> producer \<Rightarrow> bool" where
  "producer_ok byteLimit p =
     (case p of Running v \<Rightarrow> \<not> size_invalid v
      | Waiting v \<Rightarrow> \<not> size_invalid v \<and> int (length v) \<le> byteLimit | Returned_with _ \<Rightarrow> True)"

fun is_waiting :: "producer \<Rightarrow> bool" where
  "is_waiting (Waiting v) = True"
| "is_waiting _ = False"

fun is_running :: "int \<Rightarrow> producer \<Rightarrow> bool" where
  "is_running byteLimit (Running v) \<longleftrightarrow> int (length v) \<le> byteLimit"
| "is_running byteLimit _ = False"

definition os_live :: "observer_system \<Rightarrow> bool" where
  "os_live s \<longleftrightarrow> (list_ex is_waiting (os_producers s) \<longrightarrow> oq_closed (os_queue s) \<or> oq_values (os_queue s) \<noteq> [] \<or>
     oq_space (os_queue s) \<or> list_ex (is_running (oq_byteLimit (os_queue s))) (os_producers s))"

definition os_inv :: "int \<Rightarrow> int \<Rightarrow> observer_system \<Rightarrow> bool" where
  "os_inv capacity byteLimit s \<longleftrightarrow>
     oq_bounded capacity byteLimit (os_queue s) \<and> list_all (producer_ok byteLimit) (os_producers s) \<and>
     os_admitted s = os_taken s @ os_discarded s @ oq_values (os_queue s) \<and>
     (os_discarded s \<noteq> [] \<longrightarrow> oq_closed (os_queue s) \<and> oq_values (os_queue s) = []) \<and> os_live s"

lemma list_all_update_nth: "list_all P xs \<Longrightarrow> P y \<Longrightarrow> list_all P (xs[p := y])"
  using set_update_subset_insert[of xs p y] by (auto simp: list_all_iff)

lemma list_all_nthD: "list_all P xs \<Longrightarrow> p < length xs \<Longrightarrow> P (xs ! p)"
  by (simp add: list_all_length)

lemma list_ex_updateD: "list_ex P (xs[p := y]) \<Longrightarrow> \<not> P y \<Longrightarrow> list_ex P xs"
  using set_update_subset_insert[of xs p y] by (auto simp: list_ex_iff)

lemma list_ex_updateI: "list_ex P xs \<Longrightarrow> p < length xs \<Longrightarrow> P y \<or> \<not> P (xs ! p) \<Longrightarrow> list_ex P (xs[p := y])"
  by (auto simp: list_ex_length nth_list_update)

lemma list_ex_update_new: "p < length xs \<Longrightarrow> P y \<Longrightarrow> list_ex P (xs[p := y])"
  by (auto simp: list_ex_length intro!: exI[of _ p])

text \<open>What each operation leaves of the queue, as far as the other conjuncts see it.\<close>

lemma Enqueue_shape:
  assumes "oq_Enqueue q v = (e, q')"
  shows "oq_values q' = oq_values q @ (if e = None then [v] else [])" "oq_closed q' = oq_closed q"
    "oq_space q' = oq_space q" "oq_byteLimit q' = oq_byteLimit q" "e = None \<Longrightarrow> \<not> oq_closed q"
  using assms by (auto simp: oq_Enqueue_def Let_def oq_signalLocked_def oq_append_def split: if_splits)

lemma turn_shape:
  assumes "EnqueueWait_turn q v = (r, q')"
  shows "oq_values q' = oq_values q @ (if r = Returned None then [v] else [])" "oq_closed q' = oq_closed q"
    "oq_space q' = oq_space q" "oq_byteLimit q' = oq_byteLimit q" "r = Returned None \<Longrightarrow> \<not> oq_closed q"
    "r = Blocked \<Longrightarrow> q' = q \<and> int (length v) \<le> oq_byteLimit q \<and> \<not> oq_closed q \<and> \<not> has_room q v"
    "r = Returned e \<Longrightarrow> e \<noteq> None \<Longrightarrow> oq_closed q \<or> oq_byteLimit q < int (length v)"
  using assms by (auto simp: EnqueueWait_turn_def oq_signalLocked_def oq_append_def split: if_splits)

text \<open>A turn that finds the queue empty does not block.\<close>

lemma blocked_nonempty:
  assumes "oq_bounded c l q" "EnqueueWait_turn q v = (Blocked, q')"
  shows "oq_values q \<noteq> []"
  using turn_shape(6)[OF assms(2) refl] assms(1) by (auto simp: oq_bounded_def)

lemma os_live_nonempty: "oq_values (os_queue s) \<noteq> [] \<Longrightarrow> os_live s"
  by (simp add: os_live_def)

lemma inv_enqueue:
  assumes "os_inv c l s" "oq_Enqueue (os_queue s) v = (e, q)"
  shows "os_inv c l (s\<lparr>os_queue := q, os_admitted := os_admitted s @ (if e = None then [v] else [])\<rparr>)"
  using assms oq_bounded_Enqueue[OF _ assms(2)] Enqueue_shape[OF assms(2)]
  by (auto simp: os_inv_def os_live_def)

lemma inv_call:
  assumes "os_inv c l s"
  shows "os_inv c l (s\<lparr>os_producers := os_producers s @
      [if size_invalid v then Returned_with (Some ErrObserverFrameTooLarge) else Running v]\<rparr>)"
  using assms by (auto simp: os_inv_def os_live_def producer_ok_def)

lemma inv_turn_returns:
  assumes inv: "os_inv c l s" and p: "p < length (os_producers s)" "os_producers s ! p = Running v"
    and t: "EnqueueWait_turn (os_queue s) v = (Returned e, q)"
  shows "os_inv c l (s\<lparr>os_queue := q, os_producers := (os_producers s)[p := Returned_with e],
      os_admitted := os_admitted s @ (if e = None then [v] else [])\<rparr>)" (is "os_inv c l ?t")
proof -
  note sh = turn_shape[OF t, simplified]
  have v: "\<not> size_invalid v"
    using inv list_all_nthD[OF _ p(1), of "producer_ok l"] p(2) by (simp add: os_inv_def producer_ok_def)
  have "oq_bounded c l q" using oq_bounded_turn[OF _ v t] inv by (simp add: os_inv_def)
  moreover have "os_live ?t"
  proof (cases "e = None")
    case True
    then show ?thesis using sh by (intro os_live_nonempty) simp
  next
    case False
    have "list_ex (is_running (oq_byteLimit q)) (os_producers s) \<Longrightarrow> \<not> oq_closed q \<Longrightarrow>
        list_ex (is_running (oq_byteLimit q)) ((os_producers s)[p := Returned_with e])"
      using sh False p by (auto intro!: list_ex_updateI)
    moreover have "list_ex is_waiting ((os_producers s)[p := Returned_with e]) \<Longrightarrow> list_ex is_waiting (os_producers s)"
      by (erule list_ex_updateD) simp
    ultimately show ?thesis using inv sh False by (auto simp: os_inv_def os_live_def)
  qed
  ultimately show ?thesis using inv sh
    by (auto simp: os_inv_def producer_ok_def intro!: list_all_update_nth)
qed

lemma inv_turn_blocks:
  assumes inv: "os_inv c l s" and p: "p < length (os_producers s)" "os_producers s ! p = Running v"
    and t: "EnqueueWait_turn (os_queue s) v = (Blocked, q)"
  shows "os_inv c l (s\<lparr>os_queue := q, os_producers := (os_producers s)[p := Waiting v]\<rparr>)" (is "os_inv c l ?t")
proof -
  note sh = turn_shape(6)[OF t refl]
  have b: "oq_bounded c l (os_queue s)" using inv by (simp add: os_inv_def)
  have "os_live ?t" using blocked_nonempty[OF b t] sh by (intro os_live_nonempty) simp
  moreover have "producer_ok l (Waiting v)"
    using inv list_all_nthD[OF _ p(1), of "producer_ok l"] p(2) sh b
    by (simp add: os_inv_def producer_ok_def oq_bounded_def)
  ultimately show ?thesis using inv sh by (auto simp: os_inv_def intro!: list_all_update_nth)
qed

lemma inv_wake:
  assumes inv: "os_inv c l s" and p: "p < length (os_producers s)" "os_producers s ! p = Waiting v"
  shows "os_inv c l (s\<lparr>os_queue := (os_queue s)\<lparr>oq_space := False\<rparr>, os_producers := (os_producers s)[p := Running v]\<rparr>)"
    (is "os_inv c l ?t")
proof -
  have v: "producer_ok l (Waiting v)"
    using inv list_all_nthD[OF _ p(1), of "producer_ok l"] p(2) by (simp add: os_inv_def)
  then have "list_ex (is_running (oq_byteLimit (os_queue s))) ((os_producers s)[p := Running v])" using p inv
    by (auto simp: os_inv_def oq_bounded_def producer_ok_def intro!: list_ex_update_new)
  then show ?thesis using inv v
    by (auto simp: os_inv_def os_live_def producer_ok_def oq_bounded_def intro!: list_all_update_nth)
qed

lemma inv_give_up:
  assumes inv: "os_inv c l s" and p: "p < length (os_producers s)" "os_producers s ! p = Waiting v"
  shows "os_inv c l (s\<lparr>os_producers := (os_producers s)[p := Returned_with e]\<rparr>)" (is "os_inv c l ?t")
proof -
  have "list_ex (is_running b) (os_producers s) \<Longrightarrow> list_ex (is_running b) ((os_producers s)[p := Returned_with e])" for b
    using p by (auto intro!: list_ex_updateI)
  moreover have "list_ex is_waiting ((os_producers s)[p := Returned_with e]) \<Longrightarrow> list_ex is_waiting (os_producers s)"
    by (erule list_ex_updateD) simp
  ultimately show ?thesis using inv
    by (auto simp: os_inv_def os_live_def producer_ok_def intro!: list_all_update_nth)
qed

lemma inv_dequeue:
  assumes "os_inv c l s" "oq_Dequeue (os_queue s) = (r, q)"
  shows "os_inv c l (s\<lparr>os_queue := q, os_taken := os_taken s @ (case r of None \<Rightarrow> [] | Some v \<Rightarrow> [v])\<rparr>)"
  using assms oq_bounded_Dequeue[OF _ assms(2)]
  by (auto simp: os_inv_def os_live_def oq_Dequeue_def oq_signalSpaceLocked_def
      split: list.splits)

lemma inv_other:
  assumes "os_inv c l s"
  shows "os_inv c l (s\<lparr>os_queue := (os_queue s)\<lparr>oq_notify := False\<rparr>\<rparr>)"
    "os_inv c l (s\<lparr>os_queue := snd (LossSummary (os_queue s))\<rparr>)"
    "os_inv c l (s\<lparr>os_queue := oq_Seal (os_queue s)\<rparr>)"
    "os_inv c l (s\<lparr>os_queue := oq_Close (os_queue s), os_discarded := os_discarded s @ oq_values (os_queue s)\<rparr>)"
  using assms
  by (auto simp: os_inv_def os_live_def oq_bounded_def oq_Seal_def oq_Close_def
      LossSummary_def Let_def oq_signalLocked_def oq_signalSpaceLocked_def)

lemma queue_step_inv: "oq_step s t \<Longrightarrow> os_inv c l s \<Longrightarrow> os_inv c l t"
proof (induction rule: oq_step.induct)
  case (loss s ls q)
  then show ?case using inv_other(2)[of c l s] by simp
qed (simp_all only: inv_enqueue inv_call inv_turn_returns inv_turn_blocks inv_wake inv_give_up inv_dequeue inv_other)

lemma reachable_os_inv: "oq_reachable c l s \<Longrightarrow> os_inv c l s"
proof (induction rule: oq_reachable.induct)
  case (start q)
  then show ?case using oq_bounded_new[OF start]
    by (auto simp: os_inv_def initial_system_def os_live_def NewObserverQueueWithByteLimit_def split: if_splits)
qed (rule queue_step_inv)

text \<open>From an empty open queue with a free wake-up token a waiting producer gets its frame in.\<close>

lemma turn_empty:
  assumes "oq_bounded c l q" "oq_values q = []" "\<not> oq_closed q" "int (length v) \<le> l"
  shows "EnqueueWait_turn q v = (Returned None, oq_append q v)"
  using assms by (auto simp: EnqueueWait_turn_def oq_bounded_def)

definition empty_open :: "int \<Rightarrow> int \<Rightarrow> nat \<Rightarrow> byte list \<Rightarrow> observer_system \<Rightarrow> bool" where
  "empty_open c l p v s \<longleftrightarrow> os_inv c l s \<and> oq_values (os_queue s) = [] \<and> \<not> oq_closed (os_queue s) \<and>
     p < length (os_producers s) \<and> os_producers s ! p = Waiting v"

lemma producer_fits:
  "os_inv c l s \<Longrightarrow> p < length (os_producers s) \<Longrightarrow> os_producers s ! p = Waiting v \<Longrightarrow> int (length v) \<le> l"
  using list_all_nthD[of "producer_ok l" "os_producers s" p] by (simp add: os_inv_def producer_ok_def)

lemma empty_open_space:
  assumes e: "empty_open c l p v s" and sp: "oq_space (os_queue s)"
  shows "\<exists>t. oq_step\<^sup>*\<^sup>* s t \<and> p < length (os_producers t) \<and> os_producers t ! p = Returned_with None"
proof -
  let ?s1 = "s\<lparr>os_queue := (os_queue s)\<lparr>oq_space := False\<rparr>, os_producers := (os_producers s)[p := Running v]\<rparr>"
  have p: "p < length (os_producers s)" "os_producers s ! p = Waiting v" and inv: "os_inv c l s"
    using e by (simp_all add: empty_open_def)
  have s1: "oq_step s ?s1" by (rule oq_step.wake[OF p sp])
  have "os_inv c l ?s1" by (rule inv_wake[OF inv p])
  then have t: "EnqueueWait_turn (os_queue ?s1) v = (Returned None, oq_append (os_queue ?s1) v)"
    using e producer_fits[OF inv p] by (intro turn_empty[of c l]) (simp_all add: empty_open_def os_inv_def)
  have "oq_step ?s1 (?s1\<lparr>os_queue := oq_append (os_queue ?s1) v,
      os_producers := (os_producers ?s1)[p := Returned_with None], os_admitted := os_admitted ?s1 @ [v]\<rparr>)" (is "oq_step _ ?t")
    using oq_step.turn_returns[OF _ _ t, of p] p(1) by simp
  then have "oq_step\<^sup>*\<^sup>* s ?t" using s1 by (simp only: converse_rtranclp_into_rtranclp r_into_rtranclp)
  then show ?thesis using p(1) by (intro exI[of _ ?t]) simp
qed

text \<open>Draining an open queue sets the token.\<close>

lemma drain:
  assumes "os_inv c l s" "\<not> oq_closed (os_queue s)" "oq_values (os_queue s) \<noteq> []"
    and "p < length (os_producers s)" "os_producers s ! p = Waiting v"
  shows "\<exists>t. oq_step\<^sup>*\<^sup>* s t \<and> empty_open c l p v t \<and> oq_space (os_queue t)"
  using assms
proof (induction "oq_values (os_queue s)" arbitrary: s)
  case (Cons x xs)
  let ?q = "oq_signalSpaceLocked ((os_queue s)\<lparr>oq_values := xs, oq_bytes := oq_bytes (os_queue s) - int (length x)\<rparr>)"
  have d: "oq_Dequeue (os_queue s) = (Some x, ?q)" using Cons.hyps(2)[symmetric] by (simp add: oq_Dequeue_def)
  let ?t = "s\<lparr>os_queue := ?q, os_taken := os_taken s @ [x]\<rparr>"
  have st: "oq_step s ?t" using oq_step.dequeue[OF d] by simp
  have inv: "os_inv c l ?t" using queue_step_inv[OF st Cons.prems(1)] .
  show ?case
  proof (cases "xs = []")
    case True
    then show ?thesis using st inv Cons.prems by (intro exI[of _ ?t])
      (auto simp: empty_open_def oq_signalSpaceLocked_def)
  next
    case False
    have "\<exists>t. oq_step\<^sup>*\<^sup>* ?t t \<and> empty_open c l p v t \<and> oq_space (os_queue t)"
      using Cons.hyps(1)[of ?t] inv Cons.prems False by (simp add: oq_signalSpaceLocked_def)
    then show ?thesis using st by (meson converse_rtranclp_into_rtranclp)
  qed
qed simp

lemma waiting_progress:
  assumes inv: "os_inv c l s" and p: "p < length (os_producers s)" "os_producers s ! p = Waiting v"
    and op: "\<not> oq_closed (os_queue s)"
  shows "\<exists>t. oq_step\<^sup>*\<^sup>* s t \<and> p < length (os_producers t) \<and> os_producers t ! p = Returned_with None"
proof -
  have full: "\<exists>t. oq_step\<^sup>*\<^sup>* s t \<and> p < length (os_producers t) \<and> os_producers t ! p = Returned_with None"
    if "os_inv c l s" "\<not> oq_closed (os_queue s)" "oq_values (os_queue s) \<noteq> []"
      "p < length (os_producers s)" "os_producers s ! p = Waiting v" for s
    using drain[OF that] empty_open_space by (meson rtranclp_trans)
  consider "oq_values (os_queue s) \<noteq> []" | "oq_values (os_queue s) = []" "oq_space (os_queue s)"
    | "oq_values (os_queue s) = []" "list_ex (is_running l) (os_producers s)"
  proof -
    have "is_waiting (os_producers s ! p)" using p(2) by simp
    then have "list_ex is_waiting (os_producers s)" using p(1) by (auto simp: list_ex_length)
    then show ?thesis using inv op that by (auto simp: os_inv_def os_live_def oq_bounded_def)
  qed
  then show ?thesis
  proof cases
    case 1
    then show ?thesis using full inv op p by blast
  next
    case 2
    then show ?thesis using empty_open_space[of c l p v s] inv op p by (simp add: empty_open_def)
  next
    case 3
    then obtain p' w where p': "p' < length (os_producers s)" "os_producers s ! p' = Running w" "int (length w) \<le> l"
      by (auto simp: list_ex_length elim!: is_running.elims(2))
    have t: "EnqueueWait_turn (os_queue s) w = (Returned None, oq_append (os_queue s) w)"
      using inv 3 op p'(3) by (intro turn_empty[of c l]) (simp_all add: os_inv_def)
    let ?t = "s\<lparr>os_queue := oq_append (os_queue s) w, os_producers := (os_producers s)[p' := Returned_with None],
      os_admitted := os_admitted s @ [w]\<rparr>"
    have st: "oq_step s ?t" using oq_step.turn_returns[OF p'(1,2) t] by simp
    have "p \<noteq> p'" using p(2) p'(2) by auto
    then have "\<exists>u. oq_step\<^sup>*\<^sup>* ?t u \<and> p < length (os_producers u) \<and> os_producers u ! p = Returned_with None"
      using queue_step_inv[OF st inv] op p by (intro full) (simp_all add: oq_append_def oq_signalLocked_def)
    then show ?thesis using st by (meson converse_rtranclp_into_rtranclp)
  qed
qed

lemma drained_step:
  assumes "oq_step s t" "SealedAndDrained (os_queue s)"
  shows "SealedAndDrained (os_queue t) \<and> os_taken t = os_taken s \<and> os_discarded t = os_discarded s \<and> os_admitted t = os_admitted s"
  using assms by (induction rule: oq_step.induct)
    (auto simp: SealedAndDrained_def oq_Enqueue_def EnqueueWait_turn_def oq_Dequeue_def LossSummary_def Let_def
      oq_Seal_def oq_Close_def oq_signalLocked_def oq_signalSpaceLocked_def split: if_splits)

lemma drained_steps:
  assumes "oq_step\<^sup>*\<^sup>* s t" "SealedAndDrained (os_queue s)"
  shows "SealedAndDrained (os_queue t) \<and> os_taken t = os_taken s \<and> os_discarded t = os_discarded s \<and> os_admitted t = os_admitted s"
  using assms by (induction rule: rtranclp_induct) (auto dest: drained_step)

section \<open>Properties\<close>

definition sample_queue :: observer_queue where
  "sample_queue = \<lparr>oq_capacity = 1, oq_byteLimit = 4, oq_bytes = 0, oq_values = [], oq_dropped = 0,
     oq_droppedBytes = 0, oq_notify = False, oq_space = False, oq_closed = False\<rparr>"

text \<open>A full queue with one producer waiting for room.\<close>

definition sample_waiting :: observer_system where
  "sample_waiting = \<lparr>os_queue = oq_append sample_queue [1, 2], os_producers = [Waiting [3]],
     os_admitted = [[1, 2]], os_taken = [], os_discarded = []\<rparr>"

lemma sample_waiting_reachable: "oq_reachable 1 4 sample_waiting"
proof -
  let ?s0 = "initial_system sample_queue"
  let ?s1 = "?s0\<lparr>os_queue := oq_append sample_queue [1, 2], os_admitted := [[1, 2]]\<rparr>"
  let ?s2 = "?s1\<lparr>os_producers := [Running [3]]\<rparr>"
  have "oq_reachable 1 4 ?s0"
    by (rule oq_reachable.start) (simp add: NewObserverQueueWithByteLimit_def sample_queue_def)
  moreover have "oq_step ?s0 ?s1"
    using oq_step.enqueue[of ?s0 "[1, 2]" None "oq_append sample_queue [1, 2]"]
    by (simp add: initial_system_def oq_Enqueue_def sample_queue_def)
  moreover have "oq_step ?s1 ?s2" using oq_step.call[of ?s1 "[3]"] by (simp add: initial_system_def)
  moreover have "oq_step ?s2 sample_waiting"
    using oq_step.turn_blocks[of 0 ?s2 "[3]" "oq_append sample_queue [1, 2]"]
    by (simp add: initial_system_def EnqueueWait_turn_def sample_waiting_def oq_append_def oq_signalLocked_def sample_queue_def)
  ultimately show ?thesis by (meson oq_reachable.step)
qed

text \<open>
  C13. The consumer of the observer queue receives the admitted frames in the order of their admission,
  without a loss or a duplicate: what was admitted is what was taken, then what \<open>Close\<close> discarded, then
  what is queued, in every interleaving of producers, consumer, \<open>Seal\<close> and \<open>Close\<close>.\<close>

theorem queue_conserves_frames:
  assumes "oq_reachable capacity byteLimit s"
  shows "os_admitted s = os_taken s @ os_discarded s @ oq_values (os_queue s)"
  using reachable_os_inv[OF assms] by (simp add: os_inv_def)

theorem queue_conserves_frames_witness:
  "os_admitted sample_waiting = os_taken sample_waiting @ os_discarded sample_waiting @ oq_values (os_queue sample_waiting)"
  by (rule queue_conserves_frames[OF sample_waiting_reachable])

text \<open>
  C35. The queue never holds more frames than its capacity nor more bytes than its byte limit, and its byte
  counter is exact.\<close>

theorem queue_within_bounds:
  assumes "oq_reachable capacity byteLimit s"
  shows "int (length (oq_values (os_queue s))) \<le> capacity \<and>
    int (length (concat (oq_values (os_queue s)))) = oq_bytes (os_queue s) \<and> oq_bytes (os_queue s) \<le> byteLimit"
  using reachable_os_inv[OF assms] by (simp add: os_inv_def oq_bounded_def)

theorem queue_within_bounds_witness:
  "int (length (oq_values (os_queue sample_waiting))) \<le> 1 \<and>
    int (length (concat (oq_values (os_queue sample_waiting)))) = oq_bytes (os_queue sample_waiting) \<and>
    oq_bytes (os_queue sample_waiting) \<le> 4"
  by (rule queue_within_bounds[OF sample_waiting_reachable])





end
