(* ===== verification/Session_Control.thy ===== *)
theory Session_Control
  imports Session_Wire Activity_Model
begin

text \<open>
  The control messages of the session protocol: \<open>internal/sessionwire/control.go\<close>. One record for each
  message, its validator, and the decoding and encoding of payloads. The JSON codec is a parameter, and
  so are the Unicode tables; an error carries the fixed part of its text.
\<close>

section \<open>Texts\<close>

datatype ctl_error = Ctl string | CtlActivity activity_error | CtlToken

abbreviation ctl_activity :: "activity_error option \<Rightarrow> ctl_error option" where
  "ctl_activity \<equiv> map_option CtlActivity"

definition terminalNamePattern :: "string \<Rightarrow> bool" where
  "terminalNamePattern = match_first is_alnum
     (\<lambda>c. is_alnum c \<or> c = CHR ''.'' \<or> c = CHR ''_'' \<or> c = CHR ''+'' \<or> c = CHR ''-'') 63"

fun environmentKeyPattern :: "string \<Rightarrow> bool" where
  "environmentKeyPattern [] = False"
| "environmentKeyPattern (c # cs) \<longleftrightarrow>
     (is_upper c \<or> is_lower c \<or> c = CHR ''_'') \<and> list_all (\<lambda>c. is_alnum c \<or> c = CHR ''_'') cs"

definition codePattern :: "string \<Rightarrow> bool" where
  "codePattern = match_first (\<lambda>c. is_lower c \<or> is_digit c) code_char 127"

definition userPattern :: "string \<Rightarrow> bool" where
  "userPattern = match_first (\<lambda>c. is_lower c \<or> c = CHR ''_'')
     (\<lambda>c. is_lower c \<or> is_digit c \<or> c = CHR ''_'' \<or> c = CHR ''-'') 31"

definition requireID :: "unicode_tables \<Rightarrow> string \<Rightarrow> ctl_error option" where
  "requireID u v = first_err
     [check (len v = 0 \<or> 128 < len v \<or> TrimSpace v \<noteq> v) (Ctl ''id is required and bounded''),
      check (\<not> list_all (\<lambda>r. IsLetter u r \<or> IsDigit u r \<or> r \<in> set (map of_char ''._:-+'')) (runes v))
        (Ctl ''id contains an invalid character'')]"

definition requireSessionID :: "unicode_tables \<Rightarrow> string \<Rightarrow> ctl_error option" where
  "requireSessionID u v = first_err
     [check (\<not> HasPrefix v ''ses_'') (Ctl ''session id must start with ses_''), requireID u v]"

definition requireCode :: "string \<Rightarrow> ctl_error option" where
  "requireCode v = check (\<not> codePattern v) (Ctl ''invalid control code'')"

text \<open>\<open>hex.DecodeString\<close> succeeds and \<open>strings.ToLower\<close> changes nothing: lower-case hexadecimal digits.\<close>

definition requireSHA256 :: "string \<Rightarrow> ctl_error option" where
  "requireSHA256 v = check (len v \<noteq> 64 \<or> \<not> list_all is_lower_hex v) (Ctl ''must be a lowercase SHA-256'')"

definition requirePrefixedSHA256 :: "string \<Rightarrow> ctl_error option" where
  "requirePrefixedSHA256 v =
     (case strip_prefix ''sha256:'' v of
        None \<Rightarrow> Some (Ctl ''must use the sha256 prefix'')
      | Some digest \<Rightarrow> requireSHA256 digest)"

definition requireOpaque :: "string \<Rightarrow> int \<Rightarrow> ctl_error option" where
  "requireOpaque v limit =
     check (v = '''' \<or> limit < len v \<or> \<not> ValidString v \<or> NUL \<in> set v) (Ctl ''is required, NUL-free, and bounded'')"

definition requireEnvironmentValue :: "string \<Rightarrow> int \<Rightarrow> ctl_error option" where
  "requireEnvironmentValue v limit =
     check (limit < len v \<or> \<not> ValidString v \<or> NUL \<in> set v) (Ctl ''environment value must be NUL-free and bounded'')"

definition safeText :: "unicode_tables \<Rightarrow> string \<Rightarrow> int \<Rightarrow> ctl_error option" where
  "safeText u v limit = first_err
     [check (limit < len v \<or> \<not> ValidString v) (Ctl ''is invalid or exceeds its limit''),
      check (\<not> list_all (\<lambda>r. r = 0x0A \<or> r = 0x09 \<or> (IsPrint u r \<and> r \<noteq> 0x1B)) (runes v))
        (Ctl ''contains unsafe control text'')]"

definition requireText :: "unicode_tables \<Rightarrow> string \<Rightarrow> int \<Rightarrow> ctl_error option" where
  "requireText u v limit = (if v = '''' then Some (Ctl ''is required'') else safeText u v limit)"

definition optionalText :: "unicode_tables \<Rightarrow> string \<Rightarrow> int \<Rightarrow> ctl_error option" where
  "optionalText u v limit = (if v = '''' then None else safeText u v limit)"

definition requireCleanAbsolutePath :: "string \<Rightarrow> ctl_error option" where
  "requireCleanAbsolutePath v =
     check (v = '''' \<or> \<not> path_IsAbs v \<or> path_Clean v \<noteq> v \<or> NUL \<in> set v) (Ctl ''must be a clean absolute path'')"

section \<open>Messages between client and daemon\<close>

abbreviation Protocol :: string where "Protocol \<equiv> ''hideout.session-wire/v1''"
abbreviation SupervisorProtocol :: string where "SupervisorProtocol \<equiv> ''hideout.guest-supervisor/v1''"
abbreviation RunRequestSchema :: string where "RunRequestSchema \<equiv> ''hideout.run-session-request/v1''"

record terminal_descriptor =
  td_Mode :: string
  td_Rows :: "16 word"
  td_Columns :: "16 word"
  td_Term :: string

definition Terminal_Validate :: "terminal_descriptor \<Rightarrow> ctl_error option" where
  "Terminal_Validate t =
     (if td_Mode t = ''none'' then
        check (td_Rows t \<noteq> 0 \<or> td_Columns t \<noteq> 0 \<or> td_Term t \<noteq> '''')
          (Ctl ''non-PTY terminal descriptor cannot carry dimensions or TERM'')
      else if td_Mode t = ''pty'' then first_err
        [check (td_Rows t = 0 \<or> td_Columns t = 0) (Ctl ''PTY terminal descriptor requires non-zero dimensions''),
         check (\<not> terminalNamePattern (td_Term t)) (Ctl ''PTY terminal descriptor has invalid TERM'')]
      else Some (Ctl ''unsupported terminal mode''))"

record hello =
  he_Protocol :: string
  he_Token :: string
  he_ClientVersion :: string

definition Hello_Validate :: "unicode_tables \<Rightarrow> hello \<Rightarrow> ctl_error option" where
  "Hello_Validate u h = first_err
     [check (he_Protocol h \<noteq> Protocol) (Ctl ''unsupported protocol''),
      requireOpaque (he_Token h) 4096, optionalText u (he_ClientVersion h) 128]"

record hello_accepted =
  ha_Protocol :: string
  ha_ConnectionID :: string
  ha_InstanceID :: string
  ha_CredentialGeneration :: u64
  ha_RenewalIntervalMs :: u32
  ha_LeaseDurationMs :: u32

definition HelloAccepted_Validate :: "unicode_tables \<Rightarrow> hello_accepted \<Rightarrow> ctl_error option" where
  "HelloAccepted_Validate u h = first_err
     [check (ha_Protocol h \<noteq> Protocol) (Ctl ''unsupported protocol''),
      requireID u (ha_ConnectionID h), requireID u (ha_InstanceID h),
      check (ha_CredentialGeneration h = 0 \<or> ha_RenewalIntervalMs h = 0 \<or> ha_LeaseDurationMs h = 0)
        (Ctl ''hello acceptance requires credential generation and lease timing''),
      check (ha_LeaseDurationMs h \<le> ha_RenewalIntervalMs h) (Ctl ''renewal interval must be shorter than lease duration'')]"

record run_request =
  rr_Schema :: string
  rr_RequestID :: string
  rr_Request :: "byte list"

text \<open>\<open>json_object\<close> says whether bytes are one JSON object, \<open>json_valid\<close> whether they are valid JSON.\<close>

definition RunRequest_Validate :: "unicode_tables \<Rightarrow> (byte list \<Rightarrow> bool) \<Rightarrow> run_request \<Rightarrow> ctl_error option" where
  "RunRequest_Validate u json_object r = first_err
     [check (rr_Schema r \<noteq> RunRequestSchema) (Ctl ''unsupported run request schema''),
      requireID u (rr_RequestID r),
      check (rr_Request r = []) (Ctl ''run request is required''),
      check (\<not> json_object (rr_Request r)) (Ctl ''run request must be one JSON object'')]"

record confirm =
  co_PlanVersion :: string
  co_PlanDigest :: string
  co_Accepted :: bool

definition Confirm_Validate :: "unicode_tables \<Rightarrow> confirm \<Rightarrow> ctl_error option" where
  "Confirm_Validate u c = first_err [requireText u (co_PlanVersion c) 128, requireSHA256 (co_PlanDigest c)]"

record resize =
  rz_Rows :: "16 word"
  rz_Columns :: "16 word"

definition Resize_Validate :: "resize \<Rightarrow> ctl_error option" where
  "Resize_Validate r = check (rz_Rows r = 0 \<or> rz_Columns r = 0) (Ctl ''resize requires non-zero rows and columns'')"

definition Signal_Validate :: "string \<Rightarrow> ctl_error option" where
  "Signal_Validate name =
     check (name \<notin> {''SIGHUP'', ''SIGINT'', ''SIGQUIT'', ''SIGTERM'', ''SIGTSTP'', ''SIGCONT'', ''SIGKILL''})
       (Ctl ''unsupported portable signal'')"

record renew =
  rn_Token :: string
  rn_CredentialGeneration :: u64

definition Renew_Validate :: "renew \<Rightarrow> ctl_error option" where
  "Renew_Validate r = first_err
     [requireOpaque (rn_Token r) 4096,
      check (rn_CredentialGeneration r = 0) (Ctl ''renewal credential generation is required'')]"

record review =
  rv_PlanVersion :: string
  rv_PlanDigest :: string
  rv_ConfirmationRequired :: bool
  rv_Summary :: string

definition Review_Validate :: "unicode_tables \<Rightarrow> review \<Rightarrow> ctl_error option" where
  "Review_Validate u r = first_err
     [requireText u (rv_PlanVersion r) 128, requireSHA256 (rv_PlanDigest r), requireText u (rv_Summary r) 8192]"

record started_control =
  sd_SessionID :: string
  sd_EnvironmentID :: string
  sd_Terminal :: terminal_descriptor
  sd_RenewalIntervalMs :: u32

definition Started_Validate :: "unicode_tables \<Rightarrow> started_control \<Rightarrow> ctl_error option" where
  "Started_Validate u s = first_err
     [requireSessionID u (sd_SessionID s), requireID u (sd_EnvironmentID s), Terminal_Validate (sd_Terminal s),
      check (sd_RenewalIntervalMs s = 0) (Ctl ''started control requires renewal interval'')]"

record notice =
  nt_Code :: string
  nt_Summary :: string

definition Notice_Validate :: "unicode_tables \<Rightarrow> notice \<Rightarrow> ctl_error option" where
  "Notice_Validate u n = first_err [requireCode (nt_Code n), requireText u (nt_Summary n) 4096]"

record error_control =
  er_Code :: string
  er_Summary :: string
  er_Retryable :: bool

definition Error_Validate :: "unicode_tables \<Rightarrow> error_control \<Rightarrow> ctl_error option" where
  "Error_Validate u e = first_err [requireCode (er_Code e), requireText u (er_Summary e) 4096]"

section \<open>Messages of the supervisor\<close>

text \<open>A loop that validates each element and refuses a key it has seen before.\<close>

fun seen_loop :: "('a \<Rightarrow> 'e option) \<Rightarrow> ('a \<Rightarrow> 'b) \<Rightarrow> 'e \<Rightarrow> 'b list \<Rightarrow> 'a list \<Rightarrow> 'e option" where
  "seen_loop V K duplicate seen [] = None"
| "seen_loop V K duplicate seen (x # xs) =
     (case V x of
        Some e \<Rightarrow> Some e
      | None \<Rightarrow> if K x \<in> set seen then Some duplicate else seen_loop V K duplicate (K x # seen) xs)"

lemma seen_loop_None:
  "seen_loop V K duplicate seen xs = None \<longleftrightarrow>
     (\<forall>x \<in> set xs. V x = None) \<and> distinct (map K xs) \<and> set (map K xs) \<inter> set seen = {}"
  by (induction xs arbitrary: seen) (auto split: option.splits)

record coverage_report =
  cr_Subsystem :: string
  cr_State :: string
  cr_Reason :: string
  cr_Evidence :: "string list"
  cr_DroppedEventCount :: u64

definition CoverageReport_Validate :: "coverage_report \<Rightarrow> ctl_error option" where
  "CoverageReport_Validate s = first_err
     [check (cr_Subsystem s \<notin> {SubsystemProcess, SubsystemFile, SubsystemNetwork, SubsystemDNS})
        (Ctl ''supervisor coverage subsystem is invalid''),
      check (cr_State s \<notin> {CoverageAvailable, CoveragePartial, CoverageUnavailable})
        (Ctl ''supervisor coverage state is invalid''),
      requireCode (cr_Reason s),
      check (cr_State s = CoverageAvailable \<and> cr_DroppedEventCount s \<noteq> 0) (CtlActivity ErrFalseAvailableCoverage),
      check (64 < len (cr_Evidence s)) (Ctl ''supervisor coverage evidence exceeds the bound''),
      seen_loop requireCode (\<lambda>e. e) (Ctl ''supervisor coverage evidence is duplicated'') [] (cr_Evidence s)]"

definition validateSupervisorCoverage :: "coverage_report list \<Rightarrow> ctl_error option" where
  "validateSupervisorCoverage vs = first_err
     [check (len vs \<noteq> 4) (Ctl ''supervisor coverage must account for four subsystems''),
      seen_loop CoverageReport_Validate cr_Subsystem (Ctl ''supervisor coverage subsystem is duplicated'') [] vs]"

type_synonym stream_token = "byte list"

text \<open>A token is 32 bytes, not all zero.\<close>

definition Token_Validate :: "stream_token \<Rightarrow> ctl_error option" where
  "Token_Validate t = check (list_all (\<lambda>b. b = 0) t) CtlToken"

record activity_expectation =
  ax_Owner :: activity_owner
  ax_ObserverGeneration :: u64
  ax_ObserverHelperDigest :: string
  ax_ObserverStreamToken :: stream_token
  ax_RedactionGeneration :: string

definition Expectation_Validate :: "unicode_tables \<Rightarrow> activity_expectation \<Rightarrow> string \<Rightarrow> ctl_error option" where
  "Expectation_Validate u x sessionID = first_err
     [ctl_activity (Owner_Validate (ax_Owner x)),
      check (ao_Kind (ax_Owner x) = OwnerDisposableSession \<and> ao_SessionID (ax_Owner x) \<noteq> sessionID)
        (Ctl ''disposable activity owner does not match the supervisor session''),
      check (ax_ObserverGeneration x = 0) (Ctl ''observer generation is required''),
      requirePrefixedSHA256 (ax_ObserverHelperDigest x),
      (if ax_RedactionGeneration x = '''' then None else first_err
         [check (\<not> HasPrefix (ax_RedactionGeneration x) ''red_'') (Ctl ''activity redaction generation must start with red_''),
          requireID u (ax_RedactionGeneration x)]),
      Token_Validate (ax_ObserverStreamToken x)]"

record projection_expectation =
  pe_EnvironmentID :: string
  pe_SessionSnapshotID :: string
  pe_CatalogDigest :: string
  pe_ExpectedEntries :: int
  pe_TargetProjected :: bool

definition Projection_Validate :: "unicode_tables \<Rightarrow> projection_expectation \<Rightarrow> ctl_error option" where
  "Projection_Validate u p = first_err
     [requireID u (pe_EnvironmentID p), requirePrefixedSHA256 (pe_SessionSnapshotID p),
      requirePrefixedSHA256 (pe_CatalogDigest p),
      check (pe_ExpectedEntries p \<le> 0 \<or> 129 < pe_ExpectedEntries p)
        (Ctl ''projection readiness expected entry count is invalid'')]"

record supervisor_start =
  ss_Protocol :: string
  ss_SessionID :: string
  ss_TargetUser :: string
  ss_GuestWork :: string
  ss_Argv :: "string list"
  ss_Env :: "(string \<times> string) list"
  ss_Terminal :: terminal_descriptor
  ss_ExpectedBootID :: string
  ss_SessionSource :: string
  ss_ProjectionReadiness :: "projection_expectation option"
  ss_Activity :: "activity_expectation option"

abbreviation session_root :: string where "session_root \<equiv> ''/hideout/runtime/sessions/''"

definition env_entry_error :: "string \<times> string \<Rightarrow> ctl_error option" where
  "env_entry_error kv = first_err
     [check (\<not> environmentKeyPattern (fst kv)) (Ctl ''invalid supervisor environment key''),
      requireEnvironmentValue (snd kv) 8192]"

definition SupervisorStart_Validate :: "unicode_tables \<Rightarrow> supervisor_start \<Rightarrow> ctl_error option" where
  "SupervisorStart_Validate u s = first_err
     [check (ss_Protocol s \<noteq> SupervisorProtocol) (Ctl ''unsupported supervisor protocol''),
      requireSessionID u (ss_SessionID s),
      check (\<not> userPattern (ss_TargetUser s) \<or> ss_TargetUser s = ''root'')
        (Ctl ''supervisor target user must be a validated non-root user''),
      requireCleanAbsolutePath (ss_GuestWork s),
      check (ss_Argv s = [] \<or> 1024 < len (ss_Argv s)) (Ctl ''supervisor argv must contain 1 through 1024 arguments''),
      first_err (map (\<lambda>a. requireOpaque a 8192) (ss_Argv s)),
      check (1024 < len (ss_Env s)) (Ctl ''supervisor environment has too many entries''),
      first_err (map env_entry_error (ss_Env s)),
      Terminal_Validate (ss_Terminal s),
      requireOpaque (ss_ExpectedBootID s) 256,
      check (ss_SessionSource s \<noteq> session_root @ ss_SessionID s) (Ctl ''session source must be below the sessions directory''),
      (case ss_ProjectionReadiness s of None \<Rightarrow> None | Some p \<Rightarrow> Projection_Validate u p),
      (case ss_Activity s of None \<Rightarrow> None | Some x \<Rightarrow> Expectation_Validate u x (ss_SessionID s))]"

record activity_ready =
  ay_Boundary :: workload_boundary
  ay_ObserverHelperDigest :: string
  ay_Coverage :: "coverage_report list"

definition ActivityReady_Validate :: "activity_ready \<Rightarrow> string \<Rightarrow> ctl_error option" where
  "ActivityReady_Validate r sessionID = first_err
     [ctl_activity (Boundary_Validate (ay_Boundary r)),
      check (wb_SessionID (ay_Boundary r) \<noteq> sessionID) (Ctl ''activity boundary session does not match supervisor readiness''),
      check (wb_State (ay_Boundary r) \<noteq> BoundaryReady) (Ctl ''supervisor activity readiness requires a ready boundary''),
      requirePrefixedSHA256 (ay_ObserverHelperDigest r),
      validateSupervisorCoverage (ay_Coverage r)]"

definition ValidateExpectation ::
  "unicode_tables \<Rightarrow> activity_ready \<Rightarrow> string \<Rightarrow> activity_expectation option \<Rightarrow> ctl_error option" where
  "ValidateExpectation u r sessionID expectation =
     (case expectation of
        None \<Rightarrow> Some (Ctl ''supervisor activity expectation is required'')
      | Some x \<Rightarrow> first_err
          [Expectation_Validate u x sessionID, ActivityReady_Validate r sessionID,
           check (\<not> Owner_Equal (wb_Owner (ay_Boundary r)) (ax_Owner x) \<or>
             wb_ObserverGeneration (ay_Boundary r) \<noteq> ax_ObserverGeneration x \<or>
             ay_ObserverHelperDigest r \<noteq> ax_ObserverHelperDigest x)
             (Ctl ''supervisor activity readiness does not match start authority'')])"

record activity_completion =
  am_Owner :: activity_owner
  am_SessionID :: string
  am_CgroupID :: u64
  am_ObserverGeneration :: u64
  am_BoundaryState :: string
  am_Coverage :: "coverage_report list"
  am_CleanupProved :: bool

definition ActivityCompletion_Validate :: "unicode_tables \<Rightarrow> activity_completion \<Rightarrow> string \<Rightarrow> ctl_error option" where
  "ActivityCompletion_Validate u c sessionID = first_err
     [ctl_activity (Owner_Validate (am_Owner c)), requireSessionID u (am_SessionID c),
      check (am_SessionID c \<noteq> sessionID \<or> am_CgroupID c = 0 \<or> am_ObserverGeneration c = 0)
        (Ctl ''supervisor activity completion identity is invalid''),
      check (ao_Kind (am_Owner c) = OwnerDisposableSession \<and> ao_SessionID (am_Owner c) \<noteq> sessionID)
        (Ctl ''disposable activity completion owner does not match the supervisor session''),
      (if am_BoundaryState c = BoundaryRemoved then
         check (\<not> am_CleanupProved c) (Ctl ''removed activity boundary lacks cleanup proof'')
       else if am_BoundaryState c = BoundaryUnproved then
         check (am_CleanupProved c) (Ctl ''unproved activity boundary cannot claim cleanup'')
       else Some (Ctl ''supervisor activity completion state is invalid'')),
      validateSupervisorCoverage (am_Coverage c)]"

definition ValidateReady ::
  "unicode_tables \<Rightarrow> activity_completion \<Rightarrow> string \<Rightarrow> activity_ready option \<Rightarrow> ctl_error option" where
  "ValidateReady u c sessionID ready =
     (case ready of
        None \<Rightarrow> Some (Ctl ''supervisor activity readiness is required'')
      | Some r \<Rightarrow> first_err
          [ActivityReady_Validate r sessionID, ActivityCompletion_Validate u c sessionID,
           check (\<not> Owner_Equal (am_Owner c) (wb_Owner (ay_Boundary r)) \<or> am_CgroupID c \<noteq> wb_CgroupID (ay_Boundary r) \<or>
             am_ObserverGeneration c \<noteq> wb_ObserverGeneration (ay_Boundary r))
             (Ctl ''supervisor activity completion does not match ready boundary'')])"

record projection_ready =
  pr_Status :: string
  pr_EnvironmentID :: string
  pr_SessionSnapshotID :: string
  pr_CatalogDigest :: string
  pr_ExpectedEntries :: int
  pr_ObservedEntries :: int
  pr_DurationMillis :: int
  pr_TargetProjected :: bool

definition ProjectionReady_Validate :: "unicode_tables \<Rightarrow> projection_ready \<Rightarrow> ctl_error option" where
  "ProjectionReady_Validate u p = first_err
     [check (pr_Status p \<noteq> ''ready'') (Ctl ''supervisor may report only ready projection status''),
      Projection_Validate u \<lparr>pe_EnvironmentID = pr_EnvironmentID p, pe_SessionSnapshotID = pr_SessionSnapshotID p,
        pe_CatalogDigest = pr_CatalogDigest p, pe_ExpectedEntries = pr_ExpectedEntries p,
        pe_TargetProjected = pr_TargetProjected p\<rparr>,
      check (pr_ObservedEntries p \<noteq> pr_ExpectedEntries p \<or> pr_DurationMillis p < 0 \<or>
        2000 < pr_DurationMillis p) (Ctl ''supervisor projection readiness observation is incomplete or unbounded'')]"

record supervisor_ready =
  sr_Protocol :: string
  sr_SessionID :: string
  sr_Terminal :: terminal_descriptor
  sr_ProjectionReadiness :: "projection_ready option"
  sr_Activity :: "activity_ready option"

definition SupervisorReady_Validate :: "unicode_tables \<Rightarrow> supervisor_ready \<Rightarrow> ctl_error option" where
  "SupervisorReady_Validate u r = first_err
     [check (sr_Protocol r \<noteq> SupervisorProtocol) (Ctl ''unsupported supervisor protocol''),
      requireSessionID u (sr_SessionID r), Terminal_Validate (sr_Terminal r),
      (case sr_ProjectionReadiness r of None \<Rightarrow> None | Some p \<Rightarrow> ProjectionReady_Validate u p),
      (case sr_Activity r of None \<Rightarrow> None | Some a \<Rightarrow> ActivityReady_Validate a (sr_SessionID r))]"

record completion =
  cm_Kind :: string
  cm_ExitCode :: int
  cm_Signal :: string
  cm_TargetCompleted :: bool
  cm_CleanupCompleted :: bool
  cm_SessionID :: string
  cm_Summary :: string
  cm_Result :: "byte list"
  cm_Activity :: "activity_completion option"

definition validateCompletionSignal :: "string \<Rightarrow> ctl_error option" where
  "validateCompletionSignal name = first_err
     [check (len name < 4 \<or> 16 < len name \<or> \<not> HasPrefix name ''SIG'') (Ctl ''invalid completion signal''),
      check (\<not> list_all (\<lambda>c. is_upper c \<or> is_digit c) (drop 3 name)) (Ctl ''invalid completion signal'')]"

definition Completion_Validate :: "unicode_tables \<Rightarrow> (byte list \<Rightarrow> bool) \<Rightarrow> completion \<Rightarrow> ctl_error option" where
  "Completion_Validate u json_valid c = first_err
     [check (cm_Kind c \<notin> {''exit'', ''signal'', ''cancelled'', ''protocol-error'', ''cleanup-error''})
        (Ctl ''unsupported completion kind''),
      check (cm_ExitCode c < 0 \<or> 255 < cm_ExitCode c) (Ctl ''completion exit code must be between 0 and 255''),
      (if cm_Kind c = ''signal'' then validateCompletionSignal (cm_Signal c)
       else check (cm_Signal c \<noteq> '''') (Ctl ''only signal completion may carry a signal'')),
      requireSessionID u (cm_SessionID c),
      check (49152 < len (cm_Result c)) (Ctl ''completion result exceeds limit''),
      check (cm_Result c \<noteq> [] \<and> \<not> json_valid (cm_Result c)) (Ctl ''completion result is invalid JSON''),
      (case cm_Activity c of
         None \<Rightarrow> None
       | Some a \<Rightarrow> first_err
           [ActivityCompletion_Validate u a (cm_SessionID c),
            check (cm_CleanupCompleted c \<noteq> am_CleanupProved a)
              (Ctl ''completion cleanup state does not match activity cleanup proof'')]),
      optionalText u (cm_Summary c) 4096]"

section \<open>Payloads\<close>

datatype control =
    C_Hello hello | C_HelloAccepted hello_accepted | C_RunRequest run_request | C_Confirm confirm
  | C_Review review | C_Started started_control | C_Empty | C_Resize resize | C_Signal string | C_Renew renew
  | C_Notice notice | C_Error error_control | C_Completion completion | C_SupervisorStart supervisor_start
  | C_SupervisorReady supervisor_ready

datatype control_kind =
    K_Hello | K_HelloAccepted | K_RunRequest | K_Confirm | K_Review | K_Started | K_Empty | K_Resize | K_Signal
  | K_Renew | K_Notice | K_Error | K_Completion | K_SupervisorStart | K_SupervisorReady

fun kind_of :: "control \<Rightarrow> control_kind" where
  "kind_of (C_Hello _) = K_Hello" | "kind_of (C_HelloAccepted _) = K_HelloAccepted"
| "kind_of (C_RunRequest _) = K_RunRequest" | "kind_of (C_Confirm _) = K_Confirm"
| "kind_of (C_Review _) = K_Review" | "kind_of (C_Started _) = K_Started" | "kind_of C_Empty = K_Empty"
| "kind_of (C_Resize _) = K_Resize" | "kind_of (C_Signal _) = K_Signal" | "kind_of (C_Renew _) = K_Renew"
| "kind_of (C_Notice _) = K_Notice" | "kind_of (C_Error _) = K_Error"
| "kind_of (C_Completion _) = K_Completion" | "kind_of (C_SupervisorStart _) = K_SupervisorStart"
| "kind_of (C_SupervisorReady _) = K_SupervisorReady"

text \<open>What the messages need of JSON and Unicode. \<open>cc_decode\<close> decodes strictly: one value, no unknown
  field, nothing after it.\<close>

record control_codec =
  cc_tables :: unicode_tables
  cc_json_valid :: "byte list \<Rightarrow> bool"
  cc_json_object :: "byte list \<Rightarrow> bool"
  cc_encode :: "control \<Rightarrow> byte list option"
  cc_decode :: "control_kind \<Rightarrow> byte list \<Rightarrow> control option"

fun Control_Validate :: "control_codec \<Rightarrow> control \<Rightarrow> ctl_error option" where
  "Control_Validate cc (C_Hello h) = Hello_Validate (cc_tables cc) h"
| "Control_Validate cc (C_HelloAccepted h) = HelloAccepted_Validate (cc_tables cc) h"
| "Control_Validate cc (C_RunRequest r) = RunRequest_Validate (cc_tables cc) (cc_json_object cc) r"
| "Control_Validate cc (C_Confirm c) = Confirm_Validate (cc_tables cc) c"
| "Control_Validate cc (C_Review r) = Review_Validate (cc_tables cc) r"
| "Control_Validate cc (C_Started s) = Started_Validate (cc_tables cc) s"
| "Control_Validate cc C_Empty = None"
| "Control_Validate cc (C_Resize r) = Resize_Validate r"
| "Control_Validate cc (C_Signal s) = Signal_Validate s"
| "Control_Validate cc (C_Renew r) = Renew_Validate r"
| "Control_Validate cc (C_Notice n) = Notice_Validate (cc_tables cc) n"
| "Control_Validate cc (C_Error e) = Error_Validate (cc_tables cc) e"
| "Control_Validate cc (C_Completion c) = Completion_Validate (cc_tables cc) (cc_json_valid cc) c"
| "Control_Validate cc (C_SupervisorStart s) = SupervisorStart_Validate (cc_tables cc) s"
| "Control_Validate cc (C_SupervisorReady r) = SupervisorReady_Validate (cc_tables cc) r"

definition controlForType :: "byte \<Rightarrow> control_kind option" where
  "controlForType t =
     (if t = TypeHello then Some K_Hello else if t = TypeHelloAccepted then Some K_HelloAccepted
      else if t = TypeRunRequest then Some K_RunRequest else if t = TypeConfirm then Some K_Confirm
      else if t = TypeReview then Some K_Review else if t = TypeStarted then Some K_Started
      else if t \<in> {TypeStdinEOF, TypeCancel, TypeSupervisorCommit, TypeHeartbeat} then Some K_Empty
      else if t = TypeResize then Some K_Resize else if t = TypeSignal then Some K_Signal
      else if t = TypeRenew then Some K_Renew else if t = TypeNotice then Some K_Notice
      else if t \<in> {TypeError, TypeSupervisorError} then Some K_Error
      else if t = TypeCompletion then Some K_Completion
      else if t = TypeSupervisorStart then Some K_SupervisorStart
      else if t = TypeSupervisorReady then Some K_SupervisorReady else None)"

definition MarshalControl :: "control_codec \<Rightarrow> control \<Rightarrow> wire_error + byte list" where
  "MarshalControl cc c =
     (if Control_Validate cc c \<noteq> None then Inl ErrInvalidControl
      else case cc_encode cc c of
        None \<Rightarrow> Inl ErrInvalidControl
      | Some p \<Rightarrow> if uint MaxPayloadSize < len p then Inl ErrPayloadTooLarge else Inr p)"

definition UnmarshalControl :: "control_codec \<Rightarrow> byte list \<Rightarrow> control_kind \<Rightarrow> wire_error + control" where
  "UnmarshalControl cc p k =
     (if uint MaxPayloadSize < len p then Inl ErrPayloadTooLarge
      else case cc_decode cc k p of
        None \<Rightarrow> Inl ErrInvalidControl
      | Some c \<Rightarrow> if Control_Validate cc c \<noteq> None then Inl ErrInvalidControl else Inr c)"

definition DecodeControl :: "control_codec \<Rightarrow> byte \<Rightarrow> byte list \<Rightarrow> wire_error + control" where
  "DecodeControl cc t p =
     (case controlForType t of
        None \<Rightarrow> Inl ErrInvalidControl
      | Some k \<Rightarrow>
          if k = K_Empty then (if p \<noteq> [] then Inl ErrInvalidControl else Inr C_Empty)
          else UnmarshalControl cc p k)"

definition validateControlPayload :: "control_codec \<Rightarrow> control_check" where
  "validateControlPayload cc t p \<longleftrightarrow> \<not> isl (DecodeControl cc t p)"

definition WriteControl ::
  "control_codec \<Rightarrow> wire_writer \<Rightarrow> byte \<Rightarrow> control \<Rightarrow> byte_sink \<Rightarrow> wire_error option \<times> byte_sink" where
  "WriteControl cc w t c k =
     (case MarshalControl cc c of
        Inl e \<Rightarrow> (Some e, k)
      | Inr p \<Rightarrow> WriteFrame (validateControlPayload cc) w \<lparr>fr_Type = t, fr_Payload = p\<rparr> k)"

section \<open>Lemmas\<close>

lemma DecodeControl_Marshal:
  assumes "MarshalControl cc c = Inr p" "controlForType t = Some (kind_of c)" "kind_of c \<noteq> K_Empty"
    and "cc_decode cc (kind_of c) p = Some c"
  shows "DecodeControl cc t p = Inr c"
  using assms by (auto simp: MarshalControl_def DecodeControl_def UnmarshalControl_def split: if_splits option.splits)

text \<open>A byte below \<open>0x80\<close> is always a code point of its own.\<close>

lemma decode_rune_bytes:
  assumes "decode_rune s = Some (r, t)" "c \<in> set s" "c < CHR 0x80"
  shows "r = of_char c \<or> c \<in> set t"
proof (cases s)
  case (Cons a rest)
  have cont: "\<not> char_in lo hi c" if "CHR 0x80 \<le> lo" for lo hi
    using assms(3) that by (auto simp: char_in_def dest: order.strict_trans1)
  show ?thesis
  proof (cases "a < CHR 0x80")
    case True
    then show ?thesis using assms Cons by (auto simp: decode_rune_ascii)
  next
    case False
    then have "c \<noteq> a" using assms(3) by auto
    then show ?thesis using assms(1,2) Cons False cont
      by (auto simp: decode_rune.simps less_char_def less_eq_char_def split: list.splits if_splits)
  qed
qed (use assms in simp)

lemma runes_ascii_byte: "c \<in> set s \<Longrightarrow> c < CHR 0x80 \<Longrightarrow> of_char c \<in> set (runes s)"
proof (induction s rule: runes.induct)
  case (2 a s)
  show ?case
  proof (cases "decode_rune (a # s)")
    case None
    then have "\<not> a < CHR 0x80" by (auto simp: decode_rune_ascii)
    then show ?thesis using 2 None by auto
  next
    case (Some rt)
    obtain r t where rt: "rt = (r, t)" by (rule prod.exhaust)
    then show ?thesis using decode_rune_bytes[of "a # s" r t c] 2(2)[of "(r, t)" r t] 2(3,4) Some by auto
  qed
qed simp

lemma requireID_no_slash: "requireID u v = None \<Longrightarrow> slash \<notin> set v"
proof
  assume v: "requireID u v = None" and "slash \<in> set v"
  then have "of_char slash \<in> set (runes v)" by (intro runes_ascii_byte) (auto simp: less_char_def)
  then have "IsLetter u (of_char slash) \<or> IsDigit u (of_char slash) \<or> of_char slash \<in> set (map of_char ''._:-+'' :: int list)"
    using v by (auto simp: requireID_def list_all_iff)
  then show False by (simp add: rune_class_defs)
qed

lemma session_id_elem: "requireSessionID u v = None \<Longrightarrow> real_elem v"
  using requireID_no_slash[of u v]
  by (auto simp: requireSessionID_def HasPrefix_def strip_prefix_Some real_elem_def)

lemma session_source_path:
  assumes "real_elem v"
  shows "path_Clean (session_root @ v) = session_root @ v" "path_Dir (session_root @ v) = ''/hideout/runtime/sessions''"
proof -
  let ?es = "[''hideout'', ''runtime'', ''sessions'', v]"
  have eq: "session_root @ v = slash # Join slash ?es" by simp
  have es: "\<forall>e \<in> set ?es. real_elem e" using assms by (auto simp: real_elem_def)
  show "path_Clean (session_root @ v) = session_root @ v" unfolding eq by (rule Clean_real[OF es])
  have "Split slash (slash # Join slash ?es) = '''' # ?es"
    using assms by (simp add: Split_plain real_elem_def)
  then have "path_Dir (session_root @ v) = path_Clean ''/hideout/runtime/sessions/''"
    unfolding eq by (simp add: path_Dir_def)
  also have "\<dots> = ''/hideout/runtime/sessions''" by code_simp
  finally show "path_Dir (session_root @ v) = ''/hideout/runtime/sessions''" .
qed

section \<open>Properties\<close>

text \<open>A codec that knows one message, for the examples.\<close>

definition sample_resize :: control where
  "sample_resize = C_Resize \<lparr>rz_Rows = 24, rz_Columns = 80\<rparr>"

definition sample_codec :: control_codec where
  "sample_codec = \<lparr>cc_tables = ascii_tables, cc_json_valid = (\<lambda>_. True), cc_json_object = (\<lambda>_. True),
     cc_encode = (\<lambda>c. if kind_of c = K_Resize then Some [123, 125] else None),
     cc_decode = (\<lambda>k p. if k = K_Resize \<and> p = [123, 125] then Some sample_resize else None)\<rparr>"



text \<open>
  C34. The session source of a valid supervisor start is a clean path whose directory is the runtime sessions directory:
  no session identifier, whatever Unicode letters it has, leads the supervisor outside of it.\<close>

theorem session_source_contained:
  assumes "SupervisorStart_Validate u s = None"
  shows "path_Clean (ss_SessionSource s) = ss_SessionSource s \<and> path_Dir (ss_SessionSource s) = ''/hideout/runtime/sessions''"
proof -
  have "real_elem (ss_SessionID s)" "ss_SessionSource s = session_root @ ss_SessionID s"
    using assms session_id_elem[of u] by (simp_all add: SupervisorStart_Validate_def)
  then show ?thesis using session_source_path by metis
qed

definition sample_start :: supervisor_start where
  "sample_start = \<lparr>ss_Protocol = SupervisorProtocol, ss_SessionID = ''ses_..'', ss_TargetUser = ''dev'',
     ss_GuestWork = ''/work'', ss_Argv = [''sh''], ss_Env = [(''TERM'', ''dumb'')],
     ss_Terminal = \<lparr>td_Mode = ''none'', td_Rows = 0, td_Columns = 0, td_Term = ''''\<rparr>, ss_ExpectedBootID = ''boot-1'',
     ss_SessionSource = ''/hideout/runtime/sessions/ses_..'', ss_ProjectionReadiness = None, ss_Activity = None\<rparr>"

theorem session_source_contained_witness:
  "path_Dir (ss_SessionSource sample_start) = ''/hideout/runtime/sessions''"
proof -
  have "SupervisorStart_Validate ascii_tables sample_start = None" by code_simp
  from session_source_contained[OF this] show ?thesis ..
qed

text \<open>
  The cleanup proof of a completed session is bound to the authority it was started with: a completion accepted
  against a readiness that was accepted against the start expectation has the expected owner and observer
  generation, is for the same session, and names the cgroup of the ready boundary.\<close>

theorem cleanup_proof_bound_to_start:
  assumes "ValidateExpectation u r sessionID (Some x) = None" "ValidateReady u c sessionID (Some r) = None"
  shows "am_Owner c = ax_Owner x \<and> am_ObserverGeneration c = ax_ObserverGeneration x \<and> am_SessionID c = sessionID \<and>
    am_CgroupID c = wb_CgroupID (ay_Boundary r) \<and> am_CleanupProved c = (am_BoundaryState c = BoundaryRemoved)"
  using assms
  by (auto simp: ValidateExpectation_def ValidateReady_def ActivityCompletion_Validate_def
      dest!: Owner_Equal_eq split: if_splits)

definition sample_digest :: string where
  "sample_digest = ''sha256:'' @ replicate 64 (CHR ''a'')"

definition sample_disposable :: activity_owner where
  "sample_disposable = \<lparr>ao_Kind = OwnerDisposableSession, ao_EnvironmentID = '''', ao_SessionID = ''ses_a'',
     ao_Backend = ''vm'', ao_BackendIncarnationID = ''inc-1'', ao_GuestBootID = ''''\<rparr>"

definition sample_coverage :: "coverage_report list" where
  "sample_coverage = map (\<lambda>s. \<lparr>cr_Subsystem = s, cr_State = CoverageAvailable, cr_Reason = ''collector-ready'',
     cr_Evidence = [], cr_DroppedEventCount = 0\<rparr>) [SubsystemProcess, SubsystemFile, SubsystemNetwork, SubsystemDNS]"

definition sample_expectation :: activity_expectation where
  "sample_expectation = \<lparr>ax_Owner = sample_disposable, ax_ObserverGeneration = 1, ax_ObserverHelperDigest = sample_digest,
     ax_ObserverStreamToken = 1 # replicate 31 0, ax_RedactionGeneration = ''''\<rparr>"

definition sample_activity_ready :: activity_ready where
  "sample_activity_ready = \<lparr>ay_Boundary = \<lparr>wb_Schema = WorkloadBoundarySchema, wb_Owner = sample_disposable,
     wb_SessionID = ''ses_a'', wb_CgroupPath = ''/sys/fs/cgroup/hideout/a'', wb_CgroupID = 7, wb_TargetUser = ''dev'',
     wb_State = BoundaryReady, wb_ObserverGeneration = 1, wb_GuestBootID = ''boot-1'', wb_CreatedAtMonoNS = 1\<rparr>,
     ay_ObserverHelperDigest = sample_digest, ay_Coverage = sample_coverage\<rparr>"

definition sample_activity_completion :: activity_completion where
  "sample_activity_completion = \<lparr>am_Owner = sample_disposable, am_SessionID = ''ses_a'', am_CgroupID = 7,
     am_ObserverGeneration = 1, am_BoundaryState = BoundaryRemoved, am_Coverage = sample_coverage, am_CleanupProved = True\<rparr>"

theorem cleanup_proof_bound_to_start_witness:
  "am_Owner sample_activity_completion = ax_Owner sample_expectation"
proof -
  have "ValidateExpectation ascii_tables sample_activity_ready ''ses_a'' (Some sample_expectation) = None \<and>
    ValidateReady ascii_tables sample_activity_completion ''ses_a'' (Some sample_activity_ready) = None" by code_simp
  then show ?thesis using cleanup_proof_bound_to_start by blast
qed

end
