(* ===== verification/Observer_Channel.thy ===== *)
theory Observer_Channel
  imports Observer_Queue Session_Control "HOL-Library.Multiset"
begin

text \<open>
  The observer channel of \<open>internal/sessionwire/observer.go\<close>: opening the stream, the hello and its
  acceptance, checksummed frames, and the tracker of sequence numbers. The queue is in
  \<open>Observer_Queue\<close>. JSON encoding and decoding are parameters; the checksum is defined.
\<close>

section \<open>The checksum\<close>

text \<open>\<open>crc32.Checksum\<close> with the Castagnoli polynomial, reflected.\<close>

definition crc_step :: "u32 \<Rightarrow> u32" where
  "crc_step c = (if bit c 0 then drop_bit 1 c XOR 0x82F63B78 else drop_bit 1 c)"

definition crc_byte :: "u32 \<Rightarrow> byte \<Rightarrow> u32" where
  "crc_byte c b = (crc_step ^^ 8) (c XOR ucast b)"

definition Checksum :: "byte list \<Rightarrow> u32" where
  "Checksum bs = NOT (foldl crc_byte (- 1) bs)"


section \<open>Opening the stream\<close>

abbreviation ObserverWireSchema :: string where "ObserverWireSchema \<equiv> ''hideout.observer-wire.v1''"
abbreviation ObservationSchema :: string where "ObservationSchema \<equiv> ''hideout.observation.v1''"

definition identity_error :: "ctl_error option \<Rightarrow> observer_error option" where
  "identity_error e = map_option (\<lambda>_. ErrObserverIdentity) e"

definition StreamToken_Validate :: "stream_token \<Rightarrow> observer_error option" where
  "StreamToken_Validate t = check (Token_Validate t \<noteq> None) ErrObserverAuthentication"

record observer_stream_open =
  op_Type :: string
  op_Schema :: string
  op_SessionID :: string
  op_Token :: stream_token

definition StreamOpen_Validate :: "unicode_tables \<Rightarrow> observer_stream_open \<Rightarrow> observer_error option" where
  "StreamOpen_Validate u o1 = first_err
     [check (op_Type o1 \<noteq> ''observer.stream.open'' \<or> op_Schema o1 \<noteq> ObserverWireSchema) ErrObserverSchema,
      identity_error (requireSessionID u (op_SessionID o1)), StreamToken_Validate (op_Token o1)]"

definition AuthenticateObserverStreamOpen ::
  "unicode_tables \<Rightarrow> observer_stream_open \<Rightarrow> string \<Rightarrow> stream_token \<Rightarrow> u32 \<times> bool \<Rightarrow> observer_error option" where
  "AuthenticateObserverStreamOpen u o1 expectedSessionID expectedToken peer = first_err
     [check (fst peer \<noteq> 0 \<or> snd peer) ErrObserverTargetAuthority,
      identity_error (requireSessionID u expectedSessionID), StreamToken_Validate expectedToken,
      StreamOpen_Validate u o1,
      check (op_SessionID o1 \<noteq> expectedSessionID) ErrObserverIdentity,
      check (op_Token o1 \<noteq> expectedToken) ErrObserverAuthentication]"

section \<open>The hello\<close>

record observer_binding =
  ob_Owner :: activity_owner
  ob_SessionID :: string
  ob_EnvironmentID :: string
  ob_BackendIncarnationID :: string
  ob_GuestBootID :: string
  ob_CgroupID :: u64
  ob_ObserverGeneration :: u64

definition ObserverBinding_Validate :: "unicode_tables \<Rightarrow> observer_binding \<Rightarrow> observer_error option" where
  "ObserverBinding_Validate u b = first_err
     [check (Owner_Validate (ob_Owner b) \<noteq> None) ErrObserverIdentity,
      identity_error (requireSessionID u (ob_SessionID b)), identity_error (requireID u (ob_EnvironmentID b)),
      identity_error (requireOpaque (ob_BackendIncarnationID b) 256), identity_error (requireOpaque (ob_GuestBootID b) 256),
      check (ob_CgroupID b = 0 \<or> ob_ObserverGeneration b = 0) ErrObserverIdentity,
      check (ao_BackendIncarnationID (ob_Owner b) \<noteq> ob_BackendIncarnationID b) ErrObserverIdentity,
      (if ao_Kind (ob_Owner b) = OwnerReusableEnvironment then
         check (ao_EnvironmentID (ob_Owner b) \<noteq> ob_EnvironmentID b) ErrObserverIdentity
       else if ao_Kind (ob_Owner b) = OwnerDisposableSession then
         check (ao_SessionID (ob_Owner b) \<noteq> ob_SessionID b) ErrObserverIdentity
       else Some ErrObserverIdentity)]"

record observer_capability =
  oy_State :: string
  oy_Reason :: string
  oy_Evidence :: "string list"

definition Capability_Validate :: "observer_capability \<Rightarrow> observer_error option" where
  "Capability_Validate c = first_err
     [check (oy_State c \<notin> {CoverageAvailable, CoveragePartial, CoverageUnavailable}) ErrObserverSchema,
      check (oy_Reason c \<noteq> '''' \<and> requireCode (oy_Reason c) \<noteq> None) ErrObserverSchema,
      check (64 < len (oy_Evidence c)) ErrObserverSchema,
      seen_loop (\<lambda>e. check (requireCode e \<noteq> None) ErrObserverSchema) (\<lambda>e. e) ErrObserverSchema [] (oy_Evidence c)]"

record observer_capabilities =
  oz_Process :: observer_capability
  oz_File :: observer_capability
  oz_Network :: observer_capability
  oz_DNS :: observer_capability

definition Capabilities_Validate :: "observer_capabilities \<Rightarrow> observer_error option" where
  "Capabilities_Validate c = first_err
     (map Capability_Validate [oz_Process c, oz_File c, oz_Network c, oz_DNS c])"

definition default_reason :: "string \<Rightarrow> string" where
  "default_reason state =
     (if state = CoverageAvailable then ''collector-ready''
      else if state = CoveragePartial then ''collector-partial'' else ''collector-unavailable'')"

definition Capabilities_Coverage :: "observer_capabilities \<Rightarrow> coverage_report list" where
  "Capabilities_Coverage c =
     map (\<lambda>(subsystem, v). \<lparr>cr_Subsystem = subsystem, cr_State = oy_State v,
         cr_Reason = (if oy_Reason v = '''' then default_reason (oy_State v) else oy_Reason v),
         cr_Evidence = oy_Evidence v, cr_DroppedEventCount = 0\<rparr>)
       [(SubsystemProcess, oz_Process c), (SubsystemFile, oz_File c), (SubsystemNetwork, oz_Network c), (SubsystemDNS, oz_DNS c)]"

record observer_hello =
  oh_Type :: string
  oh_Schema :: string
  oh_Owner :: activity_owner
  oh_SessionID :: string
  oh_EnvironmentID :: string
  oh_BackendIncarnationID :: string
  oh_GuestBootID :: string
  oh_CgroupID :: u64
  oh_ObserverGeneration :: u64
  oh_HelperDigest :: string
  oh_Capabilities :: observer_capabilities

definition hello_binding :: "observer_hello \<Rightarrow> observer_binding" where
  "hello_binding h = \<lparr>ob_Owner = oh_Owner h, ob_SessionID = oh_SessionID h, ob_EnvironmentID = oh_EnvironmentID h,
     ob_BackendIncarnationID = oh_BackendIncarnationID h, ob_GuestBootID = oh_GuestBootID h,
     ob_CgroupID = oh_CgroupID h, ob_ObserverGeneration = oh_ObserverGeneration h\<rparr>"

definition ObserverHello_Validate :: "unicode_tables \<Rightarrow> observer_hello \<Rightarrow> observer_error option" where
  "ObserverHello_Validate u h = first_err
     [check (oh_Type h \<noteq> ''observer.hello'' \<or> oh_Schema h \<noteq> ObserverWireSchema) ErrObserverSchema,
      ObserverBinding_Validate u (hello_binding h),
      check (requirePrefixedSHA256 (oh_HelperDigest h) \<noteq> None) ErrObserverAuthentication,
      Capabilities_Validate (oh_Capabilities h)]"

record observer_peer =
  op_UID :: u32
  op_TargetControlled :: bool
  op_HelperDigest :: string

record observer_accepted =
  oa_Type :: string
  oa_Schema :: string
  oa_Owner :: activity_owner
  oa_SessionID :: string
  oa_CgroupID :: u64
  oa_ObserverGeneration :: u64
  oa_ExpectedNextSequence :: u64
  oa_MaxFrameBytes :: u32

abbreviation max_frame_u32 :: u32 where "max_frame_u32 \<equiv> 1048576"

definition Accepted_Validate :: "unicode_tables \<Rightarrow> observer_accepted \<Rightarrow> observer_error option" where
  "Accepted_Validate u a = first_err
     [check (oa_Type a \<noteq> ''observer.accepted'' \<or> oa_Schema a \<noteq> ObserverWireSchema \<or> Owner_Validate (oa_Owner a) \<noteq> None)
        ErrObserverSchema,
      identity_error (requireSessionID u (oa_SessionID a)),
      check (oa_CgroupID a = 0 \<or> oa_ObserverGeneration a = 0 \<or> oa_ExpectedNextSequence a = 0 \<or>
        oa_MaxFrameBytes a = 0 \<or> max_frame_u32 < oa_MaxFrameBytes a) ErrObserverSchema]"

definition ValidateBinding :: "unicode_tables \<Rightarrow> observer_accepted \<Rightarrow> observer_binding \<Rightarrow> observer_error option" where
  "ValidateBinding u a b = first_err
     [ObserverBinding_Validate u b, Accepted_Validate u a,
      check (\<not> Owner_Equal (oa_Owner a) (ob_Owner b) \<or> oa_SessionID a \<noteq> ob_SessionID b \<or>
        oa_CgroupID a \<noteq> ob_CgroupID b \<or> oa_ObserverGeneration a \<noteq> ob_ObserverGeneration b \<or>
        oa_ExpectedNextSequence a \<noteq> 1 \<or> oa_MaxFrameBytes a \<noteq> max_frame_u32) ErrObserverIdentity]"

definition acceptance_of :: "observer_binding \<Rightarrow> observer_accepted" where
  "acceptance_of b = \<lparr>oa_Type = ''observer.accepted'', oa_Schema = ObserverWireSchema, oa_Owner = ob_Owner b,
     oa_SessionID = ob_SessionID b, oa_CgroupID = ob_CgroupID b, oa_ObserverGeneration = ob_ObserverGeneration b,
     oa_ExpectedNextSequence = 1, oa_MaxFrameBytes = max_frame_u32\<rparr>"

definition AcceptObserverHello ::
  "unicode_tables \<Rightarrow> observer_hello \<Rightarrow> observer_binding \<Rightarrow> observer_peer \<Rightarrow> observer_error + observer_accepted" where
  "AcceptObserverHello u h expected peer =
     (case first_err
        [check (op_UID peer \<noteq> 0 \<or> op_TargetControlled peer) ErrObserverTargetAuthority,
         check (requirePrefixedSHA256 (op_HelperDigest peer) \<noteq> None) ErrObserverAuthentication,
         ObserverHello_Validate u h,
         check (oh_HelperDigest h \<noteq> op_HelperDigest peer) ErrObserverAuthentication,
         ObserverBinding_Validate u expected,
         check (let actual = hello_binding h in
           \<not> Owner_Equal (ob_Owner actual) (ob_Owner expected) \<or> ob_SessionID actual \<noteq> ob_SessionID expected \<or>
           ob_EnvironmentID actual \<noteq> ob_EnvironmentID expected \<or>
           ob_BackendIncarnationID actual \<noteq> ob_BackendIncarnationID expected \<or>
           ob_GuestBootID actual \<noteq> ob_GuestBootID expected \<or> ob_CgroupID actual \<noteq> ob_CgroupID expected \<or>
           ob_ObserverGeneration actual \<noteq> ob_ObserverGeneration expected) ErrObserverIdentity,
         Accepted_Validate u (acceptance_of expected)] of
        Some e \<Rightarrow> Inl e
      | None \<Rightarrow> Inr (acceptance_of expected))"

section \<open>Observations\<close>

record observation_envelope =
  ev_Schema :: string
  ev_Owner :: activity_owner
  ev_SessionID :: string
  ev_CgroupID :: u64
  ev_ObserverGeneration :: u64
  ev_CPU :: u64
  ev_Sequence :: u64
  ev_MonotonicNS :: u64
  ev_Kind :: string
  ev_Payload :: string

definition observerKinds :: "string list" where
  "observerKinds =
     [''process.fork'', ''process.exec'', ''process.exit'', ''process.execution'', ''file.open'', ''file.access'',
      ''file.read'', ''file.write'', ''file.metadata'', ''file.mmap'', ''file.create'', ''file.truncate'',
      ''file.unlink'', ''file.rename'', ''file.hardlink'', ''file.symlink'', ''file.mkdir'', ''file.rmdir'',
      ''network.connect'', ''network.close'', ''dns.query'', ''dns.response'', ''proxy.target'',
      ''coverage.changed'', ''collector.loss'', ''collector.heartbeat'', ''collector.goodbye'']"

abbreviation ObserverTransportCPU :: u64 where "ObserverTransportCPU \<equiv> 0xFFFFFFFF"

definition payload_object :: "(string \<Rightarrow> bool) \<Rightarrow> string \<Rightarrow> bool" where
  "payload_object json_valid p =
     (let q = TrimSpace p in 2 \<le> len q \<and> hd q = CHR 0x7B \<and> last q = CHR 0x7D \<and> json_valid q)"

definition Envelope_Validate ::
  "unicode_tables \<Rightarrow> (string \<Rightarrow> bool) \<Rightarrow> observation_envelope \<Rightarrow> observer_error option" where
  "Envelope_Validate u json_valid e = first_err
     [check (ev_Schema e \<noteq> ObservationSchema) ErrObserverSchema,
      check (Owner_Validate (ev_Owner e) \<noteq> None) ErrObserverIdentity,
      identity_error (requireSessionID u (ev_SessionID e)),
      check (ao_Kind (ev_Owner e) = OwnerDisposableSession \<and> ao_SessionID (ev_Owner e) \<noteq> ev_SessionID e) ErrObserverIdentity,
      check (ev_CgroupID e = 0 \<or> ev_ObserverGeneration e = 0 \<or> ev_Sequence e = 0 \<or> ev_MonotonicNS e = 0) ErrObserverIdentity,
      check (0xFFFFFFFF < ev_CPU e) ErrObserverSchema,
      check (ev_Kind e \<notin> set observerKinds) ErrObserverKind,
      check (ev_CPU e = ObserverTransportCPU \<and> ev_Kind e \<noteq> ''collector.loss'' \<and> ev_Kind e \<noteq> ''collector.goodbye'')
        ErrObserverSchema,
      check (\<not> payload_object json_valid (ev_Payload e)) ErrObserverSchema]"

section \<open>Frames\<close>

definition writeObserverBytes :: "byte_sink \<Rightarrow> byte list \<Rightarrow> observer_error option \<times> byte_sink" where
  "writeObserverBytes k v = (case writeAll k v of (e, k') \<Rightarrow> (map_option ObserverIO e, k'))"

text \<open>The header holds the length and the checksum of the payload.\<close>

definition observer_header :: "byte list \<Rightarrow> byte list" where
  "observer_header p = PutUint32 (of_nat (length p)) @ PutUint32 (Checksum p)"

definition write_observer_payload :: "byte list \<Rightarrow> byte_sink \<Rightarrow> observer_error option \<times> byte_sink" where
  "write_observer_payload p k =
     (case writeObserverBytes k (observer_header p) of
        (Some e, k1) \<Rightarrow> (Some e, k1) | (None, k1) \<Rightarrow> writeObserverBytes k1 p)"

definition WriteObserverEnvelope ::
  "unicode_tables \<Rightarrow> (string \<Rightarrow> bool) \<Rightarrow> (observation_envelope \<Rightarrow> byte list option) \<Rightarrow> observation_envelope \<Rightarrow>
   byte_sink \<Rightarrow> observer_error option \<times> byte_sink" where
  "WriteObserverEnvelope u json_valid encode e k =
     (case Envelope_Validate u json_valid e of
        Some err \<Rightarrow> (Some err, k)
      | None \<Rightarrow>
        (case encode e of
           None \<Rightarrow> (Some ErrObserverSchema, k)
         | Some p \<Rightarrow> if MaxObserverFrameSize < len p then (Some ErrObserverFrameTooLarge, k)
                     else write_observer_payload p k))"

definition writeObserverJSONFrame ::
  "('a \<Rightarrow> byte list option) \<Rightarrow> 'a \<Rightarrow> byte_sink \<Rightarrow> observer_error option \<times> byte_sink" where
  "writeObserverJSONFrame encode v k =
     (case encode v of
        None \<Rightarrow> (Some ErrObserverSchema, k)
      | Some p \<Rightarrow> if len p = 0 \<or> MaxObserverFrameSize < len p then (Some ErrObserverFrameTooLarge, k)
                  else write_observer_payload p k)"

text \<open>The part common to both readers: header, size, payload and checksum. At the end of the stream the
  envelope reader reports it and the control reader a truncation.\<close>

definition read_observer_payload :: "bool \<Rightarrow> byte_stream \<Rightarrow> (observer_error + byte list) \<times> byte_stream" where
  "read_observer_payload at_end s =
     (case ReadFull 8 s of
        (Inl n, s1) \<Rightarrow> (Inl (if at_end \<and> n = 0 \<and> bs_EOF s then ObserverEOF else ErrObserverTruncated), s1)
      | (Inr header, s1) \<Rightarrow>
        let size = Uint32 (take 4 header) in
        if size = 0 then (Inl ErrObserverSchema, s1)
        else if max_frame_u32 < size then (Inl ErrObserverFrameTooLarge, s1)
        else (case ReadFull (unat size) s1 of
            (Inl _, s2) \<Rightarrow> (Inl ErrObserverTruncated, s2)
          | (Inr payload, s2) \<Rightarrow>
              if Checksum payload \<noteq> Uint32 (drop 4 header) then (Inl ErrObserverCRC, s2) else (Inr payload, s2)))"

definition readObserverJSONFrame :: "(byte list \<Rightarrow> 'a option) \<Rightarrow> byte_stream \<Rightarrow> (observer_error + 'a) \<times> byte_stream" where
  "readObserverJSONFrame decode s =
     (case read_observer_payload False s of
        (Inl e, s1) \<Rightarrow> (Inl e, s1)
      | (Inr p, s1) \<Rightarrow> (case decode p of None \<Rightarrow> (Inl ErrObserverSchema, s1) | Some v \<Rightarrow> (Inr v, s1)))"

definition ReadObserverEnvelope ::
  "unicode_tables \<Rightarrow> (string \<Rightarrow> bool) \<Rightarrow> (byte list \<Rightarrow> observation_envelope option) \<Rightarrow> byte_stream \<Rightarrow>
   (observer_error + observation_envelope) \<times> byte_stream" where
  "ReadObserverEnvelope u json_valid decode s =
     (case read_observer_payload True s of
        (Inl e, s1) \<Rightarrow> (Inl e, s1)
      | (Inr p, s1) \<Rightarrow>
        (case decode p of
           None \<Rightarrow> (Inl ErrObserverSchema, s1)
         | Some e \<Rightarrow> (case Envelope_Validate u json_valid e of Some err \<Rightarrow> (Inl err, s1) | None \<Rightarrow> (Inr e, s1))))"

text \<open>The control messages of the channel, with their validator \<open>V\<close>: \<open>WriteObserverStreamOpen\<close>,
  \<open>WriteObserverHello\<close> and \<open>WriteObserverAccepted\<close>, and their readers.\<close>

definition write_observer_control ::
  "('a \<Rightarrow> observer_error option) \<Rightarrow> ('a \<Rightarrow> byte list option) \<Rightarrow> 'a \<Rightarrow> byte_sink \<Rightarrow> observer_error option \<times> byte_sink" where
  "write_observer_control V encode v k =
     (case V v of Some e \<Rightarrow> (Some e, k) | None \<Rightarrow> writeObserverJSONFrame encode v k)"

definition read_observer_control ::
  "('a \<Rightarrow> observer_error option) \<Rightarrow> (byte list \<Rightarrow> 'a option) \<Rightarrow> byte_stream \<Rightarrow> (observer_error + 'a) \<times> byte_stream" where
  "read_observer_control V decode s =
     (case readObserverJSONFrame decode s of
        (Inl e, s1) \<Rightarrow> (Inl e, s1)
      | (Inr v, s1) \<Rightarrow> (case V v of Some e \<Rightarrow> (Inl e, s1) | None \<Rightarrow> (Inr v, s1)))"

definition WriteObserverStreamOpen ::
  "unicode_tables \<Rightarrow> (observer_stream_open \<Rightarrow> byte list option) \<Rightarrow> observer_stream_open \<Rightarrow> byte_sink \<Rightarrow> observer_error option \<times> byte_sink" where
  "WriteObserverStreamOpen u = write_observer_control (StreamOpen_Validate u)"

definition ReadObserverStreamOpen ::
  "unicode_tables \<Rightarrow> (byte list \<Rightarrow> observer_stream_open option) \<Rightarrow> byte_stream \<Rightarrow> (observer_error + observer_stream_open) \<times> byte_stream" where
  "ReadObserverStreamOpen u = read_observer_control (StreamOpen_Validate u)"

definition WriteObserverHello ::
  "unicode_tables \<Rightarrow> (observer_hello \<Rightarrow> byte list option) \<Rightarrow> observer_hello \<Rightarrow> byte_sink \<Rightarrow> observer_error option \<times> byte_sink" where
  "WriteObserverHello u = write_observer_control (ObserverHello_Validate u)"

definition ReadObserverHello ::
  "unicode_tables \<Rightarrow> (byte list \<Rightarrow> observer_hello option) \<Rightarrow> byte_stream \<Rightarrow> (observer_error + observer_hello) \<times> byte_stream" where
  "ReadObserverHello u = read_observer_control (ObserverHello_Validate u)"

definition WriteObserverAccepted ::
  "unicode_tables \<Rightarrow> (observer_accepted \<Rightarrow> byte list option) \<Rightarrow> observer_accepted \<Rightarrow> byte_sink \<Rightarrow> observer_error option \<times> byte_sink" where
  "WriteObserverAccepted u = write_observer_control (Accepted_Validate u)"

definition ReadObserverAccepted ::
  "unicode_tables \<Rightarrow> (byte list \<Rightarrow> observer_accepted option) \<Rightarrow> byte_stream \<Rightarrow> (observer_error + observer_accepted) \<times> byte_stream" where
  "ReadObserverAccepted u = read_observer_control (Accepted_Validate u)"

section \<open>Sequence numbers\<close>

datatype sequence_disposition =
  ObserverSequenceAccepted | ObserverSequenceDuplicate | ObserverSequenceGap | ObserverSequenceRestart

record sequence_result =
  sq_Disposition :: sequence_disposition
  sq_CPU :: u64
  sq_Sequence :: u64
  sq_MissingFrom :: u64
  sq_MissingTo :: u64

record sequence_tracker =
  tk_binding :: observer_binding
  tk_generation :: u64
  tk_byCPU :: "(u64 \<times> u64) list"

definition NewObserverSequenceTracker :: "unicode_tables \<Rightarrow> observer_binding \<Rightarrow> observer_error + sequence_tracker" where
  "NewObserverSequenceTracker u b =
     (case ObserverBinding_Validate u b of
        Some e \<Rightarrow> Inl e
      | None \<Rightarrow> Inr \<lparr>tk_binding = b, tk_generation = ob_ObserverGeneration b, tk_byCPU = []\<rparr>)"

definition last_sequence :: "sequence_tracker \<Rightarrow> u64 \<Rightarrow> u64" where
  "last_sequence t cpu = (case map_of (tk_byCPU t) cpu of None \<Rightarrow> 0 | Some n \<Rightarrow> n)"

definition Observe ::
  "unicode_tables \<Rightarrow> (string \<Rightarrow> bool) \<Rightarrow> sequence_tracker \<Rightarrow> observation_envelope \<Rightarrow>
   (observer_error + sequence_result) \<times> sequence_tracker" where
  "Observe u json_valid t e =
     (case first_err
        [Envelope_Validate u json_valid e,
         check (\<not> Owner_Equal (ev_Owner e) (ob_Owner (tk_binding t)) \<or> ev_SessionID e \<noteq> ob_SessionID (tk_binding t) \<or>
           ev_CgroupID e \<noteq> ob_CgroupID (tk_binding t)) ErrObserverIdentity,
         check (ev_ObserverGeneration e < tk_generation t) ErrObserverGenerationRollback] of
        Some err \<Rightarrow> (Inl err, t)
      | None \<Rightarrow>
        let cpu = ev_CPU e; n = ev_Sequence e;
            result = (\<lambda>d from to. \<lparr>sq_Disposition = d, sq_CPU = cpu, sq_Sequence = n, sq_MissingFrom = from, sq_MissingTo = to\<rparr>)
        in if tk_generation t < ev_ObserverGeneration e then
             (Inr (if 1 < n then result ObserverSequenceRestart 1 (n - 1) else result ObserverSequenceRestart 0 0),
              t\<lparr>tk_generation := ev_ObserverGeneration e, tk_byCPU := [(cpu, n)]\<rparr>)
           else let last = last_sequence t cpu; t' = t\<lparr>tk_byCPU := AList.update cpu n (tk_byCPU t)\<rparr> in
             if n \<le> last then (Inr (result ObserverSequenceDuplicate 0 0), t)
             else if n = last + 1 then (Inr (result ObserverSequenceAccepted 0 0), t')
             else (Inr (result ObserverSequenceGap (last + 1) (n - 1)), t'))"

section \<open>Lemmas on the checksum\<close>

lemma crc_step_bit31: "bit (crc_step c) 31 \<longleftrightarrow> bit c 0"
proof -
  have "\<not> bit c 32" by (auto dest: bit_imp_le_length)
  then show ?thesis by (simp add: crc_step_def bit_simps)
qed

lemma xor_cancel: "(a :: u32) XOR b = c XOR b \<Longrightarrow> a = c"
proof -
  assume "a XOR b = c XOR b"
  then have "(a XOR b) XOR b = (c XOR b) XOR b" by simp
  then show "a = c" by (simp add: xor.assoc)
qed

lemma crc_step_inj: "crc_step c = crc_step d \<Longrightarrow> c = d"
proof -
  assume eq: "crc_step c = crc_step d"
  then have b0: "bit c 0 \<longleftrightarrow> bit d 0" using crc_step_bit31 by metis
  then have "drop_bit 1 c = drop_bit 1 d"
    using eq xor_cancel by (cases "bit c 0") (auto simp: crc_step_def)
  then have "bit c (Suc n) \<longleftrightarrow> bit d (Suc n)" for n
    by (metis bit_drop_bit_eq comp_apply plus_1_eq_Suc)
  then have "bit c n \<longleftrightarrow> bit d n" for n using b0 by (cases n) auto
  then show "c = d" by (auto intro: bit_word_eqI)
qed

lemma crc_byte_inj: "crc_byte c a = crc_byte d b \<Longrightarrow> c XOR ucast a = d XOR ucast b"
proof -
  have "inj (crc_step ^^ 8)" by (rule inj_fn, rule injI, erule crc_step_inj)
  then show "crc_byte c a = crc_byte d b \<Longrightarrow> c XOR ucast a = d XOR ucast b" 
    unfolding crc_byte_def by (rule injD)
qed

lemma foldl_crc_inj: "foldl crc_byte c bs = foldl crc_byte d bs \<Longrightarrow> c = d"
proof (induction bs arbitrary: c d)
  case (Cons b bs)
  then have "crc_byte c b = crc_byte d b" by simp
  then show ?case using crc_byte_inj xor_cancel by blast
qed simp

lemma ucast_byte_inj: "(ucast (a :: byte) :: u32) = ucast b \<Longrightarrow> a = b"
proof (rule bit_word_eqI)
  fix n assume eq: "(ucast a :: u32) = ucast b" and n: "n < LENGTH(8)"
  have "bit (ucast a :: u32) n \<longleftrightarrow> bit (ucast b :: u32) n" using eq by simp
  then show "bit a n \<longleftrightarrow> bit b n" using n by (simp add: bit_simps)
qed

lemma Checksum_one_byte:
  assumes "Checksum (xs @ a # ys) = Checksum (xs @ b # ys)"
  shows "a = b"
proof -
  have "foldl crc_byte (foldl crc_byte (- 1) (xs @ [a])) ys = foldl crc_byte (foldl crc_byte (- 1) (xs @ [b])) ys"
    using assms by (simp add: Checksum_def)
  then have "crc_byte (foldl crc_byte (- 1) xs) a = crc_byte (foldl crc_byte (- 1) xs) b"
    using foldl_crc_inj by fastforce
  then have "(ucast a :: u32) = ucast b"
    using crc_byte_inj xor_cancel by (metis xor.commute)
  then show "a = b" by (rule ucast_byte_inj)
qed

section \<open>Lemmas on frames\<close>

lemma observer_header_length [simp]: "length (observer_header p) = 8"
  by (simp add: observer_header_def)

lemma writeObserverBytes_ok: "writeObserverBytes k v = (None, k') \<Longrightarrow> sk_Out k' = sk_Out k @ v"
  using writeAll_out[of k v] by (fastforce simp: writeObserverBytes_def split: prod.splits)

lemma write_observer_payload_ok:
  assumes "write_observer_payload p k = (None, k')"
  shows "sk_Out k' = sk_Out k @ observer_header p @ p"
proof -
  obtain k1 where "writeObserverBytes k (observer_header p) = (None, k1)" "writeObserverBytes k1 p = (None, k')"
    using assms by (auto simp: write_observer_payload_def split: prod.splits option.splits)
  then show ?thesis using writeObserverBytes_ok by force
qed

text \<open>What the reader makes of a header for the payload \<open>p\<close> followed by bytes of the same number.\<close>

lemma read_observer_payload_frame:
  assumes "p \<noteq> []" "len p \<le> MaxObserverFrameSize" "length q = length p"
  shows "read_observer_payload at_end \<lparr>bs_Bytes = observer_header p @ q @ rest, bs_EOF = e\<rparr> =
    (if Checksum q = Checksum p then Inr q else Inl ErrObserverCRC, \<lparr>bs_Bytes = rest, bs_EOF = e\<rparr>)"
proof -
  let ?n = "of_nat (length p) :: u32"
  have small: "length p < 2 ^ 32" using assms(2) by simp
  then have n: "unat ?n = length p" by (simp add: unat_of_nat take_bit_nat_eq_self)
  have "?n \<noteq> 0" using n assms(1) by (metis length_0_conv unat_0)
  moreover have "\<not> max_frame_u32 < ?n" using n assms(2) by (simp add: word_less_nat_alt)
  moreover have "ReadFull 8 \<lparr>bs_Bytes = observer_header p @ q @ rest, bs_EOF = e\<rparr> =
      (Inr (observer_header p), \<lparr>bs_Bytes = q @ rest, bs_EOF = e\<rparr>)"
    by (rule ReadFull_append) simp
  moreover have "ReadFull (unat ?n) \<lparr>bs_Bytes = q @ rest, bs_EOF = e\<rparr> = (Inr q, \<lparr>bs_Bytes = rest, bs_EOF = e\<rparr>)"
    by (rule ReadFull_append) (simp add: n assms(3))
  moreover have "Uint32 (take 4 (observer_header p)) = ?n" "Uint32 (drop 4 (observer_header p)) = Checksum p"
    by (simp_all add: observer_header_def)
  ultimately show ?thesis by (simp add: read_observer_payload_def Let_def)
qed

section \<open>Lemmas on sequence numbers\<close>

text \<open>A ledger of one generation: for each CPU the sequence numbers that were received for the first time and
  the ranges that were reported missing.\<close>

record sequence_ledger =
  lg_received :: "u64 \<Rightarrow> u64 list"
  lg_missing :: "u64 \<Rightarrow> (u64 \<times> u64) list"

definition empty_ledger :: sequence_ledger where
  "empty_ledger = \<lparr>lg_received = (\<lambda>_. []), lg_missing = (\<lambda>_. [])\<rparr>"

definition missing_range :: "sequence_result \<Rightarrow> (u64 \<times> u64) list" where
  "missing_range r = (if sq_MissingFrom r = 0 then [] else [(sq_MissingFrom r, sq_MissingTo r)])"

definition note_fresh :: "sequence_result \<Rightarrow> sequence_ledger \<Rightarrow> sequence_ledger" where
  "note_fresh r l = \<lparr>lg_received = (lg_received l)(sq_CPU r := lg_received l (sq_CPU r) @ [sq_Sequence r]),
     lg_missing = (lg_missing l)(sq_CPU r := lg_missing l (sq_CPU r) @ missing_range r)\<rparr>"

definition note_result :: "sequence_result \<Rightarrow> sequence_ledger \<Rightarrow> sequence_ledger" where
  "note_result r l =
     (case sq_Disposition r of
        ObserverSequenceDuplicate \<Rightarrow> l
      | ObserverSequenceRestart \<Rightarrow> note_fresh r empty_ledger
      | _ \<Rightarrow> note_fresh r l)"

fun observe_all ::
  "unicode_tables \<Rightarrow> (string \<Rightarrow> bool) \<Rightarrow> observation_envelope list \<Rightarrow> sequence_tracker \<times> sequence_ledger \<Rightarrow>
   sequence_tracker \<times> sequence_ledger" where
  "observe_all u json_valid [] tr = tr"
| "observe_all u json_valid (e # es) (t, l) =
     (case Observe u json_valid t e of
        (Inl _, t') \<Rightarrow> observe_all u json_valid es (t', l)
      | (Inr r, t') \<Rightarrow> observe_all u json_valid es (t', note_result r l))"

text \<open>All numbers of the ledger, with their multiplicities.\<close>

definition range_numbers :: "(u64 \<times> u64) list \<Rightarrow> nat list" where
  "range_numbers rs = concat (map (\<lambda>(a, b). [unat a..<Suc (unat b)]) rs)"

definition ledger_numbers :: "sequence_ledger \<Rightarrow> u64 \<Rightarrow> nat multiset" where
  "ledger_numbers l cpu = mset (map unat (lg_received l cpu)) + mset (range_numbers (lg_missing l cpu))"

definition accounted :: "sequence_tracker \<Rightarrow> sequence_ledger \<Rightarrow> bool" where
  "accounted t l \<longleftrightarrow> (\<forall>cpu. ledger_numbers l cpu = mset [1..<Suc (unat (last_sequence t cpu))])"

lemma ledger_fresh:
  "ledger_numbers (note_fresh r l) cpu =
     ledger_numbers l cpu + (if cpu = sq_CPU r then {#unat (sq_Sequence r)#} + mset (range_numbers (missing_range r)) else {#})"
  by (simp add: ledger_numbers_def note_fresh_def range_numbers_def)

lemma ledger_empty [simp]: "ledger_numbers empty_ledger cpu = {#}"
  by (simp add: ledger_numbers_def empty_ledger_def range_numbers_def)

lemma upto_split: "m < n \<Longrightarrow> mset [1..<Suc n] = mset [1..<Suc m] + (mset [Suc m..<n] + {#n#})"
  using upt_add_eq_append[of 1 "Suc m" "n - Suc m"] by simp

lemma word_next: "(a :: u64) < b \<Longrightarrow> unat (a + 1) = Suc (unat a)"
proof -
  assume lt: "a < b"
  have "1 + a \<noteq> 0"
  proof
    assume "1 + a = 0"
    then have "a = - 1" by (simp add: eq_neg_iff_add_eq_0 add.commute)
    then show False using lt word_order.extremum_strict[of b] by simp
  qed
  then show ?thesis using unatSuc[of a] by (simp add: add.commute)
qed

lemma word_prev: "(b :: u64) \<noteq> 0 \<Longrightarrow> unat (b - 1) = unat b - 1"
  by (rule unat_minus_one)

lemma observe_accounted:
  assumes "accounted t l" "Observe u json_valid t e = (Inr r, t')"
  shows "accounted t' (note_result r l)"
proof -
  let ?n = "ev_Sequence e" and ?cpu = "ev_CPU e"
  have ok: "Envelope_Validate u json_valid e = None" "\<not> ev_ObserverGeneration e < tk_generation t"
    using assms(2) by (auto simp: Observe_def Let_def simp del: first_err_None split: option.splits)
      (auto simp: first_err_Cons split: option.splits)
  then have pos: "?n \<noteq> 0" by (simp add: Envelope_Validate_def)
  then have upos: "0 < unat ?n" by (simp add: unat_gt_0)
  have succ: "Suc (unat (?n - 1)) = unat ?n" using word_prev[OF pos] upos by simp
  have o: "Observe u json_valid t e =
      (let cpu = ev_CPU e; n = ev_Sequence e;
            result = (\<lambda>d from to. \<lparr>sq_Disposition = d, sq_CPU = cpu, sq_Sequence = n, sq_MissingFrom = from, sq_MissingTo = to\<rparr>)
        in if tk_generation t < ev_ObserverGeneration e then
             (Inr (if 1 < n then result ObserverSequenceRestart 1 (n - 1) else result ObserverSequenceRestart 0 0),
              t\<lparr>tk_generation := ev_ObserverGeneration e, tk_byCPU := [(cpu, n)]\<rparr>)
           else let last = last_sequence t cpu; t' = t\<lparr>tk_byCPU := AList.update cpu n (tk_byCPU t)\<rparr> in
             if n \<le> last then (Inr (result ObserverSequenceDuplicate 0 0), t)
             else if n = last + 1 then (Inr (result ObserverSequenceAccepted 0 0), t')
             else (Inr (result ObserverSequenceGap (last + 1) (n - 1)), t'))"
    using assms(2) by (auto simp: Observe_def simp del: first_err_None split: option.splits)
  let ?last = "last_sequence t ?cpu"
  consider (restart) "tk_generation t < ev_ObserverGeneration e"
    | (dup) "\<not> tk_generation t < ev_ObserverGeneration e" "?n \<le> ?last"
    | (fresh) "\<not> tk_generation t < ev_ObserverGeneration e" "\<not> ?n \<le> ?last"
    by blast
  then show ?thesis
  proof cases
    case restart
    then have t': "t' = t\<lparr>tk_generation := ev_ObserverGeneration e, tk_byCPU := [(?cpu, ?n)]\<rparr>"
      and r: "sq_Disposition r = ObserverSequenceRestart" "sq_CPU r = ?cpu" "sq_Sequence r = ?n"
        "missing_range r = (if 1 < ?n then [(1, ?n - 1)] else [])"
      using assms(2) o by (auto simp: Let_def missing_range_def split: if_splits)
    have "mset (range_numbers (missing_range r)) = mset [1..<unat ?n]"
    proof (cases "1 < ?n")
      case False
      then have "unat ?n \<le> 1" by (simp add: word_less_nat_alt)
      then show ?thesis using False r(4) by (simp add: range_numbers_def)
    qed (use r(4) succ in \<open>simp add: range_numbers_def del: upt_Suc\<close>)
    then show ?thesis using upto_split[OF upos] r t' upos
      by (simp add: accounted_def note_result_def ledger_fresh last_sequence_def Suc_le_eq)
  next
    case dup
    then have "t' = t" "sq_Disposition r = ObserverSequenceDuplicate" using assms(2) o by (auto simp: Let_def)
    then show ?thesis using assms(1) by (simp add: note_result_def)
  next
    case fresh
    then have lt: "?last < ?n" by simp
    then have ult: "unat ?last < unat ?n" by (simp add: word_less_nat_alt)
    have t': "t' = t\<lparr>tk_byCPU := AList.update ?cpu ?n (tk_byCPU t)\<rparr>"
      and r: "sq_Disposition r \<in> {ObserverSequenceAccepted, ObserverSequenceGap}" "sq_CPU r = ?cpu" "sq_Sequence r = ?n"
        "missing_range r = (if ?n = ?last + 1 then [] else [(?last + 1, ?n - 1)])"
      using assms(2) o fresh word_next[OF lt] by (auto simp: Let_def missing_range_def split: if_splits)
    have "mset (range_numbers (missing_range r)) = mset [Suc (unat ?last)..<unat ?n]"
      using r(4) word_next[OF lt] succ by (auto simp: range_numbers_def simp del: upt_Suc)
    then have "accounted t' (note_fresh r l)"
      using upto_split[OF ult] r(2,3) t' assms(1) upos
      by (auto simp: accounted_def ledger_fresh last_sequence_def Suc_le_eq)
    then show ?thesis using r(1) by (auto simp: note_result_def)
  qed
qed

lemma observe_error: "Observe u json_valid t e = (Inl x, t') \<Longrightarrow> t' = t"
  by (auto simp: Observe_def Let_def simp del: first_err_None split: option.splits if_splits)

lemma observe_all_accounted:
  "accounted t l \<Longrightarrow> observe_all u json_valid es (t, l) = (t', l') \<Longrightarrow> accounted t' l'"
proof (induction es arbitrary: t l)
  case (Cons e es)
  obtain r t1 where o: "Observe u json_valid t e = (r, t1)" by (rule prod.exhaust)
  show ?case
  proof (cases r)
    case (Inl x)
    then show ?thesis using Cons o observe_error[of u json_valid t e x t1] by simp
  next
    case (Inr y)
    then show ?thesis using Cons o observe_accounted[OF Cons.prems(1), of u json_valid e y t1] by simp
  qed
qed simp

lemma tracker_new: "NewObserverSequenceTracker u b = Inr t \<Longrightarrow> accounted t empty_ledger"
  by (auto simp: NewObserverSequenceTracker_def accounted_def last_sequence_def split: option.splits)

section \<open>Properties\<close>

text \<open>
  C14. In every run of the sequence tracker, for the current generation and every CPU, each sequence number up to the last
  one is accounted for exactly once: it was received as new, or it lies in exactly one range reported as
  missing. Duplicates, gaps and restarts are never counted twice or left out.\<close>

theorem sequence_numbers_accounted:
  assumes "NewObserverSequenceTracker u b = Inr t0" "observe_all u json_valid es (t0, empty_ledger) = (t, l)"
  shows "ledger_numbers l cpu = mset [1..<Suc (unat (last_sequence t cpu))]"
  using observe_all_accounted[OF tracker_new[OF assms(1)] assms(2)] by (simp add: accounted_def)

definition sample_binding :: observer_binding where
  "sample_binding = \<lparr>ob_Owner = sample_disposable, ob_SessionID = ''ses_a'', ob_EnvironmentID = ''env_a'',
     ob_BackendIncarnationID = ''inc-1'', ob_GuestBootID = ''boot-1'', ob_CgroupID = 7, ob_ObserverGeneration = 1\<rparr>"

definition sample_envelope :: "u64 \<Rightarrow> observation_envelope" where
  "sample_envelope n = \<lparr>ev_Schema = ObservationSchema, ev_Owner = sample_disposable, ev_SessionID = ''ses_a'',
     ev_CgroupID = 7, ev_ObserverGeneration = 1, ev_CPU = 0, ev_Sequence = n, ev_MonotonicNS = 5,
     ev_Kind = ''file.open'', ev_Payload = [CHR 0x7B, CHR 0x7D]\<rparr>"

definition sample_tracker :: sequence_tracker where
  "sample_tracker = \<lparr>tk_binding = sample_binding, tk_generation = 1, tk_byCPU = []\<rparr>"

theorem sequence_numbers_accounted_witness:
  "ledger_numbers (snd (observe_all ascii_tables (\<lambda>_. True) (map sample_envelope [1, 5, 2]) (sample_tracker, empty_ledger))) 0 =
     mset [1, 2, 3, 4, 5]"
proof -
  let ?run = "observe_all ascii_tables (\<lambda>_. True) (map sample_envelope [1, 5, 2]) (sample_tracker, empty_ledger)"
  have v: "NewObserverSequenceTracker ascii_tables sample_binding = Inr sample_tracker \<and> last_sequence (fst ?run) 0 = 5"
    by code_simp
  have run: "?run = (fst ?run, snd ?run)" by (rule prod.collapse[symmetric])
  have "ledger_numbers (snd ?run) 0 = mset [1..<Suc (unat (last_sequence (fst ?run) 0))]"
    by (rule sequence_numbers_accounted[OF conjunct1[OF v] run])
  also have "[1..<Suc (unat (last_sequence (fst ?run) 0))] = [1, 2, 3, 4, 5]" unfolding conjunct2[OF v] by (simp add: upt_rec)
  finally show ?thesis .
qed

text \<open>
  C31. An observer frame in whose payload one byte was changed in transit, whichever byte and however, is rejected with the
  checksum error and the stream is left at the next frame.\<close>

theorem corrupted_byte_rejected:
  assumes "len (xs @ a # ys) \<le> MaxObserverFrameSize" "a \<noteq> b"
  shows "ReadObserverEnvelope u json_valid decode
      \<lparr>bs_Bytes = observer_header (xs @ a # ys) @ (xs @ b # ys) @ rest, bs_EOF = e\<rparr> =
    (Inl ErrObserverCRC, \<lparr>bs_Bytes = rest, bs_EOF = e\<rparr>)"
proof -
  have "Checksum (xs @ b # ys) \<noteq> Checksum (xs @ a # ys)" using Checksum_one_byte assms(2) by metis
  then show ?thesis
    using read_observer_payload_frame[of "xs @ a # ys" "xs @ b # ys" True rest e] assms(1)
    by (simp add: ReadObserverEnvelope_def)
qed

theorem corrupted_byte_rejected_witness:
  "fst (ReadObserverEnvelope ascii_tables (\<lambda>_. True) (\<lambda>_. None)
      \<lparr>bs_Bytes = observer_header [1, 2, 3] @ [1, 2, 7], bs_EOF = True\<rparr>) = Inl ErrObserverCRC"
  using corrupted_byte_rejected[of "[1, 2]" 3 "[]" 7 ascii_tables "\<lambda>_. True" "\<lambda>_. None" "[]" True] by simp

text \<open>
  An observation that was written without an error is read back as the same observation, given that JSON decoding
  inverts its encoding, which is not empty.\<close>

theorem envelope_round_trip:
  assumes "WriteObserverEnvelope u json_valid encode v k = (None, k')" "sk_Out k = []"
    and json: "\<And>p. encode v = Some p \<Longrightarrow> p \<noteq> [] \<and> decode p = Some v"
  shows "ReadObserverEnvelope u json_valid decode \<lparr>bs_Bytes = sk_Out k' @ rest, bs_EOF = e\<rparr> =
    (Inr v, \<lparr>bs_Bytes = rest, bs_EOF = e\<rparr>)"
proof -
  obtain p where p: "Envelope_Validate u json_valid v = None" "encode v = Some p" "len p \<le> MaxObserverFrameSize"
    "write_observer_payload p k = (None, k')"
    using assms(1) by (auto simp: WriteObserverEnvelope_def split: option.splits if_splits)
  then have "sk_Out k' = observer_header p @ p" using write_observer_payload_ok assms(2) by fastforce
  moreover have "p \<noteq> []" "decode p = Some v" using json[OF p(2)] by auto
  ultimately show ?thesis using read_observer_payload_frame[of p p True rest e] p(1,3)
    by (simp add: ReadObserverEnvelope_def)
qed

theorem envelope_round_trip_witness:
  "\<exists>k'. WriteObserverEnvelope ascii_tables (\<lambda>_. True) (\<lambda>_. Some [123, 125]) (sample_envelope 1) idle_sink = (None, k') \<and>
     ReadObserverEnvelope ascii_tables (\<lambda>_. True) (\<lambda>p. Some (sample_envelope 1)) \<lparr>bs_Bytes = sk_Out k' @ [], bs_EOF = True\<rparr> =
       (Inr (sample_envelope 1), \<lparr>bs_Bytes = [], bs_EOF = True\<rparr>)"
proof -
  let ?run = "WriteObserverEnvelope ascii_tables (\<lambda>_. True) (\<lambda>_. Some [123, 125]) (sample_envelope 1) idle_sink"
  have "Envelope_Validate ascii_tables (\<lambda>_. True) (sample_envelope 1) = None" by code_simp
  then have "?run = write_observer_payload [123, 125] idle_sink" by (simp add: WriteObserverEnvelope_def)
  also have "fst (write_observer_payload [123, 125] idle_sink) = None"
    by (simp add: write_observer_payload_def writeObserverBytes_def observer_header_def PutUint32_def writeAll.simps
        sink_write_def idle_sink_def Let_def)
  finally have "?run = (None, snd ?run)" by (simp add: prod_eq_iff)
  from this envelope_round_trip[OF this, of "\<lambda>p. Some (sample_envelope 1)" "[]" True] show ?thesis
    by (intro exI[of _ "snd ?run"]) (simp add: idle_sink_def)
qed

text \<open>
  C32. Both ends of the observer handshake agree: a hello the daemon accepts comes from a privileged peer that the target
  does not control, carries exactly the expected binding, and the acceptance it is answered with passes
  the helper's own check against the binding it sent.\<close>

theorem handshake_agrees:
  assumes "AcceptObserverHello u h expected peer = Inr a"
  shows "op_UID peer = 0 \<and> \<not> op_TargetControlled peer \<and> hello_binding h = expected \<and>
    ValidateBinding u a (hello_binding h) = None"
proof -
  have a: "a = acceptance_of expected" and c: "op_UID peer = 0" "\<not> op_TargetControlled peer"
    "ObserverBinding_Validate u expected = None" "Accepted_Validate u (acceptance_of expected) = None"
    "Owner_Equal (oh_Owner h) (ob_Owner expected)" "oh_SessionID h = ob_SessionID expected"
    "oh_EnvironmentID h = ob_EnvironmentID expected" "oh_BackendIncarnationID h = ob_BackendIncarnationID expected"
    "oh_GuestBootID h = ob_GuestBootID expected" "oh_CgroupID h = ob_CgroupID expected"
    "oh_ObserverGeneration h = ob_ObserverGeneration expected"
    using assms by (auto simp: AcceptObserverHello_def hello_binding_def Let_def split: option.splits)
  have b: "hello_binding h = expected" using c Owner_Equal_eq[OF c(5)] by (simp add: hello_binding_def)
  have "Owner_Validate (ob_Owner expected) = None" using c(3) by (simp add: ObserverBinding_Validate_def)
  then have "Owner_Equal (ob_Owner expected) (ob_Owner expected)" by (rule Owner_Equal_refl)
  then show ?thesis using a b c by (simp add: ValidateBinding_def acceptance_of_def)
qed

definition sample_hello :: observer_hello where
  "sample_hello = (let c = \<lparr>oy_State = CoverageAvailable, oy_Reason = '''', oy_Evidence = []\<rparr> in
     \<lparr>oh_Type = ''observer.hello'', oh_Schema = ObserverWireSchema, oh_Owner = sample_disposable, oh_SessionID = ''ses_a'',
      oh_EnvironmentID = ''env_a'', oh_BackendIncarnationID = ''inc-1'', oh_GuestBootID = ''boot-1'', oh_CgroupID = 7,
      oh_ObserverGeneration = 1, oh_HelperDigest = sample_digest,
      oh_Capabilities = \<lparr>oz_Process = c, oz_File = c, oz_Network = c, oz_DNS = c\<rparr>\<rparr>)"

definition sample_peer :: observer_peer where
  "sample_peer = \<lparr>op_UID = 0, op_TargetControlled = False, op_HelperDigest = sample_digest\<rparr>"

theorem handshake_agrees_witness:
  "ValidateBinding ascii_tables (acceptance_of sample_binding) (hello_binding sample_hello) = None"
proof -
  have "AcceptObserverHello ascii_tables sample_hello sample_binding sample_peer = Inr (acceptance_of sample_binding)"
    by code_simp
  from handshake_agrees[OF this] show ?thesis by blast
qed

end
