(* ===== verification/Go_Sort.thy ===== *)
theory Go_Sort
  imports Hideout_Prelude "HOL-Library.Multiset" "HOL-Library.Product_Lexorder"
begin

text \<open>
  \<open>sort.Slice\<close> and \<open>sort.Strings\<close>. A comparator that compares a key makes \<open>sort.Slice\<close> the stable
  sort by that key; the components prove that the keys they sort by are distinct, so that the
  order in which equal elements end up, which Go leaves open, does not matter.
\<close>

fun insert_by :: "('a \<Rightarrow> 'a \<Rightarrow> bool) \<Rightarrow> 'a \<Rightarrow> 'a list \<Rightarrow> 'a list" where
  "insert_by lt x [] = [x]"
| "insert_by lt x (y # ys) = (if lt y x then y # insert_by lt x ys else x # y # ys)"

definition sort_Slice :: "('a \<Rightarrow> 'a \<Rightarrow> bool) \<Rightarrow> 'a list \<Rightarrow> 'a list" where
  "sort_Slice lt xs = foldr (insert_by lt) xs []"

lemma insert_by_key: "(\<And>x y. lt x y \<longleftrightarrow> key x < (key y :: 'k :: linorder)) \<Longrightarrow> insert_by lt x ys = insort_key key x ys"
  by (induction ys) (auto simp: not_less)

lemma sort_Slice_key:
  assumes "\<And>x y. lt x y \<longleftrightarrow> key x < (key y :: 'k :: linorder)"
  shows "sort_Slice lt xs = sort_key key xs"
  by (induction xs) (simp_all add: sort_Slice_def insert_by_key[OF assms])

lemma mset_insert_by [simp]: "mset (insert_by lt x ys) = add_mset x (mset ys)"
  by (induction ys) auto

lemma mset_sort_Slice [simp]: "mset (sort_Slice lt xs) = mset xs"
  by (induction xs) (simp_all add: sort_Slice_def)

lemma set_sort_Slice [simp]: "set (sort_Slice lt xs) = set xs"
  by (metis mset_sort_Slice set_mset_mset)

lemma length_sort_Slice [simp]: "length (sort_Slice lt xs) = length xs"
  by (metis mset_sort_Slice size_mset)

text \<open>The steps of a comparator that compares one field after the other.\<close>

lemma pair_less: "(a, x) < (b, y) \<longleftrightarrow> a < b \<or> a = b \<and> x < y" for a b :: "'a :: linorder" and x y :: "'b :: linorder"
  by (auto simp: less_prod_simp)

lemma lex_step: "(if p \<noteq> q then p < q else R) \<longleftrightarrow> p < q \<or> p = q \<and> R" for p q :: "'a :: linorder"
  by auto

lemma lex_time: "(if time_After u t then True else if time_After t u then False else R) \<longleftrightarrow>
    instant t < instant u \<or> instant t = instant u \<and> R"
  by (auto simp: time_After_def)

text \<open>With distinct keys the result depends on the elements only.\<close>

lemma sort_key_unique:
  assumes "mset xs = mset ys" "inj_on key (set xs)"
  shows "sort_key key xs = sort_key (key :: 'a \<Rightarrow> 'k :: linorder) ys"
  by (rule sort_key_inj_key_eq[OF _ assms(2)]) (simp_all only: assms(1) mset_sort sorted_sort_key)

text \<open>A list splits into the groups of its elements with equal keys.\<close>

lemma mset_groups:
  "distinct ks \<Longrightarrow> mset (concat (map (\<lambda>k. filter (\<lambda>x. f x = k) xs) ks)) = mset (filter (\<lambda>x. f x \<in> set ks) xs)"
proof (induction ks)
  case (Cons k ks)
  have "mset (filter (\<lambda>x. f x = k) xs) + mset (filter (\<lambda>x. f x \<in> set ks) xs) = mset (filter (\<lambda>x. f x = k \<or> f x \<in> set ks) xs)"
    using Cons.prems by (induction xs) auto
  then show ?case using Cons by simp
qed simp

lemma mset_concat_cong: "mset xss = mset yss \<Longrightarrow> mset (concat xss) = mset (concat yss)"
  by (simp add: mset_concat sum_mset_sum_list[symmetric])

end
