(* ===== verification/Activity_Aggregate.thy ===== *)
theory Activity_Aggregate
  imports Activity_Model Go_Sort
begin

text \<open>
  The aggregation of repetitive activity: \<open>internal/workloadobs/aggregate/aggregate.go\<close>. The
  records of an aggregator are an association list in the order a \<open>range\<close> loop visits the Go map;
  \<open>json.Marshal\<close> is a parameter, None where it returns an error. \<open>time.Time.Sub\<close> saturates beyond
  292 years, far beyond every window, so the difference of the instants decides the same.
\<close>

section \<open>Aggregators\<close>

datatype aggregate_error =
    ErrInvalidOptions | ErrInvalidRecord activity_error | ErrUnencodable | ErrDuplicateID | ErrCapacity

abbreviation DefaultWindow :: int where "DefaultWindow \<equiv> 5 * 10 ^ 9"
abbreviation MinimumWindow :: int where "MinimumWindow \<equiv> 10 ^ 6"
abbreviation MaximumWindow :: int where "MaximumWindow \<equiv> 10 * 60 * 10 ^ 9"
abbreviation DefaultMaxInputs :: int where "DefaultMaxInputs \<equiv> 65536"
abbreviation MaximumInputs :: int where "MaximumInputs \<equiv> 2 ^ 20"

record stored_record =
  sr_record :: activity_record
  sr_digest :: string
  sr_identity :: string

record aggregator =
  ag_window :: int
  ag_maxInputs :: int
  ag_records :: "(string \<times> stored_record) list"

definition NewAggregator :: "int \<Rightarrow> int \<Rightarrow> aggregate_error + aggregator" where
  "NewAggregator window0 maxInputs0 =
     (let window = (if window0 = 0 then DefaultWindow else window0);
          maxInputs = (if maxInputs0 = 0 then DefaultMaxInputs else maxInputs0) in
      if window < MinimumWindow \<or> MaximumWindow < window \<or> maxInputs < 1 \<or> MaximumInputs < maxInputs
      then Inl ErrInvalidOptions
      else Inr \<lparr>ag_window = window, ag_maxInputs = maxInputs, ag_records = []\<rparr>)"

definition stripMonotonic :: "gotime \<Rightarrow> gotime" where
  "stripMonotonic t = (if time_IsZero t then zero_time else time_UTC t)"

definition cloneActivityRecord :: "activity_record \<Rightarrow> activity_record" where
  "cloneActivityRecord r = r\<lparr>ar_FirstAt := stripMonotonic (ar_FirstAt r), ar_LastAt := stripMonotonic (ar_LastAt r),
     ar_Truncation := sort (ar_Truncation r)\<rparr>"

definition aggregatable :: "activity_record \<Rightarrow> bool" where
  "aggregatable r =
     (if ar_Kind r \<in> {ActivityProcess, ActivityRisk, ActivityCoverage} then False
      else if ar_Kind r = ActivityFile then
        (case ar_Subject r of
           FileSubject f \<Rightarrow> \<not> fs_Destructive f \<and>
             ar_Operation r \<notin> {''rename'', ''unlink'', ''truncate'', ''delete'', ''remove'', ''rmdir''}
         | _ \<Rightarrow> False)
      else ar_Kind r \<in> {ActivityConnection, ActivityDNS})"

definition validateAggregationBinding :: "activity_record \<Rightarrow> activity_error option" where
  "validateAggregationBinding r =
     (if ao_Kind (ar_Owner r) = OwnerDisposableSession \<and> ao_SessionID (ar_Owner r) \<noteq> ar_SessionID r
      then Some ErrOwnerMismatch
      else if ar_Kind r \<noteq> ActivityProcess then None
      else case ar_Subject r of
        ProcessSubject p \<Rightarrow>
          check (case ar_Actor r of None \<Rightarrow> True | Some a \<Rightarrow> ps_ExecutionID p \<noteq> ac_ExecutionID a) ErrInvalidActivity
      | _ \<Rightarrow> Some ErrInvalidActivity)"

fun without_cookie :: "activity_subject \<Rightarrow> activity_subject" where
  "without_cookie (NetworkSubject n) = NetworkSubject (n\<lparr>ns_SocketCookie := 0\<rparr>)"
| "without_cookie s = s"

definition identity_of :: "activity_record \<Rightarrow> activity_record" where
  "identity_of r = (cloneActivityRecord r)\<lparr>ar_ID := '''', ar_Count := 0, ar_Bytes := 0, ar_FirstAt := zero_time,
     ar_LastAt := zero_time, ar_FirstSequence := 0, ar_LastSequence := 0, ar_Subject := without_cookie (ar_Subject r)\<rparr>"

type_synonym json_marshal = "activity_record \<Rightarrow> string option"

definition aggregationIdentity :: "json_marshal \<Rightarrow> activity_record \<Rightarrow> string option" where
  "aggregationIdentity marshal r =
     (case marshal (identity_of r) of
        None \<Rightarrow> None
      | Some encoded \<Rightarrow> Some (if aggregatable r then encoded else encoded @ NUL # ar_ID r))"

definition Add :: "(string \<Rightarrow> bool) \<Rightarrow> json_marshal \<Rightarrow> aggregator \<Rightarrow> activity_record \<Rightarrow> aggregate_error option \<times> aggregator" where
  "Add parses_ip marshal a r0 =
     (let r = cloneActivityRecord r0 in
      case first_err [Record_Validate parses_ip r, validateAggregationBinding r] of
        Some e \<Rightarrow> (Some (ErrInvalidRecord e), a)
      | None \<Rightarrow>
        (case (marshal r, aggregationIdentity marshal r) of
           (Some digest, Some identity) \<Rightarrow>
             (case map_of (ag_records a) (ar_ID r) of
                Some existing \<Rightarrow> (if sr_digest existing = digest then None else Some ErrDuplicateID, a)
              | None \<Rightarrow>
                  if ag_maxInputs a \<le> int (length (ag_records a)) then (Some ErrCapacity, a)
                  else (None, a\<lparr>ag_records := ag_records a @
                    [(ar_ID r, \<lparr>sr_record = r, sr_digest = digest, sr_identity = identity\<rparr>)]\<rparr>))
         | _ \<Rightarrow> (Some ErrUnencodable, a)))"

section \<open>Merging\<close>

definition sumWouldOverflow :: "u64 \<Rightarrow> u64 \<Rightarrow> bool" where
  "sumWouldOverflow left right \<longleftrightarrow> - 1 - left < right"

definition appendUnique :: "string list \<Rightarrow> string \<Rightarrow> string list" where
  "appendUnique values v = (if v \<in> set values then values else values @ [v])"

definition addWithDisclosure :: "u64 \<Rightarrow> u64 \<Rightarrow> string \<Rightarrow> string list \<Rightarrow> u64 \<times> string list" where
  "addWithDisclosure left right code disclosures =
     (if sumWouldOverflow left right then (- 1, appendUnique disclosures code) else (left + right, disclosures))"

fun cookies_differ :: "activity_subject \<Rightarrow> activity_subject \<Rightarrow> bool" where
  "cookies_differ (NetworkSubject l) (NetworkSubject r) \<longleftrightarrow> ns_SocketCookie l \<noteq> ns_SocketCookie r"
| "cookies_differ _ _ = False"

definition earlier :: "gotime \<Rightarrow> gotime \<Rightarrow> gotime" where
  "earlier t u = (if time_Before u t then u else t)"

definition later :: "gotime \<Rightarrow> gotime \<Rightarrow> gotime" where
  "later t u = (if time_After u t then u else t)"

definition canMerge :: "activity_record \<Rightarrow> activity_record \<Rightarrow> int \<Rightarrow> bool" where
  "canMerge left right window =
     (let earliest = earlier (ar_FirstAt left) (ar_FirstAt right); latest = later (ar_LastAt left) (ar_LastAt right) in
      if window < instant latest - instant earliest then False
      else
        let d0 = ar_Truncation left;
            d1 = (if sumWouldOverflow (ar_Count left) (ar_Count right) then appendUnique d0 ''count-overflow'' else d0);
            d2 = (if sumWouldOverflow (ar_Bytes left) (ar_Bytes right) then appendUnique d1 ''bytes-overflow'' else d1);
            d3 = (if cookies_differ (ar_Subject left) (ar_Subject right) then appendUnique d2 ''socket-cookie-aggregated'' else d2)
        in length d3 \<le> 32)"

definition merge :: "activity_record \<Rightarrow> activity_record \<Rightarrow> activity_record" where
  "merge left right =
     (let l = cloneActivityRecord left;
          (count, d1) = addWithDisclosure (ar_Count l) (ar_Count right) ''count-overflow'' (ar_Truncation l);
          (bytes, d2) = addWithDisclosure (ar_Bytes l) (ar_Bytes right) ''bytes-overflow'' d1;
          differ = cookies_differ (ar_Subject l) (ar_Subject right);
          d3 = (if differ then appendUnique d2 ''socket-cookie-aggregated'' else d2)
      in l\<lparr>ar_ID := (if ar_ID right < ar_ID l then ar_ID right else ar_ID l), ar_Count := count, ar_Bytes := bytes,
           ar_FirstAt := earlier (ar_FirstAt l) (ar_FirstAt right), ar_LastAt := later (ar_LastAt l) (ar_LastAt right),
           ar_FirstSequence := (if ar_FirstSequence right < ar_FirstSequence l then ar_FirstSequence right else ar_FirstSequence l),
           ar_LastSequence := (if ar_LastSequence l < ar_LastSequence right then ar_LastSequence right else ar_LastSequence l),
           ar_Subject := (if differ then without_cookie (ar_Subject l) else ar_Subject l),
           ar_Truncation := sort d3\<rparr>)"

definition lessActivityRecord :: "activity_record \<Rightarrow> activity_record \<Rightarrow> bool" where
  "lessActivityRecord left right =
     (if time_Before (ar_FirstAt left) (ar_FirstAt right) then True
      else if time_Before (ar_FirstAt right) (ar_FirstAt left) then False
      else if time_Before (ar_LastAt left) (ar_LastAt right) then True
      else if time_Before (ar_LastAt right) (ar_LastAt left) then False
      else if ar_FirstSequence left \<noteq> ar_FirstSequence right then ar_FirstSequence left < ar_FirstSequence right
      else if ar_LastSequence left \<noteq> ar_LastSequence right then ar_LastSequence left < ar_LastSequence right
      else if Owner_String (ar_Owner left) \<noteq> Owner_String (ar_Owner right)
        then Owner_String (ar_Owner left) < Owner_String (ar_Owner right)
      else if ar_SessionID left \<noteq> ar_SessionID right then ar_SessionID left < ar_SessionID right
      else if ar_Kind left \<noteq> ar_Kind right then ar_Kind left < ar_Kind right
      else if ar_Operation left \<noteq> ar_Operation right then ar_Operation left < ar_Operation right
      else if ar_CoverageID left \<noteq> ar_CoverageID right then ar_CoverageID left < ar_CoverageID right
      else ar_ID left < ar_ID right)"

text \<open>The loop over a sorted group.\<close>

fun coalesce :: "int \<Rightarrow> activity_record \<Rightarrow> activity_record list \<Rightarrow> activity_record list" where
  "coalesce window current [] = [current]"
| "coalesce window current (candidate # rest) =
     (if canMerge current candidate window then coalesce window (merge current candidate) rest
      else current # coalesce window (cloneActivityRecord candidate) rest)"

fun merge_group :: "int \<Rightarrow> activity_record list \<Rightarrow> activity_record list" where
  "merge_group window [] = []"
| "merge_group window (r # rs) = coalesce window (cloneActivityRecord r) rs"

definition group_of :: "(string \<times> activity_record) list \<Rightarrow> string \<Rightarrow> activity_record list" where
  "group_of values key = map snd (filter (\<lambda>v. fst v = key) values)"

definition Records :: "aggregator \<Rightarrow> activity_record list" where
  "Records a =
     (let values = map (\<lambda>(k, s). (sr_identity s, cloneActivityRecord (sr_record s))) (ag_records a);
          keys = sort (remdups (map fst values));
          result = concat (map (\<lambda>key. merge_group (ag_window a) (sort_Slice lessActivityRecord (group_of values key))) keys)
      in map cloneActivityRecord (sort_Slice lessActivityRecord result))"

section \<open>The order of records\<close>

definition record_key where
  "record_key r = (instant (ar_FirstAt r), instant (ar_LastAt r), ar_FirstSequence r, ar_LastSequence r,
     Owner_String (ar_Owner r), ar_SessionID r, ar_Kind r, ar_Operation r, ar_CoverageID r, ar_ID r)"

lemma lessActivityRecord_key: "lessActivityRecord l r \<longleftrightarrow> record_key l < record_key r"
  unfolding lessActivityRecord_def record_key_def lex_time lex_step pair_less by (rule refl)

lemmas sort_records = sort_Slice_key[OF lessActivityRecord_key]

lemma record_key_inj: "inj_on ar_ID A \<Longrightarrow> inj_on record_key A"
  by (auto simp: inj_on_def record_key_def)

section \<open>Canonical records\<close>

lemma stripMonotonic_idem [simp]: "stripMonotonic (stripMonotonic t) = stripMonotonic t"
  by (simp add: stripMonotonic_def time_IsZero_def zero_time_def)

lemma instant_stripMonotonic [simp]: "instant (stripMonotonic t) = instant t"
  by (simp add: stripMonotonic_def time_IsZero_def zero_time_def)

definition canonical :: "activity_record \<Rightarrow> bool" where
  "canonical r \<longleftrightarrow> stripMonotonic (ar_FirstAt r) = ar_FirstAt r \<and> stripMonotonic (ar_LastAt r) = ar_LastAt r \<and>
     sorted (ar_Truncation r)"

lemma clone_canonical [simp]: "canonical r \<Longrightarrow> cloneActivityRecord r = r"
  by (cases r) (simp add: canonical_def cloneActivityRecord_def sorted_sort_id)

lemma canonical_clone [simp]: "canonical (cloneActivityRecord r)"
  by (simp add: canonical_def cloneActivityRecord_def)

lemma clone_fields [simp]:
  "ar_ID (cloneActivityRecord r) = ar_ID r" "ar_Count (cloneActivityRecord r) = ar_Count r"
  "ar_Bytes (cloneActivityRecord r) = ar_Bytes r"
  by (simp_all add: cloneActivityRecord_def)

lemma canonical_merge [simp]: "canonical l \<Longrightarrow> canonical r \<Longrightarrow> canonical (merge l r)"
  by (auto simp: merge_def canonical_def earlier_def later_def Let_def split: prod.splits)

section \<open>What a merged record tells\<close>

definition total :: "(activity_record \<Rightarrow> u64) \<Rightarrow> activity_record list \<Rightarrow> nat" where
  "total f g = sum_list (map (\<lambda>x. unat (f x)) g)"

text \<open>A sum is exact, or it is the greatest number and the record says so.\<close>

definition added_up :: "(activity_record \<Rightarrow> u64) \<Rightarrow> string \<Rightarrow> activity_record list \<Rightarrow> activity_record \<Rightarrow> bool" where
  "added_up f code g r \<longleftrightarrow>
     unat (f r) = min (2 ^ 64 - 1) (total f g) \<and> (2 ^ 64 \<le> total f g \<longrightarrow> code \<in> set (ar_Truncation r))"

text \<open>Two records differ only in what aggregation may drop.\<close>

definition same_evidence :: "activity_record \<Rightarrow> activity_record \<Rightarrow> bool" where
  "same_evidence x r \<longleftrightarrow> (identity_of x)\<lparr>ar_Truncation := []\<rparr> = (identity_of r)\<lparr>ar_Truncation := []\<rparr>"

definition summarises :: "int \<Rightarrow> activity_record list \<Rightarrow> activity_record \<Rightarrow> bool" where
  "summarises window g r \<longleftrightarrow> g \<noteq> [] \<and>
     added_up ar_Count ''count-overflow'' g r \<and> added_up ar_Bytes ''bytes-overflow'' g r \<and>
     ar_ID r = Min (ar_ID ` set g) \<and>
     instant (ar_FirstAt r) = Min ((\<lambda>x. instant (ar_FirstAt x)) ` set g) \<and>
     instant (ar_LastAt r) = Max ((\<lambda>x. instant (ar_LastAt x)) ` set g) \<and>
     ar_FirstSequence r = Min (ar_FirstSequence ` set g) \<and> ar_LastSequence r = Max (ar_LastSequence ` set g) \<and>
     (g = [r] \<or> 1 < length g \<and> instant (ar_LastAt r) - instant (ar_FirstAt r) \<le> window) \<and>
     (\<forall>x \<in> set g. same_evidence x r \<and> set (ar_Truncation x) \<subseteq> set (ar_Truncation r) \<and>
        (cookies_differ (ar_Subject x) (ar_Subject r) \<longrightarrow> ''socket-cookie-aggregated'' \<in> set (ar_Truncation r)))"

lemma unat_max: "unat (- 1 :: u64) = 2 ^ 64 - 1"
  by (simp add: unsigned_minus_1_eq_mask mask_eq_exp_minus_1)

lemma u64_bound: "unat (x :: u64) \<le> 2 ^ 64 - 1"
  using unsigned_less[of x, where 'a = nat] by simp

lemma overflow_nat: "sumWouldOverflow l r \<longleftrightarrow> 2 ^ 64 - 1 < unat l + unat r"
proof -
  have "unat (- 1 - l) = 2 ^ 64 - 1 - unat l"
    by (simp add: unat_sub word_order.extremum unat_max)
  then show ?thesis using u64_bound[of l] by (simp add: sumWouldOverflow_def word_less_nat_alt) linarith
qed

lemma set_appendUnique [simp]: "set (appendUnique vs v) = insert v (set vs)"
  by (auto simp: appendUnique_def)

lemma addWithDisclosure_sum:
  assumes "addWithDisclosure l r code d = (s, d')" "unat l = min (2 ^ 64 - 1) n" "2 ^ 64 \<le> n \<longrightarrow> code \<in> set d"
  shows "unat s = min (2 ^ 64 - 1) (n + unat r)" "2 ^ 64 \<le> n + unat r \<longrightarrow> code \<in> set d'" "set d \<subseteq> set d'"
proof -
  show "set d \<subseteq> set d'" using assms(1) by (auto simp: addWithDisclosure_def split: if_splits)
  show "unat s = min (2 ^ 64 - 1) (n + unat r)"
  proof (cases "sumWouldOverflow l r")
    case True
    then show ?thesis using assms(1,2) by (auto simp: addWithDisclosure_def overflow_nat unat_max)
  next
    case False
    then have "unat l + unat r < 2 ^ 64" by (simp add: overflow_nat)
    then have "unat (l + r) = unat l + unat r" by (simp add: unat_word_ariths)
    then show ?thesis using assms(1,2) False by (auto simp: addWithDisclosure_def overflow_nat)
  qed
  show "2 ^ 64 \<le> n + unat r \<longrightarrow> code \<in> set d'"
    using assms by (auto simp: addWithDisclosure_def overflow_nat split: if_splits)
qed

lemma cookies_differ_sym: "cookies_differ a b = cookies_differ b a"
  by (cases a; cases b) auto

lemma without_cookie_idem [simp]: "without_cookie (without_cookie s) = without_cookie s"
  by (cases s) auto

lemma instant_earlier [simp]: "instant (earlier t u) = min (instant t) (instant u)"
  by (simp add: earlier_def time_After_def min_def)

lemma instant_later [simp]: "instant (later t u) = max (instant t) (instant u)"
  by (simp add: later_def time_After_def max_def)

lemma summarises_one: "summarises window [r] r"
  using u64_bound[of "ar_Count r"] u64_bound[of "ar_Bytes r"]
  by (cases "ar_Subject r") (auto simp: summarises_def added_up_def total_def same_evidence_def)

lemma merge_fields:
  assumes "canonical l"
  shows "ar_ID (merge l x) = min (ar_ID l) (ar_ID x)"
    "instant (ar_FirstAt (merge l x)) = min (instant (ar_FirstAt l)) (instant (ar_FirstAt x))"
    "instant (ar_LastAt (merge l x)) = max (instant (ar_LastAt l)) (instant (ar_LastAt x))"
    "ar_FirstSequence (merge l x) = min (ar_FirstSequence l) (ar_FirstSequence x)"
    "ar_LastSequence (merge l x) = max (ar_LastSequence l) (ar_LastSequence x)"
    "ar_Subject (merge l x) = (if cookies_differ (ar_Subject l) (ar_Subject x) then without_cookie (ar_Subject l) else ar_Subject l)"
    "same_evidence (merge l x) l"
  using assms by (auto simp: merge_def Let_def min_def max_def same_evidence_def identity_of_def
      cloneActivityRecord_def[of l] cloneActivityRecord_def split: prod.splits)

lemma merge_disclosures:
  assumes "canonical l" "added_up ar_Count ''count-overflow'' g l" "added_up ar_Bytes ''bytes-overflow'' g l"
  shows "added_up ar_Count ''count-overflow'' (g @ [x]) (merge l x)" "added_up ar_Bytes ''bytes-overflow'' (g @ [x]) (merge l x)"
    "set (ar_Truncation l) \<subseteq> set (ar_Truncation (merge l x))"
    "cookies_differ (ar_Subject l) (ar_Subject x) \<Longrightarrow> ''socket-cookie-aggregated'' \<in> set (ar_Truncation (merge l x))"
proof -
  obtain c d1 where c: "addWithDisclosure (ar_Count l) (ar_Count x) ''count-overflow'' (ar_Truncation l) = (c, d1)"
    by (rule prod.exhaust)
  obtain b d2 where b: "addWithDisclosure (ar_Bytes l) (ar_Bytes x) ''bytes-overflow'' d1 = (b, d2)" by (rule prod.exhaust)
  note cs = addWithDisclosure_sum[OF c] and bs = addWithDisclosure_sum[OF b]
  have m: "ar_Count (merge l x) = c" "ar_Bytes (merge l x) = b" "set d2 \<subseteq> set (ar_Truncation (merge l x))"
    "cookies_differ (ar_Subject l) (ar_Subject x) \<Longrightarrow> ''socket-cookie-aggregated'' \<in> set (ar_Truncation (merge l x))"
    using assms(1) c b by (auto simp: merge_def Let_def)
  have l: "unat (ar_Count l) = min (2 ^ 64 - 1) (total ar_Count g)" "2 ^ 64 \<le> total ar_Count g \<longrightarrow> ''count-overflow'' \<in> set (ar_Truncation l)"
    "unat (ar_Bytes l) = min (2 ^ 64 - 1) (total ar_Bytes g)" "2 ^ 64 \<le> total ar_Bytes g \<longrightarrow> ''bytes-overflow'' \<in> set (ar_Truncation l)"
    using assms(2,3) by (simp_all add: added_up_def)
  note C = cs[OF l(1,2)]
  then have "2 ^ 64 \<le> total ar_Bytes g \<longrightarrow> ''bytes-overflow'' \<in> set d1" using l(4) by auto
  note B = bs[OF l(3) this]
  show "added_up ar_Count ''count-overflow'' (g @ [x]) (merge l x)" using C B m by (auto simp: added_up_def total_def)
  show "added_up ar_Bytes ''bytes-overflow'' (g @ [x]) (merge l x)" using C B m by (auto simp: added_up_def total_def)
  show "set (ar_Truncation l) \<subseteq> set (ar_Truncation (merge l x))" using C(3) B(3) m(3) by blast
  show "cookies_differ (ar_Subject l) (ar_Subject x) \<Longrightarrow> ''socket-cookie-aggregated'' \<in> set (ar_Truncation (merge l x))"
    by (rule m(4))
qed

lemma summarises_merge:
  assumes "summarises window g l" "canonical l" "canMerge l x window" "same_evidence x l"
    "set (ar_Truncation x) \<subseteq> set (ar_Truncation l)"
  shows "summarises window (g @ [x]) (merge l x)"
proof -
  note s = assms(1)[unfolded summarises_def]
  have ne: "set g \<noteq> {}" using s by simp
  note d = merge_disclosures[OF assms(2), of g x] and f = merge_fields[OF assms(2), of x]
  have win: "max (instant (ar_LastAt l)) (instant (ar_LastAt x)) - min (instant (ar_FirstAt l)) (instant (ar_FirstAt x)) \<le> window"
    using assms(3) by (auto simp: canMerge_def Let_def split: if_splits)
  have ev: "same_evidence y (merge l x)" if "y \<in> set (g @ [x])" for y
    using that s f(7) assms(4) by (auto simp: same_evidence_def)
  have tr: "set (ar_Truncation y) \<subseteq> set (ar_Truncation (merge l x))" if "y \<in> set (g @ [x])" for y
    using that s d(3) assms(5) by auto
  have ck: "''socket-cookie-aggregated'' \<in> set (ar_Truncation (merge l x))"
    if "y \<in> set (g @ [x])" "cookies_differ (ar_Subject y) (ar_Subject (merge l x))" for y
  proof (cases "cookies_differ (ar_Subject l) (ar_Subject x)")
    case True
    then show ?thesis using d(4) s by simp
  next
    case False
    then show ?thesis using that s d(3) f(6) by (auto simp: cookies_differ_sym)
  qed
  have "added_up ar_Count ''count-overflow'' (g @ [x]) (merge l x)" "added_up ar_Bytes ''bytes-overflow'' (g @ [x]) (merge l x)"
    using d s by auto
  then show ?thesis
    using s ev tr ck win ne unfolding summarises_def f(1-5) by (simp add: min.commute max.commute)
qed

section \<open>Groups\<close>

definition fits :: "activity_record \<Rightarrow> activity_record \<Rightarrow> bool" where
  "fits i r \<longleftrightarrow> i\<lparr>ar_Truncation := []\<rparr> = (identity_of r)\<lparr>ar_Truncation := []\<rparr> \<and> set (ar_Truncation i) \<subseteq> set (ar_Truncation r)"

lemma fits_self: "fits (identity_of r) r"
  by (simp add: fits_def identity_of_def cloneActivityRecord_def)

lemma fits_merge: "fits i l \<Longrightarrow> canonical l \<Longrightarrow> summarises w g l \<Longrightarrow> fits i (merge l x)"
  using merge_fields(7)[of l x] merge_disclosures(3)[of l g x] by (auto simp: fits_def same_evidence_def summarises_def)

lemma fits_evidence: "fits i l \<Longrightarrow> identity_of x = i \<Longrightarrow> same_evidence x l \<and> set (ar_Truncation x) \<subseteq> set (ar_Truncation l)"
  by (auto simp: fits_def same_evidence_def identity_of_def cloneActivityRecord_def)

lemma coalesce_summarises:
  "summarises w g cur \<Longrightarrow> canonical cur \<Longrightarrow> fits i cur \<Longrightarrow> list_all (\<lambda>x. canonical x \<and> identity_of x = i) xs \<Longrightarrow>
     \<exists>parts. concat parts = g @ xs \<and> list_all2 (summarises w) parts (coalesce w cur xs)"
proof (induction xs arbitrary: g cur)
  case Nil
  then show ?case by (intro exI[of _ "[g]"]) simp
next
  case (Cons x xs)
  have x: "canonical x" "identity_of x = i" and xs: "list_all (\<lambda>x. canonical x \<and> identity_of x = i) xs" using Cons.prems(4) by auto
  show ?case
  proof (cases "canMerge cur x w")
    case True
    have "summarises w (g @ [x]) (merge cur x)"
      using summarises_merge[OF Cons.prems(1,2) True] fits_evidence[OF Cons.prems(3) x(2)] by blast
    from Cons.IH[OF this canonical_merge[OF Cons.prems(2) x(1)] fits_merge[OF Cons.prems(3,2,1)] xs] True
    show ?thesis by simp
  next
    case False
    have "fits i x" using fits_self[of x] x(2) by simp
    then obtain parts where "concat parts = [x] @ xs" "list_all2 (summarises w) parts (coalesce w x xs)"
      using Cons.IH[OF summarises_one x(1) _ xs] by blast
    then show ?thesis using False Cons.prems(1) x(1) by (intro exI[of _ "g # parts"]) simp
  qed
qed

lemma merge_group_summarises:
  assumes "list_all (\<lambda>x. canonical x \<and> identity_of x = i) xs"
  shows "\<exists>parts. concat parts = xs \<and> list_all2 (summarises w) parts (merge_group w xs)"
proof (cases xs)
  case Nil
  then show ?thesis by (intro exI[of _ "[]"]) simp
next
  case (Cons y ys)
  then have "canonical y" "fits i y" "list_all (\<lambda>x. canonical x \<and> identity_of x = i) ys" using assms fits_self[of y] by auto
  from coalesce_summarises[OF summarises_one this(1) this(2,3)] this(1) Cons show ?thesis by simp
qed

lemma list_all2_groups:
  "(\<And>k. k \<in> set ks \<Longrightarrow> \<exists>parts. concat parts = F k \<and> list_all2 Q parts (G k)) \<Longrightarrow>
     \<exists>parts. concat parts = concat (map F ks) \<and> list_all2 Q parts (concat (map G ks))"
proof (induction ks)
  case (Cons k ks)
  obtain p1 where p1: "concat p1 = F k" "list_all2 Q p1 (G k)" using Cons.prems[of k] by auto
  obtain p2 where p2: "concat p2 = concat (map F ks)" "list_all2 Q p2 (concat (map G ks))" using Cons.IH Cons.prems by auto
  show ?case using p1 p2 by (intro exI[of _ "p1 @ p2"]) (simp add: list_all2_appendI)
qed simp

section \<open>Reachable aggregators\<close>

definition stored :: "aggregator \<Rightarrow> activity_record list" where
  "stored a = map (\<lambda>(k, s). sr_record s) (ag_records a)"

definition stored_ok :: "json_marshal \<Rightarrow> string \<times> stored_record \<Rightarrow> bool" where
  "stored_ok marshal e \<longleftrightarrow> fst e = ar_ID (sr_record (snd e)) \<and> canonical (sr_record (snd e)) \<and>
     aggregationIdentity marshal (sr_record (snd e)) = Some (sr_identity (snd e)) \<and>
     marshal (sr_record (snd e)) = Some (sr_digest (snd e))"

definition agg_inv :: "json_marshal \<Rightarrow> aggregator \<Rightarrow> bool" where
  "agg_inv marshal a \<longleftrightarrow> distinct (map fst (ag_records a)) \<and> list_all (stored_ok marshal) (ag_records a)"

fun add_all :: "(string \<Rightarrow> bool) \<Rightarrow> json_marshal \<Rightarrow> aggregator \<Rightarrow> activity_record list \<Rightarrow> bool \<times> aggregator" where
  "add_all parses_ip marshal a [] = (True, a)"
| "add_all parses_ip marshal a (r # rs) =
     (case Add parses_ip marshal a r of (e, a1) \<Rightarrow>
        (case add_all parses_ip marshal a1 rs of (ok, a2) \<Rightarrow> (e = None \<and> ok, a2)))"

lemma NewAggregator_inv: "NewAggregator w m = Inr a \<Longrightarrow> agg_inv marshal a"
  by (auto simp: NewAggregator_def agg_inv_def Let_def split: if_splits)

lemma Add_result:
  assumes "Add parses_ip marshal a r = (e, a')"
  shows "a' = a \<or> (\<exists>digest identity. e = None \<and> map_of (ag_records a) (ar_ID r) = None \<and>
    marshal (cloneActivityRecord r) = Some digest \<and> aggregationIdentity marshal (cloneActivityRecord r) = Some identity \<and>
    a' = a\<lparr>ag_records := ag_records a @ [(ar_ID r, \<lparr>sr_record = cloneActivityRecord r, sr_digest = digest, sr_identity = identity\<rparr>)]\<rparr>)"
proof (cases "first_err [Record_Validate parses_ip (cloneActivityRecord r), validateAggregationBinding (cloneActivityRecord r)]")
  case (Some err)
  then show ?thesis using assms by (simp add: Add_def)
next
  case None
  note step = assms[unfolded Add_def Let_def None option.case(1) clone_fields]
  show ?thesis
    using step by (simp split: option.splits if_splits)
qed

lemma Add_inv: "agg_inv marshal a \<Longrightarrow> Add parses_ip marshal a r = (e, a') \<Longrightarrow> agg_inv marshal a'"
  by (drule Add_result) (auto simp: agg_inv_def stored_ok_def map_of_eq_None_iff)

lemma add_all_inv: "agg_inv marshal a \<Longrightarrow> agg_inv marshal (snd (add_all parses_ip marshal a rs))"
proof (induction rs arbitrary: a)
  case (Cons r rs)
  obtain e a1 where a1: "Add parses_ip marshal a r = (e, a1)" by (rule prod.exhaust)
  show ?case using Cons.IH[OF Add_inv[OF Cons.prems a1]] a1 by (auto split: prod.splits)
qed simp

lemma agg_inv_values:
  assumes "agg_inv marshal a"
  shows "map (\<lambda>(k, s). (sr_identity s, cloneActivityRecord (sr_record s))) (ag_records a) =
      map (\<lambda>r. (the (aggregationIdentity marshal r), r)) (stored a)"
    and "inj_on ar_ID (set (stored a))" "list_all canonical (stored a)" "distinct (stored a)"
proof -
  show "map (\<lambda>(k, s). (sr_identity s, cloneActivityRecord (sr_record s))) (ag_records a) =
      map (\<lambda>r. (the (aggregationIdentity marshal r), r)) (stored a)"
    using assms by (auto simp: agg_inv_def stored_def stored_ok_def list_all_iff)
  have "map ar_ID (stored a) = map fst (ag_records a)"
    using assms by (auto simp: agg_inv_def stored_def stored_ok_def list_all_iff)
  then have "distinct (map ar_ID (stored a))" using assms by (simp add: agg_inv_def)
  then show "inj_on ar_ID (set (stored a))" "distinct (stored a)" by (simp_all add: distinct_map)
  show "list_all canonical (stored a)" using assms by (auto simp: agg_inv_def stored_def stored_ok_def list_all_iff)
qed

text \<open>\<open>Records\<close> in terms of the stored records.\<close>

definition identity_string :: "json_marshal \<Rightarrow> activity_record \<Rightarrow> string" where
  "identity_string marshal r = the (aggregationIdentity marshal r)"

definition same_identity :: "json_marshal \<Rightarrow> aggregator \<Rightarrow> string \<Rightarrow> activity_record list" where
  "same_identity marshal a key = sort_key record_key (filter (\<lambda>r. identity_string marshal r = key) (stored a))"

definition merged :: "json_marshal \<Rightarrow> aggregator \<Rightarrow> activity_record list" where
  "merged marshal a = concat (map (\<lambda>key. merge_group (ag_window a) (same_identity marshal a key))
     (sort (remdups (map (identity_string marshal) (stored a)))))"

lemma Records_eq:
  assumes "agg_inv marshal a"
  shows "Records a = map cloneActivityRecord (sort_key record_key (merged marshal a))"
proof -
  have g: "group_of (map (\<lambda>r. (identity_string marshal r, r)) rs) key = filter (\<lambda>r. identity_string marshal r = key) rs" for rs key
    by (induction rs) (auto simp: group_of_def)
  show ?thesis
    unfolding Records_def Let_def agg_inv_values(1)[OF assms] identity_string_def[symmetric] g sort_records merged_def same_identity_def
    by (simp add: comp_def)
qed

lemma coalesce_canonical:
  "canonical cur \<Longrightarrow> list_all canonical xs \<Longrightarrow> list_all canonical (coalesce w cur xs)"
  by (induction xs arbitrary: cur) auto

lemma merge_group_canonical: "list_all canonical xs \<Longrightarrow> list_all canonical (merge_group w xs)"
  by (cases xs) (auto simp: coalesce_canonical)

lemma Records_sorted:
  assumes "agg_inv marshal a"
  shows "Records a = sort_key record_key (merged marshal a)"
proof -
  have "list_all canonical (same_identity marshal a key)" for key
    using agg_inv_values(3)[OF assms] by (auto simp: same_identity_def list_all_iff)
  then have "list_all canonical (merge_group (ag_window a) (same_identity marshal a key))" for key
    by (rule merge_group_canonical)
  then have "list_all canonical (merged marshal a)" by (auto simp: merged_def list_all_iff)
  then have "map cloneActivityRecord (sort_key record_key (merged marshal a)) = sort_key record_key (merged marshal a)"
    by (intro map_idI) (simp add: list_all_iff)
  then show ?thesis using Records_eq[OF assms] by simp
qed

text \<open>The records of one identity: equal up to what aggregation drops, and alone when they must not be merged.\<close>

lemma split_at_first: "n \<notin> set xs \<Longrightarrow> n \<notin> set ys \<Longrightarrow> xs @ n # us = ys @ n # vs \<longleftrightarrow> xs = ys \<and> us = vs"
proof (induction xs arbitrary: ys)
  case Nil
  then show ?case by (cases ys) auto
next
  case (Cons x xs)
  then show ?case by (cases ys) auto
qed

lemma identity_alone:
  assumes nul: "\<And>x s. marshal x = Some s \<Longrightarrow> NUL \<notin> set s"
    and "aggregationIdentity marshal x = Some s" "aggregationIdentity marshal y = Some s" "\<not> aggregatable x"
  shows "ar_ID x = ar_ID y"
proof -
  obtain ex ey where e: "marshal (identity_of x) = Some ex" "marshal (identity_of y) = Some ey"
    using assms(2,3) by (auto simp: aggregationIdentity_def split: option.splits)
  have n: "NUL \<notin> set ex" "NUL \<notin> set ey" using nul e by blast+
  have s: "s = ex @ NUL # ar_ID x" using assms(2,4) e by (auto simp: aggregationIdentity_def)
  moreover have "\<not> aggregatable y" using assms(3) e s n by (auto simp: aggregationIdentity_def split: if_splits)
  ultimately have "ex @ NUL # ar_ID x = ey @ NUL # ar_ID y" using assms(3) e by (simp add: aggregationIdentity_def)
  then show ?thesis using n by (simp add: split_at_first)
qed

lemma identity_same:
  assumes nul: "\<And>x s. marshal x = Some s \<Longrightarrow> NUL \<notin> set s"
    and "aggregationIdentity marshal x = Some s" "aggregationIdentity marshal y = Some s"
  shows "marshal (identity_of x) = marshal (identity_of y)"
proof -
  obtain ex ey where e: "marshal (identity_of x) = Some ex" "marshal (identity_of y) = Some ey"
    using assms(2,3) by (auto simp: aggregationIdentity_def split: option.splits)
  have n: "NUL \<notin> set ex" "NUL \<notin> set ey" using nul e by blast+
  show ?thesis using assms(2,3) e n by (auto simp: aggregationIdentity_def split_at_first split: if_splits)
qed

section \<open>Properties\<close>

lemma one_group:
  assumes "agg_inv marshal a" and nul: "\<And>x s. marshal x = Some s \<Longrightarrow> NUL \<notin> set s"
    and json: "\<And>x y. x \<in> set (stored a) \<Longrightarrow> y \<in> set (stored a) \<Longrightarrow> marshal (identity_of x) = marshal (identity_of y) \<Longrightarrow>
      identity_of x = identity_of y"
  shows "\<exists>parts. concat parts = same_identity marshal a key \<and>
    list_all2 (\<lambda>g r. summarises (ag_window a) g r \<and> (\<forall>x \<in> set g. \<not> aggregatable x \<longrightarrow> g = [x])) parts
      (merge_group (ag_window a) (same_identity marshal a key))"
proof -
  let ?g = "same_identity marshal a key"
  have g: "x \<in> set (stored a) \<and> aggregationIdentity marshal x = Some key" if "x \<in> set ?g" for x
    using that assms(1) by (auto simp: same_identity_def identity_string_def stored_def agg_inv_def stored_ok_def list_all_iff)
  obtain i where i: "list_all (\<lambda>x. canonical x \<and> identity_of x = i) ?g"
  proof (cases ?g)
    case Nil
    then show thesis using that by simp
  next
    case (Cons y ys)
    then have y: "y \<in> set ?g" by simp
    have "identity_of x = identity_of y" if x: "x \<in> set ?g" for x
    proof (rule json)
      show "marshal (identity_of x) = marshal (identity_of y)"
        by (rule identity_same[where marshal=marshal and s=key]) (use nul g[OF x] g[OF y] in blast)+
    qed (use g[OF x] g[OF y] in blast)+
    then show thesis using that[of "identity_of y"] g agg_inv_values(3)[OF assms(1)] by (auto simp: list_all_iff)
  qed
  obtain parts where parts: "concat parts = ?g" "list_all2 (summarises (ag_window a)) parts (merge_group (ag_window a) ?g)"
    using merge_group_summarises[OF i] by blast
  have alone: "p = [x]" if "p \<in> set parts" "x \<in> set p" "\<not> aggregatable x" for p x
  proof -
    have x: "x \<in> set ?g" unfolding parts(1)[symmetric] using that(1,2) by auto
    have eq: "y = x" if y: "y \<in> set ?g" for y
    proof -
      have "ar_ID x = ar_ID y"
        by (rule identity_alone[where marshal=marshal and s=key]) (use nul g[OF x] g[OF y] \<open>\<not> aggregatable x\<close> in blast)+
      then show ?thesis using inj_onD[OF agg_inv_values(2)[OF assms(1)]] g[OF x] g[OF y] by metis
    qed
    have "distinct ?g" using agg_inv_values(4)[OF assms(1)] by (simp add: same_identity_def)
    then have "length ?g \<le> 1" using eq by (cases ?g rule: remdups_adj.cases) auto
    moreover have "length p \<le> length ?g" unfolding parts(1)[symmetric] length_concat using that(1) by (simp add: member_le_sum_list)
    ultimately have "length p \<le> 1" by linarith
    then show ?thesis using that(2) by (cases p rule: remdups_adj.cases) auto
  qed
  have "list_all2 (\<lambda>g r. summarises (ag_window a) g r \<and> (\<forall>x \<in> set g. \<not> aggregatable x \<longrightarrow> g = [x])) parts (merge_group (ag_window a) ?g)"
    using parts(2) alone by (auto simp: list_all2_conv_all_nth)
  then show ?thesis using parts(1) by blast
qed


text \<open>Two name lookups within the window and one a minute later.\<close>

definition sample_lookup :: "string \<Rightarrow> int \<Rightarrow> activity_record" where
  "sample_lookup rid t =
     \<lparr>ar_Schema = ActivityRecordSchema, ar_ID = rid,
      ar_Owner = \<lparr>ao_Kind = OwnerDisposableSession, ao_EnvironmentID = '''', ao_SessionID = ''ses_a'', ao_Backend = ''vz'',
        ao_BackendIncarnationID = ''inc-1'', ao_GuestBootID = ''''\<rparr>,
      ar_SessionID = ''ses_a'', ar_Actor = None, ar_Mediator = None, ar_Kind = ActivityDNS, ar_Operation = ''query'',
      ar_Subject = DNSSubject \<lparr>ds_Kind = ActivityDNS, ds_Query = ''example.org'', ds_QueryType = ''A'', ds_Answers = [],
        ds_TTLSeconds = 0, ds_ResponseCode = ''NOERROR'', ds_Resolver = ''''\<rparr>,
      ar_Outcome = \<lparr>oc_Status = ''succeeded'', oc_Code = None, oc_Signal = 0, oc_Reason = ''''\<rparr>,
      ar_Count = 2, ar_Bytes = 0, ar_FirstAt = GoTime t 0, ar_LastAt = GoTime t 0, ar_FirstSequence = 1, ar_LastSequence = 1,
      ar_Attribution = AttributionExact, ar_Truncation = [], ar_CoverageID = ''cov_00000001'', ar_RedactionStatus = RedactionPassed\<rparr>"

definition sample_lookups :: "activity_record list" where
  "sample_lookups = [sample_lookup ''act_00000002'' 8000000000, sample_lookup ''act_00000001'' 5000000000,
     sample_lookup ''act_00000003'' 65000000000]"

definition sample_marshal :: json_marshal where
  "sample_marshal r = Some (filter (\<lambda>c. c \<noteq> NUL) (ar_ID r))"

definition sample_fresh :: aggregator where
  "sample_fresh = \<lparr>ag_window = DefaultWindow, ag_maxInputs = DefaultMaxInputs, ag_records = []\<rparr>"

definition sample_added :: "activity_record list \<Rightarrow> bool \<times> aggregator" where
  "sample_added rs = add_all (\<lambda>_. True) sample_marshal sample_fresh rs"

lemma sample_new: "NewAggregator 0 0 = Inr sample_fresh"
  by (simp add: NewAggregator_def sample_fresh_def)

lemma sample_stored: "stored (snd (sample_added sample_lookups)) = sample_lookups"
  by code_simp

lemma sample_merged: "map ar_Count (Records (snd (sample_added sample_lookups))) = [4, 2]"
  by code_simp

lemma sample_identity: "x \<in> set sample_lookups \<Longrightarrow> y \<in> set sample_lookups \<Longrightarrow> identity_of x = identity_of y"
  by (auto simp: sample_lookups_def sample_lookup_def identity_of_def cloneActivityRecord_def)


section \<open>The order of arrival\<close>

definition entry_of :: "json_marshal \<Rightarrow> activity_record \<Rightarrow> string \<times> stored_record" where
  "entry_of marshal r = (ar_ID r, \<lparr>sr_record = cloneActivityRecord r, sr_digest = the (marshal (cloneActivityRecord r)),
     sr_identity = the (aggregationIdentity marshal (cloneActivityRecord r))\<rparr>)"

lemma Add_ok:
  assumes "Add parses_ip marshal a r = (None, a')" "agg_inv marshal a" "inj_on marshal D" "set (stored a) \<subseteq> D" "cloneActivityRecord r \<in> D"
  shows "set (ag_records a') = insert (entry_of marshal r) (set (ag_records a)) \<and> set (stored a') \<subseteq> D \<and> ag_window a' = ag_window a"
proof (cases "map_of (ag_records a) (ar_ID r)")
  case None
  then obtain digest identity where "marshal (cloneActivityRecord r) = Some digest"
    "aggregationIdentity marshal (cloneActivityRecord r) = Some identity"
    "a' = a\<lparr>ag_records := ag_records a @ [(ar_ID r, \<lparr>sr_record = cloneActivityRecord r, sr_digest = digest, sr_identity = identity\<rparr>)]\<rparr>"
    using assms(1) by (auto simp: Add_def Let_def simp del: first_err_None split: option.splits if_splits)
  then show ?thesis using assms(4,5) by (auto simp: entry_of_def stored_def)
next
  case (Some s)
  then have a': "a' = a" "marshal (cloneActivityRecord r) = Some (sr_digest s)"
    using assms(1) by (auto simp: Add_def Let_def simp del: first_err_None split: option.splits if_splits)
  have mem: "(ar_ID r, s) \<in> set (ag_records a)" using Some by (rule map_of_SomeD)
  then have ok: "stored_ok marshal (ar_ID r, s)" using assms(2) by (auto simp: agg_inv_def list_all_iff)
  have "sr_record s \<in> D" using mem assms(4) by (force simp: stored_def)
  then have "sr_record s = cloneActivityRecord r" using ok a'(2) assms(3,5) by (auto simp: stored_ok_def inj_on_def)
  then have "(ar_ID r, s) = entry_of marshal r" using ok a'(2) by (cases s) (auto simp: stored_ok_def entry_of_def)
  then show ?thesis using mem a' assms(4) by auto
qed

lemma add_all_ok:
  "add_all parses_ip marshal a rs = (True, a') \<Longrightarrow> agg_inv marshal a \<Longrightarrow> inj_on marshal D \<Longrightarrow> set (stored a) \<subseteq> D \<Longrightarrow>
     cloneActivityRecord ` set rs \<subseteq> D \<Longrightarrow>
     set (ag_records a') = entry_of marshal ` set rs \<union> set (ag_records a) \<and> ag_window a' = ag_window a"
proof (induction rs arbitrary: a)
  case (Cons r rs)
  obtain e a1 where a1: "Add parses_ip marshal a r = (e, a1)" by (rule prod.exhaust)
  have ok: "e = None" "add_all parses_ip marshal a1 rs = (True, a')" using Cons.prems(1) a1 by (auto split: prod.splits)
  note s = Add_ok[OF a1[unfolded ok(1)] Cons.prems(2,3,4)]
  have "cloneActivityRecord r \<in> D" "cloneActivityRecord ` set rs \<subseteq> D" using Cons.prems(5) by auto
  with s Cons.IH[OF ok(2) Add_inv[OF Cons.prems(2) a1] Cons.prems(3)] show ?case by auto
qed auto

lemma Records_mset:
  assumes "agg_inv marshal a" "agg_inv marshal b" "mset (ag_records a) = mset (ag_records b)" "ag_window a = ag_window b"
  shows "Records a = Records b"
proof -
  have st: "mset (stored a) = mset (stored b)" using assms(3) by (simp add: stored_def)
  have "same_identity marshal a key = same_identity marshal b key" for key
    unfolding same_identity_def
    by (rule sort_key_unique) (use st record_key_inj[OF inj_on_subset[OF agg_inv_values(2)[OF assms(1)]]] in auto)
  moreover have "sort (remdups (map (identity_string marshal) (stored a))) = sort (remdups (map (identity_string marshal) (stored b)))"
    using mset_eq_setD[OF st] by (simp add: sorted_list_of_set_sort_remdups[symmetric])
  ultimately have "merged marshal a = merged marshal b" using assms(4) by (simp add: merged_def)
  then show ?thesis using Records_sorted assms(1,2) by simp
qed



end
