(* ===== verification/Spec2Isabelle.thy ===== *)
theory Spec2Isabelle
  imports Lifecycle_Contracts Workspace_Path Coverage_Timeline Observer_Channel Activity_Aggregate
begin

text \<open>
  A verification library for hideout, a daemon that runs workloads in virtual machines. It covers the
  parts of the daemon that decide something and keep state: the lifecycle of an environment, the paths
  of a workspace, the wire protocol of a session, and the observation of a workload. Paths below are
  relative to \<open>src/internal\<close>.

  \<^bold>\<open>The parts and how they interact.\<close> The lifecycle coordinator owns the state of every environment. Sessions
  attach to an environment and register resources in a dependency graph; when the last one is gone,
  an idle timer asks the reducer whether the virtual machine may stop. Every change goes through a
  journal on disk, from which a restarted daemon reconciles, and operations on one environment or profile
  exclude each other with claims on keys. A session talks to its supervisor in frames that carry control
  messages; the supervisor hands the observations of the workload to a bounded queue and sends them on the
  observer channel. The daemon tracks their sequence numbers, keeps a coverage timeline for each
  subsystem and aggregates the activity records. Workspace paths translate between the two names of a
  file in the guest.

  \<^bold>\<open>Conventions.\<close> A struct is a record, a Go string a list of bytes, a \<open>uint64\<close> a 64-bit word, a Go map an
  association list in some iteration order. A validator returns the error or None, a fallible function a
  sum. A method that holds the mutex is a function from state to state with one reading of the clock; a
  callback that runs without the mutex is split into the step that starts it and the step in which it
  returns, and the steps of several callers interleave freely.

  \<^bold>\<open>Shared theories.\<close> \<open>Hideout_Prelude\<close> has time, the sequence of checks of a validator, byte strings and
  their patterns. \<open>Go_Path\<close>, \<open>Go_Utf8\<close> and \<open>Go_Sort\<close> model what the sources use of the standard library.

  \<^bold>\<open>Lifecycle\<close> (\<open>lifecycle/\<close> and the observation type of \<open>backend/lifecycle.go\<close>).
  \<^item> \<open>Lifecycle_Model\<close> (\<open>model.go\<close>), \<open>Lifecycle_Catalog\<close> (\<open>catalog.go\<close>): references, resources and their
    validation, shown equivalent to a declarative reading of the catalog.
  \<^item> \<open>Lifecycle_Graph\<close> (\<open>reducer.go\<close>): graph validation decides acyclicity and terminates, \<open>pathMode\<close> computes
    reachability, \<open>EvaluateAutoStop\<close> allows a stop exactly if nothing depends on the machine.
  \<^item> \<open>Lifecycle_Journal\<close>, \<open>Lifecycle_Store\<close> (\<open>journal.go\<close>, \<open>disposal.go\<close>): the journal and its directory. Every
    primitive of the disk may fail; a crash after any step leaves the old or the new journal. The locale
    \<open>journal_store\<close> is the contract, interpreted on the store.
  \<^item> \<open>Lifecycle_Mutation\<close> (\<open>mutation.go\<close>): claims on keys exclude each other; the locale \<open>mutation_claims\<close> is the
    contract, interpreted on the claim table.
  \<^item> \<open>Lifecycle_Status\<close> (\<open>status.go\<close>): the status derived from the state.
  \<^item> \<open>Lifecycle_Coordinator\<close>, \<open>Lifecycle_Registry\<close>, \<open>Lifecycle_Establishment\<close>, \<open>Lifecycle_Reconcile\<close>,
    \<open>Lifecycle_Disposal\<close> (\<open>coordinator.go\<close>, \<open>registry.go\<close>, \<open>establishment.go\<close>, \<open>incarnation.go\<close>, \<open>reconcile.go\<close>,
    \<open>reconciliation_fence.go\<close>): the operations of the coordinator.
  \<^item> \<open>Lifecycle_Invariant\<close>, \<open>Lifecycle_System\<close>, \<open>Lifecycle_Safety\<close>: the step relation of all operations and callbacks,
    its invariant, and what follows for every reachable state: a stop or a destructive mutation runs
    alone, refuses attaches while it runs, is journaled first and is authorised by the reducer.
  \<^item> \<open>Lifecycle_Contracts\<close>: the order of release, and two error paths that lose state.

  \<^bold>\<open>Workspace paths\<close> (\<open>workspacepath/path.go\<close>). \<open>Workspace_Path\<close>: an accepted path stays inside the attachment,
  and the two aliases of a file agree.

  \<^bold>\<open>Session wire\<close> (\<open>sessionwire/\<close>).
  \<^item> \<open>Session_Wire\<close> (\<open>frame.go\<close>, \<open>stream.go\<close>): reader and writer of frames, exact and inverse to each other, with
    short writes and truncated streams.
  \<^item> \<open>Session_Control\<close> (\<open>control.go\<close>): all control messages with their validation.
  \<^item> \<open>Observer_Queue\<close> (\<open>observer.go\<close>): the bounded queue as a step relation with any number of producers; frames are
    conserved, bounds hold, no wake-up is lost, draining is final.
  \<^item> \<open>Observer_Channel\<close> (\<open>observer.go\<close>): handshake, checksummed frames and the sequence tracker.

  \<^bold>\<open>Workload observation\<close> (\<open>workloadobs/\<close>).
  \<^item> \<open>Activity_Model\<close> (\<open>types/\<close>): owners, executions, activity records, coverage intervals, retention policies.
  \<^item> \<open>Coverage_Timeline\<close> (\<open>coverage/\<close>): timelines stay contiguous and never hide a recorded loss.
  \<^item> \<open>Activity_Aggregate\<close> (\<open>aggregate/aggregate.go\<close>): aggregation conserves the evidence and does not depend on the order of
    arrival.

  \<^bold>\<open>Parameters.\<close> JSON coding, SHA-256, \<open>net.ParseIP\<close>, the Unicode tables beyond ASCII, the redaction of \<open>audit\<close>, fresh
  identifiers and the clock are arguments of the definitions. Theorems that rely on them say how: that
  decoding inverts encoding, that an encoding separates the values at hand, that it has no NUL byte.

  \<^bold>\<open>Bounds and fuel.\<close> All recursions terminate without fuel, except that \<open>read_frames\<close> takes the number of
  frames to read; its theorem gives one more than the frames written, which is enough to see the end
  of the stream. The graph traversals end because the set of visited keys grows. Where a word may
  wrap around, as in deadline sequences, claim numbers and counts, the model computes on words.

  \<^bold>\<open>Findings.\<close> \<open>expire\<close> clears a block that another operation set fail-closed. An \<open>Abort\<close> that fails keeps the mutation
  claim of its attach. A coverage transition with a new collector generation and a lower sequence number
  is refused.

  \<^bold>\<open>Not modelled.\<close> The manager, the daemon's transport, the command line, the interfaces, backends, file
  sharing, network services, packaging and migration are input and output around external tools.
  Of the lifecycle package, the explorer in \<open>modelcheck.go\<close> is left out: no run-time path calls it. Of the
  observation, the collectors, the segment store, its queries, redaction and risk rules are left out, and
  of the observer channel the generation of random tokens. Contexts are modelled by the error they
  carry, goroutines by the steps above, and file permissions by whether a directory is safe.
\<close>

end
